(* ===== verification/Prelude.thy ===== *)
theory Prelude
  imports Main "HOL-Library.State_Monad"
begin

text \<open>
  Shared vocabulary of the development.

  \<^item> Times are nanoseconds since the epoch (\<open>int\<close>, as \<open>time.Time\<close> and
    \<open>time.Duration\<close> count them); identifiers (\<open>uuid.UUID\<close>) are naturals with
    \<open>uuid.Nil = 0\<close>; Go strings and byte slices are lists of bytes (\<open>string\<close>).
  \<^item> A SQL table is the list of its rows in insertion order, with the four
    statements the stores use (\<open>SELECT\<close> of one row, \<open>UPDATE\<close>, \<open>DELETE\<close>, the count
    of affected rows) as list functions and the facts about them every store
    theory needs.
  \<^item> Handlers are programs of the state monad; \<open>hoare\<close> is the triple that
    carries their result-dependent properties, and the locale \<open>step_rel\<close> carries
    every reflexive and transitive relation between the state before and after a
    handler (an invariant is the special case \<open>I s \<longrightarrow> I s'\<close>).
\<close>

type_synonym time = int
type_synonym duration = int
type_synonym uuid = nat
type_synonym bytes = string

named_theorems table_simps "facts about the list form of SQL statements"
named_theorems table_sets "membership in the list form of SQL statements"
named_theorems run_simps "how the operations of a handler act on the state"
named_theorems hoare_intros "introduction rules for triples"

subsection \<open>Durations of package time\<close>

abbreviation (input) uuid_nil :: uuid where "uuid_nil \<equiv> 0"

definition second :: duration where "second = 1000000000"
definition minute :: duration where "minute = 60 * second"
definition hour :: duration where "hour = 60 * minute"

lemmas duration_defs = second_def minute_def hour_def

lemma durations_positive [simp]: "0 < second" "0 < minute" "0 < hour"
  by (simp_all add: duration_defs)

text \<open>Go's zero \<open>time.Time\<close> (January 1, year 1) in nanoseconds since the epoch; the
  only use of it is the test \<open>t.IsZero()\<close>.\<close>

definition zero_time :: time where "zero_time = -62135596800 * second"

definition IsZero :: "time \<Rightarrow> bool" where "IsZero t \<longleftrightarrow> t = zero_time"

text \<open>Two's complement wrap-around of a 64-bit and a 32-bit integer.\<close>

definition int64 :: "int \<Rightarrow> int" where "int64 i = (i + 2 ^ 63) mod 2 ^ 64 - 2 ^ 63"
definition int32 :: "int \<Rightarrow> int" where "int32 i = (i + 2 ^ 31) mod 2 ^ 32 - 2 ^ 31"

lemma int64_id: "- (2 ^ 63) \<le> i \<Longrightarrow> i < 2 ^ 63 \<Longrightarrow> int64 i = i"
  by (simp add: int64_def)

lemma int32_id: "- (2 ^ 31) \<le> i \<Longrightarrow> i < 2 ^ 31 \<Longrightarrow> int32 i = i"
  by (simp add: int32_def)

text \<open>SQL's \<open>CURRENT_TIMESTAMP\<close>: the clock truncated to whole seconds.\<close>

definition current_timestamp :: "time \<Rightarrow> time" where
  "current_timestamp now = (now div second) * second"

lemma current_timestamp_le: "current_timestamp now \<le> now"
proof -
  have "now = (now div second) * second + now mod second" by simp
  moreover have "0 \<le> now mod second" by simp
  ultimately show ?thesis unfolding current_timestamp_def by linarith
qed

lemma current_timestamp_gt: "now - second < current_timestamp now"
proof -
  have "now = (now div second) * second + now mod second" by simp
  moreover have "now mod second < second" by simp
  ultimately show ?thesis unfolding current_timestamp_def by linarith
qed

subsection \<open>SQL statements on row lists\<close>

definition sql_update :: "('r \<Rightarrow> bool) \<Rightarrow> ('r \<Rightarrow> 'r) \<Rightarrow> 'r list \<Rightarrow> 'r list" where
  "sql_update P f t = map (\<lambda>r. if P r then f r else r) t"

definition sql_delete :: "('r \<Rightarrow> bool) \<Rightarrow> 'r list \<Rightarrow> 'r list" where
  "sql_delete P t = filter (\<lambda>r. \<not> P r) t"

definition rows_affected :: "('r \<Rightarrow> bool) \<Rightarrow> 'r list \<Rightarrow> nat" where
  "rows_affected P t = length (filter P t)"

lemma set_sql_update [table_sets]:
  "set (sql_update P f t) = (\<lambda>r. if P r then f r else r) ` set t"
  by (simp add: sql_update_def)

lemma set_sql_delete [table_sets]: "set (sql_delete P t) = {r \<in> set t. \<not> P r}"
  by (auto simp: sql_delete_def)

lemma rows_affected_0 [table_sets]: "rows_affected P t = 0 \<longleftrightarrow> (\<forall>r\<in>set t. \<not> P r)"
  by (auto simp: rows_affected_def filter_empty_conv)

lemma length_sql_update [table_simps]: "length (sql_update P f t) = length t"
  by (simp add: sql_update_def)

lemma map_key_sql_update [table_simps]:
  "(\<And>r. k (f r) = k r) \<Longrightarrow> map k (sql_update P f t) = map k t"
  by (simp add: sql_update_def)

lemma image_key_sql_update [table_simps]:
  "(\<And>r. k (f r) = k r) \<Longrightarrow> k ` set (sql_update P f t) = k ` set t"
  by (metis list.set_map map_key_sql_update)

lemma ball_sql_update:
  "(\<And>r. Q (f r) = Q r) \<Longrightarrow> (\<forall>r\<in>set (sql_update P f t). Q r) = (\<forall>r\<in>set t. Q r)"
  by (induction t) (simp_all add: sql_update_def)

lemma ball_sql_updateI:
  "(\<And>r. r \<in> set t \<Longrightarrow> Q (if P r then f r else r)) \<Longrightarrow> \<forall>r\<in>set (sql_update P f t). Q r"
  by (induction t) (simp_all add: sql_update_def)

lemma distinct_key_sql_delete [table_simps, intro]:
  "distinct (map k t) \<Longrightarrow> distinct (map k (sql_delete P t))"
  by (simp add: sql_delete_def distinct_map_filter)

lemma sql_update_none: "(\<And>r. r \<in> set t \<Longrightarrow> \<not> P r) \<Longrightarrow> sql_update P f t = t"
  by (induction t) (auto simp: sql_update_def)

lemma sql_delete_none: "(\<And>r. r \<in> set t \<Longrightarrow> \<not> P r) \<Longrightarrow> sql_delete P t = t"
  by (simp add: sql_delete_def)

lemma sql_delete_append [simp]: "sql_delete P (t @ u) = sql_delete P t @ sql_delete P u"
  by (simp add: sql_delete_def)

lemma sql_delete_Nil [simp]: "sql_delete P [] = []"
  by (simp add: sql_delete_def)

lemma sql_delete_single [simp]: "sql_delete P [r] = (if P r then [] else [r])"
  by (simp add: sql_delete_def)

lemma image_key_sql_delete [table_simps]:
  "k ` set (sql_delete (\<lambda>r. k r = i) t) = k ` set t - {i}"
  by (auto simp: sql_delete_def)

subsection \<open>Selecting one row\<close>

lemma find_SomeD: "find P xs = Some x \<Longrightarrow> x \<in> set xs \<and> P x"
  by (induction xs) (auto split: if_splits)

lemma find_None_all: "find P xs = None \<longleftrightarrow> (\<forall>x\<in>set xs. \<not> P x)"
  by (induction xs) auto

lemma find_None_append [simp]:
  "find P (xs @ ys) = (case find P xs of Some x \<Rightarrow> Some x | None \<Rightarrow> find P ys)"
  by (induction xs) auto

lemma find_key_unique:
  assumes "distinct (map k t)" and "r \<in> set t"
  shows "find (\<lambda>x. k x = k r) t = Some r"
  using assms by (induction t) force+

lemma find_key_iff:
  assumes "distinct (map k t)"
  shows "find (\<lambda>x. k x = i) t = Some r \<longleftrightarrow> r \<in> set t \<and> k r = i"
  using find_key_unique [OF assms] find_SomeD [of "\<lambda>x. k x = i" t r] by auto

lemma find_map_key:
  "(\<And>r. r \<in> set t \<Longrightarrow> P (g r) = P r) \<Longrightarrow> find P (map g t) = map_option g (find P t)"
  by (induction t) auto

lemma find_sql_update:
  assumes "\<And>r. r \<in> set t \<Longrightarrow> P r \<Longrightarrow> Q (f r) = Q r"
  shows "find Q (sql_update P f t) = map_option (\<lambda>r. if P r then f r else r) (find Q t)"
  unfolding sql_update_def using assms by (intro find_map_key) auto

lemma find_sql_delete:
  assumes "\<And>r. r \<in> set t \<Longrightarrow> Q r \<Longrightarrow> \<not> P r"
  shows "find Q (sql_delete P t) = find Q t"
  using assms by (induction t) (auto simp: sql_delete_def)

lemma find_sql_delete_gone:
  assumes "\<And>r. r \<in> set t \<Longrightarrow> Q r \<Longrightarrow> P r"
  shows "find Q (sql_delete P t) = None"
  using assms by (auto simp: find_None_all sql_delete_def)

lemma distinct_key_eq:
  "distinct (map k t) \<Longrightarrow> r \<in> set t \<Longrightarrow> r' \<in> set t \<Longrightarrow> k r = k r' \<Longrightarrow> r = r'"
  by (auto simp: distinct_map inj_on_def)

subsection \<open>A table of a record of tables\<close>

text \<open>The interface of a table column of the database record: how to read it, how to
  update it, and the primary key of its rows. The laws are the record laws; the
  lemmas are what the statements of the stores do to a lookup by primary key.\<close>

locale keyed_table =
  fixes rows :: "'db \<Rightarrow> 'r list"
    and upd :: "('r list \<Rightarrow> 'r list) \<Rightarrow> 'db \<Rightarrow> 'db"
    and key :: "'r \<Rightarrow> 'k"
  assumes rows_upd: "rows (upd f d) = f (rows d)"
begin

lemma lookup_insert_same:
  "find (\<lambda>x. key x = key r) (rows d) = None \<Longrightarrow>
   find (\<lambda>x. key x = key r) (rows (upd (\<lambda>t. t @ [r]) d)) = Some r"
  by (simp add: rows_upd)

lemma lookup_insert_other:
  "key r \<noteq> i \<Longrightarrow>
   find (\<lambda>x. key x = i) (rows (upd (\<lambda>t. t @ [r]) d)) = find (\<lambda>x. key x = i) (rows d)"
  by (simp add: rows_upd split: option.splits)

lemma lookup_update:
  assumes "\<And>r. key (f r) = key r"
  shows "find (\<lambda>x. key x = i) (rows (upd (sql_update P f) d))
    = map_option (\<lambda>r. if P r then f r else r) (find (\<lambda>x. key x = i) (rows d))"
  using assms by (simp add: rows_upd find_sql_update)

lemma lookup_delete_same:
  "find (\<lambda>x. key x = i) (rows (upd (sql_delete (\<lambda>r. key r = i)) d)) = None"
  by (simp add: rows_upd find_sql_delete_gone)

lemma lookup_delete_other:
  "i \<noteq> j \<Longrightarrow>
   find (\<lambda>x. key x = j) (rows (upd (sql_delete (\<lambda>r. key r = i)) d)) = find (\<lambda>x. key x = j) (rows d)"
  by (subst rows_upd, rule find_sql_delete) auto

lemma insert_delete_undo:
  assumes "i \<notin> key ` set (rows d)" and "key r = i"
  shows "rows (upd (sql_delete (\<lambda>x. key x = i)) (upd (\<lambda>t. t @ [r]) d)) = rows d"
  using assms by (simp add: rows_upd) (rule sql_delete_none, metis imageI)

lemma lookup_iff:
  assumes "distinct (map key (rows d))"
  shows "find (\<lambda>x. key x = i) (rows d) = Some r \<longleftrightarrow> r \<in> set (rows d) \<and> key r = i"
  using assms by (rule find_key_iff)

end

subsection \<open>Triples over the state monad\<close>

definition hoare :: "('s \<Rightarrow> bool) \<Rightarrow> ('s, 'a) state \<Rightarrow> ('a \<Rightarrow> 's \<Rightarrow> bool) \<Rightarrow> bool" where
  "hoare P m Q \<longleftrightarrow> (\<forall>s. P s \<longrightarrow> (case run_state m s of (a, s') \<Rightarrow> Q a s'))"

lemma hoareI:
  "(\<And>s a s'. P s \<Longrightarrow> run_state m s = (a, s') \<Longrightarrow> Q a s') \<Longrightarrow> hoare P m Q"
  unfolding hoare_def by (auto split: prod.splits)

lemma hoareD:
  "hoare P m Q \<Longrightarrow> P s \<Longrightarrow> run_state m s = (a, s') \<Longrightarrow> Q a s'"
  unfolding hoare_def by fastforce

lemma hoare_return [hoare_intros]:
  "(\<And>s. P s \<Longrightarrow> Q a s) \<Longrightarrow> hoare P (State_Monad.return a) Q"
  by (rule hoareI) simp

lemma hoare_bind:
  assumes "hoare P m R" and "\<And>a. hoare (R a) (f a) Q"
  shows "hoare P (State_Monad.bind m f) Q"
  using assms by (intro hoareI) (auto dest: hoareD split: prod.splits)

lemma hoare_weaken:
  "hoare P m Q \<Longrightarrow> (\<And>s. P' s \<Longrightarrow> P s) \<Longrightarrow> (\<And>a s. Q a s \<Longrightarrow> Q' a s) \<Longrightarrow> hoare P' m Q'"
  by (rule hoareI) (blast dest: hoareD)

lemma hoare_False [simp]: "hoare (\<lambda>s. False) m Q"
  by (simp add: hoare_def)

subsection \<open>Relations kept by a program\<close>

definition always :: "('s \<Rightarrow> 's \<Rightarrow> bool) \<Rightarrow> ('s, 'a) state \<Rightarrow> bool" where
  "always R m \<longleftrightarrow> (\<forall>s. R s (snd (run_state m s)))"

lemma alwaysI: "(\<And>s a s'. run_state m s = (a, s') \<Longrightarrow> R s s') \<Longrightarrow> always R m"
  unfolding always_def by (metis prod.collapse)

lemma alwaysD: "always R m \<Longrightarrow> run_state m s = (a, s') \<Longrightarrow> R s s'"
  unfolding always_def by (metis snd_conv)

lemma always_mono: "always R m \<Longrightarrow> (\<And>s s'. R s s' \<Longrightarrow> R' s s') \<Longrightarrow> always R' m"
  unfolding always_def by blast

locale step_rel =
  fixes R :: "'s \<Rightarrow> 's \<Rightarrow> bool"
  assumes refl [simp, intro]: "R s s"
    and trans: "R s t \<Longrightarrow> R t u \<Longrightarrow> R s u"
begin

lemma ret: "always R (State_Monad.return a)"
  by (rule alwaysI) auto

lemma get: "always R State_Monad.get"
  by (rule alwaysI) auto

lemma bind:
  assumes "always R m" and "\<And>a. always R (f a)"
  shows "always R (State_Monad.bind m f)"
  using assms by (intro alwaysI) (auto dest: alwaysD intro: trans split: prod.splits)

lemma cond: "(b \<Longrightarrow> always R m) \<Longrightarrow> (\<not> b \<Longrightarrow> always R n) \<Longrightarrow> always R (if b then m else n)"
  by simp

lemma opt:
  "(x = None \<Longrightarrow> always R m) \<Longrightarrow> (\<And>a. x = Some a \<Longrightarrow> always R (f a)) \<Longrightarrow>
   always R (case x of None \<Rightarrow> m | Some a \<Rightarrow> f a)"
  by (cases x) auto

lemma sum:
  "(\<And>e. x = Inl e \<Longrightarrow> always R (f e)) \<Longrightarrow> (\<And>a. x = Inr a \<Longrightarrow> always R (g a)) \<Longrightarrow>
   always R (case x of Inl e \<Rightarrow> f e | Inr a \<Rightarrow> g a)"
  by (cases x) auto

lemma prod: "(\<And>a b. x = (a, b) \<Longrightarrow> always R (f a b)) \<Longrightarrow> always R (case x of (a, b) \<Rightarrow> f a b)"
  by (cases x) auto

lemma list:
  "(x = [] \<Longrightarrow> always R m) \<Longrightarrow> (\<And>a b. x = a # b \<Longrightarrow> always R (f a b)) \<Longrightarrow>
   always R (case x of [] \<Rightarrow> m | a # b \<Rightarrow> f a b)"
  by (cases x) auto

lemma let_always: "(\<And>y. y = x \<Longrightarrow> always R (f y)) \<Longrightarrow> always R (Let x f)"
  by (simp add: Let_def)

lemmas rules = ret get bind cond opt sum prod list let_always

end

end
