(* ===== verification/Go_Strings.thy ===== *)
theory Go_Strings
  imports Prelude
begin

text \<open>
  The functions of Go's packages \<open>strings\<close>, \<open>slices\<close> and \<open>regexp\<close> the program calls.
  A string is its list of bytes. White space and letter case are the ASCII ones, which
  is exact on ASCII strings; \<open>EqualFold\<close> also knows the two non-ASCII code points that
  fold onto ASCII letters (U+017F onto s, U+212A onto k), so it is exact whenever
  one of its arguments is ASCII, as in every comparison with a literal.
\<close>

definition char_code :: "char \<Rightarrow> nat" where "char_code c = of_char c"

definition in_range :: "nat \<Rightarrow> nat \<Rightarrow> char \<Rightarrow> bool" where
  "in_range a b c \<longleftrightarrow> a \<le> char_code c \<and> char_code c \<le> b"

definition is_upper :: "char \<Rightarrow> bool" where "is_upper = in_range 65 90"
definition is_lower :: "char \<Rightarrow> bool" where "is_lower = in_range 97 122"
definition is_digit :: "char \<Rightarrow> bool" where "is_digit = in_range 48 57"
definition is_alnum :: "char \<Rightarrow> bool" where
  "is_alnum c \<longleftrightarrow> is_upper c \<or> is_lower c \<or> is_digit c"

text \<open>Space, tab, line feed, vertical tab, form feed, carriage return.\<close>

definition is_space :: "char \<Rightarrow> bool" where
  "is_space c \<longleftrightarrow> char_code c = 32 \<or> in_range 9 13 c"

lemmas char_class_defs =
  char_code_def in_range_def is_upper_def is_lower_def is_digit_def is_alnum_def is_space_def

definition lower_char :: "char \<Rightarrow> char" where
  "lower_char c = (if is_upper c then char_of (char_code c + 32) else c)"

definition upper_char :: "char \<Rightarrow> char" where
  "upper_char c = (if is_lower c then char_of (char_code c - 32) else c)"

definition ToLower :: "string \<Rightarrow> string" where "ToLower s = map lower_char s"

function fold_str :: "string \<Rightarrow> string" where
  "fold_str [] = []"
| "fold_str (c # s) =
    (if c = CHR 0xC5 \<and> take 1 s = [CHR 0xBF] then CHR ''s'' # fold_str (drop 1 s)
     else if c = CHR 0xE2 \<and> take 2 s = [CHR 0x84, CHR 0xAA] then CHR ''k'' # fold_str (drop 2 s)
     else lower_char c # fold_str s)"
  by pat_completeness auto
termination by (relation "measure length") auto

definition EqualFold :: "string \<Rightarrow> string \<Rightarrow> bool" where
  "EqualFold s t \<longleftrightarrow> fold_str s = fold_str t"

definition trim_by :: "(char \<Rightarrow> bool) \<Rightarrow> string \<Rightarrow> string" where
  "trim_by P s = rev (dropWhile P (rev (dropWhile P s)))"

definition TrimSpace :: "string \<Rightarrow> string" where
  "TrimSpace s = trim_by is_space s"

definition HasPrefix :: "string \<Rightarrow> string \<Rightarrow> bool" where
  "HasPrefix s p \<longleftrightarrow> take (length p) s = p"

definition HasSuffix :: "string \<Rightarrow> string \<Rightarrow> bool" where
  "HasSuffix s p \<longleftrightarrow> length p \<le> length s \<and> drop (length s - length p) s = p"

definition CutPrefix :: "string \<Rightarrow> string \<Rightarrow> string option" where
  "CutPrefix s p = (if HasPrefix s p then Some (drop (length p) s) else None)"

definition TrimPrefix :: "string \<Rightarrow> string \<Rightarrow> string" where
  "TrimPrefix s p = (if HasPrefix s p then drop (length p) s else s)"

text \<open>\<open>strings.FieldsFunc\<close>: the maximal runs of bytes outside the separator class.\<close>

fun fields_by :: "(char \<Rightarrow> bool) \<Rightarrow> string \<Rightarrow> string \<Rightarrow> string list" where
  "fields_by P cur [] = (if cur = [] then [] else [rev cur])"
| "fields_by P cur (c # s) =
    (if P c then (if cur = [] then fields_by P [] s else rev cur # fields_by P [] s)
     else fields_by P (c # cur) s)"

definition FieldsFunc :: "(char \<Rightarrow> bool) \<Rightarrow> string \<Rightarrow> string list" where
  "FieldsFunc P s = fields_by P [] s"

definition Fields :: "string \<Rightarrow> string list" where "Fields s = FieldsFunc is_space s"

text \<open>\<open>strings.Split\<close> and \<open>strings.Join\<close> with a one-byte separator.\<close>

fun split_by :: "char \<Rightarrow> string \<Rightarrow> string \<Rightarrow> string list" where
  "split_by sep cur [] = [rev cur]"
| "split_by sep cur (c # s) =
    (if c = sep then rev cur # split_by sep [] s else split_by sep (c # cur) s)"

definition Split :: "char \<Rightarrow> string \<Rightarrow> string list" where "Split sep s = split_by sep [] s"

fun Join :: "char \<Rightarrow> string list \<Rightarrow> string" where
  "Join sep [] = []"
| "Join sep [x] = x"
| "Join sep (x # y # xs) = x @ sep # Join sep (y # xs)"

subsection \<open>Facts\<close>

lemma EqualFold_refl [simp]: "EqualFold s s"
  by (simp add: EqualFold_def)

lemma EqualFold_sym: "EqualFold s t \<Longrightarrow> EqualFold t s"
  by (simp add: EqualFold_def)

lemma EqualFold_trans: "EqualFold s t \<Longrightarrow> EqualFold t u \<Longrightarrow> EqualFold s u"
  by (simp add: EqualFold_def)

lemma split_by_no_sep:
  "sep \<notin> set x \<Longrightarrow> split_by sep cur (x @ sep # s) = (rev cur @ x) # split_by sep [] s"
  by (induction x arbitrary: cur) auto

lemma split_by_last: "sep \<notin> set x \<Longrightarrow> split_by sep cur x = [rev cur @ x]"
  by (induction x arbitrary: cur) auto

text \<open>Splitting undoes joining when no element contains the separator and the list is
  not empty (an empty list joins to the empty string, which splits to one element).\<close>

lemma Split_Join:
  assumes "xs \<noteq> []" and "\<And>x. x \<in> set xs \<Longrightarrow> sep \<notin> set x"
  shows "Split sep (Join sep xs) = xs"
  using assms
proof (induction sep xs rule: Join.induct)
  case (3 sep x y xs)
  then show ?case by (simp add: Split_def split_by_no_sep)
qed (auto simp: Split_def split_by_last)

lemma split_by_not_Nil: "split_by sep cur s \<noteq> []"
  by (induction s arbitrary: cur) auto

lemma Join_Split_by: "Join sep (split_by sep cur s) = rev cur @ s"
proof (induction s arbitrary: cur)
  case (Cons c s)
  have "split_by sep [] s \<noteq> []" by (rule split_by_not_Nil)
  then obtain y ys where "split_by sep [] s = y # ys" by (meson neq_Nil_conv)
  then show ?case using Cons [of "[]"] Cons [of "c # cur"] by auto
qed auto

text \<open>Joining undoes splitting without any condition.\<close>

lemma Join_Split: "Join sep (Split sep s) = s"
  by (simp add: Split_def Join_Split_by)

lemma fields_by_nonempty:
  "x \<in> set (fields_by P cur s) \<Longrightarrow> x \<noteq> []"
  by (induction P cur s rule: fields_by.induct) (auto split: if_splits)

lemma fields_by_no_sep:
  "x \<in> set (fields_by P cur s) \<Longrightarrow> (\<And>c. c \<in> set cur \<Longrightarrow> \<not> P c) \<Longrightarrow> c \<in> set x \<Longrightarrow> \<not> P c"
  by (induction P cur s rule: fields_by.induct) (auto split: if_splits)

lemma Fields_nonempty: "x \<in> set (Fields s) \<Longrightarrow> x \<noteq> []"
  unfolding Fields_def FieldsFunc_def by (rule fields_by_nonempty)

lemma Fields_no_space: "x \<in> set (Fields s) \<Longrightarrow> c \<in> set x \<Longrightarrow> \<not> is_space c"
  unfolding Fields_def FieldsFunc_def using fields_by_no_sep by fastforce

lemma fields_by_sep:
  "(\<And>c. c \<in> set x \<Longrightarrow> \<not> P c) \<Longrightarrow> P sep \<Longrightarrow> rev cur @ x \<noteq> [] \<Longrightarrow>
   fields_by P cur (x @ sep # s) = (rev cur @ x) # fields_by P [] s"
  by (induction x arbitrary: cur) auto

lemma fields_by_last:
  "(\<And>c. c \<in> set x \<Longrightarrow> \<not> P c) \<Longrightarrow> rev cur @ x \<noteq> [] \<Longrightarrow> fields_by P cur x = [rev cur @ x]"
  by (induction x arbitrary: cur) auto

lemma FieldsFunc_Join:
  assumes "P sep" and "\<And>x. x \<in> set xs \<Longrightarrow> x \<noteq> [] \<and> (\<forall>c\<in>set x. \<not> P c)"
  shows "FieldsFunc P (Join sep xs) = xs"
  using assms
proof (induction sep xs rule: Join.induct)
  case (2 sep x)
  then have "x \<noteq> []" "\<And>c. c \<in> set x \<Longrightarrow> \<not> P c" by auto
  then show ?case by (simp add: FieldsFunc_def fields_by_last)
next
  case (3 sep x y xs)
  then have "x \<noteq> []" "\<And>c. c \<in> set x \<Longrightarrow> \<not> P c" by auto
  moreover have "FieldsFunc P (Join sep (y # xs)) = y # xs"
    using 3 by (metis list.set_intros(2))
  ultimately show ?case using 3 by (simp add: FieldsFunc_def fields_by_sep)
qed (simp add: FieldsFunc_def)

text \<open>Scope lists survive the space-separated encoding exactly when they come from
  \<open>strings.Fields\<close> themselves.\<close>

lemma is_space_blank [simp]: "is_space (CHR '' '')"
  by (simp add: char_class_defs)

lemma Fields_Join_Fields: "Fields (Join CHR '' '' (Fields s)) = Fields s"
  unfolding Fields_def
  by (rule FieldsFunc_Join) (use Fields_nonempty Fields_no_space in \<open>auto simp: Fields_def\<close>)

lemma Fields_Nil [simp]: "Fields [] = []"
  by (simp add: Fields_def FieldsFunc_def)

end
