(* ===== verification/Model.thy ===== *)
theory Model
  imports Go_Strings
begin

text \<open>
  The domain types of \<open>src/internal/model/model.go\<close>, one \<open>record\<close> per struct with the
  fields in the order the struct has them (a prefix names the struct, since Isabelle's
  field names are global). A pointer field that may be nil is an \<open>option\<close>; a time that
  may be Go's zero time keeps that value; \<open>uuid.Nil\<close> is 0.
\<close>

record User =
  u_ID :: uuid
  u_Email :: string
  u_PasswordHash :: string
  u_Name :: string
  u_Active :: bool
  u_SCIMExternalID :: string
  u_MFAEnabled :: bool
  u_IsAdmin :: bool
  u_PasswordChangedAt :: time
  u_FailedAttempts :: int
  u_LockedUntil :: "time option"
  u_MustChangePassword :: bool
  u_CreatedAt :: time
  u_UpdatedAt :: time

record Client =
  c_ID :: uuid
  c_ClientID :: string
  c_ClientSecretHash :: string
  c_Name :: string
  c_RedirectURIs :: "string list"
  c_Scopes :: "string list"
  c_Public :: bool
  c_BackchannelLogoutURI :: "string option"
  c_ShowInPortal :: bool
  c_LaunchURL :: string
  c_BrandColor :: string
  c_IconURL :: string
  c_VisibleToAll :: bool
  c_AllowDeviceGrant :: bool
  c_SecretRotatedAt :: time
  c_CreatedAt :: time

record Grant =
  g_ID :: uuid
  g_UserID :: uuid
  g_ClientID :: uuid
  g_CodeHash :: string
  g_CodeChallenge :: string
  g_Nonce :: string
  g_Scopes :: "string list"
  g_RedirectURI :: string
  g_ExpiresAt :: time
  g_UsedAt :: "time option"
  g_MFAVerifiedAt :: "time option"
  g_AuthTime :: time

record Session =
  s_ID :: uuid
  s_UserID :: uuid
  s_ClientID :: uuid
  s_AccessTokenHash :: string
  s_RefreshTokenHash :: string
  s_Scopes :: "string list"
  s_AccessExpiresAt :: time
  s_RefreshExpiresAt :: time
  s_LastActivityAt :: time
  s_MFAVerified :: bool
  s_MFAVerifiedAt :: "time option"
  s_AuthTime :: time
  s_CreatedAt :: time

record TOTPCredential =
  t_ID :: uuid
  t_UserID :: uuid
  t_EncryptedSecret :: bytes
  t_EncryptedDEK :: bytes
  t_Enabled :: bool
  t_CreatedAt :: time

record WebAuthnCredential =
  wc_ID :: uuid
  wc_UserID :: uuid
  wc_CredentialID :: bytes
  wc_PublicKey :: bytes
  wc_AAGUID :: bytes
  wc_SignCount :: nat
  wc_BackupEligible :: "bool option"
  wc_BackupState :: bool
  wc_DeviceName :: string
  wc_CreatedAt :: time
  wc_LastUsedAt :: time

text \<open>A row of \<open>scim_groups\<close>; the member list of the struct \<open>SCIMGroup\<close> is filled from
  \<open>scim_group_members\<close> when the group is read.\<close>

record SCIMGroup =
  gr_ID :: uuid
  gr_DisplayName :: string
  gr_Members :: "uuid list"
  gr_CreatedAt :: time
  gr_UpdatedAt :: time

record SigningKey =
  k_ID :: uuid
  k_EncryptedPrivateKey :: bytes
  k_EncryptedDEK :: bytes
  k_Algorithm :: string
  k_KID :: string
  k_Active :: bool
  k_CreatedAt :: time

definition AppIntegrationProviderSCIM :: string where
  "AppIntegrationProviderSCIM = ''scim''"
definition AppIntegrationProviderAWSFederation :: string where
  "AppIntegrationProviderAWSFederation = ''aws_federation''"
definition AppIntegrationAuthBearer :: string where "AppIntegrationAuthBearer = ''bearer''"
definition AppIntegrationAuthMTLS :: string where "AppIntegrationAuthMTLS = ''mtls''"

record AppIntegrationConfig =
  ic_BaseURL :: string
  ic_TimeoutMS :: int
  ic_AuthMode :: string

record AppIntegration =
  i_ID :: uuid
  i_Name :: string
  i_Provider :: string
  i_Enabled :: bool
  i_Config :: AppIntegrationConfig
  i_EncryptedToken :: bytes
  i_EncryptedDEK :: bytes
  i_CreatedAt :: time
  i_UpdatedAt :: time

record AWSAccount =
  aa_ID :: uuid
  aa_AccountID :: string
  aa_Alias :: string
  aa_OIDCProviderARN :: string
  aa_CreatedAt :: time
  aa_UpdatedAt :: time

record AWSRole =
  ar_ID :: uuid
  ar_AccountID :: uuid
  ar_RoleARN :: string
  ar_Slug :: string
  ar_DisplayName :: string
  ar_RequireStepUpMFA :: bool
  ar_MaxSessionDurationSec :: int
  ar_AllowedRegions :: "string list"
  ar_CreatedAt :: time
  ar_UpdatedAt :: time

record AWSRoleAssignment =
  as_ID :: uuid
  as_GroupID :: uuid
  as_RoleID :: uuid
  as_CreatedAt :: time

record AWSRevokedUser =
  rv_RoleID :: uuid
  rv_SubUUID :: string
  rv_RevokedAt :: time

text \<open>The five status strings of a device grant.\<close>

datatype DeviceGrantStatus =
  DeviceGrantStatusPending
| DeviceGrantStatusApproved
| DeviceGrantStatusDenied
| DeviceGrantStatusRedeemed
| DeviceGrantStatusExpired

record DeviceGrant =
  d_ID :: uuid
  d_DeviceCodeHash :: string
  d_UserCodeHash :: string
  d_ClientID :: uuid
  d_Scopes :: "string list"
  d_Status :: DeviceGrantStatus
  d_UserID :: "uuid option"
  d_MFAVerified :: bool
  d_MFAVerifiedAt :: "time option"
  d_ApproverIP :: string
  d_IntervalSec :: int
  d_LastPolledAt :: "time option"
  d_CreatedAt :: time
  d_ExpiresAt :: time

subsection \<open>Region lists\<close>

definition EncodeRegions :: "string list \<Rightarrow> string" where
  "EncodeRegions regions = Join CHR '','' regions"

definition DecodeRegions :: "string \<Rightarrow> string list" where
  "DecodeRegions s = (if s = [] then [] else Split CHR '','' s)"

lemma Join_eq_Nil: "Join sep xs = [] \<longleftrightarrow> xs = [] \<or> xs = [[]]"
  by (induction sep xs rule: Join.induct) auto

text \<open>Decoding undoes encoding for the lists the program stores (region names are
  non-empty and contain no comma); the one list of comma-free names it does not
  recover is the list holding just the empty name.\<close>

lemma DecodeRegions_EncodeRegions:
  assumes "\<And>r. r \<in> set regions \<Longrightarrow> CHR '','' \<notin> set r" and "regions \<noteq> [[]]"
  shows "DecodeRegions (EncodeRegions regions) = regions"
  using assms by (auto simp: DecodeRegions_def EncodeRegions_def Join_eq_Nil intro!: Split_Join)

lemma EncodeRegions_DecodeRegions: "EncodeRegions (DecodeRegions s) = s"
  by (simp add: DecodeRegions_def EncodeRegions_def Join_Split)

end
