(* ===== verification/Db.thy ===== *)
theory Db
  imports Model
begin

text \<open>
  The database behind \<open>store.Store\<close>: one field per table of the SQLite schema
  (\<open>src/internal/store/sqlite/migrations\<close>), the constraints of that schema as the
  well-formedness predicate \<open>wf_db\<close>, and the deletions with the cascades the schema
  declares. A nullable user column is \<open>uuid_nil\<close> (sessions) or an \<open>option\<close> (device
  grants), as the scan functions of the store deliver it.
\<close>

text \<open>The sentinel errors of \<open>src/internal/store/store.go\<close>; every other driver error
  (an unreachable database, a foreign-key or uniqueness failure that the
  method does not translate) is \<open>ErrDB\<close>.\<close>

datatype store_error = ErrNotFound | ErrConflict | ErrDB

record RetiredToken =
  rt_TokenHash :: string
  rt_SessionID :: uuid

record WebAuthnSession =
  ws_ID :: uuid
  ws_UserID :: uuid
  ws_Data :: bytes
  ws_Purpose :: string
  ws_ExpiresAt :: time

record Member =
  m_GroupID :: uuid
  m_UserID :: uuid

record ExternalID =
  e_Provider :: string
  e_UserID :: uuid
  e_ExternalID :: string

record Visibility =
  v_ID :: uuid
  v_ClientID :: uuid
  v_GroupID :: uuid
  v_CreatedAt :: time

record db =
  users :: "User list"
  clients :: "Client list"
  grants :: "Grant list"
  sessions :: "Session list"
  retired :: "RetiredToken list"
  totps :: "TOTPCredential list"
  webauthns :: "WebAuthnCredential list"
  wa_sessions :: "WebAuthnSession list"
  groups :: "SCIMGroup list"
  members :: "Member list"
  signing_keys :: "SigningKey list"
  ext_ids :: "ExternalID list"
  integrations :: "AppIntegration list"
  aws_accounts :: "AWSAccount list"
  aws_roles :: "AWSRole list"
  aws_assignments :: "AWSRoleAssignment list"
  aws_revoked :: "AWSRevokedUser list"
  device_grants :: "DeviceGrant list"
  visibility :: "Visibility list"

subsection \<open>Primary keys, uniqueness and references\<close>

abbreviation user_ids :: "db \<Rightarrow> uuid set" where "user_ids d \<equiv> u_ID ` set (users d)"
abbreviation client_ids :: "db \<Rightarrow> uuid set" where "client_ids d \<equiv> c_ID ` set (clients d)"
abbreviation session_ids :: "db \<Rightarrow> uuid set" where "session_ids d \<equiv> s_ID ` set (sessions d)"
abbreviation group_ids :: "db \<Rightarrow> uuid set" where "group_ids d \<equiv> gr_ID ` set (groups d)"
abbreviation account_ids :: "db \<Rightarrow> uuid set" where "account_ids d \<equiv> aa_ID ` set (aws_accounts d)"
abbreviation role_ids :: "db \<Rightarrow> uuid set" where "role_ids d \<equiv> ar_ID ` set (aws_roles d)"

definition uniq_users :: "User list \<Rightarrow> bool" where
  "uniq_users t \<longleftrightarrow> distinct (map u_ID t) \<and> distinct (map u_Email t)"
definition uniq_clients :: "Client list \<Rightarrow> bool" where
  "uniq_clients t \<longleftrightarrow> distinct (map c_ID t) \<and> distinct (map c_ClientID t)"
definition uniq_grants :: "Grant list \<Rightarrow> bool" where
  "uniq_grants t \<longleftrightarrow> distinct (map g_ID t) \<and> distinct (map g_CodeHash t)"
definition uniq_sessions :: "Session list \<Rightarrow> bool" where
  "uniq_sessions t \<longleftrightarrow> distinct (map s_ID t) \<and> distinct (map s_AccessTokenHash t)
     \<and> distinct (map s_RefreshTokenHash t)"
definition uniq_retired :: "RetiredToken list \<Rightarrow> bool" where
  "uniq_retired t \<longleftrightarrow> distinct (map rt_TokenHash t)"
definition uniq_totps :: "TOTPCredential list \<Rightarrow> bool" where
  "uniq_totps t \<longleftrightarrow> distinct (map t_ID t) \<and> distinct (map t_UserID t)"
definition uniq_webauthns :: "WebAuthnCredential list \<Rightarrow> bool" where
  "uniq_webauthns t \<longleftrightarrow> distinct (map wc_ID t) \<and> distinct (map wc_CredentialID t)"
definition uniq_members :: "Member list \<Rightarrow> bool" where
  "uniq_members t \<longleftrightarrow> distinct (map (\<lambda>m. (m_GroupID m, m_UserID m)) t)"
definition uniq_device_grants :: "DeviceGrant list \<Rightarrow> bool" where
  "uniq_device_grants t \<longleftrightarrow> distinct (map d_ID t) \<and> distinct (map d_DeviceCodeHash t)
     \<and> distinct (map d_UserCodeHash t)"

lemmas uniq_defs = uniq_users_def uniq_clients_def uniq_grants_def uniq_sessions_def
  uniq_retired_def uniq_totps_def uniq_webauthns_def uniq_members_def uniq_device_grants_def

text \<open>All \<open>PRIMARY KEY\<close> and \<open>UNIQUE\<close> declarations of the schema.\<close>

definition uniq_db :: "db \<Rightarrow> bool" where
  "uniq_db d \<longleftrightarrow>
     uniq_users (users d) \<and> uniq_clients (clients d) \<and> uniq_grants (grants d) \<and>
     uniq_sessions (sessions d) \<and> uniq_retired (retired d) \<and> uniq_totps (totps d) \<and>
     uniq_webauthns (webauthns d) \<and> distinct (map ws_ID (wa_sessions d)) \<and>
     distinct (map gr_ID (groups d)) \<and> uniq_members (members d) \<and>
     distinct (map k_ID (signing_keys d)) \<and> distinct (map k_KID (signing_keys d)) \<and>
     distinct (map (\<lambda>e. (e_Provider e, e_UserID e)) (ext_ids d)) \<and>
     distinct (map i_ID (integrations d)) \<and> distinct (map i_Name (integrations d)) \<and>
     distinct (map aa_ID (aws_accounts d)) \<and> distinct (map aa_AccountID (aws_accounts d)) \<and>
     distinct (map ar_ID (aws_roles d)) \<and> distinct (map ar_RoleARN (aws_roles d)) \<and>
     distinct (map as_ID (aws_assignments d)) \<and>
     distinct (map (\<lambda>a. (as_GroupID a, as_RoleID a)) (aws_assignments d)) \<and>
     distinct (map (\<lambda>v. (rv_RoleID v, rv_SubUUID v)) (aws_revoked d)) \<and>
     uniq_device_grants (device_grants d) \<and>
     distinct (map v_ID (visibility d)) \<and>
     distinct (map (\<lambda>v. (v_ClientID v, v_GroupID v)) (visibility d))"

text \<open>All \<open>REFERENCES\<close> declarations of the schema, per referring table and over the sets
  of identifiers referred to.\<close>

definition fk_grants :: "uuid set \<Rightarrow> uuid set \<Rightarrow> Grant list \<Rightarrow> bool" where
  "fk_grants us cs t \<longleftrightarrow> (\<forall>g\<in>set t. g_UserID g \<in> us \<and> g_ClientID g \<in> cs)"
definition fk_sessions :: "uuid set \<Rightarrow> uuid set \<Rightarrow> Session list \<Rightarrow> bool" where
  "fk_sessions us cs t \<longleftrightarrow>
     (\<forall>s\<in>set t. (s_UserID s = uuid_nil \<or> s_UserID s \<in> us) \<and> s_ClientID s \<in> cs)"
definition fk_retired :: "uuid set \<Rightarrow> RetiredToken list \<Rightarrow> bool" where
  "fk_retired ss t \<longleftrightarrow> (\<forall>r\<in>set t. rt_SessionID r \<in> ss)"
definition fk_members :: "uuid set \<Rightarrow> uuid set \<Rightarrow> Member list \<Rightarrow> bool" where
  "fk_members gs us t \<longleftrightarrow> (\<forall>m\<in>set t. m_GroupID m \<in> gs \<and> m_UserID m \<in> us)"
definition fk_assignments :: "uuid set \<Rightarrow> uuid set \<Rightarrow> AWSRoleAssignment list \<Rightarrow> bool" where
  "fk_assignments gs rs t \<longleftrightarrow> (\<forall>a\<in>set t. as_GroupID a \<in> gs \<and> as_RoleID a \<in> rs)"
definition fk_device_grants :: "uuid set \<Rightarrow> uuid set \<Rightarrow> DeviceGrant list \<Rightarrow> bool" where
  "fk_device_grants cs us t \<longleftrightarrow>
     (\<forall>g\<in>set t. d_ClientID g \<in> cs \<and> set_option (d_UserID g) \<subseteq> us)"
definition fk_visibility :: "uuid set \<Rightarrow> uuid set \<Rightarrow> Visibility list \<Rightarrow> bool" where
  "fk_visibility cs gs t \<longleftrightarrow> (\<forall>v\<in>set t. v_ClientID v \<in> cs \<and> v_GroupID v \<in> gs)"
definition fk_col :: "('r \<Rightarrow> uuid) \<Rightarrow> uuid set \<Rightarrow> 'r list \<Rightarrow> bool" where
  "fk_col k us t \<longleftrightarrow> (\<forall>r\<in>set t. k r \<in> us)"

lemmas fk_defs = fk_grants_def fk_sessions_def fk_retired_def fk_members_def
  fk_assignments_def fk_device_grants_def fk_visibility_def fk_col_def

definition fk_db :: "db \<Rightarrow> bool" where
  "fk_db d \<longleftrightarrow>
     fk_grants (user_ids d) (client_ids d) (grants d) \<and>
     fk_sessions (user_ids d) (client_ids d) (sessions d) \<and>
     fk_retired (session_ids d) (retired d) \<and>
     fk_col t_UserID (user_ids d) (totps d) \<and>
     fk_col wc_UserID (user_ids d) (webauthns d) \<and>
     fk_col ws_UserID (user_ids d) (wa_sessions d) \<and>
     fk_members (group_ids d) (user_ids d) (members d) \<and>
     fk_col e_UserID (user_ids d) (ext_ids d) \<and>
     fk_col ar_AccountID (account_ids d) (aws_roles d) \<and>
     fk_assignments (group_ids d) (role_ids d) (aws_assignments d) \<and>
     fk_col rv_RoleID (role_ids d) (aws_revoked d) \<and>
     fk_device_grants (client_ids d) (user_ids d) (device_grants d) \<and>
     fk_visibility (client_ids d) (group_ids d) (visibility d)"

definition wf_db :: "db \<Rightarrow> bool" where
  "wf_db d \<longleftrightarrow> uniq_db d \<and> fk_db d"

interpretation users_tab: keyed_table users users_update u_ID by unfold_locales simp
interpretation clients_tab: keyed_table clients clients_update c_ID by unfold_locales simp
interpretation grants_tab: keyed_table grants grants_update g_ID by unfold_locales simp
interpretation sessions_tab: keyed_table sessions sessions_update s_ID by unfold_locales simp
interpretation totps_tab: keyed_table totps totps_update t_ID by unfold_locales simp
interpretation groups_tab: keyed_table groups groups_update gr_ID by unfold_locales simp
interpretation device_tab: keyed_table device_grants device_grants_update d_ID by unfold_locales simp
interpretation integrations_tab: keyed_table integrations integrations_update i_ID
  by unfold_locales simp
interpretation roles_tab: keyed_table aws_roles aws_roles_update ar_ID by unfold_locales simp

subsection \<open>Deletions with their cascades\<close>

definition delete_sessions :: "(Session \<Rightarrow> bool) \<Rightarrow> db \<Rightarrow> db" where
  "delete_sessions P d =
     (let gone = map s_ID (filter P (sessions d)) in
      d\<lparr>sessions := sql_delete P (sessions d),
        retired := sql_delete (\<lambda>t. rt_SessionID t \<in> set gone) (retired d)\<rparr>)"

text \<open>\<open>user_id = ?\<close> in SQL: never true of the NULL user of a machine session.\<close>

definition user_session :: "uuid \<Rightarrow> Session \<Rightarrow> bool" where
  "user_session uid s \<longleftrightarrow> s_UserID s \<noteq> uuid_nil \<and> s_UserID s = uid"

definition delete_user_row :: "uuid \<Rightarrow> db \<Rightarrow> db" where
  "delete_user_row uid d =
     (if uid \<in> set (map u_ID (users d)) then
       (let d1 = delete_sessions (user_session uid) d in
        d1\<lparr>users := sql_delete (\<lambda>u. u_ID u = uid) (users d1),
           grants := sql_delete (\<lambda>g. g_UserID g = uid) (grants d1),
           totps := sql_delete (\<lambda>t. t_UserID t = uid) (totps d1),
           webauthns := sql_delete (\<lambda>c. wc_UserID c = uid) (webauthns d1),
           wa_sessions := sql_delete (\<lambda>s. ws_UserID s = uid) (wa_sessions d1),
           members := sql_delete (\<lambda>m. m_UserID m = uid) (members d1),
           ext_ids := sql_delete (\<lambda>e. e_UserID e = uid) (ext_ids d1),
           device_grants := sql_update (\<lambda>g. d_UserID g = Some uid) (\<lambda>g. g\<lparr>d_UserID := None\<rparr>)
             (device_grants d1)\<rparr>)
      else d)"

definition delete_client_row :: "uuid \<Rightarrow> db \<Rightarrow> db" where
  "delete_client_row cid d =
     (if cid \<in> set (map c_ID (clients d)) then
       (let d1 = delete_sessions (\<lambda>s. s_ClientID s = cid) d in
        d1\<lparr>clients := sql_delete (\<lambda>c. c_ID c = cid) (clients d1),
           grants := sql_delete (\<lambda>g. g_ClientID g = cid) (grants d1),
           device_grants := sql_delete (\<lambda>g. d_ClientID g = cid) (device_grants d1),
           visibility := sql_delete (\<lambda>v. v_ClientID v = cid) (visibility d1)\<rparr>)
      else d)"

definition delete_group_row :: "uuid \<Rightarrow> db \<Rightarrow> db" where
  "delete_group_row gid d =
     (if gid \<in> set (map gr_ID (groups d)) then
        d\<lparr>groups := sql_delete (\<lambda>g. gr_ID g = gid) (groups d),
          members := sql_delete (\<lambda>m. m_GroupID m = gid) (members d),
          aws_assignments := sql_delete (\<lambda>a. as_GroupID a = gid) (aws_assignments d),
          visibility := sql_delete (\<lambda>v. v_GroupID v = gid) (visibility d)\<rparr>
      else d)"

definition delete_roles :: "(AWSRole \<Rightarrow> bool) \<Rightarrow> db \<Rightarrow> db" where
  "delete_roles P d =
     (let gone = map ar_ID (filter P (aws_roles d)) in
      d\<lparr>aws_roles := sql_delete P (aws_roles d),
        aws_assignments := sql_delete (\<lambda>a. as_RoleID a \<in> set gone) (aws_assignments d),
        aws_revoked := sql_delete (\<lambda>v. rv_RoleID v \<in> set gone) (aws_revoked d)\<rparr>)"

definition delete_account_row :: "uuid \<Rightarrow> db \<Rightarrow> db" where
  "delete_account_row aid d =
     (if aid \<in> set (map aa_ID (aws_accounts d)) then
        (delete_roles (\<lambda>r. ar_AccountID r = aid) d)
          \<lparr>aws_accounts := sql_delete (\<lambda>a. aa_ID a = aid) (aws_accounts d)\<rparr>
      else d)"

text \<open>The outcome of an \<open>INSERT\<close> that breaks a constraint: a \<open>UNIQUE\<close> failure is
  translated to \<open>ErrConflict\<close> where the method calls \<open>isUnique\<close>, and any other
  failure is an untranslated driver error.\<close>

definition insert_outcome ::
  "bool \<Rightarrow> store_error \<Rightarrow> bool \<Rightarrow> 'a \<Rightarrow> db \<Rightarrow> db \<Rightarrow> (store_error + 'a) \<times> db" where
  "insert_outcome uniq_ok uniq_err fk_ok a d d' =
     (if \<not> uniq_ok then (Inl uniq_err, d)
      else if \<not> fk_ok then (Inl ErrDB, d)
      else (Inr a, d'))"

subsection \<open>Constraints survive deletions and updates of other columns\<close>

lemma uniq_delete [table_simps]:
  "uniq_users t1 \<Longrightarrow> uniq_users (sql_delete P1 t1)"
  "uniq_clients t2 \<Longrightarrow> uniq_clients (sql_delete P2 t2)"
  "uniq_grants t3 \<Longrightarrow> uniq_grants (sql_delete P3 t3)"
  "uniq_sessions t4 \<Longrightarrow> uniq_sessions (sql_delete P4 t4)"
  "uniq_retired t5 \<Longrightarrow> uniq_retired (sql_delete P5 t5)"
  "uniq_totps t6 \<Longrightarrow> uniq_totps (sql_delete P6 t6)"
  "uniq_webauthns t7 \<Longrightarrow> uniq_webauthns (sql_delete P7 t7)"
  "uniq_members t8 \<Longrightarrow> uniq_members (sql_delete P8 t8)"
  "uniq_device_grants t9 \<Longrightarrow> uniq_device_grants (sql_delete P9 t9)"
  by (auto simp: uniq_defs)

lemma fk_delete [table_simps]:
  "fk_grants us cs t1 \<Longrightarrow> fk_grants us cs (sql_delete P1 t1)"
  "fk_sessions us cs t2 \<Longrightarrow> fk_sessions us cs (sql_delete P2 t2)"
  "fk_retired us t3 \<Longrightarrow> fk_retired us (sql_delete P3 t3)"
  "fk_members us cs t4 \<Longrightarrow> fk_members us cs (sql_delete P4 t4)"
  "fk_assignments us cs t5 \<Longrightarrow> fk_assignments us cs (sql_delete P5 t5)"
  "fk_device_grants us cs t6 \<Longrightarrow> fk_device_grants us cs (sql_delete P6 t6)"
  "fk_visibility us cs t7 \<Longrightarrow> fk_visibility us cs (sql_delete P7 t7)"
  "fk_col k us t8 \<Longrightarrow> fk_col k us (sql_delete P8 t8)"
  by (auto simp: fk_defs table_sets)

text \<open>Deleting a referenced row together with the rows that refer to it.\<close>

lemma fk_cascade [table_simps]:
  "fk_grants us cs t1 \<Longrightarrow> fk_grants (us - {i}) cs (sql_delete (\<lambda>g. g_UserID g = i) t1)"
  "fk_grants us cs t1 \<Longrightarrow> fk_grants us (cs - {i}) (sql_delete (\<lambda>g. g_ClientID g = i) t1)"
  "fk_sessions us cs t2 \<Longrightarrow> fk_sessions (us - {i}) cs (sql_delete (user_session i) t2)"
  "fk_sessions us cs t2 \<Longrightarrow> fk_sessions us (cs - {i}) (sql_delete (\<lambda>s. s_ClientID s = i) t2)"
  "fk_members us cs t4 \<Longrightarrow> fk_members (us - {i}) cs (sql_delete (\<lambda>m. m_GroupID m = i) t4)"
  "fk_members us cs t4 \<Longrightarrow> fk_members us (cs - {i}) (sql_delete (\<lambda>m. m_UserID m = i) t4)"
  "fk_assignments us cs t5 \<Longrightarrow> fk_assignments (us - {i}) cs (sql_delete (\<lambda>a. as_GroupID a = i) t5)"
  "fk_device_grants us cs t6 \<Longrightarrow> fk_device_grants (us - {i}) cs (sql_delete (\<lambda>g. d_ClientID g = i) t6)"
  "fk_device_grants us cs t6 \<Longrightarrow> fk_device_grants us (cs - {i})
     (sql_update (\<lambda>g. d_UserID g = Some i) (\<lambda>g. g\<lparr>d_UserID := None\<rparr>) t6)"
  "fk_visibility us cs t7 \<Longrightarrow> fk_visibility (us - {i}) cs (sql_delete (\<lambda>v. v_ClientID v = i) t7)"
  "fk_visibility us cs t7 \<Longrightarrow> fk_visibility us (cs - {i}) (sql_delete (\<lambda>v. v_GroupID v = i) t7)"
  "fk_col k us t8 \<Longrightarrow> fk_col k (us - {i}) (sql_delete (\<lambda>r. k r = i) t8)"
  by (auto simp: fk_defs table_sets user_session_def)

lemma fk_cascade_set [table_simps]:
  "fk_retired (s_ID ` set s) r \<Longrightarrow>
     fk_retired (s_ID ` set (sql_delete P s)) (sql_delete (\<lambda>x. rt_SessionID x \<in> s_ID ` {x \<in> set s. P x}) r)"
  "fk_assignments gs (ar_ID ` set t) a \<Longrightarrow>
     fk_assignments gs (ar_ID ` set (sql_delete Q t))
       (sql_delete (\<lambda>x. as_RoleID x \<in> ar_ID ` {x \<in> set t. Q x}) a)"
  "fk_col k (ar_ID ` set t) b \<Longrightarrow>
     fk_col k (ar_ID ` set (sql_delete Q t)) (sql_delete (\<lambda>x. k x \<in> ar_ID ` {x \<in> set t. Q x}) b)"
  by (auto simp: fk_defs table_sets)

lemma uniq_device_update [table_simps]:
  assumes "\<And>g. d_ID (f g) = d_ID g" "\<And>g. d_DeviceCodeHash (f g) = d_DeviceCodeHash g"
    "\<And>g. d_UserCodeHash (f g) = d_UserCodeHash g"
  shows "uniq_device_grants (sql_update P f t) = uniq_device_grants t"
  using assms by (simp add: uniq_device_grants_def map_key_sql_update)

lemmas wf_defs = wf_db_def uniq_db_def fk_db_def

lemma wf_delete_sessions: "wf_db d \<Longrightarrow> wf_db (delete_sessions P d)"
  by (simp add: wf_defs delete_sessions_def Let_def table_simps)

lemma wf_delete_user_row: "wf_db d \<Longrightarrow> wf_db (delete_user_row uid d)"
  by (simp add: wf_defs delete_user_row_def delete_sessions_def Let_def table_simps)

lemma wf_delete_client_row: "wf_db d \<Longrightarrow> wf_db (delete_client_row cid d)"
  by (simp add: wf_defs delete_client_row_def delete_sessions_def Let_def table_simps)

lemma wf_delete_group_row: "wf_db d \<Longrightarrow> wf_db (delete_group_row gid d)"
  by (simp add: wf_defs delete_group_row_def Let_def table_simps)

lemma wf_delete_roles: "wf_db d \<Longrightarrow> wf_db (delete_roles P d)"
  by (simp add: wf_defs delete_roles_def Let_def table_simps)

lemma wf_delete_account_row: "wf_db d \<Longrightarrow> wf_db (delete_account_row aid d)"
  by (simp add: wf_defs delete_account_row_def delete_roles_def Let_def table_simps)

end
