(* ===== verification/Store_Core.thy ===== *)
theory Store_Core
  imports Db
begin

text \<open>
  The SQLite implementation of the user, grant and session stores
  (\<open>src/internal/store/sqlite/sqlite_users.go\<close>, \<open>sqlite_grants.go\<close>,
  \<open>sqlite_sessions.go\<close>). Every method is a function from the database to its result and
  the new database; \<open>now\<close> is the clock of the call and \<open>id\<close> the value \<open>uuid.New()\<close>
  returned to it. The last part proves that each method keeps the schema's constraints.
\<close>

type_synonym 'a store_result = "(store_error + 'a) \<times> db"

named_theorems store_defs "definitions of the store methods"
named_theorems store_wf "store methods keep the schema's constraints"

definition select_row :: "('r \<Rightarrow> bool) \<Rightarrow> 'r list \<Rightarrow> store_error + 'r" where
  "select_row P t = (case find P t of None \<Rightarrow> Inl ErrNotFound | Some r \<Rightarrow> Inr r)"

text \<open>\<open>requireOneRow\<close>: an \<open>UPDATE\<close> that touched no row is \<open>ErrNotFound\<close>.\<close>

definition requireOneRow :: "nat \<Rightarrow> store_error + unit" where
  "requireOneRow n = (if n = 0 then Inl ErrNotFound else Inr ())"

subsection \<open>Users\<close>

definition CreateUser :: "time \<Rightarrow> uuid \<Rightarrow> string \<Rightarrow> string \<Rightarrow> string \<Rightarrow> db \<Rightarrow> User store_result" where
  "CreateUser now uid email passwordHash name d =
     (let u = \<lparr>u_ID = uid, u_Email = email, u_PasswordHash = passwordHash, u_Name = name,
               u_Active = True, u_SCIMExternalID = '''', u_MFAEnabled = False, u_IsAdmin = False,
               u_PasswordChangedAt = now, u_FailedAttempts = 0, u_LockedUntil = None,
               u_MustChangePassword = False, u_CreatedAt = now, u_UpdatedAt = now\<rparr> in
      insert_outcome (uniq_users (users d @ [u])) ErrConflict True u
        d (d\<lparr>users := users d @ [u]\<rparr>))"

definition GetUserByID :: "uuid \<Rightarrow> db \<Rightarrow> User store_result" where
  "GetUserByID uid d = (select_row (\<lambda>u. u_ID u = uid) (users d), d)"

definition GetUserByEmail :: "string \<Rightarrow> db \<Rightarrow> User store_result" where
  "GetUserByEmail email d = (select_row (\<lambda>u. u_Email u = email) (users d), d)"

definition CountUsers :: "db \<Rightarrow> nat store_result" where
  "CountUsers d = (Inr (length (users d)), d)"

definition ListUsers :: "db \<Rightarrow> User list store_result" where
  "ListUsers d = (Inr (sort_key u_CreatedAt (users d)), d)"

definition update_user :: "uuid \<Rightarrow> (User \<Rightarrow> User) \<Rightarrow> db \<Rightarrow> unit store_result" where
  "update_user uid f d = (Inr (), d\<lparr>users := sql_update (\<lambda>u. u_ID u = uid) f (users d)\<rparr>)"

definition UpdateUser :: "time \<Rightarrow> uuid \<Rightarrow> string \<Rightarrow> bool \<Rightarrow> db \<Rightarrow> unit store_result" where
  "UpdateUser now uid name active =
     update_user uid (\<lambda>u. u\<lparr>u_Name := name, u_Active := active, u_UpdatedAt := current_timestamp now\<rparr>)"

definition UpdateUserPassword :: "time \<Rightarrow> uuid \<Rightarrow> string \<Rightarrow> db \<Rightarrow> unit store_result" where
  "UpdateUserPassword now uid passwordHash =
     update_user uid (\<lambda>u. u\<lparr>u_PasswordHash := passwordHash,
       u_PasswordChangedAt := current_timestamp now, u_MustChangePassword := False,
       u_UpdatedAt := current_timestamp now\<rparr>)"

definition SetUserMustChangePassword :: "time \<Rightarrow> uuid \<Rightarrow> bool \<Rightarrow> db \<Rightarrow> unit store_result" where
  "SetUserMustChangePassword now uid flag =
     update_user uid (\<lambda>u. u\<lparr>u_MustChangePassword := flag, u_UpdatedAt := current_timestamp now\<rparr>)"

definition UpdateUserMFAEnabled :: "time \<Rightarrow> uuid \<Rightarrow> bool \<Rightarrow> db \<Rightarrow> unit store_result" where
  "UpdateUserMFAEnabled now uid enabled =
     update_user uid (\<lambda>u. u\<lparr>u_MFAEnabled := enabled, u_UpdatedAt := current_timestamp now\<rparr>)"

definition UpdateUserFailedAttempts ::
  "time \<Rightarrow> uuid \<Rightarrow> int \<Rightarrow> time option \<Rightarrow> db \<Rightarrow> unit store_result" where
  "UpdateUserFailedAttempts now uid count lockedUntil =
     update_user uid (\<lambda>u. u\<lparr>u_FailedAttempts := count, u_LockedUntil := lockedUntil,
       u_UpdatedAt := current_timestamp now\<rparr>)"

definition SetUserActive :: "time \<Rightarrow> uuid \<Rightarrow> bool \<Rightarrow> db \<Rightarrow> unit store_result" where
  "SetUserActive now uid active =
     update_user uid (\<lambda>u. u\<lparr>u_Active := active, u_UpdatedAt := current_timestamp now\<rparr>)"

definition SetUserSCIMExternalID :: "time \<Rightarrow> uuid \<Rightarrow> string \<Rightarrow> db \<Rightarrow> unit store_result" where
  "SetUserSCIMExternalID now uid externalID =
     update_user uid (\<lambda>u. u\<lparr>u_SCIMExternalID := externalID, u_UpdatedAt := current_timestamp now\<rparr>)"

definition SetUserAdmin :: "time \<Rightarrow> uuid \<Rightarrow> bool \<Rightarrow> db \<Rightarrow> unit store_result" where
  "SetUserAdmin now uid isAdmin =
     update_user uid (\<lambda>u. u\<lparr>u_IsAdmin := isAdmin, u_UpdatedAt := current_timestamp now\<rparr>)"

definition DeleteUser :: "uuid \<Rightarrow> db \<Rightarrow> unit store_result" where
  "DeleteUser uid d = (Inr (), delete_user_row uid d)"

subsection \<open>Authorization codes\<close>

definition CreateGrant :: "Grant \<Rightarrow> db \<Rightarrow> unit store_result" where
  "CreateGrant g d =
     (let row = g\<lparr>g_UsedAt := None\<rparr> in
      insert_outcome (uniq_grants (grants d @ [row])) ErrDB
        (g_UserID g \<in> user_ids d \<and> g_ClientID g \<in> client_ids d) ()
        d (d\<lparr>grants := grants d @ [row]\<rparr>))"

definition GetGrantByCodeHash :: "string \<Rightarrow> db \<Rightarrow> Grant store_result" where
  "GetGrantByCodeHash codeHash d = (select_row (\<lambda>g. g_CodeHash g = codeHash) (grants d), d)"

definition MarkGrantUsed :: "time \<Rightarrow> uuid \<Rightarrow> db \<Rightarrow> unit store_result" where
  "MarkGrantUsed now gid d =
     (let hit = (\<lambda>g. g_ID g = gid \<and> g_UsedAt g = None) in
      (requireOneRow (rows_affected hit (grants d)),
       d\<lparr>grants := sql_update hit (\<lambda>g. g\<lparr>g_UsedAt := Some (current_timestamp now)\<rparr>) (grants d)\<rparr>))"

definition DeleteExpiredGrants :: "time \<Rightarrow> db \<Rightarrow> unit store_result" where
  "DeleteExpiredGrants now d =
     (Inr (), d\<lparr>grants := sql_delete (\<lambda>g. g_ExpiresAt g < current_timestamp now) (grants d)\<rparr>)"

subsection \<open>Sessions\<close>

definition CreateSession :: "time \<Rightarrow> Session \<Rightarrow> db \<Rightarrow> unit store_result" where
  "CreateSession now sess d =
     (let row = sess\<lparr>s_LastActivityAt := current_timestamp now, s_CreatedAt := current_timestamp now\<rparr> in
      insert_outcome (uniq_sessions (sessions d @ [row])) ErrDB
        ((s_UserID sess = uuid_nil \<or> s_UserID sess \<in> user_ids d) \<and> s_ClientID sess \<in> client_ids d) ()
        d (d\<lparr>sessions := sessions d @ [row]\<rparr>))"

definition update_session :: "uuid \<Rightarrow> (Session \<Rightarrow> Session) \<Rightarrow> db \<Rightarrow> unit store_result" where
  "update_session sid f d = (Inr (), d\<lparr>sessions := sql_update (\<lambda>s. s_ID s = sid) f (sessions d)\<rparr>)"

definition MarkSessionMFA :: "uuid \<Rightarrow> time \<Rightarrow> db \<Rightarrow> unit store_result" where
  "MarkSessionMFA sid when =
     update_session sid (\<lambda>s. s\<lparr>s_MFAVerified := True, s_MFAVerifiedAt := Some when\<rparr>)"

definition GetSessionByAccessTokenHash :: "string \<Rightarrow> db \<Rightarrow> Session store_result" where
  "GetSessionByAccessTokenHash hash d =
     (select_row (\<lambda>s. s_AccessTokenHash s = hash) (sessions d), d)"

definition GetSessionByRefreshTokenHash :: "string \<Rightarrow> db \<Rightarrow> Session store_result" where
  "GetSessionByRefreshTokenHash hash d =
     (select_row (\<lambda>s. s_RefreshTokenHash s = hash) (sessions d), d)"

definition UpdateSessionActivity :: "uuid \<Rightarrow> time \<Rightarrow> db \<Rightarrow> unit store_result" where
  "UpdateSessionActivity sid lastActivity =
     update_session sid (\<lambda>s. s\<lparr>s_LastActivityAt := lastActivity\<rparr>)"

definition ExtendSessionExpiry :: "uuid \<Rightarrow> time \<Rightarrow> db \<Rightarrow> unit store_result" where
  "ExtendSessionExpiry sid newExpiry =
     update_session sid (\<lambda>s. s\<lparr>s_AccessExpiresAt := newExpiry\<rparr>)"

text \<open>The transaction of \<open>RotateRefreshToken\<close>: the guarded \<open>UPDATE\<close> (a uniqueness failure
  of a new hash rolls back), then the retired hash is remembered unless it already is
  (\<open>ON CONFLICT DO NOTHING\<close>).\<close>

definition RotateRefreshToken ::
  "uuid \<Rightarrow> string \<Rightarrow> string \<Rightarrow> string \<Rightarrow> time \<Rightarrow> time \<Rightarrow> db \<Rightarrow> unit store_result" where
  "RotateRefreshToken sid oldRefreshHash newAccessHash newRefreshHash newAccessExpiry newRefreshExpiry d =
     (let hit = (\<lambda>s. s_ID s = sid \<and> s_RefreshTokenHash s = oldRefreshHash);
          t = sql_update hit (\<lambda>s. s\<lparr>s_AccessTokenHash := newAccessHash,
                s_RefreshTokenHash := newRefreshHash, s_AccessExpiresAt := newAccessExpiry,
                s_RefreshExpiresAt := newRefreshExpiry\<rparr>) (sessions d) in
      if rows_affected hit (sessions d) = 0 then (Inl ErrNotFound, d)
      else if \<not> uniq_sessions t then (Inl ErrDB, d)
      else (Inr (), d\<lparr>sessions := t,
             retired := (if oldRefreshHash \<in> set (map rt_TokenHash (retired d)) then retired d
                         else retired d @ [\<lparr>rt_TokenHash = oldRefreshHash, rt_SessionID = sid\<rparr>])\<rparr>))"

definition GetSessionByRetiredRefreshTokenHash :: "string \<Rightarrow> db \<Rightarrow> Session store_result" where
  "GetSessionByRetiredRefreshTokenHash hash d =
     (case find (\<lambda>t. rt_TokenHash t = hash) (retired d) of
        None \<Rightarrow> Inl ErrNotFound
      | Some t \<Rightarrow> select_row (\<lambda>s. s_ID s = rt_SessionID t) (sessions d), d)"

definition DeleteSession :: "uuid \<Rightarrow> db \<Rightarrow> unit store_result" where
  "DeleteSession sid d = (Inr (), delete_sessions (\<lambda>s. s_ID s = sid) d)"

definition DeleteSessionsByUserID :: "uuid \<Rightarrow> db \<Rightarrow> unit store_result" where
  "DeleteSessionsByUserID userID d = (Inr (), delete_sessions (user_session userID) d)"

definition ListSessionClientIDsByUser :: "uuid \<Rightarrow> db \<Rightarrow> uuid list store_result" where
  "ListSessionClientIDsByUser userID d =
     (Inr (remdups (map s_ClientID (filter (user_session userID) (sessions d)))), d)"

definition DeleteExpiredSessions :: "time \<Rightarrow> db \<Rightarrow> unit store_result" where
  "DeleteExpiredSessions now d =
     (Inr (), delete_sessions (\<lambda>s. s_RefreshExpiresAt s < current_timestamp now) d)"

declare CreateUser_def [store_defs] GetUserByID_def [store_defs] GetUserByEmail_def [store_defs]
  CountUsers_def [store_defs] ListUsers_def [store_defs] update_user_def [store_defs]
  UpdateUser_def [store_defs] UpdateUserPassword_def [store_defs]
  SetUserMustChangePassword_def [store_defs] UpdateUserMFAEnabled_def [store_defs]
  UpdateUserFailedAttempts_def [store_defs] SetUserActive_def [store_defs]
  SetUserSCIMExternalID_def [store_defs] SetUserAdmin_def [store_defs] DeleteUser_def [store_defs]
  CreateGrant_def [store_defs] GetGrantByCodeHash_def [store_defs] MarkGrantUsed_def [store_defs]
  DeleteExpiredGrants_def [store_defs] CreateSession_def [store_defs] update_session_def [store_defs]
  MarkSessionMFA_def [store_defs] GetSessionByAccessTokenHash_def [store_defs]
  GetSessionByRefreshTokenHash_def [store_defs] UpdateSessionActivity_def [store_defs]
  ExtendSessionExpiry_def [store_defs] RotateRefreshToken_def [store_defs]
  GetSessionByRetiredRefreshTokenHash_def [store_defs] DeleteSession_def [store_defs]
  DeleteSessionsByUserID_def [store_defs] ListSessionClientIDsByUser_def [store_defs]
  DeleteExpiredSessions_def [store_defs]

subsection \<open>The methods keep the constraints\<close>

text \<open>The statements that touch no key column.\<close>

lemma wf_update_user:
  assumes "wf_db d" "\<And>u. u_ID (f u) = u_ID u" "\<And>u. u_Email (f u) = u_Email u"
  shows "wf_db (snd (update_user uid f d))"
  using assms by (simp add: wf_defs update_user_def uniq_users_def table_simps)

lemma wf_update_session:
  assumes "wf_db d" "\<And>s. s_ID (f s) = s_ID s" "\<And>s. s_UserID (f s) = s_UserID s"
    "\<And>s. s_ClientID (f s) = s_ClientID s" "\<And>s. s_AccessTokenHash (f s) = s_AccessTokenHash s"
    "\<And>s. s_RefreshTokenHash (f s) = s_RefreshTokenHash s"
  shows "wf_db (snd (update_session sid f d))"
proof -
  have "fk_sessions us cs (sql_update P f t) = fk_sessions us cs t" for us cs P t
    using assms(3,4) by (simp add: fk_sessions_def ball_sql_update)
  then show ?thesis
    using assms by (simp add: wf_defs update_session_def uniq_sessions_def table_simps)
qed

lemma wf_user_updates [store_wf]:
  assumes "wf_db d"
  shows "wf_db (snd (UpdateUser now uid name active d))"
    "wf_db (snd (UpdateUserPassword now uid ph d))"
    "wf_db (snd (SetUserMustChangePassword now uid b d))"
    "wf_db (snd (UpdateUserMFAEnabled now uid b d))"
    "wf_db (snd (UpdateUserFailedAttempts now uid n lu d))"
    "wf_db (snd (SetUserActive now uid b d))"
    "wf_db (snd (SetUserSCIMExternalID now uid x d))"
    "wf_db (snd (SetUserAdmin now uid b d))"
  using assms
  by (simp_all add: UpdateUser_def UpdateUserPassword_def SetUserMustChangePassword_def
      UpdateUserMFAEnabled_def UpdateUserFailedAttempts_def SetUserActive_def
      SetUserSCIMExternalID_def SetUserAdmin_def wf_update_user)

lemma wf_session_updates [store_wf]:
  assumes "wf_db d"
  shows "wf_db (snd (MarkSessionMFA sid t d))" "wf_db (snd (UpdateSessionActivity sid t d))"
    "wf_db (snd (ExtendSessionExpiry sid t d))"
  using assms
  by (simp_all add: MarkSessionMFA_def UpdateSessionActivity_def ExtendSessionExpiry_def
      wf_update_session)

lemma wf_CreateUser [store_wf]: "wf_db d \<Longrightarrow> wf_db (snd (CreateUser now uid email ph name d))"
  by (simp add: wf_defs CreateUser_def insert_outcome_def Let_def fk_defs) blast

lemma wf_DeleteUser [store_wf]: "wf_db d \<Longrightarrow> wf_db (snd (DeleteUser uid d))"
  by (simp add: DeleteUser_def wf_delete_user_row)

lemma wf_CreateGrant [store_wf]: "wf_db d \<Longrightarrow> wf_db (snd (CreateGrant g d))"
  by (simp add: wf_defs CreateGrant_def insert_outcome_def Let_def fk_grants_def)

lemma wf_MarkGrantUsed [store_wf]: 
  assumes "wf_db d" shows "wf_db (snd (MarkGrantUsed now gid d))"
proof -
  have "fk_grants us cs (sql_update P (\<lambda>g. g\<lparr>g_UsedAt := x\<rparr>) t) = fk_grants us cs t" for us cs P x t
    by (simp add: fk_grants_def ball_sql_update)
  then show ?thesis
    using assms by (simp add: wf_defs MarkGrantUsed_def Let_def uniq_grants_def table_simps)
qed

lemma wf_DeleteExpiredGrants [store_wf]: "wf_db d \<Longrightarrow> wf_db (snd (DeleteExpiredGrants now d))"
  by (simp add: wf_defs DeleteExpiredGrants_def table_simps)

lemma wf_CreateSession [store_wf]: "wf_db d \<Longrightarrow> wf_db (snd (CreateSession now s d))"
  by (simp add: wf_defs CreateSession_def insert_outcome_def Let_def fk_sessions_def fk_retired_def)

lemma wf_RotateRefreshToken [store_wf]:
  assumes "wf_db d"
  shows "wf_db (snd (RotateRefreshToken sid old na nr ea er d))"
proof -
  have fk: "fk_sessions us cs (sql_update P (\<lambda>s. s\<lparr>s_AccessTokenHash := na, s_RefreshTokenHash := nr,
      s_AccessExpiresAt := ea, s_RefreshExpiresAt := er\<rparr>) t) = fk_sessions us cs t" for us cs P t
    by (simp add: fk_sessions_def ball_sql_update)
  have sid: "sid \<in> session_ids d" if "\<exists>s\<in>set (sessions d). s_ID s = sid \<and> s_RefreshTokenHash s = old"
    using that by auto
  show ?thesis
    using assms sid
    by (simp add: wf_defs RotateRefreshToken_def Let_def fk table_simps rows_affected_0
        uniq_retired_def fk_retired_def)
qed

lemma wf_session_deletes [store_wf]:
  assumes "wf_db d"
  shows "wf_db (snd (DeleteSession sid d))" "wf_db (snd (DeleteSessionsByUserID uid d))"
    "wf_db (snd (DeleteExpiredSessions now d))"
  using assms
  by (simp_all add: DeleteSession_def DeleteSessionsByUserID_def DeleteExpiredSessions_def
      wf_delete_sessions)

end
