(* ===== verification/Store_Clients.thy ===== *)
theory Store_Clients
  imports Store_Core
begin

text \<open>
  The SQLite implementation of the client, group and device-grant stores
  (\<open>src/internal/store/sqlite/sqlite_clients.go\<close>, \<open>sqlite_groups.go\<close>,
  \<open>sqlite_device_grants.go\<close>), in the style of \<open>Store_Core\<close>, and that every method
  keeps the schema's constraints.
\<close>

subsection \<open>Clients\<close>

definition CreateClient ::
  "time \<Rightarrow> uuid \<Rightarrow> string \<Rightarrow> string \<Rightarrow> string \<Rightarrow> string list \<Rightarrow> string list \<Rightarrow> bool \<Rightarrow> string option
   \<Rightarrow> db \<Rightarrow> Client store_result" where
  "CreateClient now cid clientID clientSecretHash name redirectURIs scopes public backchannelLogoutURI d =
     (let c = \<lparr>c_ID = cid, c_ClientID = clientID, c_ClientSecretHash = clientSecretHash,
               c_Name = name, c_RedirectURIs = redirectURIs, c_Scopes = scopes, c_Public = public,
               c_BackchannelLogoutURI = backchannelLogoutURI, c_ShowInPortal = False,
               c_LaunchURL = '''', c_BrandColor = '''', c_IconURL = '''', c_VisibleToAll = False,
               c_AllowDeviceGrant = False, c_SecretRotatedAt = now, c_CreatedAt = now\<rparr> in
      insert_outcome (uniq_clients (clients d @ [c])) ErrConflict True c
        d (d\<lparr>clients := clients d @ [c]\<rparr>))"

definition GetClientByID :: "uuid \<Rightarrow> db \<Rightarrow> Client store_result" where
  "GetClientByID cid d = (select_row (\<lambda>c. c_ID c = cid) (clients d), d)"

definition GetClientByClientID :: "string \<Rightarrow> db \<Rightarrow> Client store_result" where
  "GetClientByClientID clientID d = (select_row (\<lambda>c. c_ClientID c = clientID) (clients d), d)"

definition ListClients :: "db \<Rightarrow> Client list store_result" where
  "ListClients d = (Inr (sort_key c_CreatedAt (clients d)), d)"

definition update_client :: "uuid \<Rightarrow> (Client \<Rightarrow> Client) \<Rightarrow> db \<Rightarrow> db" where
  "update_client cid f d = d\<lparr>clients := sql_update (\<lambda>c. c_ID c = cid) f (clients d)\<rparr>"

definition client_hits :: "uuid \<Rightarrow> db \<Rightarrow> nat" where
  "client_hits cid d = rows_affected (\<lambda>c. c_ID c = cid) (clients d)"

definition UpdateClient ::
  "uuid \<Rightarrow> string \<Rightarrow> string list \<Rightarrow> string list \<Rightarrow> bool \<Rightarrow> string option \<Rightarrow> db \<Rightarrow> unit store_result" where
  "UpdateClient cid name redirectURIs scopes public backchannelLogoutURI d =
     (Inr (), update_client cid (\<lambda>c. c\<lparr>c_Name := name, c_RedirectURIs := redirectURIs,
        c_Scopes := scopes, c_Public := public, c_BackchannelLogoutURI := backchannelLogoutURI\<rparr>) d)"

definition UpdateClientDeviceGrant :: "uuid \<Rightarrow> bool \<Rightarrow> db \<Rightarrow> unit store_result" where
  "UpdateClientDeviceGrant cid allow d =
     (requireOneRow (client_hits cid d), update_client cid (\<lambda>c. c\<lparr>c_AllowDeviceGrant := allow\<rparr>) d)"

definition UpdateClientSecret :: "time \<Rightarrow> uuid \<Rightarrow> string \<Rightarrow> db \<Rightarrow> unit store_result" where
  "UpdateClientSecret now cid secretHash d =
     (Inr (), update_client cid (\<lambda>c. c\<lparr>c_ClientSecretHash := secretHash,
        c_SecretRotatedAt := current_timestamp now\<rparr>) d)"

definition DeleteClient :: "uuid \<Rightarrow> db \<Rightarrow> unit store_result" where
  "DeleteClient cid d = (Inr (), delete_client_row cid d)"

definition UpdateClientPortalConfig ::
  "uuid \<Rightarrow> bool \<Rightarrow> string \<Rightarrow> string \<Rightarrow> string \<Rightarrow> bool \<Rightarrow> db \<Rightarrow> unit store_result" where
  "UpdateClientPortalConfig cid showInPortal launchURL brandColor iconURL visibleToAll d =
     (requireOneRow (client_hits cid d),
      update_client cid (\<lambda>c. c\<lparr>c_ShowInPortal := showInPortal, c_LaunchURL := launchURL,
        c_BrandColor := brandColor, c_IconURL := iconURL, c_VisibleToAll := visibleToAll\<rparr>) d)"

text \<open>The loop of \<open>ReplaceClientVisibility\<close>: one insert per group inside the transaction,
  \<open>ON CONFLICT (client_id, group_id) DO NOTHING\<close>; any other failure (an unknown
  group or client, a repeated row id) rolls the transaction back. Each group comes
  with the row identifier drawn for it.\<close>

fun insert_visibility :: "time \<Rightarrow> uuid \<Rightarrow> (uuid \<times> uuid) list \<Rightarrow> db \<Rightarrow> db option" where
  "insert_visibility now cid [] d = Some d"
| "insert_visibility now cid ((gid, vid) # gids) d =
     (let row = \<lparr>v_ID = vid, v_ClientID = cid, v_GroupID = gid,
                 v_CreatedAt = current_timestamp now\<rparr> in
      if (cid, gid) \<in> set (map (\<lambda>v. (v_ClientID v, v_GroupID v)) (visibility d))
      then insert_visibility now cid gids d
      else if vid \<in> set (map v_ID (visibility d))
        \<or> cid \<notin> client_ids d \<or> gid \<notin> group_ids d then None
      else insert_visibility now cid gids (d\<lparr>visibility := visibility d @ [row]\<rparr>))"

definition ReplaceClientVisibility ::
  "time \<Rightarrow> uuid \<Rightarrow> (uuid \<times> uuid) list \<Rightarrow> db \<Rightarrow> unit store_result" where
  "ReplaceClientVisibility now clientID groupIDs d =
     (case insert_visibility now clientID groupIDs
             (d\<lparr>visibility := sql_delete (\<lambda>v. v_ClientID v = clientID) (visibility d)\<rparr>) of
        None \<Rightarrow> (Inl ErrDB, d)
      | Some d' \<Rightarrow> (Inr (), d'))"

definition ListClientVisibility :: "uuid \<Rightarrow> db \<Rightarrow> uuid list store_result" where
  "ListClientVisibility clientID d =
     (Inr (map v_GroupID (sort_key v_CreatedAt
        (filter (\<lambda>v. v_ClientID v = clientID) (visibility d)))), d)"

text \<open>The two left joins and the \<open>DISTINCT\<close> of \<open>ListPortalClientsForUser\<close>: a client row
  is kept when some joined row satisfies the \<open>WHERE\<close> clause. The order is by name as
  bytes (SQLite's BINARY collation).\<close>

fun name_le :: "string \<Rightarrow> string \<Rightarrow> bool" where
  "name_le [] y = True"
| "name_le (a # x) [] = False"
| "name_le (a # x) (b # y) = (char_code a < char_code b \<or> (a = b \<and> name_le x y))"

definition portal_visible :: "uuid \<Rightarrow> db \<Rightarrow> Client \<Rightarrow> bool" where
  "portal_visible userID d c \<longleftrightarrow>
     c_ShowInPortal c \<and>
     (c_VisibleToAll c \<or>
      list_ex (\<lambda>v. v_ClientID v = c_ID c \<and>
        list_ex (\<lambda>m. m_GroupID m = v_GroupID v \<and> m_UserID m = userID) (members d)) (visibility d))"

fun insert_by :: "('a \<Rightarrow> 'a \<Rightarrow> bool) \<Rightarrow> 'a \<Rightarrow> 'a list \<Rightarrow> 'a list" where
  "insert_by le x [] = [x]"
| "insert_by le x (y # ys) = (if le x y then x # y # ys else y # insert_by le x ys)"

definition sort_by :: "('a \<Rightarrow> 'a \<Rightarrow> bool) \<Rightarrow> 'a list \<Rightarrow> 'a list" where
  "sort_by le xs = foldr (insert_by le) xs []"

definition ListPortalClientsForUser :: "uuid \<Rightarrow> db \<Rightarrow> Client list store_result" where
  "ListPortalClientsForUser userID d =
     (Inr (sort_by (\<lambda>a b. name_le (c_Name a) (c_Name b)) (filter (portal_visible userID d) (clients d))), d)"

subsection \<open>Groups\<close>

definition CreateGroup :: "time \<Rightarrow> uuid \<Rightarrow> string \<Rightarrow> db \<Rightarrow> SCIMGroup store_result" where
  "CreateGroup now gid displayName d =
     (let g = \<lparr>gr_ID = gid, gr_DisplayName = displayName, gr_Members = [],
               gr_CreatedAt = now, gr_UpdatedAt = now\<rparr> in
      insert_outcome (distinct (map gr_ID (groups d @ [g]))) ErrDB True g
        d (d\<lparr>groups := groups d @ [g]\<rparr>))"

definition groupMembers :: "uuid \<Rightarrow> db \<Rightarrow> uuid list" where
  "groupMembers groupID d = sort (map m_UserID (filter (\<lambda>m. m_GroupID m = groupID) (members d)))"

definition GetGroupByID :: "uuid \<Rightarrow> db \<Rightarrow> SCIMGroup store_result" where
  "GetGroupByID gid d =
     (case select_row (\<lambda>g. gr_ID g = gid) (groups d) of
        Inl e \<Rightarrow> Inl e
      | Inr g \<Rightarrow> Inr (g\<lparr>gr_Members := groupMembers gid d\<rparr>), d)"

definition ListGroups :: "db \<Rightarrow> SCIMGroup list store_result" where
  "ListGroups d =
     (Inr (map (\<lambda>g. g\<lparr>gr_Members := groupMembers (gr_ID g) d\<rparr>) (sort_key gr_CreatedAt (groups d))), d)"

definition UpdateGroup :: "time \<Rightarrow> uuid \<Rightarrow> string \<Rightarrow> db \<Rightarrow> unit store_result" where
  "UpdateGroup now gid displayName d =
     (Inr (), d\<lparr>groups := sql_update (\<lambda>g. gr_ID g = gid)
        (\<lambda>g. g\<lparr>gr_DisplayName := displayName, gr_UpdatedAt := current_timestamp now\<rparr>) (groups d)\<rparr>)"

definition insert_member :: "uuid \<Rightarrow> uuid \<Rightarrow> db \<Rightarrow> db option" where
  "insert_member groupID userID d =
     (if (groupID, userID) \<in> set (map (\<lambda>m. (m_GroupID m, m_UserID m)) (members d)) then Some d
      else if groupID \<in> group_ids d \<and> userID \<in> user_ids d
      then Some (d\<lparr>members := members d @ [\<lparr>m_GroupID = groupID, m_UserID = userID\<rparr>]\<rparr>)
      else None)"

fun insert_members :: "uuid \<Rightarrow> uuid list \<Rightarrow> db \<Rightarrow> db option" where
  "insert_members groupID [] d = Some d"
| "insert_members groupID (uid # uids) d =
     (case insert_member groupID uid d of None \<Rightarrow> None | Some d' \<Rightarrow> insert_members groupID uids d')"

definition ReplaceGroupMembers :: "uuid \<Rightarrow> uuid list \<Rightarrow> db \<Rightarrow> unit store_result" where
  "ReplaceGroupMembers groupID memberIDs d =
     (case insert_members groupID memberIDs
             (d\<lparr>members := sql_delete (\<lambda>m. m_GroupID m = groupID) (members d)\<rparr>) of
        None \<Rightarrow> (Inl ErrDB, d)
      | Some d' \<Rightarrow> (Inr (), d'))"

definition AddGroupMember :: "uuid \<Rightarrow> uuid \<Rightarrow> db \<Rightarrow> unit store_result" where
  "AddGroupMember groupID userID d =
     (case insert_member groupID userID d of None \<Rightarrow> (Inl ErrDB, d) | Some d' \<Rightarrow> (Inr (), d'))"

definition RemoveGroupMember :: "uuid \<Rightarrow> uuid \<Rightarrow> db \<Rightarrow> unit store_result" where
  "RemoveGroupMember groupID userID d =
     (Inr (), d\<lparr>members := sql_delete (\<lambda>m. m_GroupID m = groupID \<and> m_UserID m = userID) (members d)\<rparr>)"

definition DeleteGroup :: "uuid \<Rightarrow> db \<Rightarrow> unit store_result" where
  "DeleteGroup gid d = (Inr (), delete_group_row gid d)"

subsection \<open>Device grants\<close>

text \<open>\<open>CreateDeviceGrant\<close> fills in the identifier, the polling interval and the status
  when the caller left them empty (the caller \<open>handleDeviceAuthorization\<close> leaves the
  identifier and the status empty, so the row is always inserted as pending), and
  stores the scopes as one space-separated string.\<close>

definition CreateDeviceGrant :: "time \<Rightarrow> uuid \<Rightarrow> DeviceGrant \<Rightarrow> db \<Rightarrow> uuid store_result" where
  "CreateDeviceGrant now fresh g d =
     (let row = \<lparr>d_ID = (if d_ID g = uuid_nil then fresh else d_ID g),
                 d_DeviceCodeHash = d_DeviceCodeHash g, d_UserCodeHash = d_UserCodeHash g,
                 d_ClientID = d_ClientID g,
                 d_Scopes = Fields (Join CHR '' '' (d_Scopes g)),
                 d_Status = d_Status g, d_UserID = None, d_MFAVerified = False,
                 d_MFAVerifiedAt = None, d_ApproverIP = '''',
                 d_IntervalSec = (if d_IntervalSec g = 0 then 5 else d_IntervalSec g),
                 d_LastPolledAt = None, d_CreatedAt = current_timestamp now,
                 d_ExpiresAt = d_ExpiresAt g\<rparr> in
      insert_outcome (uniq_device_grants (device_grants d @ [row])) ErrConflict
        (d_ClientID g \<in> client_ids d) (d_ID row)
        d (d\<lparr>device_grants := device_grants d @ [row]\<rparr>))"

definition GetDeviceGrantByDeviceCodeHash :: "string \<Rightarrow> db \<Rightarrow> DeviceGrant store_result" where
  "GetDeviceGrantByDeviceCodeHash hash d =
     (select_row (\<lambda>g. d_DeviceCodeHash g = hash) (device_grants d), d)"

definition GetDeviceGrantByUserCodeHash :: "string \<Rightarrow> db \<Rightarrow> DeviceGrant store_result" where
  "GetDeviceGrantByUserCodeHash hash d =
     (select_row (\<lambda>g. d_UserCodeHash g = hash) (device_grants d), d)"

text \<open>The three guarded transitions share one shape: \<open>UPDATE ... WHERE id = ? AND
  status = ?\<close> with \<open>ErrNotFound\<close> when no row matched.\<close>

definition device_hit :: "uuid \<Rightarrow> DeviceGrantStatus \<Rightarrow> DeviceGrant \<Rightarrow> bool" where
  "device_hit gid st g \<longleftrightarrow> d_ID g = gid \<and> d_Status g = st"

definition device_transition ::
  "uuid \<Rightarrow> DeviceGrantStatus \<Rightarrow> (DeviceGrant \<Rightarrow> DeviceGrant) \<Rightarrow> db \<Rightarrow> unit store_result" where
  "device_transition gid st f d =
     (requireOneRow (rows_affected (device_hit gid st) (device_grants d)),
      d\<lparr>device_grants := sql_update (device_hit gid st) f (device_grants d)\<rparr>)"

definition MarkDeviceGrantApproved ::
  "uuid \<Rightarrow> uuid \<Rightarrow> bool \<Rightarrow> time option \<Rightarrow> string \<Rightarrow> db \<Rightarrow> unit store_result" where
  "MarkDeviceGrantApproved gid userID mfaVerified mfaVerifiedAt approverIP d =
     (if list_ex (device_hit gid DeviceGrantStatusPending) (device_grants d) \<and> userID \<notin> user_ids d
      then (Inl ErrDB, d)
      else device_transition gid DeviceGrantStatusPending
        (\<lambda>g. g\<lparr>d_Status := DeviceGrantStatusApproved, d_UserID := Some userID,
               d_MFAVerified := mfaVerified, d_MFAVerifiedAt := mfaVerifiedAt,
               d_ApproverIP := approverIP\<rparr>) d)"

definition MarkDeviceGrantDenied :: "uuid \<Rightarrow> string \<Rightarrow> db \<Rightarrow> unit store_result" where
  "MarkDeviceGrantDenied gid approverIP =
     device_transition gid DeviceGrantStatusPending
       (\<lambda>g. g\<lparr>d_Status := DeviceGrantStatusDenied, d_ApproverIP := approverIP\<rparr>)"

definition MarkDeviceGrantRedeemed :: "uuid \<Rightarrow> db \<Rightarrow> unit store_result" where
  "MarkDeviceGrantRedeemed gid =
     device_transition gid DeviceGrantStatusApproved
       (\<lambda>g. g\<lparr>d_Status := DeviceGrantStatusRedeemed\<rparr>)"

definition UpdateDeviceGrantPoll :: "uuid \<Rightarrow> time \<Rightarrow> int \<Rightarrow> db \<Rightarrow> unit store_result" where
  "UpdateDeviceGrantPoll gid now intervalSec d =
     (Inr (), d\<lparr>device_grants := sql_update (\<lambda>g. d_ID g = gid)
        (\<lambda>g. g\<lparr>d_LastPolledAt := Some now, d_IntervalSec := intervalSec\<rparr>) (device_grants d)\<rparr>)"

definition DeleteExpiredDeviceGrants :: "time \<Rightarrow> db \<Rightarrow> nat store_result" where
  "DeleteExpiredDeviceGrants now d =
     (let old = (\<lambda>g. d_ExpiresAt g < current_timestamp now) in
      (Inr (rows_affected old (device_grants d)),
       d\<lparr>device_grants := sql_delete old (device_grants d)\<rparr>))"

declare CreateClient_def [store_defs] GetClientByID_def [store_defs]
  GetClientByClientID_def [store_defs] ListClients_def [store_defs] UpdateClient_def [store_defs]
  UpdateClientDeviceGrant_def [store_defs] UpdateClientSecret_def [store_defs]
  DeleteClient_def [store_defs] UpdateClientPortalConfig_def [store_defs]
  ReplaceClientVisibility_def [store_defs] ListClientVisibility_def [store_defs]
  ListPortalClientsForUser_def [store_defs] CreateGroup_def [store_defs]
  GetGroupByID_def [store_defs] ListGroups_def [store_defs] UpdateGroup_def [store_defs]
  ReplaceGroupMembers_def [store_defs] AddGroupMember_def [store_defs]
  RemoveGroupMember_def [store_defs] DeleteGroup_def [store_defs] CreateDeviceGrant_def [store_defs]
  GetDeviceGrantByDeviceCodeHash_def [store_defs] GetDeviceGrantByUserCodeHash_def [store_defs]
  MarkDeviceGrantApproved_def [store_defs] MarkDeviceGrantDenied_def [store_defs]
  MarkDeviceGrantRedeemed_def [store_defs] UpdateDeviceGrantPoll_def [store_defs]
  DeleteExpiredDeviceGrants_def [store_defs]

subsection \<open>The methods keep the constraints\<close>

lemma wf_update_client:
  assumes "wf_db d" "\<And>c. c_ID (f c) = c_ID c" "\<And>c. c_ClientID (f c) = c_ClientID c"
  shows "wf_db (update_client cid f d)"
  using assms by (simp add: wf_defs update_client_def uniq_clients_def table_simps)

lemma wf_client_updates [store_wf]:
  assumes "wf_db d"
  shows "wf_db (snd (UpdateClient cid name ru sc pub bl d))"
    "wf_db (snd (UpdateClientDeviceGrant cid b d))"
    "wf_db (snd (UpdateClientSecret now cid h d))"
    "wf_db (snd (UpdateClientPortalConfig cid b l br ic v d))"
  using assms
  by (simp_all add: UpdateClient_def UpdateClientDeviceGrant_def UpdateClientSecret_def
      UpdateClientPortalConfig_def wf_update_client)

lemma wf_CreateClient [store_wf]:
  "wf_db d \<Longrightarrow> wf_db (snd (CreateClient now cid clid h name ru sc pub bl d))"
  by (simp add: wf_defs CreateClient_def insert_outcome_def Let_def fk_defs)

lemma wf_DeleteClient [store_wf]: "wf_db d \<Longrightarrow> wf_db (snd (DeleteClient cid d))"
  by (simp add: DeleteClient_def wf_delete_client_row)

lemma wf_append_visibility:
  assumes "wf_db d" "cid \<in> client_ids d" "gid \<in> group_ids d" "vid \<notin> set (map v_ID (visibility d))"
    "(cid, gid) \<notin> set (map (\<lambda>v. (v_ClientID v, v_GroupID v)) (visibility d))"
  shows "wf_db (d\<lparr>visibility := visibility d @
    [\<lparr>v_ID = vid, v_ClientID = cid, v_GroupID = gid, v_CreatedAt = t\<rparr>]\<rparr>)"
  using assms by (simp add: wf_defs fk_visibility_def)

lemma wf_insert_visibility:
  "wf_db d \<Longrightarrow> insert_visibility now cid rs d = Some d' \<Longrightarrow> wf_db d'"
proof (induction now cid rs d arbitrary: d' rule: insert_visibility.induct)
  case (2 now cid gid vid gids d)
  show ?case
  proof (cases "(cid, gid) \<in> set (map (\<lambda>v. (v_ClientID v, v_GroupID v)) (visibility d))")
    case True
    then show ?thesis using 2(1) [OF refl] 2(3,4) by simp
  next
    case False
    then have "vid \<notin> set (map v_ID (visibility d))" "cid \<in> client_ids d" "gid \<in> group_ids d"
      using 2(4) by (auto simp: Let_def split: if_splits)
    then show ?thesis
      using 2(2) [OF refl False] 2(3,4) False wf_append_visibility [OF 2(3)] by simp
  qed
qed simp

lemma wf_ReplaceClientVisibility [store_wf]:
  assumes "wf_db d" shows "wf_db (snd (ReplaceClientVisibility now cid rs d))"
proof -
  have "wf_db (d\<lparr>visibility := sql_delete (\<lambda>v. v_ClientID v = cid) (visibility d)\<rparr>)"
    using assms by (simp add: wf_defs table_simps)
  then show ?thesis
    using assms by (auto simp: ReplaceClientVisibility_def intro: wf_insert_visibility split: option.splits)
qed

lemma wf_CreateGroup [store_wf]: "wf_db d \<Longrightarrow> wf_db (snd (CreateGroup now gid name d))"
  by (simp add: wf_defs CreateGroup_def insert_outcome_def Let_def fk_defs)

lemma wf_UpdateGroup [store_wf]: "wf_db d \<Longrightarrow> wf_db (snd (UpdateGroup now gid name d))"
  by (simp add: wf_defs UpdateGroup_def table_simps)

lemma wf_append_member:
  assumes "wf_db d" "gid \<in> group_ids d" "uid \<in> user_ids d"
    "(gid, uid) \<notin> set (map (\<lambda>m. (m_GroupID m, m_UserID m)) (members d))"
  shows "wf_db (d\<lparr>members := members d @ [\<lparr>m_GroupID = gid, m_UserID = uid\<rparr>]\<rparr>)"
  using assms by (simp add: wf_defs fk_members_def uniq_members_def)

lemma wf_insert_member: "wf_db d \<Longrightarrow> insert_member gid uid d = Some d' \<Longrightarrow> wf_db d'"
  unfolding insert_member_def
  by (split if_split_asm, simp, split if_split_asm) (auto simp only: option.inject intro: wf_append_member)

lemma wf_insert_members: "wf_db d \<Longrightarrow> insert_members gid uids d = Some d' \<Longrightarrow> wf_db d'"
  by (induction uids arbitrary: d) (auto intro: wf_insert_member split: option.splits)

lemma wf_delete_members: "wf_db d \<Longrightarrow> wf_db (d\<lparr>members := sql_delete P (members d)\<rparr>)"
  by (simp add: wf_defs table_simps)

lemma wf_ReplaceGroupMembers [store_wf]: "wf_db d \<Longrightarrow> wf_db (snd (ReplaceGroupMembers gid uids d))"
  unfolding ReplaceGroupMembers_def
  using wf_insert_members [OF wf_delete_members] by (simp split: option.splits)

lemma wf_AddGroupMember [store_wf]: "wf_db d \<Longrightarrow> wf_db (snd (AddGroupMember gid uid d))"
  unfolding AddGroupMember_def using wf_insert_member by (simp split: option.splits)

lemma wf_RemoveGroupMember [store_wf]: "wf_db d \<Longrightarrow> wf_db (snd (RemoveGroupMember gid uid d))"
  by (simp add: RemoveGroupMember_def wf_delete_members)

lemma wf_DeleteGroup [store_wf]: "wf_db d \<Longrightarrow> wf_db (snd (DeleteGroup gid d))"
  by (simp add: DeleteGroup_def wf_delete_group_row)

lemma wf_CreateDeviceGrant [store_wf]: "wf_db d \<Longrightarrow> wf_db (snd (CreateDeviceGrant now fresh g d))"
  by (simp add: wf_defs CreateDeviceGrant_def insert_outcome_def Let_def fk_device_grants_def)

lemma wf_device_update:
  assumes "wf_db d" "\<And>g. d_ID (f g) = d_ID g" "\<And>g. d_DeviceCodeHash (f g) = d_DeviceCodeHash g"
    "\<And>g. d_UserCodeHash (f g) = d_UserCodeHash g" "\<And>g. d_ClientID (f g) = d_ClientID g"
    "\<And>g. g \<in> set (device_grants d) \<Longrightarrow> P g \<Longrightarrow> set_option (d_UserID (f g)) \<subseteq> user_ids d \<union> set_option (d_UserID g)"
  shows "wf_db (d\<lparr>device_grants := sql_update P f (device_grants d)\<rparr>)"
proof -
  have "fk_device_grants (client_ids d) (user_ids d) (sql_update P f (device_grants d))"
    if "fk_device_grants (client_ids d) (user_ids d) (device_grants d)"
    using that assms(5,6) unfolding fk_device_grants_def
    by (intro ball_sql_updateI) (simp, blast)
  then show ?thesis using assms(1-4) by (simp add: wf_defs table_simps)
qed

lemma wf_device_ops [store_wf]:
  assumes "wf_db d"
  shows "wf_db (snd (MarkDeviceGrantApproved gid uid b t ip d))"
    "wf_db (snd (MarkDeviceGrantDenied gid ip d))" "wf_db (snd (MarkDeviceGrantRedeemed gid d))"
    "wf_db (snd (UpdateDeviceGrantPoll gid now n d))" "wf_db (snd (DeleteExpiredDeviceGrants now d))"
  using assms
  by (auto simp: MarkDeviceGrantApproved_def MarkDeviceGrantDenied_def MarkDeviceGrantRedeemed_def
      UpdateDeviceGrantPoll_def device_transition_def list_ex_iff intro!: wf_device_update)
     (simp add: wf_defs DeleteExpiredDeviceGrants_def Let_def table_simps)

end
