(* ===== verification/Store_MFA.thy ===== *)
theory Store_MFA
  imports Store_Clients
begin

text \<open>
  The remaining SQLite stores: MFA credentials (\<open>sqlite_mfa.go\<close>), signing keys
  (\<open>sqlite_signingkeys.go\<close>), the external-id cache (\<open>sqlite_external_ids.go\<close>),
  integrations (\<open>sqlite_integrations.go\<close>) and the AWS federation catalogue
  (\<open>sqlite_awsfed.go\<close>), with the proof that every method keeps the schema's constraints.
\<close>

subsection \<open>TOTP and WebAuthn\<close>

definition CreateTOTPCredential :: "time \<Rightarrow> TOTPCredential \<Rightarrow> db \<Rightarrow> unit store_result" where
  "CreateTOTPCredential now c d =
     (let row = c\<lparr>t_CreatedAt := current_timestamp now\<rparr> in
      insert_outcome (uniq_totps (totps d @ [row])) ErrConflict (t_UserID c \<in> user_ids d) ()
        d (d\<lparr>totps := totps d @ [row]\<rparr>))"

definition GetTOTPByUserID :: "uuid \<Rightarrow> db \<Rightarrow> TOTPCredential store_result" where
  "GetTOTPByUserID userID d = (select_row (\<lambda>c. t_UserID c = userID) (totps d), d)"

definition EnableTOTP :: "uuid \<Rightarrow> db \<Rightarrow> unit store_result" where
  "EnableTOTP tid d =
     (Inr (), d\<lparr>totps := sql_update (\<lambda>c. t_ID c = tid) (\<lambda>c. c\<lparr>t_Enabled := True\<rparr>) (totps d)\<rparr>)"

definition DeleteTOTP :: "uuid \<Rightarrow> db \<Rightarrow> unit store_result" where
  "DeleteTOTP userID d = (Inr (), d\<lparr>totps := sql_delete (\<lambda>c. t_UserID c = userID) (totps d)\<rparr>)"

definition CreateWebAuthnCredential :: "time \<Rightarrow> WebAuthnCredential \<Rightarrow> db \<Rightarrow> unit store_result" where
  "CreateWebAuthnCredential now c d =
     (let row = c\<lparr>wc_CreatedAt := current_timestamp now, wc_LastUsedAt := current_timestamp now\<rparr> in
      insert_outcome (uniq_webauthns (webauthns d @ [row])) ErrConflict (wc_UserID c \<in> user_ids d) ()
        d (d\<lparr>webauthns := webauthns d @ [row]\<rparr>))"

definition ListWebAuthnCredentials :: "uuid \<Rightarrow> db \<Rightarrow> WebAuthnCredential list store_result" where
  "ListWebAuthnCredentials userID d =
     (Inr (sort_key wc_CreatedAt (filter (\<lambda>c. wc_UserID c = userID) (webauthns d))), d)"

definition UpdateWebAuthnCredentialUse ::
  "uuid \<Rightarrow> nat \<Rightarrow> bool \<Rightarrow> bool \<Rightarrow> time \<Rightarrow> db \<Rightarrow> unit store_result" where
  "UpdateWebAuthnCredentialUse wid signCount backupEligible backupState lastUsed d =
     (Inr (), d\<lparr>webauthns := sql_update (\<lambda>c. wc_ID c = wid)
        (\<lambda>c. c\<lparr>wc_SignCount := signCount, wc_BackupEligible := Some backupEligible,
               wc_BackupState := backupState, wc_LastUsedAt := lastUsed\<rparr>) (webauthns d)\<rparr>)"

definition DeleteWebAuthnCredential :: "uuid \<Rightarrow> uuid \<Rightarrow> db \<Rightarrow> unit store_result" where
  "DeleteWebAuthnCredential wid userID d =
     (Inr (), d\<lparr>webauthns := sql_delete (\<lambda>c. wc_ID c = wid \<and> wc_UserID c = userID) (webauthns d)\<rparr>)"

text \<open>\<open>expires_at\<close> defaults to \<open>datetime('now', '+5 minutes')\<close>, whole seconds.\<close>

definition CreateWebAuthnSession ::
  "time \<Rightarrow> uuid \<Rightarrow> uuid \<Rightarrow> bytes \<Rightarrow> string \<Rightarrow> db \<Rightarrow> uuid store_result" where
  "CreateWebAuthnSession now wid userID data purpose d =
     (let row = \<lparr>ws_ID = wid, ws_UserID = userID, ws_Data = data, ws_Purpose = purpose,
                 ws_ExpiresAt = current_timestamp now + 5 * minute\<rparr> in
      insert_outcome (distinct (map ws_ID (wa_sessions d @ [row]))) ErrDB (userID \<in> user_ids d) wid
        d (d\<lparr>wa_sessions := wa_sessions d @ [row]\<rparr>))"

definition GetWebAuthnSession :: "time \<Rightarrow> uuid \<Rightarrow> uuid \<Rightarrow> string \<Rightarrow> db \<Rightarrow> bytes store_result" where
  "GetWebAuthnSession now wid userID purpose d =
     (case select_row (\<lambda>s. ws_ID s = wid \<and> ws_UserID s = userID \<and> ws_Purpose s = purpose
             \<and> ws_ExpiresAt s > current_timestamp now) (wa_sessions d) of
        Inl e \<Rightarrow> Inl e
      | Inr s \<Rightarrow> Inr (ws_Data s), d)"

definition DeleteWebAuthnSession :: "uuid \<Rightarrow> db \<Rightarrow> unit store_result" where
  "DeleteWebAuthnSession wid d =
     (Inr (), d\<lparr>wa_sessions := sql_delete (\<lambda>s. ws_ID s = wid) (wa_sessions d)\<rparr>)"

subsection \<open>Signing keys\<close>

definition CreateSigningKey :: "time \<Rightarrow> SigningKey \<Rightarrow> db \<Rightarrow> unit store_result" where
  "CreateSigningKey now k d =
     (let row = k\<lparr>k_CreatedAt := current_timestamp now\<rparr> in
      insert_outcome (distinct (map k_ID (signing_keys d @ [row])) \<and> distinct (map k_KID (signing_keys d @ [row])))
        ErrDB True () d (d\<lparr>signing_keys := signing_keys d @ [row]\<rparr>))"

text \<open>\<open>ORDER BY created_at DESC\<close>: the newest first (rows of one second in the order
  a stable sort leaves them).\<close>

definition ListActiveSigningKeys :: "db \<Rightarrow> SigningKey list store_result" where
  "ListActiveSigningKeys d =
     (Inr (sort_key (\<lambda>k. - k_CreatedAt k) (filter k_Active (signing_keys d))), d)"

definition GetActiveSigningKey :: "db \<Rightarrow> SigningKey store_result" where
  "GetActiveSigningKey d =
     (case sort_key (\<lambda>k. - k_CreatedAt k) (filter k_Active (signing_keys d)) of
        [] \<Rightarrow> Inl ErrNotFound
      | k # ks \<Rightarrow> Inr k, d)"

definition DeactivateSigningKey :: "uuid \<Rightarrow> db \<Rightarrow> unit store_result" where
  "DeactivateSigningKey kid d =
     (Inr (), d\<lparr>signing_keys := sql_update (\<lambda>k. k_ID k = kid) (\<lambda>k. k\<lparr>k_Active := False\<rparr>) (signing_keys d)\<rparr>)"

subsection \<open>External identifiers\<close>

definition ext_hit :: "string \<Rightarrow> uuid \<Rightarrow> ExternalID \<Rightarrow> bool" where
  "ext_hit provider userID e \<longleftrightarrow> e_Provider e = provider \<and> e_UserID e = userID"

definition GetExternalID :: "string \<Rightarrow> uuid \<Rightarrow> db \<Rightarrow> string store_result" where
  "GetExternalID provider userID d =
     (case select_row (ext_hit provider userID) (ext_ids d) of
        Inl e \<Rightarrow> Inl e
      | Inr x \<Rightarrow> Inr (e_ExternalID x), d)"

definition SetExternalID :: "string \<Rightarrow> uuid \<Rightarrow> string \<Rightarrow> db \<Rightarrow> unit store_result" where
  "SetExternalID provider userID externalID d =
     (if list_ex (ext_hit provider userID) (ext_ids d)
      then (Inr (), d\<lparr>ext_ids := sql_update (ext_hit provider userID)
             (\<lambda>e. e\<lparr>e_ExternalID := externalID\<rparr>) (ext_ids d)\<rparr>)
      else if userID \<in> user_ids d
      then (Inr (), d\<lparr>ext_ids := ext_ids d @
             [\<lparr>e_Provider = provider, e_UserID = userID, e_ExternalID = externalID\<rparr>]\<rparr>)
      else (Inl ErrDB, d))"

definition DeleteExternalID :: "string \<Rightarrow> uuid \<Rightarrow> db \<Rightarrow> unit store_result" where
  "DeleteExternalID provider userID d =
     (Inr (), d\<lparr>ext_ids := sql_delete (ext_hit provider userID) (ext_ids d)\<rparr>)"

subsection \<open>Integrations\<close>

text \<open>The configuration is stored as JSON; marshalling and unmarshalling a struct of two
  strings and an integer gives the struct back, so the row keeps the record.\<close>

definition CreateIntegration :: "time \<Rightarrow> uuid \<Rightarrow> AppIntegration \<Rightarrow> db \<Rightarrow> AppIntegration store_result" where
  "CreateIntegration now fresh i d =
     (let row = i\<lparr>i_ID := (if i_ID i = uuid_nil then fresh else i_ID i),
                  i_CreatedAt := (if IsZero (i_CreatedAt i) then now else i_CreatedAt i),
                  i_UpdatedAt := now\<rparr> in
      insert_outcome (distinct (map i_ID (integrations d @ [row])) \<and> distinct (map i_Name (integrations d @ [row])))
        ErrConflict True row d (d\<lparr>integrations := integrations d @ [row]\<rparr>))"

definition GetIntegration :: "uuid \<Rightarrow> db \<Rightarrow> AppIntegration store_result" where
  "GetIntegration iid d = (select_row (\<lambda>i. i_ID i = iid) (integrations d), d)"

definition GetIntegrationByName :: "string \<Rightarrow> db \<Rightarrow> AppIntegration store_result" where
  "GetIntegrationByName name d = (select_row (\<lambda>i. i_Name i = name) (integrations d), d)"

definition ListIntegrations :: "db \<Rightarrow> AppIntegration list store_result" where
  "ListIntegrations d = (Inr (sort_key i_CreatedAt (integrations d)), d)"

definition ListEnabledIntegrations :: "db \<Rightarrow> AppIntegration list store_result" where
  "ListEnabledIntegrations d = (Inr (sort_key i_CreatedAt (filter i_Enabled (integrations d))), d)"

definition UpdateIntegration :: "time \<Rightarrow> AppIntegration \<Rightarrow> db \<Rightarrow> unit store_result" where
  "UpdateIntegration now i d =
     (let hit = (\<lambda>r. i_ID r = i_ID i);
          t = sql_update hit (\<lambda>r. r\<lparr>i_Name := i_Name i, i_Provider := i_Provider i,
                i_Enabled := i_Enabled i, i_Config := i_Config i,
                i_EncryptedToken := i_EncryptedToken i, i_EncryptedDEK := i_EncryptedDEK i,
                i_UpdatedAt := current_timestamp now\<rparr>) (integrations d) in
      if \<not> distinct (map i_Name t) then (Inl ErrConflict, d)
      else (requireOneRow (rows_affected hit (integrations d)), d\<lparr>integrations := t\<rparr>))"

definition DeleteIntegration :: "uuid \<Rightarrow> db \<Rightarrow> unit store_result" where
  "DeleteIntegration iid d =
     (requireOneRow (rows_affected (\<lambda>i. i_ID i = iid) (integrations d)),
      d\<lparr>integrations := sql_delete (\<lambda>i. i_ID i = iid) (integrations d)\<rparr>)"

subsection \<open>The AWS federation catalogue\<close>

definition CreateAWSAccount :: "time \<Rightarrow> uuid \<Rightarrow> AWSAccount \<Rightarrow> db \<Rightarrow> AWSAccount store_result" where
  "CreateAWSAccount now fresh a d =
     (let row = a\<lparr>aa_ID := (if aa_ID a = uuid_nil then fresh else aa_ID a),
                  aa_CreatedAt := (if IsZero (aa_CreatedAt a) then now else aa_CreatedAt a),
                  aa_UpdatedAt := now\<rparr> in
      insert_outcome (distinct (map aa_ID (aws_accounts d @ [row]))
          \<and> distinct (map aa_AccountID (aws_accounts d @ [row])))
        ErrConflict True row d (d\<lparr>aws_accounts := aws_accounts d @ [row]\<rparr>))"

definition GetAWSAccount :: "uuid \<Rightarrow> db \<Rightarrow> AWSAccount store_result" where
  "GetAWSAccount aid d = (select_row (\<lambda>a. aa_ID a = aid) (aws_accounts d), d)"

definition ListAWSAccounts :: "db \<Rightarrow> AWSAccount list store_result" where
  "ListAWSAccounts d =
     (Inr (sort_by (\<lambda>a b. name_le (aa_AccountID a) (aa_AccountID b)) (aws_accounts d)), d)"

definition UpdateAWSAccount :: "time \<Rightarrow> AWSAccount \<Rightarrow> db \<Rightarrow> unit store_result" where
  "UpdateAWSAccount now a d =
     (let hit = (\<lambda>r. aa_ID r = aa_ID a);
          t = sql_update hit (\<lambda>r. r\<lparr>aa_AccountID := aa_AccountID a, aa_Alias := aa_Alias a,
                aa_OIDCProviderARN := aa_OIDCProviderARN a, aa_UpdatedAt := now\<rparr>) (aws_accounts d) in
      if \<not> distinct (map aa_AccountID t) then (Inl ErrConflict, d)
      else (requireOneRow (rows_affected hit (aws_accounts d)), d\<lparr>aws_accounts := t\<rparr>))"

definition DeleteAWSAccount :: "uuid \<Rightarrow> db \<Rightarrow> unit store_result" where
  "DeleteAWSAccount aid d =
     (requireOneRow (rows_affected (\<lambda>a. aa_ID a = aid) (aws_accounts d)), delete_account_row aid d)"

text \<open>The region list is stored in the encoding of \<open>model.EncodeRegions\<close> and decoded when
  a role is read; the row keeps the decoded value.\<close>

definition CreateAWSRole :: "time \<Rightarrow> uuid \<Rightarrow> AWSRole \<Rightarrow> db \<Rightarrow> AWSRole store_result" where
  "CreateAWSRole now fresh r d =
     (let filled = r\<lparr>ar_ID := (if ar_ID r = uuid_nil then fresh else ar_ID r),
                  ar_MaxSessionDurationSec :=
                    (if ar_MaxSessionDurationSec r = 0 then 3600 else ar_MaxSessionDurationSec r),
                  ar_CreatedAt := (if IsZero (ar_CreatedAt r) then now else ar_CreatedAt r),
                  ar_UpdatedAt := now\<rparr>;
          row = filled\<lparr>ar_AllowedRegions := DecodeRegions (EncodeRegions (ar_AllowedRegions r))\<rparr> in
      insert_outcome (distinct (map ar_ID (aws_roles d @ [row]))
          \<and> distinct (map ar_RoleARN (aws_roles d @ [row])))
        ErrConflict (ar_AccountID r \<in> account_ids d) filled
        d (d\<lparr>aws_roles := aws_roles d @ [row]\<rparr>))"

definition GetAWSRole :: "uuid \<Rightarrow> db \<Rightarrow> AWSRole store_result" where
  "GetAWSRole rid d = (select_row (\<lambda>r. ar_ID r = rid) (aws_roles d), d)"

definition ListAWSRoles :: "db \<Rightarrow> AWSRole list store_result" where
  "ListAWSRoles d =
     (Inr (sort_by (\<lambda>a b. name_le (ar_DisplayName a) (ar_DisplayName b)) (aws_roles d)), d)"

definition UpdateAWSRole :: "time \<Rightarrow> AWSRole \<Rightarrow> db \<Rightarrow> unit store_result" where
  "UpdateAWSRole now r d =
     (let hit = (\<lambda>x. ar_ID x = ar_ID r);
          t = sql_update hit (\<lambda>x. x\<lparr>ar_RoleARN := ar_RoleARN r, ar_Slug := ar_Slug r,
                ar_DisplayName := ar_DisplayName r, ar_RequireStepUpMFA := ar_RequireStepUpMFA r,
                ar_MaxSessionDurationSec := ar_MaxSessionDurationSec r,
                ar_AllowedRegions := DecodeRegions (EncodeRegions (ar_AllowedRegions r)),
                ar_UpdatedAt := now\<rparr>) (aws_roles d) in
      if \<not> distinct (map ar_RoleARN t) then (Inl ErrConflict, d)
      else (requireOneRow (rows_affected hit (aws_roles d)), d\<lparr>aws_roles := t\<rparr>))"

definition DeleteAWSRole :: "uuid \<Rightarrow> db \<Rightarrow> unit store_result" where
  "DeleteAWSRole rid d =
     (requireOneRow (rows_affected (\<lambda>r. ar_ID r = rid) (aws_roles d)),
      delete_roles (\<lambda>r. ar_ID r = rid) d)"

definition CreateAWSRoleAssignment ::
  "time \<Rightarrow> uuid \<Rightarrow> AWSRoleAssignment \<Rightarrow> db \<Rightarrow> AWSRoleAssignment store_result" where
  "CreateAWSRoleAssignment now fresh a d =
     (let row = a\<lparr>as_ID := (if as_ID a = uuid_nil then fresh else as_ID a),
                  as_CreatedAt := (if IsZero (as_CreatedAt a) then now else as_CreatedAt a)\<rparr> in
      insert_outcome (distinct (map as_ID (aws_assignments d @ [row]))
          \<and> distinct (map (\<lambda>x. (as_GroupID x, as_RoleID x)) (aws_assignments d @ [row])))
        ErrConflict (as_GroupID a \<in> group_ids d \<and> as_RoleID a \<in> role_ids d) row
        d (d\<lparr>aws_assignments := aws_assignments d @ [row]\<rparr>))"

definition ListAWSRoleAssignments :: "db \<Rightarrow> AWSRoleAssignment list store_result" where
  "ListAWSRoleAssignments d = (Inr (sort_key as_CreatedAt (aws_assignments d)), d)"

text \<open>The join of \<open>ListAWSRolesForUser\<close>: the roles some group of the user is assigned to.\<close>

definition role_assigned_to :: "uuid \<Rightarrow> db \<Rightarrow> AWSRole \<Rightarrow> bool" where
  "role_assigned_to userID d r \<longleftrightarrow>
     list_ex (\<lambda>a. as_RoleID a = ar_ID r \<and>
       list_ex (\<lambda>m. m_GroupID m = as_GroupID a \<and> m_UserID m = userID) (members d)) (aws_assignments d)"

definition ListAWSRolesForUser :: "uuid \<Rightarrow> db \<Rightarrow> AWSRole list store_result" where
  "ListAWSRolesForUser userID d =
     (Inr (sort_by (\<lambda>a b. name_le (ar_DisplayName a) (ar_DisplayName b))
        (filter (role_assigned_to userID d) (aws_roles d))), d)"

definition DeleteAWSRoleAssignment :: "uuid \<Rightarrow> db \<Rightarrow> unit store_result" where
  "DeleteAWSRoleAssignment aid d =
     (requireOneRow (rows_affected (\<lambda>a. as_ID a = aid) (aws_assignments d)),
      d\<lparr>aws_assignments := sql_delete (\<lambda>a. as_ID a = aid) (aws_assignments d)\<rparr>)"

definition revoked_hit :: "uuid \<Rightarrow> string \<Rightarrow> AWSRevokedUser \<Rightarrow> bool" where
  "revoked_hit roleID subUUID v \<longleftrightarrow> rv_RoleID v = roleID \<and> rv_SubUUID v = subUUID"

definition AddAWSRevokedUser :: "time \<Rightarrow> uuid \<Rightarrow> string \<Rightarrow> db \<Rightarrow> unit store_result" where
  "AddAWSRevokedUser now roleID subUUID d =
     (if list_ex (revoked_hit roleID subUUID) (aws_revoked d)
      then (Inr (), d\<lparr>aws_revoked := sql_update (revoked_hit roleID subUUID)
             (\<lambda>v. v\<lparr>rv_RevokedAt := now\<rparr>) (aws_revoked d)\<rparr>)
      else if roleID \<in> role_ids d
      then (Inr (), d\<lparr>aws_revoked := aws_revoked d @
             [\<lparr>rv_RoleID = roleID, rv_SubUUID = subUUID, rv_RevokedAt = now\<rparr>]\<rparr>)
      else (Inl ErrDB, d))"

definition ListAWSRevokedUsers :: "uuid \<Rightarrow> db \<Rightarrow> AWSRevokedUser list store_result" where
  "ListAWSRevokedUsers roleID d =
     (Inr (sort_key rv_RevokedAt (filter (\<lambda>v. rv_RoleID v = roleID) (aws_revoked d))), d)"

definition ListAWSRevokedUsersOlderThan :: "time \<Rightarrow> db \<Rightarrow> AWSRevokedUser list store_result" where
  "ListAWSRevokedUsersOlderThan cutoff d =
     (Inr (sort_key rv_RevokedAt (filter (\<lambda>v. rv_RevokedAt v < cutoff) (aws_revoked d))), d)"

definition DeleteAWSRevokedUser :: "uuid \<Rightarrow> string \<Rightarrow> db \<Rightarrow> unit store_result" where
  "DeleteAWSRevokedUser roleID subUUID d =
     (Inr (), d\<lparr>aws_revoked := sql_delete (revoked_hit roleID subUUID) (aws_revoked d)\<rparr>)"

subsection \<open>The methods keep the constraints\<close>

lemma fk_col_update:
  "(\<And>r. k (f r) = k r) \<Longrightarrow> fk_col k us (sql_update P f t) = fk_col k us t"
  by (simp add: fk_col_def ball_sql_update)

lemma fk_col_append [simp]: "fk_col k us (t @ [r]) \<longleftrightarrow> fk_col k us t \<and> k r \<in> us"
  by (auto simp: fk_col_def)

lemma fk_col_insert: "fk_col k us t \<Longrightarrow> fk_col k (insert i us) t"
  by (auto simp: fk_col_def)

lemma wf_mfa_inserts [store_wf]:
  assumes "wf_db d"
  shows "wf_db (snd (CreateTOTPCredential now c d))" "wf_db (snd (CreateWebAuthnCredential now w d))"
    "wf_db (snd (CreateWebAuthnSession now wid uid dat p d))"
  using assms
  by (simp_all add: wf_defs CreateTOTPCredential_def CreateWebAuthnCredential_def
      CreateWebAuthnSession_def insert_outcome_def Let_def)

lemma wf_mfa_updates [store_wf]:
  assumes "wf_db d"
  shows "wf_db (snd (EnableTOTP tid d))" "wf_db (snd (UpdateWebAuthnCredentialUse wid n be bs t d))"
  using assms
  by (simp_all add: wf_defs EnableTOTP_def UpdateWebAuthnCredentialUse_def uniq_totps_def
      uniq_webauthns_def table_simps fk_col_update)

lemma wf_mfa_deletes [store_wf]:
  assumes "wf_db d"
  shows "wf_db (snd (DeleteTOTP uid d))" "wf_db (snd (DeleteWebAuthnCredential wid uid d))"
    "wf_db (snd (DeleteWebAuthnSession wid d))"
  using assms
  by (simp_all add: wf_defs DeleteTOTP_def DeleteWebAuthnCredential_def DeleteWebAuthnSession_def table_simps)

lemma wf_signing_keys [store_wf]:
  assumes "wf_db d"
  shows "wf_db (snd (CreateSigningKey now k d))" "wf_db (snd (DeactivateSigningKey kid d))"
  using assms
  by (simp_all add: wf_defs CreateSigningKey_def DeactivateSigningKey_def insert_outcome_def Let_def table_simps)

lemma wf_SetExternalID [store_wf]:
  assumes "wf_db d" shows "wf_db (snd (SetExternalID p uid x d))"
proof -
  have "distinct (map (\<lambda>e. (e_Provider e, e_UserID e)) (t @ [\<lparr>e_Provider = p, e_UserID = uid, e_ExternalID = x\<rparr>]))"
    if "distinct (map (\<lambda>e. (e_Provider e, e_UserID e)) t)" "\<not> list_ex (ext_hit p uid) t" for t
    using that by (auto simp: list_ex_iff ext_hit_def)
  then show ?thesis
    using assms by (simp add: wf_defs SetExternalID_def table_simps fk_col_update)
qed

lemma wf_DeleteExternalID [store_wf]: "wf_db d \<Longrightarrow> wf_db (snd (DeleteExternalID p uid d))"
  by (simp add: wf_defs DeleteExternalID_def table_simps)

lemma wf_integrations [store_wf]:
  assumes "wf_db d"
  shows "wf_db (snd (CreateIntegration now fresh i d))" "wf_db (snd (UpdateIntegration now i d))"
    "wf_db (snd (DeleteIntegration iid d))"
  using assms
  by (simp_all add: wf_defs CreateIntegration_def UpdateIntegration_def DeleteIntegration_def
      insert_outcome_def Let_def table_simps)

lemma wf_aws_accounts [store_wf]:
  assumes "wf_db d"
  shows "wf_db (snd (CreateAWSAccount now fresh a d))" "wf_db (snd (UpdateAWSAccount now a d))"
    "wf_db (snd (DeleteAWSAccount aid d))"
  using assms wf_delete_account_row
  by (simp_all add: wf_defs CreateAWSAccount_def UpdateAWSAccount_def DeleteAWSAccount_def
      insert_outcome_def Let_def table_simps fk_col_insert)

lemma wf_CreateAWSRole [store_wf]: "wf_db d \<Longrightarrow> wf_db (snd (CreateAWSRole now fresh r d))"
  by (simp add: wf_defs CreateAWSRole_def insert_outcome_def Let_def fk_col_insert fk_assignments_def)

lemma wf_UpdateAWSRole [store_wf]: "wf_db d \<Longrightarrow> wf_db (snd (UpdateAWSRole now r d))"
  by (simp add: wf_defs UpdateAWSRole_def Let_def table_simps fk_col_update)

lemma wf_DeleteAWSRole [store_wf]: "wf_db d \<Longrightarrow> wf_db (snd (DeleteAWSRole rid d))"
  by (simp add: DeleteAWSRole_def wf_delete_roles)

lemma wf_assignments [store_wf]:
  assumes "wf_db d"
  shows "wf_db (snd (CreateAWSRoleAssignment now fresh a d))" "wf_db (snd (DeleteAWSRoleAssignment aid d))"
  using assms
  by (simp_all add: wf_defs CreateAWSRoleAssignment_def DeleteAWSRoleAssignment_def insert_outcome_def
      Let_def table_simps fk_assignments_def) (auto simp: table_sets)

lemma wf_AddAWSRevokedUser [store_wf]:
  assumes "wf_db d" shows "wf_db (snd (AddAWSRevokedUser now rid sub d))"
proof -
  have "distinct (map (\<lambda>v. (rv_RoleID v, rv_SubUUID v)) (t @ [\<lparr>rv_RoleID = rid, rv_SubUUID = sub, rv_RevokedAt = now\<rparr>]))"
    if "distinct (map (\<lambda>v. (rv_RoleID v, rv_SubUUID v)) t)" "\<not> list_ex (revoked_hit rid sub) t" for t
    using that by (auto simp: list_ex_iff revoked_hit_def)
  then show ?thesis
    using assms by (simp add: wf_defs AddAWSRevokedUser_def table_simps fk_col_update)
qed

lemma wf_DeleteAWSRevokedUser [store_wf]: "wf_db d \<Longrightarrow> wf_db (snd (DeleteAWSRevokedUser rid sub d))"
  by (simp add: wf_defs DeleteAWSRevokedUser_def table_simps)

subsection \<open>Queries do not change the database\<close>

lemma store_reads [simp]:
  "snd (GetUserByID uid d) = d" "snd (GetUserByEmail e d) = d" "snd (CountUsers d) = d"
  "snd (ListUsers d) = d" "snd (GetGrantByCodeHash h d) = d"
  "snd (GetSessionByAccessTokenHash h d) = d" "snd (GetSessionByRefreshTokenHash h d) = d"
  "snd (GetSessionByRetiredRefreshTokenHash h d) = d" "snd (ListSessionClientIDsByUser uid d) = d"
  "snd (GetClientByID cid d) = d" "snd (GetClientByClientID clid d) = d" "snd (ListClients d) = d"
  "snd (ListClientVisibility cid d) = d" "snd (ListPortalClientsForUser uid d) = d"
  "snd (GetGroupByID gid d) = d" "snd (ListGroups d) = d"
  "snd (GetDeviceGrantByDeviceCodeHash h d) = d" "snd (GetDeviceGrantByUserCodeHash h d) = d"
  "snd (GetTOTPByUserID uid d) = d" "snd (ListWebAuthnCredentials uid d) = d"
  "snd (GetWebAuthnSession now wid uid p d) = d" "snd (GetActiveSigningKey d) = d"
  "snd (ListActiveSigningKeys d) = d" "snd (GetExternalID p uid d) = d"
  "snd (GetIntegration iid d) = d" "snd (GetIntegrationByName n d) = d"
  "snd (ListIntegrations d) = d" "snd (ListEnabledIntegrations d) = d"
  "snd (GetAWSAccount aid d) = d" "snd (ListAWSAccounts d) = d" "snd (GetAWSRole rid d) = d"
  "snd (ListAWSRoles d) = d" "snd (ListAWSRoleAssignments d) = d" "snd (ListAWSRolesForUser uid d) = d"
  "snd (ListAWSRevokedUsers rid d) = d" "snd (ListAWSRevokedUsersOlderThan t d) = d"
  by (simp_all add: GetUserByID_def GetUserByEmail_def CountUsers_def ListUsers_def
      GetGrantByCodeHash_def GetSessionByAccessTokenHash_def GetSessionByRefreshTokenHash_def
      GetSessionByRetiredRefreshTokenHash_def ListSessionClientIDsByUser_def GetClientByID_def
      GetClientByClientID_def ListClients_def ListClientVisibility_def ListPortalClientsForUser_def
      GetGroupByID_def ListGroups_def GetDeviceGrantByDeviceCodeHash_def
      GetDeviceGrantByUserCodeHash_def GetTOTPByUserID_def ListWebAuthnCredentials_def
      GetWebAuthnSession_def GetActiveSigningKey_def ListActiveSigningKeys_def GetExternalID_def
      GetIntegration_def GetIntegrationByName_def ListIntegrations_def ListEnabledIntegrations_def
      GetAWSAccount_def ListAWSAccounts_def GetAWSRole_def ListAWSRoles_def
      ListAWSRoleAssignments_def ListAWSRolesForUser_def ListAWSRevokedUsers_def
      ListAWSRevokedUsersOlderThan_def)

subsection \<open>What the methods leave alone\<close>

declare CreateTOTPCredential_def [store_defs] EnableTOTP_def [store_defs] DeleteTOTP_def [store_defs]
  CreateWebAuthnCredential_def [store_defs] UpdateWebAuthnCredentialUse_def [store_defs]
  DeleteWebAuthnCredential_def [store_defs] CreateWebAuthnSession_def [store_defs]
  DeleteWebAuthnSession_def [store_defs] CreateSigningKey_def [store_defs]
  DeactivateSigningKey_def [store_defs] SetExternalID_def [store_defs] DeleteExternalID_def [store_defs]
  CreateIntegration_def [store_defs] UpdateIntegration_def [store_defs]
  DeleteIntegration_def [store_defs] CreateAWSAccount_def [store_defs]
  UpdateAWSAccount_def [store_defs] DeleteAWSAccount_def [store_defs] CreateAWSRole_def [store_defs]
  UpdateAWSRole_def [store_defs] DeleteAWSRole_def [store_defs]
  CreateAWSRoleAssignment_def [store_defs] DeleteAWSRoleAssignment_def [store_defs]
  AddAWSRevokedUser_def [store_defs] DeleteAWSRevokedUser_def [store_defs]
  update_client_def [store_defs] device_transition_def [store_defs]

named_theorems frames "tables a store method leaves alone"

definition core_same :: "db \<Rightarrow> db \<Rightarrow> bool" where
  "core_same d d' \<longleftrightarrow> sessions d' = sessions d \<and> retired d' = retired d \<and> grants d' = grants d
     \<and> device_grants d' = device_grants d"

lemma core_same_refl [simp]: "core_same d d"
  by (simp add: core_same_def)

lemma insert_visibility_frame: "insert_visibility now cid rs d = Some d' \<Longrightarrow> core_same d d'"
proof (induction now cid rs d rule: insert_visibility.induct)
  case (2 now cid gid vid gids d)
  then show ?case by (auto simp: Let_def core_same_def split: if_splits)
qed simp

lemma insert_members_frame: "insert_members gid uids d = Some d' \<Longrightarrow> core_same d d'"
proof (induction gid uids d rule: insert_members.induct)
  case (2 gid uid uids d)
  then show ?case by (auto simp: insert_member_def core_same_def split: if_splits option.splits)
qed simp

text \<open>The methods that do not touch sessions, retired tokens, authorization codes or device
  grants.\<close>

lemma core_same_ops [frames]:
  "core_same d (snd (CreateUser now uid e ph n d))" "core_same d (snd (UpdateUser now uid n b d))"
  "core_same d (snd (UpdateUserPassword now uid ph d))"
  "core_same d (snd (SetUserMustChangePassword now uid b d))"
  "core_same d (snd (UpdateUserMFAEnabled now uid b d))"
  "core_same d (snd (UpdateUserFailedAttempts now uid k lu d))"
  "core_same d (snd (SetUserActive now uid b d))" "core_same d (snd (SetUserSCIMExternalID now uid x d))"
  "core_same d (snd (SetUserAdmin now uid b d))"
  "core_same d (snd (CreateClient now cid clid h n ru sc b bl d))"
  "core_same d (snd (UpdateClient cid n ru sc b bl d))" "core_same d (snd (UpdateClientDeviceGrant cid b d))"
  "core_same d (snd (UpdateClientSecret now cid h d))"
  "core_same d (snd (UpdateClientPortalConfig cid b x y z b2 d))"
  "core_same d (snd (CreateGroup now gid n d))" "core_same d (snd (UpdateGroup now gid n d))"
  "core_same d (snd (RemoveGroupMember gid uid d))" "core_same d (snd (DeleteGroup gid d))"
  "core_same d (snd (CreateTOTPCredential now tc d))" "core_same d (snd (EnableTOTP tid d))"
  "core_same d (snd (DeleteTOTP uid d))" "core_same d (snd (CreateWebAuthnCredential now wc d))"
  "core_same d (snd (UpdateWebAuthnCredentialUse wid m be bs t d))"
  "core_same d (snd (DeleteWebAuthnCredential wid uid d))"
  "core_same d (snd (CreateWebAuthnSession now wid uid dat p d))"
  "core_same d (snd (DeleteWebAuthnSession wid d))"
  "core_same d (snd (CreateSigningKey now k2 d))" "core_same d (snd (DeactivateSigningKey kid d))"
  "core_same d (snd (SetExternalID p uid x d))" "core_same d (snd (DeleteExternalID p uid d))"
  "core_same d (snd (CreateIntegration now fresh i d))" "core_same d (snd (UpdateIntegration now i d))"
  "core_same d (snd (DeleteIntegration iid d))"
  by (simp_all add: store_defs Let_def insert_outcome_def core_same_def delete_group_row_def)

lemma core_same_aws [frames]:
  "core_same d (snd (CreateAWSAccount now fresh a d))" "core_same d (snd (UpdateAWSAccount now a d))"
  "core_same d (snd (DeleteAWSAccount aid d))" "core_same d (snd (CreateAWSRole now fresh r d))"
  "core_same d (snd (UpdateAWSRole now r d))" "core_same d (snd (DeleteAWSRole rid d))"
  "core_same d (snd (CreateAWSRoleAssignment now fresh ra d))"
  "core_same d (snd (DeleteAWSRoleAssignment aid d))"
  "core_same d (snd (AddAWSRevokedUser now rid sub d))" "core_same d (snd (DeleteAWSRevokedUser rid sub d))"
  by (simp_all add: store_defs Let_def insert_outcome_def core_same_def delete_account_row_def
      delete_roles_def)

lemma core_same_members [frames]:
  "core_same d (snd (ReplaceClientVisibility now cid rs d))"
  "core_same d (snd (ReplaceGroupMembers gid uids d))" "core_same d (snd (AddGroupMember gid uid d))"
  using insert_visibility_frame insert_members_frame
  by (fastforce simp: ReplaceClientVisibility_def ReplaceGroupMembers_def AddGroupMember_def
      insert_member_def core_same_def split: option.splits)+

end
