(* ===== verification/Policy.thy ===== *)
theory Policy
  imports Model
begin

text \<open>
  The policy engine of \<open>src/internal/policy\<close>: the context, the seven PCI rules with their
  parameters, and the engine (\<open>Evaluate\<close>, \<open>First\<close>). A rule is a constructor of the
  datatype \<open>Rule\<close> carrying the fields of the Go struct; \<open>now\<close> is the value of
  \<open>time.Now()\<close>. Ranging over a password decodes UTF-8 as Go does (an invalid byte is
  U+FFFD); the Unicode category tables of package \<open>unicode\<close> are the record
  \<open>unicode_tables\<close>.
\<close>

subsection \<open>Decoding runes\<close>

record unicode_tables =
  ut_IsUpper :: "nat \<Rightarrow> bool"
  ut_IsLower :: "nat \<Rightarrow> bool"
  ut_IsDigit :: "nat \<Rightarrow> bool"
  ut_IsLetter :: "nat \<Rightarrow> bool"

definition cont :: "nat \<Rightarrow> bool" where "cont b \<longleftrightarrow> 128 \<le> b \<and> b \<le> 191"

text \<open>The number of bytes and the code point of the first rune of a non-empty byte list.\<close>

definition decode_rune :: "nat list \<Rightarrow> nat \<times> nat" where
  "decode_rune bs =
     (case bs of
        [] \<Rightarrow> (1, 65533)
      | b0 # r1 \<Rightarrow>
        if b0 < 128 then (1, b0)
        else (case r1 of
          [] \<Rightarrow> (1, 65533)
        | b1 # r2 \<Rightarrow>
          if 194 \<le> b0 \<and> b0 \<le> 223 \<and> cont b1 then (2, (b0 - 192) * 64 + (b1 - 128))
          else (case r2 of
            [] \<Rightarrow> (1, 65533)
          | b2 # r3 \<Rightarrow>
            if 224 \<le> b0 \<and> b0 \<le> 239 \<and> cont b1 \<and> cont b2
              \<and> (b0 = 224 \<longrightarrow> 160 \<le> b1) \<and> (b0 = 237 \<longrightarrow> b1 \<le> 159)
            then (3, (b0 - 224) * 4096 + (b1 - 128) * 64 + (b2 - 128))
            else (case r3 of
              [] \<Rightarrow> (1, 65533)
            | b3 # r4 \<Rightarrow>
              if 240 \<le> b0 \<and> b0 \<le> 244 \<and> cont b1 \<and> cont b2 \<and> cont b3
                \<and> (b0 = 240 \<longrightarrow> 144 \<le> b1) \<and> (b0 = 244 \<longrightarrow> b1 \<le> 143)
              then (4, (b0 - 240) * 262144 + (b1 - 128) * 4096 + (b2 - 128) * 64 + (b3 - 128))
              else (1, 65533)))))"

lemma decode_rune_width: "0 < fst (decode_rune bs)"
  by (simp add: decode_rune_def split: list.splits)

function runes :: "nat list \<Rightarrow> nat list" where
  "runes [] = []"
| "runes (b # bs) = snd (decode_rune (b # bs)) # runes (drop (fst (decode_rune (b # bs))) (b # bs))"
  by pat_completeness auto
termination
proof (relation "measure length", simp)
  fix b :: nat and bs
  show "(drop (fst (decode_rune (b # bs))) (b # bs), b # bs) \<in> measure length"
    using decode_rune_width [of "b # bs"] by simp
qed

definition string_runes :: "string \<Rightarrow> nat list" where
  "string_runes s = runes (map char_code s)"

subsection \<open>Contexts, violations and rules\<close>

record PolicyContext =
  pc_User :: "User option"
  pc_Client :: "Client option"
  pc_Scopes :: "string list"
  pc_Password :: string
  pc_MFAVerified :: bool
  pc_SessionAge :: duration
  pc_LastActivity :: duration

record PolicyViolation =
  pv_RuleID :: string
  pv_Description :: string
  pv_Message :: string

datatype Rule =
  PasswordComplexityRule
| PasswordAgeRule int
| AccountLockoutRule int duration
| MFARequiredRule
| SessionIdleTimeoutRule duration string
| TokenLifetimeRule duration duration
| ClientSecretAgeRule duration

definition DefaultPCIRules :: "Rule list" where
  "DefaultPCIRules =
     [PasswordComplexityRule, PasswordAgeRule 90, AccountLockoutRule 10 (30 * minute),
      MFARequiredRule, SessionIdleTimeoutRule (15 * minute) ''cde'',
      TokenLifetimeRule hour (24 * hour), ClientSecretAgeRule (365 * 24 * hour)]"

primrec rule_ID :: "Rule \<Rightarrow> string" where
  "rule_ID PasswordComplexityRule = ''PCI-8.3.6''"
| "rule_ID (PasswordAgeRule m) = ''PCI-8.3.9''"
| "rule_ID (AccountLockoutRule m l) = ''PCI-8.3.4''"
| "rule_ID MFARequiredRule = ''PCI-8.4.2''"
| "rule_ID (SessionIdleTimeoutRule m c) = ''PCI-8.2.8-idle''"
| "rule_ID (TokenLifetimeRule a r) = ''PCI-8.2.8-lifetime''"
| "rule_ID (ClientSecretAgeRule m) = ''PCI-8.6.1''"

primrec rule_Description :: "Rule \<Rightarrow> string" where
  "rule_Description PasswordComplexityRule =
     ''Password must be '' @ [CHR 0xE2, CHR 0x89, CHR 0xA5] @
     ''12 chars with mixed case, digit, and special character''"
| "rule_Description (PasswordAgeRule m) =
     ''Password must be changed at least every 90 days when MFA is not enabled''"
| "rule_Description (AccountLockoutRule m l) = ''Account is locked after 10 consecutive failures''"
| "rule_Description MFARequiredRule =
     ''MFA must be verified before tokens are issued to confidential clients''"
| "rule_Description (SessionIdleTimeoutRule m c) =
     ''Sessions accessing CDE must timeout after 15 minutes of inactivity''"
| "rule_Description (TokenLifetimeRule a r) = ''Access tokens max 1h; refresh tokens max 24h''"
| "rule_Description (ClientSecretAgeRule m) =
     ''Machine client secrets must be rotated at least every 12 months''"

definition violation :: "Rule \<Rightarrow> string \<Rightarrow> PolicyViolation option" where
  "violation r msg =
     Some \<lparr>pv_RuleID = rule_ID r, pv_Description = rule_Description r, pv_Message = msg\<rparr>"

definition containsScope :: "string list \<Rightarrow> string \<Rightarrow> bool" where
  "containsScope scopes target = list_ex (\<lambda>s. EqualFold s target) scopes"

text \<open>The four flags the loop over the runes sets; the \<open>switch\<close> takes the first case that
  applies.\<close>

fun scan_classes ::
  "unicode_tables \<Rightarrow> nat list \<Rightarrow> bool \<times> bool \<times> bool \<times> bool \<Rightarrow> bool \<times> bool \<times> bool \<times> bool" where
  "scan_classes u [] flags = flags"
| "scan_classes u (c # cs) (hasUpper, hasLower, hasDigit, hasSpecial) =
     scan_classes u cs
       (if ut_IsUpper u c then (True, hasLower, hasDigit, hasSpecial)
        else if ut_IsLower u c then (hasUpper, True, hasDigit, hasSpecial)
        else if ut_IsDigit u c then (hasUpper, hasLower, True, hasSpecial)
        else if \<not> ut_IsLetter u c \<and> \<not> ut_IsDigit u c then (hasUpper, hasLower, hasDigit, True)
        else (hasUpper, hasLower, hasDigit, hasSpecial))"

definition eval_PasswordComplexity :: "unicode_tables \<Rightarrow> PolicyContext \<Rightarrow> PolicyViolation option" where
  "eval_PasswordComplexity u ctx =
     (let p = pc_Password ctx in
      if p = [] then None
      else if length p < 12
      then violation PasswordComplexityRule ''password must be at least 12 characters''
      else (case scan_classes u (string_runes p) (False, False, False, False) of
        (hasUpper, hasLower, hasDigit, hasSpecial) \<Rightarrow>
          if \<not> hasUpper \<or> \<not> hasLower \<or> \<not> hasDigit \<or> \<not> hasSpecial
          then violation PasswordComplexityRule
            ''password must contain uppercase, lowercase, digit, and special character''
          else None))"

definition eval_PasswordAge :: "int \<Rightarrow> time \<Rightarrow> PolicyContext \<Rightarrow> PolicyViolation option" where
  "eval_PasswordAge maxDays now ctx =
     (case pc_User ctx of
        None \<Rightarrow> None
      | Some u \<Rightarrow>
        if u_MFAEnabled u then None
        else if now - u_PasswordChangedAt u > maxDays * 24 * hour
        then violation (PasswordAgeRule maxDays) ''password has expired; please reset your password''
        else None)"

definition eval_AccountLockout ::
  "int \<Rightarrow> duration \<Rightarrow> time \<Rightarrow> PolicyContext \<Rightarrow> PolicyViolation option" where
  "eval_AccountLockout maxFailures lockDuration now ctx =
     (case pc_User ctx of
        None \<Rightarrow> None
      | Some u \<Rightarrow>
        (case u_LockedUntil u of
           None \<Rightarrow> None
         | Some t \<Rightarrow>
           if now < t
           then violation (AccountLockoutRule maxFailures lockDuration)
             ''account is temporarily locked; try again later''
           else None))"

definition eval_MFARequired :: "PolicyContext \<Rightarrow> PolicyViolation option" where
  "eval_MFARequired ctx =
     (case pc_Client ctx of
        None \<Rightarrow> None
      | Some c \<Rightarrow>
        if c_Public c then None
        else if pc_Password ctx \<noteq> [] then
          (case pc_User ctx of
             Some u \<Rightarrow> if u_MFAEnabled u then None
               else violation MFARequiredRule
                 ''This client requires MFA. Enroll TOTP or a security key under /portal/account, then sign in again.''
           | None \<Rightarrow> violation MFARequiredRule
                 ''This client requires MFA. Enroll TOTP or a security key under /portal/account, then sign in again.'')
        else if \<not> pc_MFAVerified ctx
        then violation MFARequiredRule ''MFA verification required''
        else None)"

definition eval_SessionIdle :: "duration \<Rightarrow> string \<Rightarrow> PolicyContext \<Rightarrow> PolicyViolation option" where
  "eval_SessionIdle maxIdle cdeScope ctx =
     (if \<not> containsScope (pc_Scopes ctx) cdeScope then None
      else if pc_LastActivity ctx > maxIdle
      then violation (SessionIdleTimeoutRule maxIdle cdeScope)
        ''session has exceeded the 15-minute idle timeout''
      else None)"

definition eval_ClientSecretAge :: "duration \<Rightarrow> time \<Rightarrow> PolicyContext \<Rightarrow> PolicyViolation option" where
  "eval_ClientSecretAge maxAge now ctx =
     (case pc_Client ctx of
        None \<Rightarrow> None
      | Some c \<Rightarrow>
        if c_Public c then None
        else if now - c_SecretRotatedAt c > maxAge
        then violation (ClientSecretAgeRule maxAge)
          ''client secret has not been rotated in over 12 months''
        else None)"

primrec rule_Evaluate ::
  "unicode_tables \<Rightarrow> time \<Rightarrow> PolicyContext \<Rightarrow> Rule \<Rightarrow> PolicyViolation option" where
  "rule_Evaluate u now ctx PasswordComplexityRule = eval_PasswordComplexity u ctx"
| "rule_Evaluate u now ctx (PasswordAgeRule m) = eval_PasswordAge m now ctx"
| "rule_Evaluate u now ctx (AccountLockoutRule m l) = eval_AccountLockout m l now ctx"
| "rule_Evaluate u now ctx MFARequiredRule = eval_MFARequired ctx"
| "rule_Evaluate u now ctx (SessionIdleTimeoutRule m c) = eval_SessionIdle m c ctx"
| "rule_Evaluate u now ctx (TokenLifetimeRule a r) = None"
| "rule_Evaluate u now ctx (ClientSecretAgeRule m) = eval_ClientSecretAge m now ctx"

subsection \<open>The engine\<close>

definition AddRule :: "Rule \<Rightarrow> Rule list \<Rightarrow> Rule list" where
  "AddRule r rules = rules @ [r]"

fun policy_Evaluate ::
  "unicode_tables \<Rightarrow> time \<Rightarrow> Rule list \<Rightarrow> PolicyContext \<Rightarrow> PolicyViolation list" where
  "policy_Evaluate u now [] ctx = []"
| "policy_Evaluate u now (r # rs) ctx =
     (case rule_Evaluate u now ctx r of
        None \<Rightarrow> policy_Evaluate u now rs ctx
      | Some v \<Rightarrow> v # policy_Evaluate u now rs ctx)"

fun policy_First ::
  "unicode_tables \<Rightarrow> time \<Rightarrow> Rule list \<Rightarrow> PolicyContext \<Rightarrow> PolicyViolation option" where
  "policy_First u now [] ctx = None"
| "policy_First u now (r # rs) ctx =
     (case rule_Evaluate u now ctx r of
        None \<Rightarrow> policy_First u now rs ctx
      | Some v \<Rightarrow> Some v)"

lemma policy_First_hd:
  "policy_First u now rs ctx =
     (case policy_Evaluate u now rs ctx of [] \<Rightarrow> None | v # vs \<Rightarrow> Some v)"
  by (induction rs) (auto split: option.splits)

lemma policy_First_None_iff:
  "policy_First u now rs ctx = None \<longleftrightarrow> (\<forall>r\<in>set rs. rule_Evaluate u now ctx r = None)"
  by (induction rs) (auto split: option.splits)

lemma policy_Evaluate_AddRule:
  "policy_Evaluate u now (AddRule r rs) ctx
     = policy_Evaluate u now rs ctx @ (case rule_Evaluate u now ctx r of None \<Rightarrow> [] | Some v \<Rightarrow> [v])"
  unfolding AddRule_def by (induction rs) (auto split: option.splits)

end
