(* ===== verification/World.thy ===== *)
theory World
  imports Store_MFA Policy
begin

text \<open>
  The state a request handler runs in and the primitives it is made of.

  \<^item> \<open>ext\<close> collects the functions of packages outside the repository (tokyo3-base's
    \<open>creds\<close>, \<open>crypto\<close> and \<open>jwt\<close>, google/uuid, pquerna/otp, AWS) as fields; a random function takes
    the number of the draw.
  \<^item> \<open>server\<close> is the part of \<open>api.Server\<close> the modelled handlers read.
  \<^item> \<open>world\<close> holds the database, the clock, scripts of driver and journal failures (a
    \<open>True\<close> at the head makes the next call fail; the empty script never fails), the number of random
    draws, the audit journal, the cookies set on the response, the
    messages sent to other systems with the script of their answers, and the loaded provisioners.
  \<^item> A handler is a program of the state monad over \<open>world\<close> that returns the response.
    The clock does not move during one request.
\<close>

subsection \<open>Cookies\<close>

text \<open>\<open>authState\<close> of \<open>oauth2.go\<close> and \<open>portalLoginState\<close>, \<open>totpPending\<close> of \<open>web_portal.go\<close>.\<close>

record authState =
  st_UserID :: uuid
  st_AuthTime :: time
  st_MFAVerified :: bool
  st_MFAAMR :: "string list"
  st_ClientID :: string
  st_RedirectURI :: string
  st_Scopes :: "string list"
  st_State :: string
  st_Nonce :: string
  st_CodeChallenge :: string
  st_Exp :: time

record portalLoginState =
  pl_UserID :: uuid
  pl_Exp :: time

record totpPending =
  tp_OTPURI :: string
  tp_Secret :: string
  tp_Exp :: time

text \<open>What a cookie value sealed with the server's master key opens to. All four kinds use
  the same key, so a value may be presented under any cookie name; the functions
  \<open>box_state\<close> and \<open>box_login\<close> say what \<open>json.Unmarshal\<close> makes of each kind (unknown
  members are ignored, missing ones keep the zero value, a bare token is not an object).\<close>

datatype box =
  BoxToken string
| BoxState authState
| BoxLogin portalLoginState
| BoxTOTP totpPending

fun box_state :: "box \<Rightarrow> authState option" where
  "box_state (BoxToken t) = None"
| "box_state (BoxState st) = Some st"
| "box_state (BoxLogin l) = Some \<lparr>st_UserID = pl_UserID l, st_AuthTime = zero_time, st_MFAVerified = False,
     st_MFAAMR = [], st_ClientID = [], st_RedirectURI = [], st_Scopes = [], st_State = [],
     st_Nonce = [], st_CodeChallenge = [], st_Exp = pl_Exp l\<rparr>"
| "box_state (BoxTOTP p) = Some \<lparr>st_UserID = uuid_nil, st_AuthTime = zero_time, st_MFAVerified = False,
     st_MFAAMR = [], st_ClientID = [], st_RedirectURI = [], st_Scopes = [], st_State = [],
     st_Nonce = [], st_CodeChallenge = [], st_Exp = tp_Exp p\<rparr>"

fun box_login :: "box \<Rightarrow> portalLoginState option" where
  "box_login (BoxToken t) = None"
| "box_login (BoxState st) = Some \<lparr>pl_UserID = st_UserID st, pl_Exp = st_Exp st\<rparr>"
| "box_login (BoxLogin l) = Some l"
| "box_login (BoxTOTP p) = Some \<lparr>pl_UserID = uuid_nil, pl_Exp = tp_Exp p\<rparr>"

fun box_totp :: "box \<Rightarrow> totpPending option" where
  "box_totp (BoxToken t) = None"
| "box_totp (BoxState st) = Some \<lparr>tp_OTPURI = [], tp_Secret = [], tp_Exp = st_Exp st\<rparr>"
| "box_totp (BoxLogin l) = Some \<lparr>tp_OTPURI = [], tp_Secret = [], tp_Exp = pl_Exp l\<rparr>"
| "box_totp (BoxTOTP p) = Some p"

subsection \<open>Code outside the repository\<close>

record id_claims =
  ic_Sub :: uuid
  ic_Aud :: string
  ic_Email :: string
  ic_Name :: string
  ic_Nonce :: string
  ic_Scopes :: "string list"
  ic_MFA :: bool
  ic_AuthTime :: time
  ic_SID :: uuid
  ic_Groups :: "string list"

record federation_claims =
  fc_Sub :: string
  fc_Aud :: string
  fc_Email :: string
  fc_Name :: string
  fc_Groups :: "string list"
  fc_AMR :: "string list"
  fc_AuthTime :: time
  fc_TTL :: duration
  fc_PrincipalTags :: "(string \<times> string) list"

text \<open>\<open>webauthn.Credential\<close> as the repository fills it in and reads it back, and the part of a
  parsed assertion the repository looks at itself.\<close>

record wa_credential =
  wr_ID :: bytes
  wr_PublicKey :: bytes
  wr_AAGUID :: bytes
  wr_SignCount :: nat
  wr_BackupEligible :: bool
  wr_BackupState :: bool
  wr_CloneWarning :: bool

record wa_assertion =
  wp_RawID :: bytes
  wp_HasBackupEligible :: bool
  wp_Body :: string

record ext =
  x_HashToken :: "string \<Rightarrow> string"
  x_RawToken :: "nat \<Rightarrow> string option"
  x_UUID :: "nat \<Rightarrow> uuid"
  x_CheckPassword :: "string \<Rightarrow> string \<Rightarrow> bool"
  x_HashPassword :: "nat \<Rightarrow> string \<Rightarrow> string option"
  x_SealFails :: "nat \<Rightarrow> bool"
  x_BoxBytes :: "box \<Rightarrow> string"
  x_DecryptEnvelope :: "bytes \<Rightarrow> bytes \<Rightarrow> bytes option"
  x_EncryptEnvelope :: "nat \<Rightarrow> bytes \<Rightarrow> (bytes \<times> bytes) option"
  x_GenerateTOTP :: "nat \<Rightarrow> string \<Rightarrow> (string \<times> string) option"
  x_ValidateTOTP :: "string \<Rightarrow> string \<Rightarrow> time \<Rightarrow> bool"
  x_MintIDToken :: "id_claims \<Rightarrow> string option"
  x_RandomBytes :: "nat \<Rightarrow> nat list option"
  x_ParseUUID :: "string \<Rightarrow> uuid option"
  x_WABeginRegistration :: "nat \<Rightarrow> User \<Rightarrow> wa_credential list \<Rightarrow> (bytes \<times> bytes) option"
  x_WABeginLogin :: "nat \<Rightarrow> User \<Rightarrow> wa_credential list \<Rightarrow> (bytes \<times> bytes) option"
  x_WASessionOK :: "bytes \<Rightarrow> bool"
  x_WAFinishRegistration :: "User \<Rightarrow> wa_credential list \<Rightarrow> bytes \<Rightarrow> string \<Rightarrow> wa_credential option"
  x_WAParseAssertion :: "string \<Rightarrow> wa_assertion option"
  x_TLSForURL :: "string \<Rightarrow> bool"
  x_LoadAWSConfig :: bool
  x_UUIDString :: "uuid \<Rightarrow> string"
  x_MintFederationToken :: "federation_claims \<Rightarrow> string option"
  x_WAValidateLogin :: "User \<Rightarrow> wa_credential list \<Rightarrow> bytes \<Rightarrow> wa_assertion \<Rightarrow> wa_credential option"

record server =
  srv_ext :: ext
  srv_policy :: "Rule list"
  srv_unicode :: unicode_tables
  srv_hasSigner :: bool
  srv_issuer :: string
  srv_awsAudience :: string
  srv_awsRegions :: "string list"
  srv_awsDefaultRegion :: string
  srv_stepUpMFATTL :: duration
  srv_allowReg :: bool
  srv_hasSCIMTLS :: bool

subsection \<open>Requests and responses\<close>

text \<open>\<open>JURL\<close> is a URL with the query parameters the handler sets on it.
  \<open>rq_form\<close> are the form values in order, body before query; \<open>rq_badForm\<close> says that
  \<open>ParseForm\<close> fails. A cookie that is present holds what its value opens to, if it opens.
  \<open>rq_json\<close> holds the members of a JSON body that decodes into the struct the handler
  expects.\<close>

datatype json = JStr string | JInt int | JBool bool | JStrs "string list" | JID uuid
  | JURL string "(string \<times> string) list" | JObj "(string \<times> json) list" | JList "json list" | JTime time

record request =
  rq_form :: "(string \<times> string) list"
  rq_query :: "(string \<times> string) list"
  rq_badForm :: bool
  rq_isPost :: bool
  rq_authorization :: string
  rq_basic :: "(string \<times> string) option"
  rq_cookies :: "(string \<times> box option) list"
  rq_ip :: string
  rq_agent :: string
  rq_pathID :: "uuid option"
  rq_body :: string
  rq_json :: "(string \<times> json) list option"

definition lookup_or_empty :: "(string \<times> string) list \<Rightarrow> string \<Rightarrow> string" where
  "lookup_or_empty kvs k = (case map_of kvs k of None \<Rightarrow> [] | Some v \<Rightarrow> v)"

definition FormValue :: "request \<Rightarrow> string \<Rightarrow> string" where
  "FormValue r k = lookup_or_empty (rq_form r) k"

definition QueryGet :: "request \<Rightarrow> string \<Rightarrow> string" where
  "QueryGet r k = lookup_or_empty (rq_query r) k"

definition FormValues :: "request \<Rightarrow> string \<Rightarrow> string list" where
  "FormValues r k = map snd (filter (\<lambda>kv. fst kv = k) (rq_form r))"

text \<open>A redirect keeps the target and the query parameters the handler sets on it; a page is
  its template name and the error shown on it.\<close>

datatype response =
  RJSON nat "(string \<times> json) list"
| RText nat string
| RRedirect string "(string \<times> string) list"
| RPage string string
| RStatus nat

definition writeError :: "nat \<Rightarrow> string \<Rightarrow> string \<Rightarrow> response" where
  "writeError status errCode desc =
     RJSON status [(''error'', JStr errCode), (''error_description'', JStr desc)]"

subsection \<open>The world\<close>

record audit_entry =
  ae_ID :: uuid
  ae_Action :: string
  ae_UserID :: "uuid option"
  ae_UserEmail :: string
  ae_UserName :: string
  ae_ClientID :: "uuid option"
  ae_ClientName :: string
  ae_IP :: string
  ae_UserAgent :: string
  ae_Metadata :: "(string \<times> json) list"
  ae_OccurredAt :: time

datatype prov_op = OpCreate | OpUpdate | OpDeactivate | OpDelete

text \<open>What the server sends to other systems. A SCIM request names the collection or
  resource it addresses (its URL is the base URL with the escaped path), an IAM request the
  role, the policy name and the document before it is rendered as JSON.\<close>

datatype scim_path = SCIMUsers | SCIMUser string | SCIMUserByExternalID string | SCIMGroups | SCIMGroup_at string

record revocation_doc =
  rd_Version :: string
  rd_Sid :: string
  rd_Effect :: string
  rd_Action :: "string list"
  rd_Resource :: "string list"
  rd_Tag :: string
  rd_Subs :: "string list"

datatype message =
  LogoutPush uuid string string uuid string
| SCIMRequest string string string string scim_path "(string \<times> json) list"
| PutRolePolicy string string revocation_doc
| DeleteRolePolicy string string
| AssumeRoleWithWebIdentity string string string string int
| GetSigninToken string string string string

text \<open>What the other system answers: the strings the caller decodes from the response, temporary
  AWS credentials, a missing resource, or another error with its text.\<close>

datatype remote_reply =
  RemoteOK "string list"
| RemoteCreds string string string "time option"
| RemoteNotFound
| RemoteError string

text \<open>A loaded provisioner: the SCIM client (cache key, name, base URL, bearer token) or the AWS
  federation provisioner (name).\<close>

record scim_client =
  sp_provider :: string
  sp_name :: string
  sp_baseURL :: string
  sp_token :: string
  sp_timeout :: duration

datatype provisioner = ProvSCIM scim_client | ProvAWS string

record set_cookie =
  sc_Name :: string
  sc_Value :: "box option"
  sc_MaxAge :: int

record world =
  w_db :: db
  w_now :: time
  w_faults :: "bool list"
  w_draws :: nat
  w_journal :: "audit_entry list"
  w_auditFaults :: "bool list"
  w_cookies :: "set_cookie list"
  w_outbox :: "message list"
  w_replies :: "remote_reply list"
  w_registry :: "provisioner list option"

type_synonym 'a act = "(world, 'a) state"

abbreviation ret :: "'a \<Rightarrow> 'a act" where "ret \<equiv> State_Monad.return"

definition head_fault :: "bool list \<Rightarrow> bool" where
  "head_fault fs = (case fs of [] \<Rightarrow> False | b # bs \<Rightarrow> b)"

text \<open>A call of the store: a driver failure leaves the database as it is.\<close>

definition store :: "(db \<Rightarrow> (store_error + 'a) \<times> db) \<Rightarrow> (store_error + 'a) act" where
  "store op = State (\<lambda>w.
     if head_fault (w_faults w) then (Inl ErrDB, w\<lparr>w_faults := tl (w_faults w)\<rparr>)
     else (case op (w_db w) of
             (res, d) \<Rightarrow> (res, w\<lparr>w_db := d, w_faults := tl (w_faults w)\<rparr>)))"

definition get_now :: "time act" where "get_now = State (\<lambda>w. (w_now w, w))"

definition draw :: "nat act" where
  "draw = State (\<lambda>w. (w_draws w, w\<lparr>w_draws := Suc (w_draws w)\<rparr>))"

definition set_cookie :: "string \<Rightarrow> box option \<Rightarrow> int \<Rightarrow> unit act" where
  "set_cookie n v age = State (\<lambda>w. ((), w\<lparr>w_cookies := w_cookies w @
     [\<lparr>sc_Name = n, sc_Value = v, sc_MaxAge = age\<rparr>]\<rparr>))"

definition send :: "message \<Rightarrow> unit act" where
  "send m = State (\<lambda>w. ((), w\<lparr>w_outbox := w_outbox w @ [m]\<rparr>))"

text \<open>A call of another system: the message goes out and the next answer of the script comes
  back; the empty script answers success with nothing in it.\<close>

definition remote_call :: "message \<Rightarrow> remote_reply act" where
  "remote_call m = State (\<lambda>w. (case w_replies w of [] \<Rightarrow> RemoteOK [] | x # xs \<Rightarrow> x,
     w\<lparr>w_outbox := w_outbox w @ [m], w_replies := tl (w_replies w)\<rparr>))"

text \<open>The live set of the provisioner registry; \<open>None\<close> is a nil registry.\<close>

definition get_registry :: "provisioner list option act" where
  "get_registry = State (\<lambda>w. (w_registry w, w))"

definition set_registry :: "provisioner list \<Rightarrow> unit act" where
  "set_registry ps = State (\<lambda>w. ((), w\<lparr>w_registry := Some ps\<rparr>))"

definition journal_append :: "audit_entry \<Rightarrow> bool act" where
  "journal_append e = State (\<lambda>w.
     if head_fault (w_auditFaults w) then (False, w\<lparr>w_auditFaults := tl (w_auditFaults w)\<rparr>)
     else (True, w\<lparr>w_journal := w_journal w @ [e], w_auditFaults := tl (w_auditFaults w)\<rparr>))"

subsection \<open>Random values and store calls that read the clock\<close>

definition GenerateRawToken :: "server \<Rightarrow> string option act" where
  "GenerateRawToken s = do { n \<leftarrow> draw; ret (x_RawToken (srv_ext s) n) }"

definition newUUID :: "server \<Rightarrow> uuid act" where
  "newUUID s = do { n \<leftarrow> draw; ret (x_UUID (srv_ext s) n) }"

definition HashToken :: "server \<Rightarrow> string \<Rightarrow> string" where
  "HashToken s t = x_HashToken (srv_ext s) t"

definition HashPassword :: "server \<Rightarrow> string \<Rightarrow> string option act" where
  "HashPassword s p = do { n \<leftarrow> draw; ret (x_HashPassword (srv_ext s) n p) }"

definition CheckPassword :: "server \<Rightarrow> string \<Rightarrow> string \<Rightarrow> bool" where
  "CheckPassword s hash p = x_CheckPassword (srv_ext s) hash p"

definition store_at :: "(time \<Rightarrow> db \<Rightarrow> (store_error + 'a) \<times> db) \<Rightarrow> (store_error + 'a) act" where
  "store_at op = do { now \<leftarrow> get_now; store (op now) }"

subsection \<open>Audit\<close>

text \<open>\<open>logAudit\<close>: the two best-effort name lookups, then the journal; \<open>True\<close> is Go's nil error.\<close>

definition logAudit ::
  "server \<Rightarrow> request \<Rightarrow> string \<Rightarrow> uuid option \<Rightarrow> uuid option \<Rightarrow> (string \<times> json) list \<Rightarrow> bool act" where
  "logAudit s r action userID clientID meta = do {
     names \<leftarrow> (case userID of
        None \<Rightarrow> ret ([], [])
      | Some uid \<Rightarrow> do {
          u \<leftarrow> store (GetUserByID uid);
          ret (case u of Inl e \<Rightarrow> ([], []) | Inr u \<Rightarrow> (u_Email u, u_Name u)) });
     cname \<leftarrow> (case clientID of
        None \<Rightarrow> ret []
      | Some cid \<Rightarrow> do {
          c \<leftarrow> store (GetClientByID cid);
          ret (case c of Inl e \<Rightarrow> [] | Inr c \<Rightarrow> c_Name c) });
     eid \<leftarrow> newUUID s;
     now \<leftarrow> get_now;
     journal_append \<lparr>ae_ID = eid, ae_Action = action, ae_UserID = userID, ae_UserEmail = fst names,
       ae_UserName = snd names, ae_ClientID = clientID, ae_ClientName = cname, ae_IP = rq_ip r,
       ae_UserAgent = rq_agent r, ae_Metadata = meta, ae_OccurredAt = now\<rparr>
   }"

definition auditFail :: response where
  "auditFail = RText 503 ''audit journal unreachable; request refused''"

text \<open>\<open>undoOnAuditFailure\<close>: a failure of the undo is only logged.\<close>

definition undoOnAuditFailure :: "(db \<Rightarrow> (store_error + 'a) \<times> db) \<Rightarrow> unit act" where
  "undoOnAuditFailure undo = do { x \<leftarrow> store undo; ret () }"

subsection \<open>How the primitives act\<close>

lemma run_primitives [run_simps, simp]:
  "run_state get_now w = (w_now w, w)"
  "run_state draw w = (w_draws w, w\<lparr>w_draws := Suc (w_draws w)\<rparr>)"
  "run_state (set_cookie n v age) w = ((), w\<lparr>w_cookies := w_cookies w @
     [\<lparr>sc_Name = n, sc_Value = v, sc_MaxAge = age\<rparr>]\<rparr>)"
  "run_state (send m) w = ((), w\<lparr>w_outbox := w_outbox w @ [m]\<rparr>)"
  "run_state get_registry w = (w_registry w, w)"
  "run_state (set_registry ps) w = ((), w\<lparr>w_registry := Some ps\<rparr>)"
  by (simp_all add: get_now_def draw_def set_cookie_def send_def get_registry_def set_registry_def)

lemma run_remote_call [run_simps]:
  "run_state (remote_call m) w = (case w_replies w of [] \<Rightarrow> RemoteOK [] | x # xs \<Rightarrow> x,
     w\<lparr>w_outbox := w_outbox w @ [m], w_replies := tl (w_replies w)\<rparr>)"
  by (simp add: remote_call_def)

lemma run_store [run_simps]:
  "run_state (store op) w =
     (if head_fault (w_faults w) then (Inl ErrDB, w\<lparr>w_faults := tl (w_faults w)\<rparr>)
      else (fst (op (w_db w)), w\<lparr>w_db := snd (op (w_db w)), w_faults := tl (w_faults w)\<rparr>))"
  by (simp add: store_def split: prod.splits)

lemma run_draws [run_simps]:
  "run_state (GenerateRawToken s) w = (x_RawToken (srv_ext s) (w_draws w), w\<lparr>w_draws := Suc (w_draws w)\<rparr>)"
  "run_state (newUUID s) w = (x_UUID (srv_ext s) (w_draws w), w\<lparr>w_draws := Suc (w_draws w)\<rparr>)"
  "run_state (HashPassword s p) w = (x_HashPassword (srv_ext s) (w_draws w) p, w\<lparr>w_draws := Suc (w_draws w)\<rparr>)"
  by (simp_all add: GenerateRawToken_def newUUID_def HashPassword_def)

lemma run_journal_append [run_simps]:
  "run_state (journal_append e) w =
     (if head_fault (w_auditFaults w) then (False, w\<lparr>w_auditFaults := tl (w_auditFaults w)\<rparr>)
      else (True, w\<lparr>w_journal := w_journal w @ [e], w_auditFaults := tl (w_auditFaults w)\<rparr>))"
  by (simp add: journal_append_def)

lemma run_store_at [run_simps]: "run_state (store_at op) w = run_state (store (op (w_now w))) w"
  by (simp add: store_at_def)

lemma head_fault_Nil [simp]: "head_fault [] = False"
  by (simp add: head_fault_def)

subsection \<open>Relations between the databases before and after\<close>

definition on_db :: "(db \<Rightarrow> db \<Rightarrow> bool) \<Rightarrow> world \<Rightarrow> world \<Rightarrow> bool" where
  "on_db D w w' \<longleftrightarrow> D (w_db w) (w_db w')"

text \<open>Case rules for the datatypes of the handlers.\<close>

context step_rel
begin

lemma reply_case:
  "(\<And>xs. always R (a xs)) \<Longrightarrow> (\<And>k t tok e. always R (b k t tok e)) \<Longrightarrow> always R c \<Longrightarrow>
   (\<And>msg. always R (f msg)) \<Longrightarrow>
   always R (case x of RemoteOK xs \<Rightarrow> a xs | RemoteCreds k t tok e \<Rightarrow> b k t tok e
     | RemoteNotFound \<Rightarrow> c | RemoteError msg \<Rightarrow> f msg)"
  by (cases x) auto

lemma err_case:
  "always R a \<Longrightarrow> always R b \<Longrightarrow> always R c \<Longrightarrow>
   always R (case e of ErrNotFound \<Rightarrow> a | ErrConflict \<Rightarrow> b | ErrDB \<Rightarrow> c)"
  by (cases e) auto

end

text \<open>The contract between the stores and the handlers: a reflexive and transitive relation
  that every store call keeps is kept by every program built from the primitives.\<close>

locale db_rel =
  fixes D :: "db \<Rightarrow> db \<Rightarrow> bool"
  assumes D_refl: "D d d" and D_trans: "D d e \<Longrightarrow> D e f \<Longrightarrow> D d f"
begin

lemma store_call: "(\<And>d. D d (snd (op d))) \<Longrightarrow> always (on_db D) (store op)"
  by (rule alwaysI) (auto simp: run_store on_db_def D_refl split: if_splits)

lemma store_at_call: "(\<And>now d. D d (snd (op now d))) \<Longrightarrow> always (on_db D) (store_at op)"
  by (rule alwaysI) (auto simp: run_store_at run_store on_db_def D_refl split: if_splits)

lemma quiet:
  "always (on_db D) get_now" "always (on_db D) draw" "always (on_db D) (set_cookie n v age)"
  "always (on_db D) (send m)" "always (on_db D) (journal_append e)"
  "always (on_db D) (GenerateRawToken s)" "always (on_db D) (newUUID s)"
  "always (on_db D) (HashPassword s p)" "always (on_db D) (remote_call rm)"
  "always (on_db D) get_registry" "always (on_db D) (set_registry ps)"
  by (auto intro!: alwaysI simp: run_simps on_db_def D_refl split: if_splits)

end

sublocale db_rel \<subseteq> step_rel "on_db D"
  by unfold_locales (auto simp: on_db_def D_refl intro: D_trans)

context db_rel
begin

lemma logAudit_db: "always (on_db D) (logAudit s r a u c meta)"
  unfolding logAudit_def
  by (intro rules quiet store_call) (simp_all add: GetUserByID_def GetClientByID_def D_refl)

lemma undo_db: "(\<And>d. D d (snd (op d))) \<Longrightarrow> always (on_db D) (undoOnAuditFailure op)"
  unfolding undoOnAuditFailure_def by (intro rules store_call) simp

lemmas db_rules = rules quiet store_call store_at_call logAudit_db undo_db err_case reply_case

end

text \<open>A relation that depends only on the sessions, the retired tokens, the authorization codes
  and the device grants is kept by every method that leaves those tables alone.\<close>

locale core_rel = db_rel +
  assumes D_core: "core_same d d' \<Longrightarrow> D d d'"
begin

lemma core_store: "(\<And>d. core_same d (snd (op d))) \<Longrightarrow> always (on_db D) (store op)"
  by (rule store_call) (rule D_core)

lemma core_store_at: "(\<And>now d. core_same d (snd (op now d))) \<Longrightarrow> always (on_db D) (store_at op)"
  by (rule store_at_call) (rule D_core)

end

interpretation wf: db_rel "\<lambda>d d'. wf_db d \<longrightarrow> wf_db d'"
  by unfold_locales auto

abbreviation keeps_wf :: "'a act \<Rightarrow> bool" where
  "keeps_wf \<equiv> always (on_db (\<lambda>d d'. wf_db d \<longrightarrow> wf_db d'))"

interpretation same_db: db_rel "(=)"
  by unfold_locales auto

subsection \<open>The journal and the messages only grow\<close>

definition grows :: "world \<Rightarrow> world \<Rightarrow> bool" where
  "grows w w' \<longleftrightarrow> w_now w' = w_now w \<and> (\<exists>es. w_journal w' = w_journal w @ es)
     \<and> (\<exists>ms. w_outbox w' = w_outbox w @ ms) \<and> w_draws w \<le> w_draws w'"

interpretation grow: step_rel grows
  by unfold_locales (auto simp: grows_def)

lemma grows_primitives:
  "always grows get_now" "always grows draw" "always grows (set_cookie n v age)"
  "always grows (send m)" "always grows (journal_append e)"
  "always grows (GenerateRawToken s)" "always grows (newUUID s)" "always grows (HashPassword s p)"
  "always grows (store op)" "always grows (store_at op')" "always grows (remote_call rm)"
  "always grows get_registry" "always grows (set_registry ps)"
  by (auto intro!: alwaysI simp: run_simps grows_def split: if_splits)

lemma grows_logAudit: "always grows (logAudit s r a u c meta)"
  unfolding logAudit_def by (intro grow.rules grows_primitives)

lemmas grow_rules = grow.rules grows_primitives grows_logAudit

subsection \<open>The outcome of an audit\<close>

text \<open>\<open>logAudit\<close> returns \<open>True\<close> exactly when it appended one entry with the given action and
  principals; in both cases the database is untouched.\<close>

lemma logAudit_result:
  assumes "run_state (logAudit s r action userID clientID meta) w = (ok, w')"
  shows "w_db w' = w_db w"
    and "ok \<Longrightarrow> \<exists>e. w_journal w' = w_journal w @ [e] \<and> ae_Action e = action \<and> ae_UserID e = userID
           \<and> ae_ClientID e = clientID \<and> ae_Metadata e = meta"
    and "\<not> ok \<Longrightarrow> w_journal w' = w_journal w"
    and "w_cookies w' = w_cookies w" "w_outbox w' = w_outbox w" "w_now w' = w_now w"
proof -
  have db: "always (on_db (=)) (logAudit s r action userID clientID meta)"
    by (rule same_db.logAudit_db)
  show "w_db w' = w_db w" using alwaysD [OF db assms] by (simp add: on_db_def)
  show "ok \<Longrightarrow> \<exists>e. w_journal w' = w_journal w @ [e] \<and> ae_Action e = action \<and> ae_UserID e = userID
           \<and> ae_ClientID e = clientID \<and> ae_Metadata e = meta"
    "\<not> ok \<Longrightarrow> w_journal w' = w_journal w"
    "w_cookies w' = w_cookies w" "w_outbox w' = w_outbox w" "w_now w' = w_now w"
    using assms unfolding logAudit_def
    by (auto simp: run_simps split: option.splits sum.splits prod.splits if_splits)
qed

subsection \<open>Reading off a run\<close>

lemmas case_splits = prod.splits sum.splits store_error.splits if_splits option.splits

lemma store_Inr:
  "run_state (store op) w = (Inr x, w') \<Longrightarrow>
   fst (op (w_db w)) = Inr x \<and> w' = w\<lparr>w_db := snd (op (w_db w)), w_faults := tl (w_faults w)\<rparr>"
  by (auto simp: run_store split: if_splits)

lemma select_row_Inr: "select_row P t = Inr r \<Longrightarrow> r \<in> set t \<and> P r"
  by (auto simp: select_row_def dest: find_SomeD split: option.splits)

lemma select_row_Inl: "select_row P t = Inl e \<Longrightarrow> e = ErrNotFound \<and> (\<forall>r\<in>set t. \<not> P r)"
  by (auto simp: select_row_def find_None_all split: option.splits)

lemma writeError_200 [simp]: "writeError n a b = RJSON 200 body \<longleftrightarrow>
    n = 200 \<and> body = [(''error'', JStr a), (''error_description'', JStr b)]"
  by (auto simp: writeError_def)

lemma auditFail_200 [simp]: "auditFail \<noteq> RJSON n b"
  by (simp add: auditFail_def)

end
