(* ===== verification/Provision.thy ===== *)
theory Provision
  imports World
begin

text \<open>
  Outbound provisioning: the SCIM client of \<open>src/internal/provision/scim/client.go\<close>, the AWS
  federation provisioner of \<open>src/internal/provision/awsfed/awsfed.go\<close>, the fan-out of
  \<open>src/internal/provision/provision.go\<close> with its registry (\<open>registry.go\<close>) and the full
  sync (\<open>sync.go\<close>), and \<open>buildProvSet\<close> of \<open>src/cmd/authd/main.go\<close>. Every call of a
  downstream system is a \<open>remote_call\<close>; \<open>True\<close> is Go's nil error.
\<close>

definition uuid_string :: "server \<Rightarrow> uuid \<Rightarrow> string" where
  "uuid_string s i = x_UUIDString (srv_ext s) i"

subsection \<open>The SCIM client\<close>

definition ProviderName :: string where "ProviderName = ''vault''"

definition TrimRight_slash :: "string \<Rightarrow> string" where
  "TrimRight_slash u = rev (dropWhile (\<lambda>c. c = CHR ''/'') (rev u))"

definition scim_New :: "string \<Rightarrow> string \<Rightarrow> string \<Rightarrow> string \<Rightarrow> duration \<Rightarrow> scim_client" where
  "scim_New provider name baseURL token timeout =
     \<lparr>sp_provider = (if provider = [] then ProviderName else provider),
      sp_name = (if name = [] then ''vault-scim'' else name), sp_baseURL = TrimRight_slash baseURL,
      sp_token = token, sp_timeout = (if timeout = 0 then 10 * second else timeout)\<rparr>"

text \<open>\<open>errStatusNotFound\<close> and every other error.\<close>

datatype scim_error = SCIMNotFound | SCIMFailed

definition scim_do ::
  "scim_client \<Rightarrow> string \<Rightarrow> scim_path \<Rightarrow> (string \<times> json) list \<Rightarrow> (scim_error + string list) act" where
  "scim_do p verb path body = do {
     x \<leftarrow> remote_call (SCIMRequest (sp_name p) (sp_baseURL p) (sp_token p) verb path body);
     ret (case x of
            RemoteOK ids \<Rightarrow> Inr ids
          | RemoteCreds k t tok e \<Rightarrow> Inr []
          | RemoteNotFound \<Rightarrow> Inl SCIMNotFound
          | RemoteError msg \<Rightarrow> Inl SCIMFailed) }"

definition schemaUser :: string where "schemaUser = ''urn:ietf:params:scim:schemas:core:2.0:User''"
definition schemaGroup :: string where "schemaGroup = ''urn:ietf:params:scim:schemas:core:2.0:Group''"
definition schemaPatchOp :: string where "schemaPatchOp = ''urn:ietf:params:scim:api:messages:2.0:PatchOp''"

definition cachedExternalID :: "scim_client \<Rightarrow> uuid \<Rightarrow> (scim_error + string) act" where
  "cachedExternalID p userID = do {
     x \<leftarrow> store (GetExternalID (sp_provider p) userID);
     ret (case x of
            Inl ErrNotFound \<Rightarrow> Inr []
          | Inl e \<Rightarrow> Inl SCIMFailed
          | Inr i \<Rightarrow> Inr i) }"

definition create_body :: "server \<Rightarrow> User \<Rightarrow> (string \<times> json) list" where
  "create_body s u =
     [(''schemas'', JStrs [schemaUser]), (''userName'', JStr (u_Email u)),
      (''externalId'', JStr (uuid_string s (u_ID u))), (''name'', JObj [(''formatted'', JStr (u_Name u))]),
      (''emails'', JList [JObj [(''value'', JStr (u_Email u)), (''primary'', JBool True), (''type'', JStr ''work'')]]),
      (''active'', JBool (u_Active u))]"

definition createUser :: "server \<Rightarrow> scim_client \<Rightarrow> User \<Rightarrow> (scim_error + string) act" where
  "createUser s p u = do {
     x \<leftarrow> scim_do p ''POST'' SCIMUsers (create_body s u);
     case x of
       Inl e \<Rightarrow> ret (Inl e)
     | Inr ids \<Rightarrow>
         (let rid = (case ids of [] \<Rightarrow> [] | i # r \<Rightarrow> i) in
          if rid = [] then ret (Inl SCIMFailed)
          else do {
            y \<leftarrow> store (SetExternalID (sp_provider p) (u_ID u) rid);
            ret (Inr rid) }) }"

definition replace_op :: "string \<Rightarrow> json \<Rightarrow> json" where
  "replace_op path v = JObj [(''op'', JStr ''Replace''), (''path'', JStr path), (''value'', v)]"

definition patchUser :: "server \<Rightarrow> scim_client \<Rightarrow> string \<Rightarrow> User \<Rightarrow> (scim_error + string list) act" where
  "patchUser s p vaultID u =
     scim_do p ''PATCH'' (SCIMUser vaultID)
       [(''schemas'', JStrs [schemaPatchOp]),
        (''Operations'', JList [replace_op ''externalId'' (JStr (uuid_string s (u_ID u))),
           replace_op ''active'' (JBool (u_Active u)), replace_op ''name.formatted'' (JStr (u_Name u))])]"

definition upsertUser :: "server \<Rightarrow> scim_client \<Rightarrow> User \<Rightarrow> (scim_error + string) act" where
  "upsertUser s p u = do {
     c \<leftarrow> cachedExternalID p (u_ID u);
     case c of
       Inl e \<Rightarrow> ret (Inl e)
     | Inr vaultID \<Rightarrow>
         if vaultID \<noteq> [] then do {
           x \<leftarrow> patchUser s p vaultID u;
           case x of
             Inr r \<Rightarrow> ret (Inr vaultID)
           | Inl e \<Rightarrow>
               if e \<noteq> SCIMNotFound then ret (Inl e)
               else do {
                 y \<leftarrow> store (DeleteExternalID (sp_provider p) (u_ID u));
                 createUser s p u } }
         else createUser s p u }"

definition findUserByExternalID :: "scim_client \<Rightarrow> string \<Rightarrow> (scim_error + string) act" where
  "findUserByExternalID p externalID = do {
     x \<leftarrow> scim_do p ''GET'' (SCIMUserByExternalID externalID) [];
     ret (case x of Inl e \<Rightarrow> Inl e | Inr ids \<Rightarrow> Inr (case ids of [] \<Rightarrow> [] | i # r \<Rightarrow> i)) }"

definition resolveVaultUserID :: "server \<Rightarrow> scim_client \<Rightarrow> User \<Rightarrow> (scim_error + string) act" where
  "resolveVaultUserID s p u = do {
     c \<leftarrow> cachedExternalID p (u_ID u);
     case c of
       Inl e \<Rightarrow> ret (Inl e)
     | Inr i \<Rightarrow>
         if i \<noteq> [] then ret (Inr i)
         else do {
           f \<leftarrow> findUserByExternalID p (uuid_string s (u_ID u));
           case f of
             Inl e \<Rightarrow> ret (Inl e)
           | Inr vid \<Rightarrow>
               if vid = [] then ret (Inr [])
               else do {
                 y \<leftarrow> store (SetExternalID (sp_provider p) (u_ID u) vid);
                 ret (Inr vid) } } }"

definition setUserActive :: "server \<Rightarrow> scim_client \<Rightarrow> User \<Rightarrow> bool \<Rightarrow> bool act" where
  "setUserActive s p u active = do {
     v \<leftarrow> resolveVaultUserID s p u;
     case v of
       Inl e \<Rightarrow> ret False
     | Inr vaultID \<Rightarrow>
         if vaultID = [] then ret True
         else do {
           x \<leftarrow> scim_do p ''PATCH'' (SCIMUser vaultID)
                 [(''schemas'', JStrs [schemaPatchOp]), (''Operations'', JList [replace_op ''active'' (JBool active)])];
           case x of
             Inr r \<Rightarrow> ret True
           | Inl e \<Rightarrow>
               if e = SCIMNotFound then do {
                 y \<leftarrow> store (DeleteExternalID (sp_provider p) (u_ID u));
                 ret True }
               else ret False } }"

definition deleteUser :: "server \<Rightarrow> scim_client \<Rightarrow> User \<Rightarrow> bool act" where
  "deleteUser s p u = do {
     v \<leftarrow> resolveVaultUserID s p u;
     case v of
       Inl e \<Rightarrow> ret False
     | Inr vaultID \<Rightarrow>
         if vaultID = [] then ret True
         else do {
           x \<leftarrow> scim_do p ''DELETE'' (SCIMUser vaultID) [];
           if x = Inl SCIMFailed then ret False
           else do {
             y \<leftarrow> store (DeleteExternalID (sp_provider p) (u_ID u));
             ret True } } }"

definition scim_User :: "server \<Rightarrow> scim_client \<Rightarrow> prov_op \<Rightarrow> User \<Rightarrow> bool act" where
  "scim_User s p op u =
     (case op of
        OpDeactivate \<Rightarrow> setUserActive s p u False
      | OpDelete \<Rightarrow> deleteUser s p u
      | _ \<Rightarrow> do { x \<leftarrow> upsertUser s p u; ret (case x of Inl e \<Rightarrow> False | Inr i \<Rightarrow> True) })"

fun resolveGroupMembers :: "server \<Rightarrow> scim_client \<Rightarrow> User list \<Rightarrow> string list act" where
  "resolveGroupMembers s p [] = ret []"
| "resolveGroupMembers s p (m # ms) = do {
     v \<leftarrow> resolveVaultUserID s p m;
     found \<leftarrow> (case v of
        Inl e \<Rightarrow> ret []
      | Inr vaultID \<Rightarrow>
          if vaultID \<noteq> [] then ret [vaultID]
          else do {
            c \<leftarrow> createUser s p m;
            ret (case c of Inl e \<Rightarrow> [] | Inr vid \<Rightarrow> [vid]) });
     rest \<leftarrow> resolveGroupMembers s p ms;
     ret (found @ rest) }"

definition group_body :: "server \<Rightarrow> SCIMGroup \<Rightarrow> string list \<Rightarrow> (string \<times> json) list" where
  "group_body s g refs =
     [(''schemas'', JStrs [schemaGroup]), (''externalId'', JStr (uuid_string s (gr_ID g))),
      (''displayName'', JStr (gr_DisplayName g)), (''members'', JList (map (\<lambda>v. JObj [(''value'', JStr v)]) refs))]"

definition upsertGroup :: "server \<Rightarrow> scim_client \<Rightarrow> SCIMGroup \<Rightarrow> User list \<Rightarrow> bool act" where
  "upsertGroup s p g ms = do {
     refs \<leftarrow> resolveGroupMembers s p ms;
     x \<leftarrow> scim_do p ''PUT'' (SCIMGroup_at (uuid_string s (gr_ID g))) (group_body s g refs);
     y \<leftarrow> (if x = Inl SCIMNotFound then scim_do p ''POST'' SCIMGroups (group_body s g refs) else ret x);
     ret (case y of Inl e \<Rightarrow> False | Inr r \<Rightarrow> True) }"

definition deleteGroup :: "server \<Rightarrow> scim_client \<Rightarrow> SCIMGroup \<Rightarrow> bool act" where
  "deleteGroup s p g = do {
     x \<leftarrow> scim_do p ''DELETE'' (SCIMGroup_at (uuid_string s (gr_ID g))) [];
     ret (x \<noteq> Inl SCIMFailed) }"

definition scim_Group :: "server \<Rightarrow> scim_client \<Rightarrow> prov_op \<Rightarrow> SCIMGroup \<Rightarrow> User list \<Rightarrow> bool act" where
  "scim_Group s p op g ms = (case op of OpDelete \<Rightarrow> deleteGroup s p g | _ \<Rightarrow> upsertGroup s p g ms)"

subsection \<open>The AWS federation provisioner\<close>

definition RevocationPolicyName :: string where "RevocationPolicyName = ''AuthRevokedUsers''"
definition SessionTagKey :: string where "SessionTagKey = ''sub''"

text \<open>\<open>None\<close> is the error for the empty set; the document is rendered by \<open>json.Marshal\<close>, which
  cannot fail on it.\<close>

definition BuildRevocationPolicy :: "string list \<Rightarrow> revocation_doc option" where
  "BuildRevocationPolicy subs =
     (if subs = [] then None
      else Some \<lparr>rd_Version = ''2012-10-17'', rd_Sid = ''AuthRevokedUsers'', rd_Effect = ''Deny'',
        rd_Action = [''*''], rd_Resource = [''*''], rd_Tag = ''aws:PrincipalTag/'' @ SessionTagKey, rd_Subs = subs\<rparr>)"

definition RoleNameFromARN :: "string \<Rightarrow> string" where
  "RoleNameFromARN arn =
     (if CHR ''/'' \<in> set arn then rev (takeWhile (\<lambda>c. c \<noteq> CHR ''/'') (rev arn)) else [])"

definition collectActiveRevokedSubs :: "uuid \<Rightarrow> string list option act" where
  "collectActiveRevokedSubs roleID = do {
     x \<leftarrow> store (ListAWSRevokedUsers roleID);
     ret (case x of Inl e \<Rightarrow> None | Inr rows \<Rightarrow> Some (sort_by name_le (map rv_SubUUID rows))) }"

definition revokeOneRole :: "AWSRole \<Rightarrow> string \<Rightarrow> bool act" where
  "revokeOneRole role subUUID = do {
     x \<leftarrow> store_at (\<lambda>now. AddAWSRevokedUser now (ar_ID role) subUUID);
     case x of
       Inl e \<Rightarrow> ret False
     | Inr u \<Rightarrow> do {
     c \<leftarrow> collectActiveRevokedSubs (ar_ID role);
     case c of
       None \<Rightarrow> ret False
     | Some subs \<Rightarrow>
         (case BuildRevocationPolicy subs of
            None \<Rightarrow> ret False
          | Some policyDoc \<Rightarrow>
              (let roleName = RoleNameFromARN (ar_RoleARN role) in
               if roleName = [] then ret False
               else do {
                 y \<leftarrow> remote_call (PutRolePolicy roleName RevocationPolicyName policyDoc);
                 ret (case y of RemoteNotFound \<Rightarrow> False | RemoteError m \<Rightarrow> False | _ \<Rightarrow> True) })) } }"

text \<open>The loop over the roles: a failure is remembered and the rest still runs.\<close>

fun revoke_roles :: "string \<Rightarrow> AWSRole list \<Rightarrow> bool act" where
  "revoke_roles subUUID [] = ret True"
| "revoke_roles subUUID (role # roles) = do {
     ok \<leftarrow> revokeOneRole role subUUID;
     rest \<leftarrow> revoke_roles subUUID roles;
     ret (ok \<and> rest) }"

definition revokeAcrossAllRoles :: "string \<Rightarrow> bool act" where
  "revokeAcrossAllRoles subUUID = do {
     x \<leftarrow> store ListAWSRoles;
     case x of Inl e \<Rightarrow> ret False | Inr roles \<Rightarrow> revoke_roles subUUID roles }"

definition RevokeUser :: "string \<Rightarrow> bool act" where
  "RevokeUser subUUID = revokeAcrossAllRoles subUUID"

definition awsfed_User :: "server \<Rightarrow> prov_op \<Rightarrow> User \<Rightarrow> bool act" where
  "awsfed_User s op u =
     (case op of
        OpDeactivate \<Rightarrow> RevokeUser (uuid_string s (u_ID u))
      | OpDelete \<Rightarrow> RevokeUser (uuid_string s (u_ID u))
      | _ \<Rightarrow> ret True)"

text \<open>The reaper: drop the rows of a role that are older than its longest session, and push
  the shorter policy (or remove it) when at least one row went.\<close>

definition reap_cutoff :: "time \<Rightarrow> AWSRole \<Rightarrow> time" where
  "reap_cutoff now role =
     (let dur = int64 (ar_MaxSessionDurationSec role * second) in now - (if dur \<le> 0 then hour else dur))"

fun reap_rows :: "uuid \<Rightarrow> time \<Rightarrow> AWSRevokedUser list \<Rightarrow> nat act" where
  "reap_rows roleID cutoff [] = ret 0"
| "reap_rows roleID cutoff (e # es) =
     (if rv_RevokedAt e < cutoff then do {
        x \<leftarrow> store (DeleteAWSRevokedUser roleID (rv_SubUUID e));
        n \<leftarrow> reap_rows roleID cutoff es;
        ret (case x of Inl err \<Rightarrow> n | Inr u \<Rightarrow> Suc n) }
      else reap_rows roleID cutoff es)"

definition push_trimmed :: "AWSRole \<Rightarrow> unit act" where
  "push_trimmed role = do {
     c \<leftarrow> collectActiveRevokedSubs (ar_ID role);
     case c of
       None \<Rightarrow> ret ()
     | Some subs \<Rightarrow>
         (let roleName = RoleNameFromARN (ar_RoleARN role) in
          if roleName = [] then ret ()
          else (case BuildRevocationPolicy subs of
                  None \<Rightarrow> do { y \<leftarrow> remote_call (DeleteRolePolicy roleName RevocationPolicyName); ret () }
                | Some doc \<Rightarrow> do { y \<leftarrow> remote_call (PutRolePolicy roleName RevocationPolicyName doc); ret () })) }"

definition reap_role :: "time \<Rightarrow> AWSRole \<Rightarrow> unit act" where
  "reap_role now role = do {
     x \<leftarrow> store (ListAWSRevokedUsers (ar_ID role));
     case x of
       Inl e \<Rightarrow> ret ()
     | Inr rows \<Rightarrow> do {
         removed \<leftarrow> reap_rows (ar_ID role) (reap_cutoff now role) rows;
         if removed = 0 then ret () else push_trimmed role } }"

fun reap_roles :: "time \<Rightarrow> AWSRole list \<Rightarrow> unit act" where
  "reap_roles now [] = ret ()"
| "reap_roles now (role # roles) = do { reap_role now role; reap_roles now roles }"

definition ReapExpired :: "time \<Rightarrow> bool act" where
  "ReapExpired now = do {
     x \<leftarrow> store ListAWSRoles;
     case x of Inl e \<Rightarrow> ret False | Inr roles \<Rightarrow> do { reap_roles now roles; ret True } }"

subsection \<open>Fan-out, registry and full sync\<close>

definition prov_Name :: "provisioner \<Rightarrow> string" where
  "prov_Name p = (case p of ProvSCIM c \<Rightarrow> sp_name c | ProvAWS n \<Rightarrow> n)"

definition prov_User :: "server \<Rightarrow> provisioner \<Rightarrow> prov_op \<Rightarrow> User \<Rightarrow> bool act" where
  "prov_User s p op u = (case p of ProvSCIM c \<Rightarrow> scim_User s c op u | ProvAWS n \<Rightarrow> awsfed_User s op u)"

definition prov_Group :: "server \<Rightarrow> provisioner \<Rightarrow> prov_op \<Rightarrow> SCIMGroup \<Rightarrow> User list \<Rightarrow> bool act" where
  "prov_Group s p op g ms = (case p of ProvSCIM c \<Rightarrow> scim_Group s c op g ms | ProvAWS n \<Rightarrow> ret True)"

fun set_User :: "server \<Rightarrow> provisioner list \<Rightarrow> prov_op \<Rightarrow> User \<Rightarrow> unit act" where
  "set_User s [] op u = ret ()"
| "set_User s (p # ps) op u = do { ok \<leftarrow> prov_User s p op u; set_User s ps op u }"

fun set_Group :: "server \<Rightarrow> provisioner list \<Rightarrow> prov_op \<Rightarrow> SCIMGroup \<Rightarrow> User list \<Rightarrow> unit act" where
  "set_Group s [] op g ms = ret ()"
| "set_Group s (p # ps) op g ms = do { ok \<leftarrow> prov_Group s p op g ms; set_Group s ps op g ms }"

text \<open>\<open>Snapshot\<close>, and the two entry points of the handlers: a nil registry and a nil user do nothing.\<close>

definition Snapshot :: "provisioner list act" where
  "Snapshot = do { reg \<leftarrow> get_registry; ret (case reg of None \<Rightarrow> [] | Some ps \<Rightarrow> ps) }"

definition provisionUser :: "server \<Rightarrow> prov_op \<Rightarrow> User option \<Rightarrow> unit act" where
  "provisionUser s op user = do {
     ps \<leftarrow> Snapshot;
     case user of None \<Rightarrow> ret () | Some u \<Rightarrow> set_User s ps op u }"

definition provisionGroup :: "server \<Rightarrow> prov_op \<Rightarrow> SCIMGroup \<Rightarrow> User list \<Rightarrow> unit act" where
  "provisionGroup s op g ms = do { ps \<leftarrow> Snapshot; set_Group s ps op g ms }"

record sync_counts =
  sy_userOK :: nat
  sy_userFail :: nat
  sy_groupOK :: nat
  sy_groupFail :: nat

fun sync_users :: "server \<Rightarrow> provisioner \<Rightarrow> User list \<Rightarrow> (nat \<times> nat) act" where
  "sync_users s p [] = ret (0, 0)"
| "sync_users s p (u # us) = do {
     ok \<leftarrow> prov_User s p OpCreate u;
     (good, bad) \<leftarrow> sync_users s p us;
     ret (if ok then (Suc good, bad) else (good, Suc bad)) }"

text \<open>\<open>usersByID\<close>: a later user of the same identifier replaces an earlier one.\<close>

definition users_by_id :: "User list \<Rightarrow> uuid \<Rightarrow> User option" where
  "users_by_id us i = find (\<lambda>u. u_ID u = i) (rev us)"

definition picked :: "User list \<Rightarrow> uuid list \<Rightarrow> User list" where
  "picked us ids = List.map_filter (users_by_id us) ids"

fun sync_groups :: "server \<Rightarrow> provisioner \<Rightarrow> User list \<Rightarrow> SCIMGroup list \<Rightarrow> (nat \<times> nat) act" where
  "sync_groups s p us [] = ret (0, 0)"
| "sync_groups s p us (g # gs) = do {
     ok \<leftarrow> prov_Group s p OpCreate g (picked us (gr_Members g));
     (good, bad) \<leftarrow> sync_groups s p us gs;
     ret (if ok then (Suc good, bad) else (good, Suc bad)) }"

definition SyncAll :: "server \<Rightarrow> provisioner \<Rightarrow> sync_counts act" where
  "SyncAll s p = do {
     x \<leftarrow> store ListUsers;
     case x of
       Inl e \<Rightarrow> ret \<lparr>sy_userOK = 0, sy_userFail = 0, sy_groupOK = 0, sy_groupFail = 0\<rparr>
     | Inr us \<Rightarrow> do {
         (uok, ubad) \<leftarrow> sync_users s p us;
         y \<leftarrow> store ListGroups;
         case y of
           Inl e \<Rightarrow> ret \<lparr>sy_userOK = uok, sy_userFail = ubad, sy_groupOK = 0, sy_groupFail = 0\<rparr>
         | Inr gs \<Rightarrow> do {
             (gok, gbad) \<leftarrow> sync_groups s p us gs;
             ret \<lparr>sy_userOK = uok, sy_userFail = ubad, sy_groupOK = gok, sy_groupFail = gbad\<rparr> } } }"

subsection \<open>Loading the provisioners\<close>

definition millisecond :: duration where "millisecond = 1000000"

definition buildProvisioner :: "server \<Rightarrow> AppIntegration \<Rightarrow> provisioner option" where
  "buildProvisioner s i =
     (let cfg = i_Config i;
          authMode = (if ic_AuthMode cfg = [] then AppIntegrationAuthBearer else ic_AuthMode cfg);
          client = (\<lambda>token. Some (ProvSCIM (scim_New (i_Name i) (i_Name i) (ic_BaseURL cfg) token
             (int64 (ic_TimeoutMS cfg * millisecond))))) in
      if i_Provider i = AppIntegrationProviderSCIM then
        (if ic_BaseURL cfg = [] then None
         else if authMode = AppIntegrationAuthBearer then
           (if i_EncryptedToken i = [] \<or> i_EncryptedDEK i = [] then None
            else case x_DecryptEnvelope (srv_ext s) (i_EncryptedDEK i) (i_EncryptedToken i) of
                   None \<Rightarrow> None
                 | Some token \<Rightarrow> client token)
         else if authMode = AppIntegrationAuthMTLS then
           (if \<not> srv_hasSCIMTLS s \<or> \<not> x_TLSForURL (srv_ext s) (ic_BaseURL cfg) then None else client [])
         else None)
      else if i_Provider i = AppIntegrationProviderAWSFederation then
        (if x_LoadAWSConfig (srv_ext s)
         then Some (ProvAWS (if i_Name i = [] then ''aws-federation'' else i_Name i)) else None)
      else None)"

definition buildProvSet :: "server \<Rightarrow> provisioner list option act" where
  "buildProvSet s = do {
     x \<leftarrow> store ListEnabledIntegrations;
     ret (case x of Inl e \<Rightarrow> None | Inr rows \<Rightarrow> Some (List.map_filter (buildProvisioner s) rows)) }"

text \<open>\<open>Registry.Reload\<close> behind \<open>reloadProvisioners\<close>: a failed build keeps the set that was
  serving, and a nil registry stays nil.\<close>

definition reloadProvisioners :: "server \<Rightarrow> unit act" where
  "reloadProvisioners s = do {
     reg \<leftarrow> get_registry;
     case reg of
       None \<Rightarrow> ret ()
     | Some ps \<Rightarrow> do {
         next \<leftarrow> buildProvSet s;
         case next of None \<Rightarrow> ret () | Some ps' \<Rightarrow> set_registry ps' } }"

definition lookupProvisioner :: "string \<Rightarrow> provisioner option act" where
  "lookupProvisioner name = do { ps \<leftarrow> Snapshot; ret (find (\<lambda>p. prov_Name p = name) ps) }"

text \<open>One tick of the background tasks of \<open>authd serve\<close>.\<close>

definition is_awsfed :: "provisioner \<Rightarrow> bool" where
  "is_awsfed p = (case p of ProvSCIM c \<Rightarrow> False | ProvAWS n \<Rightarrow> True)"

fun reap_all :: "time \<Rightarrow> provisioner list \<Rightarrow> unit act" where
  "reap_all now [] = ret ()"
| "reap_all now (p # ps) =
     (if is_awsfed p then do { ok \<leftarrow> ReapExpired now; reap_all now ps } else reap_all now ps)"

definition runAWSFedReaper :: "unit act" where
  "runAWSFedReaper = do { now \<leftarrow> get_now; ps \<leftarrow> Snapshot; reap_all now ps }"

fun sync_targets :: "server \<Rightarrow> provisioner list \<Rightarrow> unit act" where
  "sync_targets s [] = ret ()"
| "sync_targets s (p # ps) = do { c \<leftarrow> SyncAll s p; sync_targets s ps }"

definition runPeriodicProvisionSync :: "server \<Rightarrow> unit act" where
  "runPeriodicProvisionSync s = do { ps \<leftarrow> Snapshot; sync_targets s ps }"

definition runDeviceGrantReaper :: "unit act" where
  "runDeviceGrantReaper = do { x \<leftarrow> store_at DeleteExpiredDeviceGrants; ret () }"

subsection \<open>Provisioning leaves the core tables alone\<close>

lemmas scim_defs = scim_do_def cachedExternalID_def createUser_def patchUser_def upsertUser_def
  findUserByExternalID_def resolveVaultUserID_def setUserActive_def deleteUser_def scim_User_def
  upsertGroup_def deleteGroup_def scim_Group_def

lemmas awsfed_defs = collectActiveRevokedSubs_def revokeOneRole_def revokeAcrossAllRoles_def RevokeUser_def
  awsfed_User_def push_trimmed_def reap_role_def ReapExpired_def

context step_rel
begin

lemma op_case:
  "always R a \<Longrightarrow> always R b \<Longrightarrow> always R c \<Longrightarrow> always R e \<Longrightarrow>
   always R (case op of OpCreate \<Rightarrow> a | OpUpdate \<Rightarrow> b | OpDeactivate \<Rightarrow> c | OpDelete \<Rightarrow> e)"
  by (cases op) auto

lemma prov_case:
  "(\<And>c. always R (a c)) \<Longrightarrow> (\<And>n. always R (b n)) \<Longrightarrow>
   always R (case p of ProvSCIM c \<Rightarrow> a c | ProvAWS n \<Rightarrow> b n)"
  by (cases p) auto

end

text \<open>What a relation on databases has to allow so that provisioning keeps it: the cache of
  external identifiers and the list of revoked users may change.\<close>

locale prov_rel = db_rel +
  assumes D_ext: "D d (snd (SetExternalID p i x d))" "D d (snd (DeleteExternalID p i d))"
    and D_rev: "D d (snd (AddAWSRevokedUser t i x d))" "D d (snd (DeleteAWSRevokedUser i x d))"
begin

lemmas prov_reads = GetExternalID_def ListAWSRevokedUsers_def ListAWSRoles_def ListUsers_def ListGroups_def
  ListEnabledIntegrations_def D_refl

lemma scim_db:
  "always (on_db D) (scim_User s c op u)" "always (on_db D) (resolveVaultUserID s c u)"
  "always (on_db D) (createUser s c u)"
  unfolding scim_defs by ((intro db_rules op_case)?; (simp_all add: prov_reads D_ext)?)+

lemma scim_group_db: "always (on_db D) (scim_Group s c op g us)"
proof -
  have "always (on_db D) (resolveGroupMembers s c us)" for us
    by (induction us) (simp_all add: ret, intro db_rules scim_db, simp_all)
  then show ?thesis
    unfolding scim_Group_def upsertGroup_def deleteGroup_def scim_do_def by (intro db_rules op_case)
qed

lemma RevokeUser_db: "always (on_db D) (RevokeUser sub)"
proof -
  have one: "always (on_db D) (revokeOneRole r sub)" for r
    unfolding awsfed_defs by ((intro db_rules)?; (simp_all add: prov_reads D_rev)?)+
  have "always (on_db D) (revoke_roles sub rs)" for rs
    by (induction rs) (simp_all add: ret, intro db_rules one, simp_all)
  then show ?thesis
    unfolding RevokeUser_def revokeAcrossAllRoles_def by (intro db_rules) (simp_all add: prov_reads)
qed

lemma ReapExpired_db: "always (on_db D) (ReapExpired t)"
proof -
  have one: "always (on_db D) (push_trimmed r)" for r
    unfolding awsfed_defs by ((intro db_rules)?; (simp_all add: prov_reads)?)+
  have rows: "always (on_db D) (reap_rows i t es)" for i t es
    by (induction es) (simp_all add: ret, intro impI db_rules, simp_all add: D_rev)
  have "always (on_db D) (reap_roles t rs)" for rs
    by (induction rs) (simp_all add: ret reap_role_def, intro db_rules rows one, simp_all add: prov_reads)
  then show ?thesis unfolding ReapExpired_def by (intro db_rules) (simp_all add: prov_reads)
qed

lemma prov_events:
  "always (on_db D) (prov_User s p op u)" "always (on_db D) (prov_Group s p op g us)" "always (on_db D) Snapshot"
  unfolding prov_User_def awsfed_User_def prov_Group_def Snapshot_def
  by (intro db_rules prov_case op_case scim_db scim_group_db RevokeUser_db)+

lemma fan_out_db: "always (on_db D) (provisionUser s op u)" "always (on_db D) (provisionGroup s op g us)"
proof -
  have "always (on_db D) (set_User s ps op u)" for ps u
    by (induction ps) (simp_all add: ret, intro db_rules prov_events, simp_all)
  moreover have "always (on_db D) (set_Group s ps op g us)" for ps
    by (induction ps) (simp_all add: ret, intro db_rules prov_events, simp_all)
  ultimately show "always (on_db D) (provisionUser s op u)" "always (on_db D) (provisionGroup s op g us)"
    unfolding provisionUser_def provisionGroup_def by (intro db_rules prov_events; simp)+
qed

lemma SyncAll_db: "always (on_db D) (SyncAll s p)"
proof -
  have "always (on_db D) (sync_users s p us)" for us
    by (induction us) (simp_all add: ret, intro db_rules prov_events, simp_all)
  moreover have "always (on_db D) (sync_groups s p us gs)" for us gs
    by (induction gs) (simp_all add: ret, intro db_rules prov_events, simp_all)
  ultimately show ?thesis unfolding SyncAll_def by (intro db_rules) (simp_all add: prov_reads)
qed

lemma ticks_db: "always (on_db D) runAWSFedReaper" "always (on_db D) (runPeriodicProvisionSync s)"
proof -
  have "always (on_db D) (reap_all t ps)" for t ps
    by (induction ps) (simp_all add: ret, intro impI db_rules ReapExpired_db, simp_all)
  moreover have "always (on_db D) (sync_targets s ps)" for ps
    by (induction ps) (simp_all add: ret, intro db_rules SyncAll_db, simp_all)
  ultimately show "always (on_db D) runAWSFedReaper" "always (on_db D) (runPeriodicProvisionSync s)"
    unfolding runAWSFedReaper_def runPeriodicProvisionSync_def by (intro db_rules prov_events; simp)+
qed

lemma registry_db: "always (on_db D) (reloadProvisioners s)" "always (on_db D) (lookupProvisioner n)"
  unfolding reloadProvisioners_def buildProvSet_def lookupProvisioner_def
  by ((intro db_rules prov_events)?; (simp_all add: prov_reads)?)+

lemmas provisioning_db = fan_out_db RevokeUser_db SyncAll_db ticks_db registry_db prov_events(3)

end

sublocale core_rel \<subseteq> prov_rel
  by unfold_locales (auto intro!: D_core frames)

interpretation wf: prov_rel "\<lambda>d d'. wf_db d \<longrightarrow> wf_db d'"
  by unfold_locales (auto intro: store_wf)

end
