(* ===== verification/Session_Auth.thy ===== *)
theory Session_Auth
  imports Provision
begin

text \<open>
  Session lifetimes and the bearer middleware: the TTL constants and \<open>capByAbsolute\<close> of
  \<open>src/internal/api/oauth2.go\<close>, \<open>src/internal/api/middleware.go\<close> (\<open>bearerAuth\<close>,
  \<open>adminAuth\<close>, \<open>sessionTokenLive\<close>), the portal session middleware and cookie helpers of
  \<open>src/internal/api/web_portal.go\<close>, and back-channel logout
  (\<open>src/internal/api/backchannel_logout.go\<close>). A middleware takes the handler it wraps
  as a function of what it puts into the request context.
\<close>

definition accessTokenTTL :: duration where "accessTokenTTL = 15 * minute"
definition refreshTokenTTL :: duration where "refreshTokenTTL = 1 * hour"
definition absoluteSessionTTL :: duration where "absoluteSessionTTL = 4 * hour"
definition portalCookieTTL :: duration where "portalCookieTTL = 15 * minute"
definition portalLoginCookieTTL :: duration where "portalLoginCookieTTL = 10 * minute"
definition authStateTTL :: duration where "authStateTTL = 15 * minute"

lemmas ttl_defs = accessTokenTTL_def refreshTokenTTL_def absoluteSessionTTL_def
  portalCookieTTL_def portalLoginCookieTTL_def authStateTTL_def

definition portalClientUUID :: uuid where "portalClientUUID = 1"

definition authStateCookie :: string where "authStateCookie = ''auth_state''"
definition portalCookie :: string where "portalCookie = ''auth_portal''"
definition portalLoginCookie :: string where "portalLoginCookie = ''portal_login''"
definition portalTOTPCookie :: string where "portalTOTPCookie = ''portal_totp''"

definition capByAbsolute :: "time \<Rightarrow> time \<Rightarrow> time" where
  "capByAbsolute deadline createdAt =
     (let hardCap = createdAt + absoluteSessionTTL in
      if deadline > hardCap then hardCap else deadline)"

text \<open>\<open>int(d.Seconds())\<close>: truncation toward zero.\<close>

definition seconds_int :: "duration \<Rightarrow> int" where
  "seconds_int d = (if d \<ge> 0 then d div second else - ((- d) div second))"

definition containsStr :: "string list \<Rightarrow> string \<Rightarrow> bool" where
  "containsStr ss target = list_ex (\<lambda>s. EqualFold s target) ss"

definition sessionTokenLive :: "time \<Rightarrow> Session \<Rightarrow> bool" where
  "sessionTokenLive now sess =
     (if now > s_AccessExpiresAt sess then False
      else if now > s_CreatedAt sess + absoluteSessionTTL then False
      else True)"

subsection \<open>Bearer middleware\<close>

definition extractBearerToken :: "request \<Rightarrow> string" where
  "extractBearerToken r =
     (case CutPrefix (rq_authorization r) ''Bearer '' of None \<Rightarrow> [] | Some raw \<Rightarrow> raw)"

definition bearerAuth :: "server \<Rightarrow> (Session \<Rightarrow> response act) \<Rightarrow> request \<Rightarrow> response act" where
  "bearerAuth s k r =
     (let raw = extractBearerToken r in
      if raw = [] then ret (writeError 401 ''unauthorized'' ''missing token'')
      else do {
        x \<leftarrow> store (GetSessionByAccessTokenHash (HashToken s raw));
        now \<leftarrow> get_now;
        case x of
          Inl ErrNotFound \<Rightarrow> ret (writeError 401 ''invalid_token'' ''token not found'')
        | Inl e \<Rightarrow> ret (writeError 500 ''server_error'' ''internal error'')
        | Inr sess \<Rightarrow>
            if \<not> sessionTokenLive now sess
            then ret (writeError 401 ''invalid_token'' ''access token expired'')
            else k sess
      })"

text \<open>\<open>adminAuth\<close> strips an optional \<open>Bearer\<close> prefix where \<open>bearerAuth\<close> demands it.\<close>

definition adminAuth :: "server \<Rightarrow> (Session \<Rightarrow> response act) \<Rightarrow> request \<Rightarrow> response act" where
  "adminAuth s k r =
     (let raw = TrimPrefix (rq_authorization r) ''Bearer '' in
      if raw = [] then ret (writeError 401 ''unauthorized'' ''missing token'')
      else do {
        x \<leftarrow> store (GetSessionByAccessTokenHash (HashToken s raw));
        now \<leftarrow> get_now;
        case x of
          Inl ErrNotFound \<Rightarrow> ret (writeError 401 ''invalid_token'' ''token not found'')
        | Inl e \<Rightarrow> ret (writeError 500 ''server_error'' ''internal error'')
        | Inr sess \<Rightarrow>
            if \<not> containsStr (s_Scopes sess) ''admin''
            then ret (writeError 403 ''insufficient_scope'' ''admin scope required'')
            else if \<not> sessionTokenLive now sess
            then ret (writeError 401 ''invalid_token'' ''access token expired'')
            else if s_UserID sess \<noteq> uuid_nil then do {
              u \<leftarrow> store (GetUserByID (s_UserID sess));
              case u of
                Inl ErrNotFound \<Rightarrow> ret (writeError 403 ''insufficient_scope'' ''admin privileges required'')
              | Inl e \<Rightarrow> ret (writeError 500 ''server_error'' ''internal error'')
              | Inr user \<Rightarrow>
                  if \<not> u_Active user \<or> \<not> u_IsAdmin user
                  then ret (writeError 403 ''insufficient_scope'' ''admin privileges required'')
                  else k sess
            }
            else k sess
      })"

subsection \<open>Cookies\<close>

text \<open>\<open>r.Cookie\<close> followed by base64 decoding and \<open>bcrypto.Open\<close>.\<close>

datatype cookie_read = NoCookie | BadCookie | Opened box

definition read_cookie :: "request \<Rightarrow> string \<Rightarrow> cookie_read" where
  "read_cookie r name =
     (case map_of (rq_cookies r) name of
        None \<Rightarrow> NoCookie
      | Some None \<Rightarrow> BadCookie
      | Some (Some b) \<Rightarrow> Opened b)"

definition clearCookie :: "string \<Rightarrow> unit act" where
  "clearCookie name = set_cookie name None (-1)"

text \<open>Sealing a value and setting the cookie; \<open>False\<close> when \<open>bcrypto.Seal\<close> fails.\<close>

definition seal_cookie :: "server \<Rightarrow> string \<Rightarrow> box \<Rightarrow> int \<Rightarrow> bool act" where
  "seal_cookie s name b maxAge = do {
     n \<leftarrow> draw;
     if x_SealFails (srv_ext s) n then ret False
     else do { set_cookie name (Some b) maxAge; ret True } }"

definition setPortalCookie :: "server \<Rightarrow> string \<Rightarrow> duration \<Rightarrow> string \<Rightarrow> bool act" where
  "setPortalCookie s rawToken ttl name = seal_cookie s name (BoxToken rawToken) (seconds_int ttl)"

definition setPortalLoginCookie :: "server \<Rightarrow> uuid \<Rightarrow> bool act" where
  "setPortalLoginCookie s userID = do {
     now \<leftarrow> get_now;
     seal_cookie s portalLoginCookie
       (BoxLogin \<lparr>pl_UserID = userID, pl_Exp = now + portalLoginCookieTTL\<rparr>)
       (seconds_int portalLoginCookieTTL) }"

definition getPortalLoginCookie :: "request \<Rightarrow> portalLoginState option act" where
  "getPortalLoginCookie r = do {
     now \<leftarrow> get_now;
     ret (case read_cookie r portalLoginCookie of
            Opened b \<Rightarrow>
              (case box_login b of
                 None \<Rightarrow> None
               | Some st \<Rightarrow> if now > pl_Exp st then None else Some st)
          | _ \<Rightarrow> None) }"

definition setTOTPPendingCookie :: "server \<Rightarrow> string \<Rightarrow> string \<Rightarrow> bool act" where
  "setTOTPPendingCookie s uri secret = do {
     now \<leftarrow> get_now;
     seal_cookie s portalTOTPCookie
       (BoxTOTP \<lparr>tp_OTPURI = uri, tp_Secret = secret, tp_Exp = now + 10 * minute\<rparr>) 600 }"

definition getTOTPPendingCookie :: "request \<Rightarrow> totpPending option act" where
  "getTOTPPendingCookie r = do {
     now \<leftarrow> get_now;
     ret (case read_cookie r portalTOTPCookie of
            Opened b \<Rightarrow>
              (case box_totp b of
                 None \<Rightarrow> None
               | Some tp \<Rightarrow> if now > tp_Exp tp then None else Some tp)
          | _ \<Rightarrow> None) }"

definition setAuthStateCookie :: "server \<Rightarrow> authState \<Rightarrow> bool act" where
  "setAuthStateCookie s st = seal_cookie s authStateCookie (BoxState st) (seconds_int authStateTTL)"

definition getAuthStateCookie :: "request \<Rightarrow> authState option act" where
  "getAuthStateCookie r = do {
     now \<leftarrow> get_now;
     ret (case read_cookie r authStateCookie of
            Opened b \<Rightarrow>
              (case box_state b of
                 None \<Rightarrow> None
               | Some st \<Rightarrow> if now > st_Exp st then None else Some st)
          | _ \<Rightarrow> None) }"

subsection \<open>Portal sessions\<close>

text \<open>The three outcomes of \<open>readAuthPortalSession\<close>: no cookie (nil session, nil error), an
  error, or the session with its user and the raw token.\<close>

datatype portal_read = PortalAnonymous | PortalError | PortalSession Session User string

definition box_token :: "server \<Rightarrow> box \<Rightarrow> string" where
  "box_token s b = (case b of BoxToken t \<Rightarrow> t | _ \<Rightarrow> x_BoxBytes (srv_ext s) b)"

definition readAuthPortalSession :: "server \<Rightarrow> request \<Rightarrow> portal_read act" where
  "readAuthPortalSession s r =
     (case read_cookie r portalCookie of
        NoCookie \<Rightarrow> ret PortalAnonymous
      | BadCookie \<Rightarrow> ret PortalError
      | Opened b \<Rightarrow> do {
          x \<leftarrow> store (GetSessionByAccessTokenHash (HashToken s (box_token s b)));
          now \<leftarrow> get_now;
          case x of
            Inl e \<Rightarrow> ret PortalError
          | Inr sess \<Rightarrow>
              if now > s_AccessExpiresAt sess then ret PortalError
              else if now > s_CreatedAt sess + absoluteSessionTTL then ret PortalError
              else do {
                u \<leftarrow> store (GetUserByID (s_UserID sess));
                case u of
                  Inl e \<Rightarrow> ret PortalError
                | Inr user \<Rightarrow> ret (PortalSession sess user (box_token s b)) } })"

definition slidePortalSession :: "server \<Rightarrow> Session \<Rightarrow> string \<Rightarrow> Session act" where
  "slidePortalSession s sess rawToken = do {
     now \<leftarrow> get_now;
     let newExpiry = capByAbsolute (now + portalCookieTTL) (s_CreatedAt sess);
     x \<leftarrow> store (ExtendSessionExpiry (s_ID sess) newExpiry);
     let sess' = (case x of Inl e \<Rightarrow> sess | Inr u \<Rightarrow> sess\<lparr>s_AccessExpiresAt := newExpiry\<rparr>);
     y \<leftarrow> store (UpdateSessionActivity (s_ID sess) now);
     let cookieMaxAge = (if newExpiry - now \<le> 0 then second else newExpiry - now);
     z \<leftarrow> setPortalCookie s rawToken cookieMaxAge portalCookie;
     ret sess' }"

definition portalAuth :: "server \<Rightarrow> (Session \<Rightarrow> User \<Rightarrow> response act) \<Rightarrow> request \<Rightarrow> response act" where
  "portalAuth s k r = do {
     p \<leftarrow> readAuthPortalSession s r;
     case p of
       PortalSession sess user rawToken \<Rightarrow> do {
         sess' \<leftarrow> slidePortalSession s sess rawToken;
         k sess' user }
     | _ \<Rightarrow> do { clearCookie portalCookie; ret (RRedirect ''/portal/login'' []) } }"

definition portalAdminAuth ::
  "server \<Rightarrow> (Session \<Rightarrow> User \<Rightarrow> response act) \<Rightarrow> request \<Rightarrow> response act" where
  "portalAdminAuth s k r =
     portalAuth s (\<lambda>sess user. if \<not> u_IsAdmin user then ret (RText 403 ''forbidden'') else k sess user) r"

subsection \<open>Back-channel logout\<close>

fun notify_clients :: "uuid \<Rightarrow> string \<Rightarrow> uuid list \<Rightarrow> unit act" where
  "notify_clients userID sid [] = ret ()"
| "notify_clients userID sid (cid # cids) =
     (if cid = portalClientUUID then notify_clients userID sid cids
      else do {
        c \<leftarrow> store (GetClientByID cid);
        (case c of
           Inl e \<Rightarrow> ret ()
         | Inr client \<Rightarrow>
             (case c_BackchannelLogoutURI client of
                None \<Rightarrow> ret ()
              | Some uri \<Rightarrow>
                  if TrimSpace uri = [] then ret ()
                  else send (LogoutPush (c_ID client) uri (c_ClientID client) userID sid)));
        notify_clients userID sid cids
      })"

definition broadcastLogout :: "server \<Rightarrow> uuid \<Rightarrow> string \<Rightarrow> unit act" where
  "broadcastLogout s userID sid =
     (if \<not> srv_hasSigner s then ret ()
      else do {
        ids \<leftarrow> store (ListSessionClientIDsByUser userID);
        case ids of
          Inl e \<Rightarrow> ret ()
        | Inr clientIDs \<Rightarrow>
            if clientIDs = [] then ret ()
            else do {
              u \<leftarrow> store (GetUserByID userID);
              case u of
                Inl e \<Rightarrow> ret ()
              | Inr user \<Rightarrow> notify_clients (u_ID user) sid clientIDs } })"

subsection \<open>The absolute session lifetime\<close>

lemma capByAbsolute_le:
  "capByAbsolute deadline createdAt \<le> createdAt + absoluteSessionTTL"
  "capByAbsolute deadline createdAt \<le> deadline"
  by (auto simp: capByAbsolute_def Let_def)

definition session_capped :: "Session \<Rightarrow> bool" where
  "session_capped s \<longleftrightarrow> s_AccessExpiresAt s \<le> s_CreatedAt s + absoluteSessionTTL
     \<and> s_RefreshExpiresAt s \<le> s_CreatedAt s + absoluteSessionTTL"

definition cap_inv :: "db \<Rightarrow> bool" where
  "cap_inv d \<longleftrightarrow> uniq_sessions (sessions d) \<and> (\<forall>s\<in>set (sessions d). session_capped s)"

lemma cap_inv_core: "core_same d d' \<Longrightarrow> cap_inv d' = cap_inv d"
  by (simp add: cap_inv_def core_same_def)

lemmas cap_frames = core_same_ops [THEN cap_inv_core] core_same_aws [THEN cap_inv_core]
  core_same_members [THEN cap_inv_core]

interpretation cap: core_rel "\<lambda>d d'. cap_inv d \<longrightarrow> cap_inv d'"
  by unfold_locales (simp_all add: cap_inv_core)

abbreviation keeps_cap :: "'a act \<Rightarrow> bool" where
  "keeps_cap \<equiv> always (on_db (\<lambda>d d'. cap_inv d \<longrightarrow> cap_inv d'))"

lemma cap_delete_sessions: "cap_inv d \<Longrightarrow> cap_inv (delete_sessions P d)"
  by (auto simp: cap_inv_def delete_sessions_def Let_def table_simps table_sets)

lemma cap_deletes:
  "cap_inv d \<Longrightarrow> cap_inv (snd (DeleteSession sid d))"
  "cap_inv d \<Longrightarrow> cap_inv (snd (DeleteSessionsByUserID uid d))"
  "cap_inv d \<Longrightarrow> cap_inv (snd (DeleteExpiredSessions now d))"
  "cap_inv d \<Longrightarrow> cap_inv (snd (DeleteUser uid d))"
  "cap_inv d \<Longrightarrow> cap_inv (snd (DeleteClient cid d))"
  using cap_delete_sessions
  by (auto simp: DeleteSession_def DeleteSessionsByUserID_def DeleteExpiredSessions_def DeleteUser_def
      DeleteClient_def delete_user_row_def delete_client_row_def cap_inv_def Let_def)

text \<open>Codes and device grants are not sessions.\<close>

lemma cap_grant_ops:
  "cap_inv d \<Longrightarrow> cap_inv (snd (CreateGrant g d))" "cap_inv d \<Longrightarrow> cap_inv (snd (MarkGrantUsed now gid d))"
  "cap_inv d \<Longrightarrow> cap_inv (snd (DeleteExpiredGrants now d))"
  "cap_inv d \<Longrightarrow> cap_inv (snd (CreateDeviceGrant now fresh dg d))"
  "cap_inv d \<Longrightarrow> cap_inv (snd (MarkDeviceGrantApproved gid uid b t ip d))"
  "cap_inv d \<Longrightarrow> cap_inv (snd (MarkDeviceGrantDenied gid ip d))"
  "cap_inv d \<Longrightarrow> cap_inv (snd (MarkDeviceGrantRedeemed gid d))"
  "cap_inv d \<Longrightarrow> cap_inv (snd (UpdateDeviceGrantPoll gid now n d))"
  "cap_inv d \<Longrightarrow> cap_inv (snd (DeleteExpiredDeviceGrants now d))"
  by (simp_all add: cap_inv_def store_defs insert_outcome_def Let_def)

lemma cap_update_session:
  assumes "cap_inv d" "\<And>s. s_ID (f s) = s_ID s" "\<And>s. s_AccessTokenHash (f s) = s_AccessTokenHash s"
    "\<And>s. s_RefreshTokenHash (f s) = s_RefreshTokenHash s"
    "\<And>s. s \<in> set (sessions d) \<Longrightarrow> s_ID s = sid \<Longrightarrow> session_capped s \<Longrightarrow> session_capped (f s)"
  shows "cap_inv (snd (update_session sid f d))"
proof -
  have "uniq_sessions (sql_update P f t) = uniq_sessions t" for P t
    using assms(2-4) by (simp add: uniq_sessions_def table_simps)
  moreover have "\<forall>s\<in>set (sql_update (\<lambda>s. s_ID s = sid) f (sessions d)). session_capped s"
    using assms(1,5) by (intro ball_sql_updateI) (auto simp: cap_inv_def)
  ultimately show ?thesis using assms(1) by (simp add: cap_inv_def update_session_def)
qed

lemma cap_session_updates:
  assumes "cap_inv d"
  shows "cap_inv (snd (UpdateSessionActivity sid t d))" "cap_inv (snd (MarkSessionMFA sid t d))"
  using assms by (auto simp: UpdateSessionActivity_def MarkSessionMFA_def session_capped_def
      intro!: cap_update_session)

text \<open>Sliding keeps the cap when the new expiry was capped by the creation time of the very
  row that is updated.\<close>

lemma cap_ExtendSessionExpiry:
  assumes "cap_inv d" "sess \<in> set (sessions d)" "t \<le> s_CreatedAt sess + absoluteSessionTTL"
  shows "cap_inv (snd (ExtendSessionExpiry (s_ID sess) t d))"
  unfolding ExtendSessionExpiry_def
proof (rule cap_update_session [OF assms(1)])
  fix s assume "s \<in> set (sessions d)" "s_ID s = s_ID sess" "session_capped s"
  moreover from this have "s = sess"
    using assms(1,2) by (auto simp: cap_inv_def uniq_sessions_def intro: distinct_key_eq)
  ultimately show "session_capped (s\<lparr>s_AccessExpiresAt := t\<rparr>)"
    using assms(3) by (simp add: session_capped_def)
qed simp_all

lemma cap_CreateSession:
  assumes "cap_inv d" "s_AccessExpiresAt s \<le> now + 2 * hour" "s_RefreshExpiresAt s \<le> now + 2 * hour"
  shows "cap_inv (snd (CreateSession now s d))"
  using assms current_timestamp_gt [of now]
  by (auto simp: cap_inv_def CreateSession_def insert_outcome_def Let_def session_capped_def
      absoluteSessionTTL_def duration_defs)

lemma cap_RotateRefreshToken:
  assumes "cap_inv d" "sess \<in> set (sessions d)" "ea \<le> s_CreatedAt sess + absoluteSessionTTL"
    "er \<le> s_CreatedAt sess + absoluteSessionTTL"
  shows "cap_inv (snd (RotateRefreshToken (s_ID sess) old na nr ea er d))"
proof -
  let ?hit = "\<lambda>s. s_ID s = s_ID sess \<and> s_RefreshTokenHash s = old"
  let ?f = "\<lambda>s. s\<lparr>s_AccessTokenHash := na, s_RefreshTokenHash := nr, s_AccessExpiresAt := ea,
    s_RefreshExpiresAt := er\<rparr>"
  have "session_capped (if ?hit s then ?f s else s)" if s: "s \<in> set (sessions d)" for s
  proof (cases "?hit s")
    case True
    then have "s = sess"
      using assms(1,2) s by (auto simp: cap_inv_def uniq_sessions_def intro: distinct_key_eq)
    then show ?thesis using assms(3,4) True by (simp add: session_capped_def)
  next
    case False then show ?thesis using assms(1) s by (auto simp: cap_inv_def)
  qed
  then have "\<forall>s\<in>set (sql_update ?hit ?f (sessions d)). session_capped s" by (rule ball_sql_updateI)
  then show ?thesis using assms(1) by (simp add: cap_inv_def RotateRefreshToken_def Let_def)
qed

subsection \<open>Relations kept by the middlewares\<close>

context step_rel
begin

lemma portal_case:
  "always R a \<Longrightarrow> always R b \<Longrightarrow> (\<And>se u t. p = PortalSession se u t \<Longrightarrow> always R (c se u t)) \<Longrightarrow>
   always R (case p of PortalAnonymous \<Rightarrow> a | PortalError \<Rightarrow> b | PortalSession se u t \<Rightarrow> c se u t)"
  by (cases p) auto

lemma cookie_case:
  "always R a \<Longrightarrow> always R b \<Longrightarrow> (\<And>x. always R (c x)) \<Longrightarrow>
   always R (case p of NoCookie \<Rightarrow> a | BadCookie \<Rightarrow> b | Opened x \<Rightarrow> c x)"
  by (cases p) auto

end

context db_rel
begin

lemma bearerAuth_db: "(\<And>sess. always (on_db D) (k sess)) \<Longrightarrow> always (on_db D) (bearerAuth s k r)"
  unfolding bearerAuth_def by (intro db_rules) (simp_all add: D_refl)

lemma adminAuth_db: "(\<And>sess. always (on_db D) (k sess)) \<Longrightarrow> always (on_db D) (adminAuth s k r)"
  unfolding adminAuth_def by (intro db_rules) (simp_all add: D_refl)

lemma cookie_db:
  "always (on_db D) (seal_cookie s n b a)" "always (on_db D) (setPortalCookie s t ttl n)"
  "always (on_db D) (setPortalLoginCookie s uid)" "always (on_db D) (getPortalLoginCookie r)"
  "always (on_db D) (setTOTPPendingCookie s uri sec)" "always (on_db D) (getTOTPPendingCookie r)"
  "always (on_db D) (setAuthStateCookie s st)" "always (on_db D) (getAuthStateCookie r)"
  "always (on_db D) (clearCookie n)"
  unfolding seal_cookie_def setPortalCookie_def setPortalLoginCookie_def getPortalLoginCookie_def
    setTOTPPendingCookie_def getTOTPPendingCookie_def setAuthStateCookie_def getAuthStateCookie_def
    clearCookie_def
  by (intro db_rules)+

lemma readAuthPortalSession_db: "always (on_db D) (readAuthPortalSession s r)"
  unfolding readAuthPortalSession_def by (intro db_rules cookie_case) (simp_all add: D_refl)

lemma notify_clients_db: "always (on_db D) (notify_clients uid sid cids)"
proof (induction cids)
  case (Cons c cids)
  then show ?case by (simp, intro conjI impI) (intro db_rules, simp_all add: D_refl)
qed (simp add: ret)

lemma broadcastLogout_db: "always (on_db D) (broadcastLogout s uid sid)"
  unfolding broadcastLogout_def by (intro db_rules notify_clients_db) (simp_all add: D_refl)

end

text \<open>The outcome of reading the portal cookie.\<close>

lemma readAuthPortalSession_session:
  assumes "run_state (readAuthPortalSession s r) w = (PortalSession sess user raw, w')"
  shows "sess \<in> set (sessions (w_db w))" "s_AccessTokenHash sess = HashToken s raw"
    "sessionTokenLive (w_now w) sess" "user \<in> set (users (w_db w))" "u_ID user = s_UserID sess"
    "w_db w' = w_db w" "w_now w' = w_now w"
  using assms unfolding readAuthPortalSession_def
  by (auto simp: run_simps GetSessionByAccessTokenHash_def GetUserByID_def sessionTokenLive_def
      split: cookie_read.splits case_splits dest!: select_row_Inr)

lemma slide_keeps_cap:
  assumes "run_state (slidePortalSession s sess raw) w = (sess', w')" "cap_inv (w_db w)"
    "sess \<in> set (sessions (w_db w))"
  shows "cap_inv (w_db w')"
proof -
  let ?d = "snd (ExtendSessionExpiry (s_ID sess)
    (capByAbsolute (w_now w + portalCookieTTL) (s_CreatedAt sess)) (w_db w))"
  have d: "cap_inv ?d"
    using cap_ExtendSessionExpiry [OF assms(2,3) capByAbsolute_le(1)] .
  show ?thesis
    using assms d unfolding slidePortalSession_def setPortalCookie_def seal_cookie_def
    by (auto simp: run_simps Let_def cap_session_updates split: case_splits)
qed

lemma cap_portalAuth:
  assumes k: "\<And>sess user. keeps_cap (k sess user)"
  shows "keeps_cap (portalAuth s k r)"
proof (rule alwaysI)
  fix w resp w' assume run: "run_state (portalAuth s k r) w = (resp, w')"
  obtain p w1 where p: "run_state (readAuthPortalSession s r) w = (p, w1)" by fastforce
  show "on_db (\<lambda>d d'. cap_inv d \<longrightarrow> cap_inv d') w w'"
  proof (cases p)
    case (PortalSession sess user raw)
    note rd = readAuthPortalSession_session [OF p [unfolded this]]
    obtain sess' w2 where sl: "run_state (slidePortalSession s sess raw) w1 = (sess', w2)" by fastforce
    have "run_state (k sess' user) w2 = (resp, w')"
      using run p sl PortalSession by (simp add: portalAuth_def)
    then show ?thesis
      using slide_keeps_cap [OF sl] rd alwaysD [OF k] by (fastforce simp: on_db_def)
  qed (use run p alwaysD [OF cap.readAuthPortalSession_db p] in \<open>auto simp: portalAuth_def clearCookie_def on_db_def\<close>)
qed

lemma cap_portalAdminAuth: "(\<And>sess user. keeps_cap (k sess user)) \<Longrightarrow> keeps_cap (portalAdminAuth s k r)"
  unfolding portalAdminAuth_def by (rule cap_portalAuth) (intro cap.rules)

lemma wf_portalAuth: "(\<And>sess user. keeps_wf (k sess user)) \<Longrightarrow> keeps_wf (portalAuth s k r)"
  unfolding portalAuth_def slidePortalSession_def
  by (intro wf.db_rules wf.portal_case wf.readAuthPortalSession_db wf.cookie_db) (simp_all add: store_wf)

lemma wf_portalAdminAuth: "(\<And>sess user. keeps_wf (k sess user)) \<Longrightarrow> keeps_wf (portalAdminAuth s k r)"
  unfolding portalAdminAuth_def by (rule wf_portalAuth) (intro wf.rules)

subsection \<open>What the middlewares let through\<close>

definition refusal :: "response \<Rightarrow> bool" where
  "refusal resp \<longleftrightarrow> (\<exists>n code desc. resp = writeError n code desc \<and> n \<in> {401, 403, 500})"

lemma refusal_writeError [simp]: "n \<in> {401, 403, 500} \<Longrightarrow> refusal (writeError n c d)"
  by (auto simp: refusal_def)

text \<open>The wrapped handler ran on the same world, up to the failure script already consumed.\<close>

definition handed_to :: "response act \<Rightarrow> world \<Rightarrow> response \<Rightarrow> world \<Rightarrow> bool" where
  "handed_to m w resp w' \<longleftrightarrow> (\<exists>fs. run_state m (w\<lparr>w_faults := fs\<rparr>) = (resp, w'))"

lemma handed_toI [intro]: "run_state m (w\<lparr>w_faults := fs\<rparr>) = (resp, w') \<Longrightarrow> handed_to m w resp w'"
  by (auto simp: handed_to_def)

lemma bearerAuth_run:
  assumes "run_state (bearerAuth s k r) w = (resp, w')"
  shows "(refusal resp \<and> w_db w' = w_db w) \<or>
    (\<exists>sess\<in>set (sessions (w_db w)). extractBearerToken r \<noteq> [] \<and>
       s_AccessTokenHash sess = HashToken s (extractBearerToken r) \<and>
       sessionTokenLive (w_now w) sess \<and> handed_to (k sess) w resp w')"
  using assms unfolding bearerAuth_def
  by (auto simp: run_simps GetSessionByAccessTokenHash_def Let_def split: case_splits dest!: select_row_Inr)

lemma adminAuth_run:
  assumes "run_state (adminAuth s k r) w = (resp, w')"
  shows "(refusal resp \<and> w_db w' = w_db w) \<or>
    (\<exists>sess\<in>set (sessions (w_db w)).
       s_AccessTokenHash sess = HashToken s (TrimPrefix (rq_authorization r) ''Bearer '') \<and>
       containsStr (s_Scopes sess) ''admin'' \<and> sessionTokenLive (w_now w) sess \<and>
       (s_UserID sess = uuid_nil \<or>
          (\<exists>u\<in>set (users (w_db w)). u_ID u = s_UserID sess \<and> u_Active u \<and> u_IsAdmin u)) \<and>
       handed_to (k sess) w resp w')"
  using assms unfolding adminAuth_def
  by (auto simp: run_simps GetSessionByAccessTokenHash_def GetUserByID_def Let_def
      split: case_splits dest!: select_row_Inr)

end
