(* ===== verification/Url.thy ===== *)
theory Url
  imports Model
begin

text \<open>
  Redirect-URI matching of \<open>src/internal/api/oauth2.go\<close> (\<open>validRedirectURI\<close>,
  \<open>loopbackRedirectMatch\<close>, \<open>isLoopbackHost\<close>), on a model of the parts of Go's \<open>net/url\<close> it uses:
  \<open>url.Parse\<close> (control bytes, fragment, scheme, query, authority with user info
  and port, percent-decoding per component) and \<open>URL.Hostname\<close>.
\<close>

subsection \<open>Cutting strings\<close>

fun cut_at :: "char \<Rightarrow> string \<Rightarrow> string \<times> string option" where
  "cut_at sep [] = ([], None)"
| "cut_at sep (c # s) =
     (if c = sep then ([], Some s) else (case cut_at sep s of (a, b) \<Rightarrow> (c # a, b)))"

text \<open>The text before and after the last occurrence of a byte.\<close>

definition cut_last :: "char \<Rightarrow> string \<Rightarrow> (string \<times> string) option" where
  "cut_last sep s =
     (case cut_at sep (rev s) of
        (a, None) \<Rightarrow> None
      | (a, Some b) \<Rightarrow> Some (rev b, rev a))"

definition after_cut :: "char \<Rightarrow> string \<Rightarrow> string" where
  "after_cut sep s = (case snd (cut_at sep s) of None \<Rightarrow> [] | Some b \<Rightarrow> b)"

subsection \<open>Percent-decoding\<close>

datatype encoding = encodePath | encodeUserPassword | encodeHost | encodeZone

definition unhex :: "char \<Rightarrow> nat option" where
  "unhex c =
     (if is_digit c then Some (char_code c - 48)
      else if in_range 97 102 c then Some (char_code c - 87)
      else if in_range 65 70 c then Some (char_code c - 55)
      else None)"

definition host_byte_ok :: "char \<Rightarrow> bool" where
  "host_byte_ok c \<longleftrightarrow> 128 \<le> char_code c \<or> is_alnum c \<or> c \<in> set ''-_.~!$&()*+,;=:[]<>'' \<or> char_code c \<in> {34, 39}"

text \<open>One escape: the decoded byte, or \<open>None\<close> where \<open>unescape\<close> reports an error. In a host
  only the percent sign and non-ASCII bytes may be escaped; a zone may also
  escape what would need escaping in a host.\<close>

definition decode_escape :: "encoding \<Rightarrow> nat \<Rightarrow> nat \<Rightarrow> nat option" where
  "decode_escape mode h l =
     (let v = h * 16 + l in
      case mode of
        encodeHost \<Rightarrow> if h < 8 \<and> v \<noteq> 37 then None else Some v
      | encodeZone \<Rightarrow> if v \<noteq> 37 \<and> v \<noteq> 32 \<and> v < 128 \<and> \<not> host_byte_ok (char_of v) then None else Some v
      | _ \<Rightarrow> Some v)"

fun unescape :: "encoding \<Rightarrow> string \<Rightarrow> string option" where
  "unescape mode [] = Some []"
| "unescape mode (c # s) =
     (if c = CHR ''%'' then
        (case s of
           a # b # rest \<Rightarrow>
             (case (unhex a, unhex b) of
                (Some h, Some l) \<Rightarrow>
                  (case (decode_escape mode h l, unescape mode rest) of
                     (Some v, Some t) \<Rightarrow> Some (char_of v # t)
                   | _ \<Rightarrow> None)
              | _ \<Rightarrow> None)
         | _ \<Rightarrow> None)
      else if mode \<in> {encodeHost, encodeZone} \<and> \<not> host_byte_ok c then None
      else map_option (\<lambda>t. c # t) (unescape mode s))"

subsection \<open>url.Parse\<close>

record URL =
  url_Scheme :: string
  url_Host :: string
  url_Path :: string
  url_Opaque :: string
  url_RawQuery :: string

definition is_ctl :: "char \<Rightarrow> bool" where
  "is_ctl c \<longleftrightarrow> char_code c < 32 \<or> char_code c = 127"

text \<open>\<open>getScheme\<close>: \<open>None\<close> is the error \<open>missing protocol scheme\<close>.\<close>

fun scheme_scan :: "string \<Rightarrow> string \<Rightarrow> (string \<times> string) option" where
  "scheme_scan acc [] = Some ([], rev acc)"
| "scheme_scan acc (c # s) =
     (if is_upper c \<or> is_lower c then scheme_scan (c # acc) s
      else if is_digit c \<or> c \<in> set ''+-.''
      then (if acc = [] then Some ([], c # s) else scheme_scan (c # acc) s)
      else if c = CHR '':'' then (if acc = [] then None else Some (rev acc, s))
      else Some ([], rev acc @ c # s))"

definition validOptionalPort :: "string \<Rightarrow> bool" where
  "validOptionalPort p =
     (case p of [] \<Rightarrow> True | c # ds \<Rightarrow> c = CHR '':'' \<and> list_all is_digit ds)"

definition validUserinfo :: "string \<Rightarrow> bool" where
  "validUserinfo s = list_all (\<lambda>c. is_alnum c \<or> c \<in> set ''-._:~!$&()*+,;=%@'' \<or> char_code c = 39) s"

definition find_zone :: "string \<Rightarrow> nat option" where
  "find_zone s = find (\<lambda>i. take 3 (drop i s) = ''%25'') [0..<length s]"

definition parseHost :: "string \<Rightarrow> string option" where
  "parseHost host =
     (if HasPrefix host ''['' then
        (case cut_last CHR '']'' host of
           None \<Rightarrow> None
         | Some (before, port) \<Rightarrow>
             if \<not> validOptionalPort port then None
             else (case find_zone before of
                 None \<Rightarrow> unescape encodeHost host
               | Some z \<Rightarrow>
                   (case (unescape encodeHost (take z before), unescape encodeZone (drop z before),
                          unescape encodeHost (CHR '']'' # port)) of
                      (Some a, Some b, Some c) \<Rightarrow> Some (a @ b @ c)
                    | _ \<Rightarrow> None)))
      else (case cut_last CHR '':'' host of
              Some (before, port) \<Rightarrow>
                if validOptionalPort (CHR '':'' # port) then unescape encodeHost host else None
            | None \<Rightarrow> unescape encodeHost host))"

definition parseAuthority :: "string \<Rightarrow> string option" where
  "parseAuthority a =
     (case cut_last CHR ''@'' a of
        None \<Rightarrow> parseHost a
      | Some (userinfo, h) \<Rightarrow>
          (case parseHost h of
             None \<Rightarrow> None
           | Some host \<Rightarrow>
               if \<not> validUserinfo userinfo then None
               else (case cut_at CHR '':'' userinfo of
                   (u, None) \<Rightarrow> if unescape encodeUserPassword u = None then None else Some host
                 | (u, Some p) \<Rightarrow>
                     if unescape encodeUserPassword u = None \<or> unescape encodeUserPassword p = None
                     then None else Some host)))"

definition set_path :: "URL \<Rightarrow> string \<Rightarrow> URL option" where
  "set_path u p = map_option (\<lambda>x. u\<lparr>url_Path := x\<rparr>) (unescape encodePath p)"

definition parse_rest :: "string \<Rightarrow> string \<Rightarrow> string \<Rightarrow> URL option" where
  "parse_rest scheme rest query =
     (let u = \<lparr>url_Scheme = scheme, url_Host = [], url_Path = [], url_Opaque = [], url_RawQuery = query\<rparr> in
      if \<not> HasPrefix rest ''/'' \<and> scheme \<noteq> [] then Some (u\<lparr>url_Opaque := rest\<rparr>)
      else if \<not> HasPrefix rest ''/'' \<and> CHR '':'' \<in> set (fst (cut_at CHR ''/'' rest)) then None
      else if (scheme \<noteq> [] \<or> \<not> HasPrefix rest ''///'') \<and> HasPrefix rest ''//'' then
        (let body = drop 2 rest;
             authority = takeWhile (\<lambda>c. c \<noteq> CHR ''/'') body;
             path = dropWhile (\<lambda>c. c \<noteq> CHR ''/'') body in
         case parseAuthority authority of
           None \<Rightarrow> None
         | Some host \<Rightarrow> set_path (u\<lparr>url_Host := host\<rparr>) path)
      else set_path u rest)"

definition Parse :: "string \<Rightarrow> URL option" where
  "Parse raw =
     (let u = fst (cut_at CHR ''#'' raw); frag = after_cut CHR ''#'' raw in
      if list_ex is_ctl u then None
      else if u = ''*'' then
        (if unescape encodePath frag = None then None
         else Some \<lparr>url_Scheme = [], url_Host = [], url_Path = ''*'', url_Opaque = [], url_RawQuery = []\<rparr>)
      else (case scheme_scan [] u of
          None \<Rightarrow> None
        | Some (sch, rest) \<Rightarrow>
            (case parse_rest (ToLower sch) (fst (cut_at CHR ''?'' rest)) (after_cut CHR ''?'' rest) of
               None \<Rightarrow> None
             | Some p \<Rightarrow> if unescape encodePath frag = None then None else Some p)))"

definition Hostname :: "URL \<Rightarrow> string" where
  "Hostname u =
     (let h = url_Host u;
          h1 = (case cut_last CHR '':'' h of
                  Some (before, port) \<Rightarrow> if validOptionalPort (CHR '':'' # port) then before else h
                | None \<Rightarrow> h) in
      if HasPrefix h1 ''['' \<and> HasSuffix h1 '']'' then take (length h1 - 2) (drop 1 h1) else h1)"

subsection \<open>Redirect URIs\<close>

definition isLoopbackHost :: "string \<Rightarrow> bool" where
  "isLoopbackHost host \<longleftrightarrow>
     (let h = ToLower (trim_by (\<lambda>c. c \<in> set ''[]'') host) in
      h = ''127.0.0.1'' \<or> h = ''::1'' \<or> h = ''localhost'')"

definition loopbackRedirectMatch :: "string list \<Rightarrow> string \<Rightarrow> bool" where
  "loopbackRedirectMatch registered uri =
     (case Parse uri of
        None \<Rightarrow> False
      | Some u \<Rightarrow>
          if url_Scheme u \<noteq> ''http'' then False
          else if \<not> isLoopbackHost (Hostname u) then False
          else list_ex (\<lambda>reg.
              case Parse reg of
                None \<Rightarrow> False
              | Some g \<Rightarrow> url_Scheme g = ''http'' \<and> isLoopbackHost (Hostname g) \<and> url_Path g = url_Path u)
            registered)"

definition validRedirectURI :: "Client \<Rightarrow> string \<Rightarrow> bool" where
  "validRedirectURI client uri \<longleftrightarrow>
     uri \<in> set (c_RedirectURIs client) \<or> loopbackRedirectMatch (c_RedirectURIs client) uri"

subsection \<open>Facts\<close>

text \<open>A URI that is accepted without being registered verbatim stays on the machine: it is
  plain http to a loopback host, with the path of a registered loopback URI.\<close>

lemma validRedirectURI_cases:
  assumes "validRedirectURI c uri"
  shows "uri \<in> set (c_RedirectURIs c) \<or>
    (\<exists>u. Parse uri = Some u \<and> url_Scheme u = ''http'' \<and> isLoopbackHost (Hostname u) \<and>
      (\<exists>reg\<in>set (c_RedirectURIs c). \<exists>g. Parse reg = Some g \<and> url_Scheme g = ''http'' \<and>
         isLoopbackHost (Hostname g) \<and> url_Path g = url_Path u))"
  using assms
  by (auto simp: validRedirectURI_def loopbackRedirectMatch_def list_ex_iff
      split: option.splits if_splits)

lemma validRedirectURI_none: "c_RedirectURIs c = [] \<Longrightarrow> \<not> validRedirectURI c uri"
  by (simp add: validRedirectURI_def loopbackRedirectMatch_def split: option.splits)

text \<open>The port of a loopback redirect does not matter.\<close>

lemma validRedirectURI_examples:
  "loopbackRedirectMatch [''http://127.0.0.1/callback''] ''http://127.0.0.1:49152/callback''"
  "loopbackRedirectMatch [''http://127.0.0.1/callback''] ''http://[::1]:8080/callback''"
  "\<not> loopbackRedirectMatch [''http://127.0.0.1/callback''] ''http://127.0.0.1:80/other''"
  "\<not> loopbackRedirectMatch [''http://127.0.0.1/callback''] ''http://127.0.0.1@evil.com/callback''"
  "\<not> loopbackRedirectMatch [''https://rp.example.com/cb''] ''https://rp.example.com:444/cb''"
  by code_simp+

end
