(* ===== verification/Pkce.thy ===== *)
theory Pkce
  imports Go_Strings "HOL-Library.Word"
begin

unbundle bit_operations_syntax

text \<open>
  Proof Key for Code Exchange: \<open>verifyPKCE\<close> of \<open>src/internal/api/oauth2.go\<close> with the two
  standard-library functions it computes with, SHA-256 (FIPS 180-4, on 32-bit words) and
  unpadded base64url (RFC 4648).
\<close>

subsection \<open>SHA-256\<close>

type_synonym w32 = "32 word"

definition K256 :: "w32 list" where
  "K256 = [
   1116352408, 1899447441, 3049323471, 3921009573, 961987163, 1508970993, 2453635748, 2870763221,
   3624381080, 310598401, 607225278, 1426881987, 1925078388, 2162078206, 2614888103, 3248222580,
   3835390401, 4022224774, 264347078, 604807628, 770255983, 1249150122, 1555081692, 1996064986,
   2554220882, 2821834349, 2952996808, 3210313671, 3336571891, 3584528711, 113926993, 338241895,
   666307205, 773529912, 1294757372, 1396182291, 1695183700, 1986661051, 2177026350, 2456956037,
   2730485921, 2820302411, 3259730800, 3345764771, 3516065817, 3600352804, 4094571909, 275423344,
   430227734, 506948616, 659060556, 883997877, 958139571, 1322822218, 1537002063, 1747873779,
   1955562222, 2024104815, 2227730452, 2361852424, 2428436474, 2756734187, 3204031479, 3329325298]"

definition H0 :: "w32 list" where
  "H0 = [1779033703, 3144134277, 1013904242, 2773480762, 1359893119, 2600822924, 528734635, 1541459225]"

definition rotr :: "nat \<Rightarrow> w32 \<Rightarrow> w32" where
  "rotr n x = drop_bit n x OR push_bit (32 - n) x"

definition Ch :: "w32 \<Rightarrow> w32 \<Rightarrow> w32 \<Rightarrow> w32" where "Ch x y z = (x AND y) XOR (NOT x AND z)"
definition Maj :: "w32 \<Rightarrow> w32 \<Rightarrow> w32 \<Rightarrow> w32" where "Maj x y z = (x AND y) XOR (x AND z) XOR (y AND z)"
definition Sig0 :: "w32 \<Rightarrow> w32" where "Sig0 x = rotr 2 x XOR rotr 13 x XOR rotr 22 x"
definition Sig1 :: "w32 \<Rightarrow> w32" where "Sig1 x = rotr 6 x XOR rotr 11 x XOR rotr 25 x"
definition sig0 :: "w32 \<Rightarrow> w32" where "sig0 x = rotr 7 x XOR rotr 18 x XOR drop_bit 3 x"
definition sig1 :: "w32 \<Rightarrow> w32" where "sig1 x = rotr 17 x XOR rotr 19 x XOR drop_bit 10 x"

text \<open>The padded message: the bytes, 0x80, zeros up to 56 modulo 64, the bit length on 8 bytes.\<close>

fun be_bytes :: "nat \<Rightarrow> int \<Rightarrow> int list" where
  "be_bytes 0 n = []"
| "be_bytes (Suc k) n = be_bytes k (n div 256) @ [n mod 256]"

definition pad :: "int list \<Rightarrow> int list" where
  "pad m = m @ [128] @ replicate ((119 - length m mod 64) mod 64) 0 @ be_bytes 8 (8 * int (length m))"

fun to_words :: "int list \<Rightarrow> w32 list" where
  "to_words (a # b # c # d # rest) =
     word_of_int (((a * 256 + b) * 256 + c) * 256 + d) # to_words rest"
| "to_words _ = []"

text \<open>The message schedule keeps the last sixteen words, newest last.\<close>

fun schedule :: "nat \<Rightarrow> w32 list \<Rightarrow> w32 list" where
  "schedule 0 ws = []"
| "schedule (Suc n) ws =
     (let w = sig1 (ws ! 14) + ws ! 9 + sig0 (ws ! 1) + ws ! 0 in w # schedule n (tl ws @ [w]))"

fun rounds :: "(w32 \<times> w32) list \<Rightarrow> w32 list \<Rightarrow> w32 list" where
  "rounds [] st = st"
| "rounds ((k, w) # kws) [a, b, c, d, e, f, g, h] =
     (let t1 = h + Sig1 e + Ch e f g + k + w; t2 = Sig0 a + Maj a b c in
      rounds kws [t1 + t2, a, b, c, d + t1, e, f, g])"
| "rounds (kw # kws) st = st"

definition compress :: "w32 list \<Rightarrow> w32 list \<Rightarrow> w32 list" where
  "compress hs block = map2 (+) hs (rounds (zip K256 (block @ schedule 48 block)) hs)"

function blocks :: "w32 list \<Rightarrow> w32 list \<Rightarrow> w32 list" where
  "blocks hs ws = (if length ws < 16 then hs else blocks (compress hs (take 16 ws)) (drop 16 ws))"
  by pat_completeness auto
termination by (relation "measure (length \<circ> snd)") auto

declare blocks.simps [simp del]

definition Sum256 :: "int list \<Rightarrow> int list" where
  "Sum256 m = concat (map (\<lambda>w. be_bytes 4 (uint w)) (blocks H0 (to_words (pad m))))"

subsection \<open>base64url without padding\<close>

definition b64_char :: "int \<Rightarrow> char" where
  "b64_char n =
     (if n < 26 then char_of (65 + n)
      else if n < 52 then char_of (97 + (n - 26))
      else if n < 62 then char_of (48 + (n - 52))
      else if n = 62 then CHR ''-'' else CHR ''_'')"

fun RawURLEncoding :: "int list \<Rightarrow> string" where
  "RawURLEncoding [] = []"
| "RawURLEncoding [a] = [b64_char (a div 4), b64_char ((a mod 4) * 16)]"
| "RawURLEncoding [a, b] =
     [b64_char (a div 4), b64_char ((a mod 4) * 16 + b div 16), b64_char ((b mod 16) * 4)]"
| "RawURLEncoding (a # b # c # rest) =
     b64_char (a div 4) # b64_char ((a mod 4) * 16 + b div 16) #
     b64_char ((b mod 16) * 4 + c div 64) # b64_char (c mod 64) # RawURLEncoding rest"

subsection \<open>verifyPKCE\<close>

definition byte_values :: "string \<Rightarrow> int list" where "byte_values s = map of_char s"

definition verifyPKCE :: "string \<Rightarrow> string \<Rightarrow> bool" where
  "verifyPKCE challenge verifier =
     (if challenge = [] then True
      else RawURLEncoding (Sum256 (byte_values verifier)) = challenge)"

subsection \<open>The encoding loses nothing\<close>

definition is_byte :: "int \<Rightarrow> bool" where "is_byte b \<longleftrightarrow> 0 \<le> b \<and> b < 256"

lemma b64_char_code:
  "0 \<le> n \<Longrightarrow> n < 64 \<Longrightarrow> of_char (b64_char n) =
    (if n < 26 then 65 + n else if n < 52 then 97 + (n - 26) else if n < 62 then 48 + (n - 52)
     else if n = 62 then 45 else 95)"
  unfolding b64_char_def by (simp add: of_char_of)

lemma b64_char_inj:
  assumes "b64_char m = b64_char n" "0 \<le> m" "m < 64" "0 \<le> n" "n < 64"
  shows "m = n"
proof -
  have "(of_char (b64_char m) :: int) = of_char (b64_char n)" using assms(1) by simp
  then show ?thesis using assms(2-) by (simp add: b64_char_code split: if_splits)
qed

text \<open>The four six-bit groups of three bytes are in range and determine the bytes.\<close>

lemma b64_ranges:
  "is_byte a \<Longrightarrow> 0 \<le> a div 4 \<and> a div 4 < 64"
  "is_byte b \<Longrightarrow> 0 \<le> (a mod 4) * 16 + b div 16 \<and> (a mod 4) * 16 + b div 16 < 64"
  "0 \<le> (a mod 4) * 16 \<and> (a mod 4) * (16 :: int) < 64"
  "is_byte c \<Longrightarrow> 0 \<le> (b mod 16) * 4 + c div 64 \<and> (b mod 16) * 4 + c div 64 < 64"
  "0 \<le> (b mod 16) * 4 \<and> (b mod 16) * (4 :: int) < 64"
  unfolding is_byte_def by (simp_all add: mult.commute) (linarith | auto)+

lemma two_digits:
  fixes k :: int
  assumes "x * k + y = x' * k + y'" "0 \<le> y" "y < k" "0 \<le> y'" "y' < k"
  shows "x = x'" "y = y'"
proof -
  have "(x * k + y) div k = x" "(x' * k + y') div k = x'"
    using assms(2-) by simp_all
  with assms(1) show "x = x'" by simp
  with assms(1) show "y = y'" by simp
qed

lemma div_mod_eq: "a div k = a' div k \<Longrightarrow> a mod k = a' mod k \<Longrightarrow> a = (a' :: int)"
  by (metis div_mult_mod_eq)

lemma byte_div:
  assumes "is_byte b"
  shows "0 \<le> b div 16" "b div 16 < 16" "0 \<le> b div 64" "b div 64 < 4"
  using assms by (auto simp: is_byte_def)

lemma b64_groups:
  assumes "is_byte b" "is_byte b'" "a div 4 = a' div 4"
    "(a mod 4) * 16 + b div 16 = (a' mod 4) * 16 + b' div 16"
  shows "a = a'" "b div 16 = b' div 16"
proof -
  have "a mod 4 = a' mod 4"
    using two_digits(1) [OF assms(4)] byte_div(1,2) assms(1,2) by blast
  with assms(3) show "a = a'" by (rule div_mod_eq)
  show "b div 16 = b' div 16"
    using two_digits(2) [OF assms(4)] byte_div(1,2) assms(1,2) by blast
qed

lemma b64_groups2:
  assumes "is_byte c" "is_byte c'" "(b mod 16) * 4 + c div 64 = (b' mod 16) * 4 + c' div 64"
    "c mod 64 = c' mod 64"
  shows "b mod 16 = b' mod 16" "c = c'"
proof -
  show "b mod 16 = b' mod 16"
    using two_digits(1) [OF assms(3)] byte_div(3,4) assms(1,2) by blast
  have "c div 64 = c' div 64"
    using two_digits(2) [OF assms(3)] byte_div(3,4) assms(1,2) by blast
  then show "c = c'" using assms(4) by (rule div_mod_eq)
qed

lemma RawURLEncoding_inj:
  "list_all is_byte xs \<Longrightarrow> list_all is_byte ys \<Longrightarrow> RawURLEncoding xs = RawURLEncoding ys \<Longrightarrow> xs = ys"
proof (induction xs arbitrary: ys rule: RawURLEncoding.induct)
  case 1
  then show ?case by (cases ys rule: RawURLEncoding.cases) auto
next
  case (2 a)
  then obtain a' where ys: "ys = [a']" by (cases ys rule: RawURLEncoding.cases) auto
  have eq: "b64_char (a div 4) = b64_char (a' div 4)" "b64_char ((a mod 4) * 16) = b64_char ((a' mod 4) * 16)"
    using 2(3) unfolding ys by (simp_all only: RawURLEncoding.simps list.inject)
  have bs: "is_byte a" "is_byte a'" using 2(1,2) ys by auto
  have *: "a div 4 = a' div 4" by (rule b64_char_inj [OF eq(1)]) (simp_all add: b64_ranges bs)
  have **: "(a mod 4) * 16 = (a' mod 4) * 16" by (rule b64_char_inj [OF eq(2)]) (simp_all only: b64_ranges)
  have "a = a'" by (rule div_mod_eq [OF *]) (use ** in simp)
  then show ?case using ys by simp
next
  case (3 a b)
  then obtain a' b' where ys: "ys = [a', b']" by (cases ys rule: RawURLEncoding.cases) auto
  have bs: "is_byte a" "is_byte b" "is_byte a'" "is_byte b'" using 3(1,2) ys by auto
  have eq: "b64_char (a div 4) = b64_char (a' div 4)"
    "b64_char ((a mod 4) * 16 + b div 16) = b64_char ((a' mod 4) * 16 + b' div 16)"
    "b64_char ((b mod 16) * 4) = b64_char ((b' mod 16) * 4)"
    using 3(3) unfolding ys by (simp_all only: RawURLEncoding.simps list.inject)
  have *: "a div 4 = a' div 4" by (rule b64_char_inj [OF eq(1)]) (simp_all add: b64_ranges bs)
  have **: "(a mod 4) * 16 + b div 16 = (a' mod 4) * 16 + b' div 16"
    by (rule b64_char_inj [OF eq(2)]) (simp_all add: b64_ranges bs)
  have ***: "(b mod 16) * 4 = (b' mod 16) * 4"
    by (rule b64_char_inj [OF eq(3)]) (simp_all only: b64_ranges)
  have "a = a'" "b div 16 = b' div 16" using b64_groups [OF bs(2,4) * **] by simp_all
  moreover from this(2) have "b = b'" by (rule div_mod_eq) (use *** in simp)
  ultimately show ?case using ys by simp
next
  case (4 a b c rest)
  then obtain a' b' c' rest' where ys: "ys = a' # b' # c' # rest'"
    by (cases ys rule: RawURLEncoding.cases) auto
  have bs: "is_byte a" "is_byte b" "is_byte c" "is_byte a'" "is_byte b'" "is_byte c'"
    using 4(2,3) ys by auto
  have eq: "b64_char (a div 4) = b64_char (a' div 4)"
    "b64_char ((a mod 4) * 16 + b div 16) = b64_char ((a' mod 4) * 16 + b' div 16)"
    "b64_char ((b mod 16) * 4 + c div 64) = b64_char ((b' mod 16) * 4 + c' div 64)"
    "b64_char (c mod 64) = b64_char (c' mod 64)" "RawURLEncoding rest = RawURLEncoding rest'"
    using 4(4) unfolding ys by (simp_all only: RawURLEncoding.simps list.inject)
  have *: "a div 4 = a' div 4" by (rule b64_char_inj [OF eq(1)]) (simp_all add: b64_ranges bs)
  have **: "(a mod 4) * 16 + b div 16 = (a' mod 4) * 16 + b' div 16"
    by (rule b64_char_inj [OF eq(2)]) (simp_all add: b64_ranges bs)
  have ***: "(b mod 16) * 4 + c div 64 = (b' mod 16) * 4 + c' div 64"
    by (rule b64_char_inj [OF eq(3)]) (simp_all add: b64_ranges bs)
  have c: "c mod 64 = c' mod 64" by (rule b64_char_inj [OF eq(4)]) simp_all
  have "a = a'" "c = c'"
    using b64_groups(1) [OF bs(2,5) * **] b64_groups2(2) [OF bs(3,6) *** c] .
  moreover have "b = b'"
    by (rule div_mod_eq [OF b64_groups(2) [OF bs(2,5) * **] b64_groups2(1) [OF bs(3,6) *** c]])
  moreover have "rest = rest'" using 4 ys eq(5) by auto
  ultimately show ?case using ys by simp
qed

lemma be_bytes_is_byte: "list_all is_byte (be_bytes k n)"
  by (induction k arbitrary: n) (auto simp: is_byte_def)

lemma Sum256_is_byte: "list_all is_byte (Sum256 m)"
  using be_bytes_is_byte by (auto simp: Sum256_def list_all_iff)

lemma verifyPKCE_self: "verifyPKCE (RawURLEncoding (Sum256 (byte_values v))) v"
  by (simp add: verifyPKCE_def)

text \<open>The code challenge binds the digest: two verifiers accepted for one non-empty challenge
  have the same SHA-256 digest.\<close>

lemma verifyPKCE_binds:
  assumes "ch \<noteq> []" "verifyPKCE ch v" "verifyPKCE ch v'"
  shows "Sum256 (byte_values v) = Sum256 (byte_values v')"
  using assms RawURLEncoding_inj [OF Sum256_is_byte Sum256_is_byte] by (simp add: verifyPKCE_def)

end
