(* ===== verification/One_Shot.thy ===== *)
theory One_Shot
  imports Store_MFA
begin

text \<open>
  Credentials that may be used once: an authorization code, an approved device grant, a
  refresh token. The store consumes each with one guarded \<open>UPDATE\<close>
  (\<open>MarkGrantUsed\<close>, \<open>MarkDeviceGrantRedeemed\<close>, \<open>RotateRefreshToken\<close>). The locale
  \<open>one_shot\<close> is the contract the token endpoint relies on; its theorem is that, whatever the
  order in which the calls of concurrent requests reach the database, at most one
  call per credential succeeds.
\<close>

fun consume_all ::
  "('k \<Rightarrow> 'x \<Rightarrow> 's \<Rightarrow> (store_error + unit) \<times> 's) \<Rightarrow> ('k \<times> 'x) list \<Rightarrow> 's \<Rightarrow> ('k \<times> bool) list \<times> 's" where
  "consume_all consume [] s = ([], s)"
| "consume_all consume ((k, x) # calls) s =
     (case consume k x s of (res, s') \<Rightarrow>
      case consume_all consume calls s' of (rs, s'') \<Rightarrow> ((k, res = Inr ()) # rs, s''))"

definition wins :: "'k \<Rightarrow> ('k \<times> bool) list \<Rightarrow> nat" where
  "wins k rs = length (filter (\<lambda>(j, ok). j = k \<and> ok) rs)"

lemma wins_simps [simp]: "wins k [] = 0" "wins k ((j, ok) # rs) = (if j = k \<and> ok then 1 else 0) + wins k rs"
  by (simp_all add: wins_def)

locale one_shot =
  fixes consume :: "'k \<Rightarrow> 'x \<Rightarrow> 's \<Rightarrow> (store_error + unit) \<times> 's"
    and spent :: "'k \<Rightarrow> 's \<Rightarrow> bool"
    and fresh :: "'k \<Rightarrow> 'x \<Rightarrow> bool"
  assumes wins_unspent: "fst (consume k x s) = Inr () \<Longrightarrow> \<not> spent k s"
    and spends: "fresh k x \<Longrightarrow> fst (consume k x s) = Inr () \<Longrightarrow> spent k (snd (consume k x s))"
    and stays_spent: "fresh k x \<Longrightarrow> spent k s \<Longrightarrow> spent k (snd (consume j x s))"
begin

lemma spent_never_wins:
  "spent k s \<Longrightarrow> (\<forall>c\<in>set calls. fresh k (snd c)) \<Longrightarrow> wins k (fst (consume_all consume calls s)) = 0"
proof (induction calls arbitrary: s)
  case (Cons c calls)
  obtain j x where c: "c = (j, x)" by fastforce
  have "spent k (snd (consume j x s))" using Cons.prems c by (auto intro: stays_spent)
  then have "wins k (fst (consume_all consume calls (snd (consume j x s)))) = 0" using Cons by simp
  moreover have "\<not> (j = k \<and> fst (consume j x s) = Inr ())" using wins_unspent Cons.prems(1) by blast
  ultimately show ?case by (auto simp: c split: prod.splits)
qed simp

lemma at_most_once:
  "(\<forall>c\<in>set calls. fresh k (snd c)) \<Longrightarrow> wins k (fst (consume_all consume calls s)) \<le> 1"
proof (induction calls arbitrary: s)
  case (Cons c calls)
  obtain j x where c: "c = (j, x)" by fastforce
  let ?s' = "snd (consume j x s)"
  have "wins k (fst (consume_all consume calls ?s')) = 0" if "j = k" "fst (consume j x s) = Inr ()"
    using Cons.prems that c spends [of k x s] by (intro spent_never_wins) auto
  moreover have "wins k (fst (consume_all consume calls ?s')) \<le> 1" using Cons by simp
  ultimately show ?case by (auto simp: c split: prod.splits)
qed simp

end

subsection \<open>Authorization codes\<close>

definition code_spent :: "uuid \<Rightarrow> db \<Rightarrow> bool" where
  "code_spent gid d \<longleftrightarrow> (\<forall>g\<in>set (grants d). \<not> (g_ID g = gid \<and> g_UsedAt g = None))"

interpretation code: one_shot "\<lambda>gid now. MarkGrantUsed now gid" code_spent "\<lambda>gid now. True"
proof
  fix gid now d j
  show "fst (MarkGrantUsed now gid d) = Inr () \<Longrightarrow> \<not> code_spent gid d"
    by (simp add: MarkGrantUsed_def requireOneRow_def rows_affected_0 code_spent_def Let_def split: if_splits)
  show "code_spent gid (snd (MarkGrantUsed now gid d))"
    unfolding MarkGrantUsed_def code_spent_def Let_def by simp (rule ball_sql_updateI, simp)
  show "code_spent gid d \<Longrightarrow> code_spent gid (snd (MarkGrantUsed now j d))"
    unfolding MarkGrantUsed_def code_spent_def Let_def by simp (rule ball_sql_updateI, simp)
qed

subsection \<open>Device grants\<close>

definition device_spent :: "uuid \<Rightarrow> db \<Rightarrow> bool" where
  "device_spent gid d \<longleftrightarrow>
     (\<forall>g\<in>set (device_grants d). \<not> (d_ID g = gid \<and> d_Status g = DeviceGrantStatusApproved))"

interpretation device: one_shot "\<lambda>gid (x :: unit). MarkDeviceGrantRedeemed gid" device_spent "\<lambda>gid x. True"
proof
  fix gid j :: uuid and d
  show "fst (MarkDeviceGrantRedeemed gid d) = Inr () \<Longrightarrow> \<not> device_spent gid d"
    by (simp add: MarkDeviceGrantRedeemed_def device_transition_def device_hit_def requireOneRow_def
        rows_affected_0 device_spent_def split: if_splits)
  show "device_spent gid (snd (MarkDeviceGrantRedeemed gid d))"
    unfolding MarkDeviceGrantRedeemed_def device_transition_def device_spent_def
    by simp (rule ball_sql_updateI, simp add: device_hit_def)
  show "device_spent gid d \<Longrightarrow> device_spent gid (snd (MarkDeviceGrantRedeemed j d))"
    unfolding MarkDeviceGrantRedeemed_def device_transition_def device_spent_def
    by simp (rule ball_sql_updateI, simp)
qed

subsection \<open>Refresh tokens\<close>

text \<open>A refresh token is the pair of its session and its hash; a rotation is fresh for it when the
  hash of the new token differs. The arguments of the rotation are the two new
  hashes and the two new deadlines.\<close>

type_synonym rotation = "string \<times> string \<times> time \<times> time"

definition rotate_token :: "uuid \<times> string \<Rightarrow> rotation \<Rightarrow> db \<Rightarrow> (store_error + unit) \<times> db" where
  "rotate_token = (\<lambda>(sid, old) (na, nr, ea, er). RotateRefreshToken sid old na nr ea er)"

definition refresh_spent :: "uuid \<times> string \<Rightarrow> db \<Rightarrow> bool" where
  "refresh_spent k d \<longleftrightarrow>
     (\<forall>s\<in>set (sessions d). \<not> (s_ID s = fst k \<and> s_RefreshTokenHash s = snd k))"

definition new_hash :: "uuid \<times> string \<Rightarrow> rotation \<Rightarrow> bool" where
  "new_hash = (\<lambda>(sid, old) (na, nr, ea, er). nr \<noteq> old)"

lemma RotateRefreshToken_sessions:
  "fst (RotateRefreshToken sid old na nr ea er d) = Inr () \<Longrightarrow>
   sessions (snd (RotateRefreshToken sid old na nr ea er d)) =
     sql_update (\<lambda>s. s_ID s = sid \<and> s_RefreshTokenHash s = old)
       (\<lambda>s. s\<lparr>s_AccessTokenHash := na, s_RefreshTokenHash := nr, s_AccessExpiresAt := ea,
         s_RefreshExpiresAt := er\<rparr>) (sessions d)"
  "fst (RotateRefreshToken sid old na nr ea er d) = Inl e \<Longrightarrow>
   snd (RotateRefreshToken sid old na nr ea er d) = d"
  by (auto simp: RotateRefreshToken_def Let_def split: if_splits)

lemma rotate_keeps_spent:
  assumes "refresh_spent (i, h) d" "nr \<noteq> h"
  shows "refresh_spent (i, h) (snd (RotateRefreshToken sid old na nr ea er d))"
proof (cases "fst (RotateRefreshToken sid old na nr ea er d)")
  case (Inl e)
  then show ?thesis using assms RotateRefreshToken_sessions(2) by simp
next
  case (Inr u)
  then show ?thesis using assms
    by (simp add: refresh_spent_def RotateRefreshToken_sessions(1)) (rule ball_sql_updateI, simp)
qed

interpretation refresh: one_shot rotate_token refresh_spent new_hash
proof
  fix k j :: "uuid \<times> string" and x :: rotation and d
  obtain sid old na nr ea er where k: "k = (sid, old)" "x = (na, nr, ea, er)" by (metis prod.exhaust)
  show "fst (rotate_token k x d) = Inr () \<Longrightarrow> \<not> refresh_spent k d"
    by (auto simp: k rotate_token_def RotateRefreshToken_def rows_affected_0 refresh_spent_def Let_def
        split: if_splits)
  show "refresh_spent k (snd (rotate_token k x d))" if "new_hash k x" "fst (rotate_token k x d) = Inr ()"
    using that unfolding k rotate_token_def refresh_spent_def new_hash_def
    by (simp add: RotateRefreshToken_sessions(1)) (rule ball_sql_updateI, simp)
  show "refresh_spent k (snd (rotate_token j x d))" if "new_hash k x" "refresh_spent k d"
    using that rotate_keeps_spent by (cases j) (simp add: k rotate_token_def new_hash_def)
qed

end
