(* ===== verification/OAuth2.thy ===== *)
theory OAuth2
  imports Session_Auth Url Pkce One_Shot
begin

text \<open>
  The token endpoint of \<open>src/internal/api/oauth2.go\<close>: client authentication, the
  authorization-code, refresh-token and client-credentials grants, refresh-token reuse
  detection, revocation and \<open>/userinfo\<close>, each handler with every early return of the code.
\<close>

subsection \<open>Scopes and clients\<close>

definition splitScopes :: "string \<Rightarrow> string list" where
  "splitScopes scope = (if scope = [] then [] else Fields scope)"

fun unregisteredScope :: "Client \<Rightarrow> string list \<Rightarrow> string" where
  "unregisteredScope client [] = []"
| "unregisteredScope client (sc # scs) =
     (if \<not> containsStr (c_Scopes client) sc then sc else unregisteredScope client scs)"

text \<open>HTTP Basic credentials count only when the form names no client.\<close>

definition client_credentials :: "request \<Rightarrow> string \<times> string" where
  "client_credentials r =
     (case rq_basic r of
        Some (u, p) \<Rightarrow>
          if FormValue r ''client_id'' = [] then (u, p)
          else (FormValue r ''client_id'', FormValue r ''client_secret'')
      | None \<Rightarrow> (FormValue r ''client_id'', FormValue r ''client_secret''))"

definition authenticateClient :: "server \<Rightarrow> request \<Rightarrow> (string + Client) act" where
  "authenticateClient s r =
     (let (clientID, clientSecret) = client_credentials r in
      do {
        x \<leftarrow> store (GetClientByClientID clientID);
        ret (case x of
               Inl ErrNotFound \<Rightarrow> Inl ''unknown client''
             | Inl e \<Rightarrow> Inl ''internal error''
             | Inr client \<Rightarrow>
                 if c_Public client then Inr client
                 else if clientSecret = [] then Inl ''client_secret required''
                 else if HashToken s clientSecret \<noteq> c_ClientSecretHash client
                 then Inl ''invalid client_secret''
                 else Inr client)
      })"

definition incrementFailedAttempts :: "User \<Rightarrow> unit act" where
  "incrementFailedAttempts user = do {
     now \<leftarrow> get_now;
     let count = u_FailedAttempts user + 1;
     let lockedUntil = (if count \<ge> 10 then Some (now + 30 * minute) else None);
     x \<leftarrow> store (UpdateUserFailedAttempts now (u_ID user) count lockedUntil);
     ret () }"

definition groupNamesForUser :: "uuid \<Rightarrow> (store_error + string list) act" where
  "groupNamesForUser userID = do {
     x \<leftarrow> store ListGroups;
     ret (case x of
            Inl e \<Rightarrow> Inl e
          | Inr gs \<Rightarrow>
              Inr (map gr_DisplayName (filter (\<lambda>g. userID \<in> set (gr_Members g)) gs))) }"

definition sessionAuthTime :: "time \<Rightarrow> Session \<Rightarrow> time" where
  "sessionAuthTime now sess =
     (if \<not> IsZero (s_AuthTime sess) then s_AuthTime sess
      else if \<not> IsZero (s_CreatedAt sess) then s_CreatedAt sess
      else now)"

text \<open>The groups claim: looked up only for the \<open>groups\<close> scope, an error leaves it empty.\<close>

definition groups_claim :: "string list \<Rightarrow> uuid \<Rightarrow> string list act" where
  "groups_claim scopes userID =
     (if containsStr scopes ''groups'' then do {
        g \<leftarrow> groupNamesForUser userID;
        ret (case g of Inl e \<Rightarrow> [] | Inr names \<Rightarrow> names) }
      else ret [])"

subsection \<open>Minting\<close>

text \<open>The session record before it is stored; the store fills in the two creation-time
  columns.\<close>

definition mint_session ::
  "server \<Rightarrow> time \<Rightarrow> uuid \<Rightarrow> string \<Rightarrow> string \<Rightarrow> uuid \<Rightarrow> uuid \<Rightarrow> string list \<Rightarrow> bool \<Rightarrow> time option \<Rightarrow> time
   \<Rightarrow> Session" where
  "mint_session s now sid rawAccess rawRefresh userID clientID scopes mfaVerified mfaVerifiedAt authTime =
     \<lparr>s_ID = sid, s_UserID = userID, s_ClientID = clientID,
      s_AccessTokenHash = HashToken s rawAccess, s_RefreshTokenHash = HashToken s rawRefresh,
      s_Scopes = scopes, s_AccessExpiresAt = now + accessTokenTTL,
      s_RefreshExpiresAt = now + refreshTokenTTL, s_LastActivityAt = zero_time,
      s_MFAVerified = mfaVerified, s_MFAVerifiedAt = mfaVerifiedAt, s_AuthTime = authTime,
      s_CreatedAt = zero_time\<rparr>"

definition token_fields :: "string \<Rightarrow> string \<Rightarrow> int \<Rightarrow> string list \<Rightarrow> (string \<times> json) list" where
  "token_fields access refresh expiresIn scopes =
     [(''access_token'', JStr access), (''token_type'', JStr ''Bearer''),
      (''expires_in'', JInt expiresIn), (''refresh_token'', JStr refresh),
      (''scope'', JStr (Join CHR '' '' scopes))]"

text \<open>\<open>None\<close> is Go's error result.\<close>

definition mintTokenResponseWithMFAAt ::
  "server \<Rightarrow> User \<Rightarrow> Client \<Rightarrow> string list \<Rightarrow> bool \<Rightarrow> time option \<Rightarrow> time \<Rightarrow> string
   \<Rightarrow> (string \<times> json) list option act" where
  "mintTokenResponseWithMFAAt s user client scopes mfaVerified mfaVerifiedAt authTime nonce = do {
     a \<leftarrow> GenerateRawToken s;
     case a of None \<Rightarrow> ret None | Some rawAccess \<Rightarrow> do {
     b \<leftarrow> GenerateRawToken s;
     case b of None \<Rightarrow> ret None | Some rawRefresh \<Rightarrow> do {
     now \<leftarrow> get_now;
     sid \<leftarrow> newUUID s;
     let sess = mint_session s now sid rawAccess rawRefresh (u_ID user) (c_ID client) scopes
                  mfaVerified mfaVerifiedAt authTime;
     x \<leftarrow> store (CreateSession now sess);
     case x of Inl e \<Rightarrow> ret None | Inr u \<Rightarrow>
     (let resp = token_fields rawAccess rawRefresh (seconds_int accessTokenTTL) scopes in
      if containsStr scopes ''openid'' then do {
        groups \<leftarrow> groups_claim scopes (u_ID user);
        ret (case x_MintIDToken (srv_ext s)
               \<lparr>ic_Sub = u_ID user, ic_Aud = c_ClientID client, ic_Email = u_Email user,
                ic_Name = u_Name user, ic_Nonce = nonce, ic_Scopes = scopes, ic_MFA = mfaVerified,
                ic_AuthTime = sessionAuthTime now sess, ic_SID = sid, ic_Groups = groups\<rparr> of
               None \<Rightarrow> None
             | Some tok \<Rightarrow> Some (resp @ [(''id_token'', JStr tok)])) }
      else ret (Some resp)) } } }"

subsection \<open>Authorization code grant\<close>

definition handleTokenAuthCode :: "server \<Rightarrow> request \<Rightarrow> response act" where
  "handleTokenAuthCode s r = do {
     c \<leftarrow> authenticateClient s r;
     case c of
       Inl msg \<Rightarrow> ret (writeError 401 ''invalid_client'' msg)
     | Inr client \<Rightarrow> do {
     g \<leftarrow> store (GetGrantByCodeHash (HashToken s (FormValue r ''code'')));
     now \<leftarrow> get_now;
     case g of
       Inl ErrNotFound \<Rightarrow> ret (writeError 400 ''invalid_grant'' ''code not found or already used'')
     | Inl e \<Rightarrow> ret (writeError 500 ''server_error'' ''internal error'')
     | Inr grant \<Rightarrow>
         if g_UsedAt grant \<noteq> None
         then ret (writeError 400 ''invalid_grant'' ''code not found or already used'')
         else if g_ClientID grant \<noteq> c_ID client
         then ret (writeError 400 ''invalid_grant'' ''client mismatch'')
         else if g_RedirectURI grant \<noteq> FormValue r ''redirect_uri''
         then ret (writeError 400 ''invalid_grant'' ''redirect_uri mismatch'')
         else if now > g_ExpiresAt grant
         then ret (writeError 400 ''invalid_grant'' ''code expired'')
         else if \<not> verifyPKCE (g_CodeChallenge grant) (FormValue r ''code_verifier'')
         then ret (writeError 400 ''invalid_grant'' ''PKCE verification failed'')
         else do {
           m \<leftarrow> store (MarkGrantUsed now (g_ID grant));
           case m of
             Inl ErrNotFound \<Rightarrow> ret (writeError 400 ''invalid_grant'' ''code not found or already used'')
           | Inl e \<Rightarrow> ret (writeError 500 ''server_error'' ''internal error'')
           | Inr x \<Rightarrow> do {
             u \<leftarrow> store (GetUserByID (g_UserID grant));
             case u of
               Inl e \<Rightarrow> ret (writeError 500 ''server_error'' ''user not found'')
             | Inr user \<Rightarrow> do {
               resp \<leftarrow> mintTokenResponseWithMFAAt s user client (g_Scopes grant)
                 (g_MFAVerifiedAt grant \<noteq> None) (g_MFAVerifiedAt grant) (g_AuthTime grant) (g_Nonce grant);
               case resp of
                 None \<Rightarrow> ret (writeError 500 ''server_error'' ''token issuance failed'')
               | Some body \<Rightarrow> do {
                 ok \<leftarrow> logAudit s r ''auth.token.issued'' (Some (u_ID user)) (Some (c_ID client))
                   [(''scopes'', JStrs (g_Scopes grant))];
                 ret (if ok then RJSON 200 body else auditFail) } } } } } }"

subsection \<open>Refresh token grant\<close>

text \<open>\<open>None\<close> is Go's \<open>false\<close>: no response was written.\<close>

definition revokeOnRefreshReuse :: "server \<Rightarrow> request \<Rightarrow> Client \<Rightarrow> string \<Rightarrow> response option act" where
  "revokeOnRefreshReuse s r client rawRefresh = do {
     x \<leftarrow> store (GetSessionByRetiredRefreshTokenHash (HashToken s rawRefresh));
     case x of
       Inl ErrNotFound \<Rightarrow> ret None
     | Inl e \<Rightarrow> ret (Some (writeError 500 ''server_error'' ''internal error''))
     | Inr sess \<Rightarrow>
         if s_ClientID sess \<noteq> c_ID client then ret None
         else do {
           y \<leftarrow> store (DeleteSession (s_ID sess));
           case y of
             Inl e \<Rightarrow> ret (Some (writeError 500 ''server_error'' ''internal error''))
           | Inr u \<Rightarrow> do {
             ok \<leftarrow> logAudit s r ''auth.token.refresh_reuse''
               (if s_UserID sess \<noteq> uuid_nil then Some (s_UserID sess) else None) (Some (c_ID client))
               [(''session_id'', JID (s_ID sess))];
             ret (Some (if ok then writeError 400 ''invalid_grant'' ''refresh token not found''
                        else auditFail)) } } }"

definition unknownRefresh :: "response option \<Rightarrow> response" where
  "unknownRefresh x =
     (case x of
        None \<Rightarrow> writeError 400 ''invalid_grant'' ''refresh token not found''
      | Some resp \<Rightarrow> resp)"

text \<open>The part after the rotation: the identity token and the audited response.\<close>

definition refresh_response ::
  "server \<Rightarrow> request \<Rightarrow> Client \<Rightarrow> User \<Rightarrow> Session \<Rightarrow> string \<Rightarrow> string \<Rightarrow> time \<Rightarrow> response act" where
  "refresh_response s r client user sess newAccess newRefresh newAccessExp = do {
     now \<leftarrow> get_now;
     tok \<leftarrow> (if containsStr (s_Scopes sess) ''openid'' then do {
               groups \<leftarrow> groups_claim (s_Scopes sess) (s_UserID sess);
               ret (x_MintIDToken (srv_ext s)
                 \<lparr>ic_Sub = s_UserID sess, ic_Aud = c_ClientID client, ic_Email = u_Email user,
                  ic_Name = u_Name user, ic_Nonce = [], ic_Scopes = s_Scopes sess,
                  ic_MFA = s_MFAVerified sess, ic_AuthTime = sessionAuthTime now sess,
                  ic_SID = s_ID sess, ic_Groups = groups\<rparr>) }
             else ret (Some []));
     case tok of
       None \<Rightarrow> ret (writeError 500 ''server_error'' ''id token failed'')
     | Some idToken \<Rightarrow> do {
         ok \<leftarrow> logAudit s r ''auth.token.refreshed'' (Some (s_UserID sess)) (Some (s_ClientID sess)) [];
         ret (if ok
              then RJSON 200 (token_fields newAccess newRefresh (seconds_int (newAccessExp - now))
                     (s_Scopes sess) @ (if idToken = [] then [] else [(''id_token'', JStr idToken)]))
              else auditFail) } }"

definition handleTokenRefresh :: "server \<Rightarrow> request \<Rightarrow> response act" where
  "handleTokenRefresh s r =
     (let rawRefresh = FormValue r ''refresh_token'' in do {
     c \<leftarrow> authenticateClient s r;
     case c of
       Inl msg \<Rightarrow> ret (writeError 401 ''invalid_client'' msg)
     | Inr client \<Rightarrow> do {
     x \<leftarrow> store (GetSessionByRefreshTokenHash (HashToken s rawRefresh));
     now \<leftarrow> get_now;
     case x of
       Inl ErrNotFound \<Rightarrow> do {
         reuse \<leftarrow> revokeOnRefreshReuse s r client rawRefresh;
         ret (unknownRefresh reuse) }
     | Inl e \<Rightarrow> ret (writeError 500 ''server_error'' ''internal error'')
     | Inr sess \<Rightarrow>
         if s_ClientID sess \<noteq> c_ID client
         then ret (writeError 400 ''invalid_grant'' ''client mismatch'')
         else if now > s_RefreshExpiresAt sess
         then ret (writeError 400 ''invalid_grant'' ''refresh token expired'')
         else if now > s_CreatedAt sess + absoluteSessionTTL
         then ret (writeError 400 ''invalid_grant'' ''session age cap exceeded; re-authenticate'')
         else do {
           u \<leftarrow> store (GetUserByID (s_UserID sess));
           case u of
             Inl e \<Rightarrow> ret (writeError 500 ''server_error'' ''user not found'')
           | Inr user \<Rightarrow> do {
             a \<leftarrow> GenerateRawToken s;
             case a of
               None \<Rightarrow> ret (writeError 500 ''server_error'' ''token generation failed'')
             | Some newAccess \<Rightarrow> do {
               b \<leftarrow> GenerateRawToken s;
               case b of
                 None \<Rightarrow> ret (writeError 500 ''server_error'' ''token generation failed'')
               | Some newRefresh \<Rightarrow>
                 (let newAccessExp = capByAbsolute (now + accessTokenTTL) (s_CreatedAt sess);
                      newRefreshExp = capByAbsolute (now + refreshTokenTTL) (s_CreatedAt sess) in do {
                 rot \<leftarrow> store (RotateRefreshToken (s_ID sess) (HashToken s rawRefresh)
                   (HashToken s newAccess) (HashToken s newRefresh) newAccessExp newRefreshExp);
                 case rot of
                   Inl ErrNotFound \<Rightarrow> do {
                     reuse \<leftarrow> revokeOnRefreshReuse s r client rawRefresh;
                     ret (unknownRefresh reuse) }
                 | Inl e \<Rightarrow> ret (writeError 500 ''server_error'' ''internal error'')
                 | Inr z \<Rightarrow> refresh_response s r client user sess newAccess newRefresh newAccessExp
                 }) } } } } })"

subsection \<open>Client credentials grant\<close>

definition handleTokenClientCreds :: "server \<Rightarrow> request \<Rightarrow> response act" where
  "handleTokenClientCreds s r = do {
     c \<leftarrow> authenticateClient s r;
     case c of
       Inl msg \<Rightarrow> ret (writeError 401 ''invalid_client'' msg)
     | Inr client \<Rightarrow>
         if c_Public client
         then ret (writeError 401 ''invalid_client'' ''public clients cannot use client_credentials'')
         else do {
           a \<leftarrow> GenerateRawToken s;
           case a of
             None \<Rightarrow> ret (writeError 500 ''server_error'' ''token generation failed'')
           | Some rawAccess \<Rightarrow> do {
             b \<leftarrow> GenerateRawToken s;
             case b of
               None \<Rightarrow> ret (writeError 500 ''server_error'' ''token generation failed'')
             | Some rawRefresh \<Rightarrow>
                 (let scopes = splitScopes (FormValue r ''scope'');
                      bad = unregisteredScope client scopes in
                  if bad \<noteq> []
                  then ret (writeError 400 ''invalid_scope'' (''scope not registered for this client: '' @ bad))
                  else do {
                    now \<leftarrow> get_now;
                    sid \<leftarrow> newUUID s;
                    x \<leftarrow> store (CreateSession now (mint_session s now sid rawAccess rawRefresh uuid_nil
                           (c_ID client) scopes False None zero_time));
                    case x of
                      Inl e \<Rightarrow> ret (writeError 500 ''server_error'' ''internal error'')
                    | Inr u \<Rightarrow> do {
                      ok \<leftarrow> logAudit s r ''auth.token.issued'' None (Some (c_ID client))
                        [(''grant_type'', JStr ''client_credentials'')];
                      ret (if ok
                           then RJSON 200 [(''access_token'', JStr rawAccess), (''token_type'', JStr ''Bearer''),
                                  (''expires_in'', JInt (seconds_int accessTokenTTL)),
                                  (''scope'', JStr (Join CHR '' '' scopes))]
                           else auditFail) } }) } } }"

subsection \<open>Userinfo and revocation\<close>

definition handleUserInfo :: "Session \<Rightarrow> response act" where
  "handleUserInfo sess =
     (if s_UserID sess = uuid_nil
      then ret (writeError 403 ''insufficient_scope''
             ''userinfo is not available for client_credentials tokens'')
      else do {
        u \<leftarrow> store (GetUserByID (s_UserID sess));
        ret (case u of
               Inl e \<Rightarrow> writeError 500 ''server_error'' ''user not found''
             | Inr user \<Rightarrow>
                 RJSON 200 ([(''sub'', JID (s_UserID sess)), (''email'', JStr (u_Email user)),
                   (''preferred_username'', JStr (u_Email user))] @
                   (if containsStr (s_Scopes sess) ''profile'' then [(''name'', JStr (u_Name user))] else []))) })"

definition revoke_session :: "server \<Rightarrow> request \<Rightarrow> Session \<Rightarrow> response act" where
  "revoke_session s r sess = do {
     ok \<leftarrow> logAudit s r ''auth.token.revoked'' (Some (s_UserID sess)) (Some (s_ClientID sess)) [];
     if \<not> ok then ret auditFail
     else do { x \<leftarrow> store (DeleteSession (s_ID sess)); ret (RStatus 200) } }"

definition handleRevoke :: "server \<Rightarrow> request \<Rightarrow> response act" where
  "handleRevoke s r =
     (let token = FormValue r ''token'' in
      if token = [] then ret (RStatus 200)
      else do {
        x \<leftarrow> store (GetSessionByAccessTokenHash (HashToken s token));
        case x of
          Inr sess \<Rightarrow> revoke_session s r sess
        | Inl e \<Rightarrow> do {
            y \<leftarrow> store (GetSessionByRefreshTokenHash (HashToken s token));
            case y of
              Inr sess \<Rightarrow> revoke_session s r sess
            | Inl e2 \<Rightarrow> ret (RStatus 200) } })"

context db_rel
begin
lemma authenticateClient_db: "always (on_db D) (authenticateClient s r)"
  unfolding authenticateClient_def by (intro db_rules) (simp_all add: D_refl)
lemma groups_claim_db: "always (on_db D) (groups_claim sc u)"
  unfolding groups_claim_def groupNamesForUser_def by (intro db_rules) (simp_all add: D_refl)
end

lemma wf_mint: "keeps_wf (mintTokenResponseWithMFAAt s u c sc m ma at n)"
  unfolding mintTokenResponseWithMFAAt_def
  by (intro wf.db_rules wf.groups_claim_db) (simp_all add: store_wf)

lemma wf_handleTokenAuthCode: "keeps_wf (handleTokenAuthCode s r)"
  unfolding handleTokenAuthCode_def
  by (intro wf.db_rules wf.authenticateClient_db wf_mint) (simp_all add: store_wf)

lemma wf_handleTokenRefresh: "keeps_wf (handleTokenRefresh s r)"
  unfolding handleTokenRefresh_def revokeOnRefreshReuse_def refresh_response_def
  by (intro wf.db_rules wf.authenticateClient_db wf.groups_claim_db) (simp_all add: store_wf)

subsection \<open>Successful runs\<close>

text \<open>The request names the client and, unless the client is public, presents its secret.\<close>

definition client_proved :: "server \<Rightarrow> request \<Rightarrow> Client \<Rightarrow> bool" where
  "client_proved s r c \<longleftrightarrow> c_ClientID c = fst (client_credentials r) \<and>
     (c_Public c \<or> (snd (client_credentials r) \<noteq> [] \<and>
        HashToken s (snd (client_credentials r)) = c_ClientSecretHash c))"

lemma authenticateClient_Inr:
  assumes "run_state (authenticateClient s r) w = (Inr c, w')"
  shows "c \<in> set (clients (w_db w)) \<and> w_db w' = w_db w \<and> w_now w' = w_now w \<and> w_draws w' = w_draws w \<and>
   client_proved s r c"
  using assms unfolding authenticateClient_def
  by (auto simp: run_simps GetClientByClientID_def client_proved_def Let_def split: case_splits
      dest: select_row_Inr)

text \<open>An exchange that succeeds, step by step.\<close>

lemma handleTokenAuthCode_success:
  assumes "run_state (handleTokenAuthCode s r) w = (RJSON 200 body, w')"
  obtains c g u w1 w2 where
    "c \<in> set (clients (w_db w))" 
    "client_proved s r c"
    "g \<in> set (grants (w_db w))"
    "g_CodeHash g = HashToken s (FormValue r ''code'')" "g_UsedAt g = None" "g_ClientID g = c_ID c"
    "g_RedirectURI g = FormValue r ''redirect_uri''" "w_now w \<le> g_ExpiresAt g"
    "verifyPKCE (g_CodeChallenge g) (FormValue r ''code_verifier'')"
    "u \<in> set (users (w_db w))" "u_ID u = g_UserID g"
    "w_db w1 = snd (MarkGrantUsed (w_now w) (g_ID g) (w_db w))" "w_now w1 = w_now w"  "w_draws w1 = w_draws w"
    "run_state (mintTokenResponseWithMFAAt s u c (g_Scopes g) (g_MFAVerifiedAt g \<noteq> None)
        (g_MFAVerifiedAt g) (g_AuthTime g) (g_Nonce g)) w1 = (Some body, w2)"
    "run_state (logAudit s r ''auth.token.issued'' (Some (g_UserID g)) (Some (c_ID c)) [(''scopes'', JStrs (g_Scopes g))]) w2 = (True, w')"
  using assms unfolding handleTokenAuthCode_def
  apply (simp split: case_splits)
  apply (clarsimp dest!: store_Inr authenticateClient_Inr)
  apply (clarsimp simp: GetGrantByCodeHash_def GetUserByID_def dest!: select_row_Inr)
  apply (rule that, assumption+)
  apply (simp_all add: MarkGrantUsed_def Let_def)
  done
text \<open>A minted response describes exactly the session that was stored.\<close>

lemma CreateSession_Inr:
  "fst (CreateSession now sess d) = Inr x \<Longrightarrow>
   snd (CreateSession now sess d) = d\<lparr>sessions := sessions d @
     [sess\<lparr>s_LastActivityAt := current_timestamp now, s_CreatedAt := current_timestamp now\<rparr>]\<rparr>"
  by (auto simp: CreateSession_def insert_outcome_def Let_def split: if_splits)

definition minted :: "server \<Rightarrow> (string \<times> json) list \<Rightarrow> Session \<Rightarrow> bool" where
  "minted s body sess \<longleftrightarrow>
     (\<exists>a b. map_of body ''access_token'' = Some (JStr a) \<and> map_of body ''refresh_token'' = Some (JStr b) \<and>
        map_of body ''scope'' = Some (JStr (Join CHR '' '' (s_Scopes sess))) \<and>
        s_AccessTokenHash sess = HashToken s a \<and> s_RefreshTokenHash sess = HashToken s b)"

lemma minted_token_fields:
  "minted s (token_fields a b n scopes @ rest) sess \<longleftrightarrow>
     s_AccessTokenHash sess = HashToken s a \<and> s_RefreshTokenHash sess = HashToken s b \<and>
     Join CHR '' '' scopes = Join CHR '' '' (s_Scopes sess)"
  by (auto simp: minted_def token_fields_def)

lemma minted_token_fields0:
  "minted s (token_fields a b n scopes) sess \<longleftrightarrow>
     s_AccessTokenHash sess = HashToken s a \<and> s_RefreshTokenHash sess = HashToken s b \<and>
     Join CHR '' '' scopes = Join CHR '' '' (s_Scopes sess)"
  using minted_token_fields [of s a b n scopes "[]"] by simp

lemma groups_claim_same:
  assumes "run_state (groups_claim sc u) w = (x, w')"
  shows "w_db w' = w_db w \<and> w_now w' = w_now w"
  using assms by (auto simp: groups_claim_def groupNamesForUser_def run_simps split: if_splits)

lemma mint_success:
  assumes "run_state (mintTokenResponseWithMFAAt s user client scopes mv ma at nonce) w = (Some body, w')"
  shows "\<exists>sess. w_db w' = (w_db w)\<lparr>sessions := sessions (w_db w) @ [sess]\<rparr> \<and> w_now w' = w_now w \<and>
    minted s body sess \<and> s_UserID sess = u_ID user \<and> s_ClientID sess = c_ID client \<and>
    s_Scopes sess = scopes \<and> s_MFAVerified sess = mv \<and> s_MFAVerifiedAt sess = ma \<and> s_AuthTime sess = at \<and>
    s_AccessExpiresAt sess = w_now w + accessTokenTTL \<and> s_RefreshExpiresAt sess = w_now w + refreshTokenTTL \<and>
    s_CreatedAt sess = current_timestamp (w_now w)"
proof -
  obtain ra rb sid w1 where st: "run_state (store (CreateSession (w_now w)
      (mint_session s (w_now w) sid ra rb (u_ID user) (c_ID client) scopes mv ma at)))
        (w\<lparr>w_draws := w_draws w + 3\<rparr>) = (Inr (), w1)"
    and w': "w_db w' = w_db w1" "w_now w' = w_now w1"
    and body: "body = token_fields ra rb (seconds_int accessTokenTTL) scopes \<or>
       (\<exists>tok. body = token_fields ra rb (seconds_int accessTokenTTL) scopes @ [(''id_token'', JStr tok)])"
    using assms unfolding mintTokenResponseWithMFAAt_def
    by (auto simp: run_draws Let_def numeral_3_eq_3 split: case_splits dest!: groups_claim_same)
  let ?sess = "mint_session s (w_now w) sid ra rb (u_ID user) (c_ID client) scopes mv ma at
    \<lparr>s_LastActivityAt := current_timestamp (w_now w), s_CreatedAt := current_timestamp (w_now w)\<rparr>"
  have "w_db w1 = (w_db w)\<lparr>sessions := sessions (w_db w) @ [?sess]\<rparr>" "w_now w1 = w_now w"
    using store_Inr [OF st] CreateSession_Inr by auto
  then show ?thesis using w' body
    by (intro exI [of _ ?sess]) (auto simp: minted_token_fields minted_token_fields0 mint_session_def)
qed

lemma reuse_not_200:
  assumes "run_state (revokeOnRefreshReuse s r c raw) w = (x, w')"
  shows "unknownRefresh x \<noteq> RJSON 200 body"
  using assms unfolding revokeOnRefreshReuse_def
  by (auto simp: unknownRefresh_def run_simps split: case_splits)

lemma refresh_response_success:
  assumes "run_state (refresh_response s r c u sess na nr ex) w = (RJSON 200 body, w')"
  shows "w_db w' = w_db w \<and> (\<exists>rest. body = token_fields na nr (seconds_int (ex - w_now w)) (s_Scopes sess) @ rest)"
proof -
  have "always (on_db (=)) (refresh_response s r c u sess na nr ex)"
    unfolding refresh_response_def by (intro same_db.db_rules same_db.groups_claim_db)
  from alwaysD [OF this assms] have "w_db w' = w_db w" by (simp add: on_db_def)
  moreover have "\<exists>rest. body = token_fields na nr (seconds_int (ex - w_now w)) (s_Scopes sess) @ rest"
    using assms unfolding refresh_response_def by (auto split: case_splits)
  ultimately show ?thesis ..
qed

lemma handleTokenRefresh_success:
  assumes "run_state (handleTokenRefresh s r) w = (RJSON 200 body, w')"
  obtains c sess na nr rest where
    "c \<in> set (clients (w_db w))" "client_proved s r c" "sess \<in> set (sessions (w_db w))"
    "s_RefreshTokenHash sess = HashToken s (FormValue r ''refresh_token'')" "s_ClientID sess = c_ID c"
    "w_now w \<le> s_RefreshExpiresAt sess" "w_now w \<le> s_CreatedAt sess + absoluteSessionTTL"
    "RotateRefreshToken (s_ID sess) (s_RefreshTokenHash sess) (HashToken s na) (HashToken s nr)
       (capByAbsolute (w_now w + accessTokenTTL) (s_CreatedAt sess))
       (capByAbsolute (w_now w + refreshTokenTTL) (s_CreatedAt sess)) (w_db w) = (Inr (), w_db w')"
    "body = token_fields na nr (seconds_int (capByAbsolute (w_now w + accessTokenTTL) (s_CreatedAt sess) - w_now w))
       (s_Scopes sess) @ rest"
  using assms unfolding handleTokenRefresh_def
  apply (simp add: Let_def reuse_not_200 split: case_splits)
  apply (clarsimp simp: run_draws dest!: store_Inr authenticateClient_Inr refresh_response_success)
  apply (clarsimp simp: GetSessionByRefreshTokenHash_def GetUserByID_def dest!: select_row_Inr)
  apply (rule that, assumption+)
  apply (simp_all add: prod_eq_iff)
  done

subsection \<open>Effects of the refresh grant\<close>

lemma store_run_db:
  "run_state (store op) w = (x, w') \<Longrightarrow>
   w_now w' = w_now w \<and> w_draws w' = w_draws w \<and>
   (w_db w' = w_db w \<or> (x = fst (op (w_db w)) \<and> w_db w' = snd (op (w_db w))))"
  by (auto simp: run_store split: if_splits)

lemma authenticateClient_same:
  assumes "run_state (authenticateClient s r) w = (x, w')"
  shows "w_db w' = w_db w \<and> w_now w' = w_now w"
  using assms unfolding authenticateClient_def
  by (auto simp: run_simps split: prod.splits if_splits)

lemma logAudit_same:
  "run_state (logAudit s r a u c meta) w = (ok, w') \<Longrightarrow> w_db w' = w_db w \<and> w_now w' = w_now w"
  using logAudit_result(1,6) by blast

lemma reuse_effect:
  assumes "run_state (revokeOnRefreshReuse s r c raw) w = (x, w')"
  shows "w_now w' = w_now w \<and> (w_db w' = w_db w \<or> (\<exists>sid. w_db w' = snd (DeleteSession sid (w_db w))))"
  using assms unfolding revokeOnRefreshReuse_def
  by (auto simp: run_simps GetSessionByRetiredRefreshTokenHash_def split: case_splits dest!: logAudit_same)

lemma refresh_response_same:
  assumes "run_state (refresh_response s r c u sess na nr ex) w = (x, w')"
  shows "w_db w' = w_db w"
proof -
  have "always (on_db (=)) (refresh_response s r c u sess na nr ex)"
    unfolding refresh_response_def by (intro same_db.db_rules same_db.groups_claim_db)
  from alwaysD [OF this assms] show ?thesis by (simp add: on_db_def)
qed

lemma rotate_refused:
  "run_state (store (RotateRefreshToken sid old na nr ea er)) w = (Inl e, w') \<Longrightarrow>
   w_db w' = w_db w \<and> w_now w' = w_now w"
  by (auto simp: run_store RotateRefreshToken_def Let_def split: if_splits)

lemma read_same:
  "run_state (store (GetSessionByRefreshTokenHash h)) w = (Inl e, w') \<Longrightarrow> w_db w' = w_db w \<and> w_now w' = w_now w"
  "run_state (store (GetUserByID uid)) w = (Inl e', w') \<Longrightarrow> w_db w' = w_db w \<and> w_now w' = w_now w"
  by (auto simp: run_store GetSessionByRefreshTokenHash_def GetUserByID_def split: if_splits)

lemma handleTokenRefresh_effect:
  assumes "run_state (handleTokenRefresh s r) w = (resp, w')"
  shows "w_db w' = w_db w \<or> (\<exists>sid. w_db w' = snd (DeleteSession sid (w_db w))) \<or>
    (\<exists>sess\<in>set (sessions (w_db w)). \<exists>old na nr. w_db w' = snd (RotateRefreshToken (s_ID sess) old na nr
       (capByAbsolute (w_now w + accessTokenTTL) (s_CreatedAt sess))
       (capByAbsolute (w_now w + refreshTokenTTL) (s_CreatedAt sess)) (w_db w)))"
  using assms unfolding handleTokenRefresh_def
  apply (simp add: Let_def run_draws split: case_splits)
  apply (clarsimp dest!: authenticateClient_same read_same rotate_refused store_Inr refresh_response_same
      reuse_effect simp: GetSessionByRefreshTokenHash_def GetUserByID_def)+
  apply (blast dest!: select_row_Inr)+
  done

lemma cap_handleTokenRefresh: "keeps_cap (handleTokenRefresh s r)"
proof (rule alwaysI)
  fix w resp w' assume "run_state (handleTokenRefresh s r) w = (resp, w')"
  from handleTokenRefresh_effect [OF this]
  show "on_db (\<lambda>d d'. cap_inv d \<longrightarrow> cap_inv d') w w'"
    by (auto simp: on_db_def cap_deletes
        intro: cap_RotateRefreshToken [OF _ _ capByAbsolute_le(1) capByAbsolute_le(1)])
qed

lemma cap_mint_session:
  "cap_inv d \<Longrightarrow> cap_inv (snd (CreateSession now (mint_session s now sid ra rb u c sc m ma at) d))"
  by (rule cap_CreateSession) (simp_all add: mint_session_def ttl_defs duration_defs)

lemma cap_mint: "keeps_cap (mintTokenResponseWithMFAAt s u c sc m ma at n)"
  unfolding mintTokenResponseWithMFAAt_def
  by (intro cap.db_rules cap.groups_claim_db) (simp_all add: cap_mint_session)

lemma cap_handleTokenAuthCode: "keeps_cap (handleTokenAuthCode s r)"
  unfolding handleTokenAuthCode_def
  by (intro cap.db_rules cap.authenticateClient_db cap_mint) (simp_all add: cap_grant_ops)

lemma cap_handleTokenClientCreds: "keeps_cap (handleTokenClientCreds s r)"
  unfolding handleTokenClientCreds_def
  by (intro cap.db_rules cap.authenticateClient_db) (simp_all add: cap_mint_session)

lemma wf_handleTokenClientCreds: "keeps_wf (handleTokenClientCreds s r)"
  unfolding handleTokenClientCreds_def
  by (intro wf.db_rules wf.authenticateClient_db) (simp_all add: store_wf)

lemma cap_handleRevoke: "keeps_cap (handleRevoke s r)"
  unfolding handleRevoke_def revoke_session_def by (intro cap.db_rules) (simp_all add: cap_deletes)

lemma wf_handleRevoke: "keeps_wf (handleRevoke s r)"
  unfolding handleRevoke_def revoke_session_def by (intro wf.db_rules) (simp_all add: store_wf)

subsection \<open>Runs without driver failures\<close>

lemma select_row_unique:
  assumes "distinct (map k t)" "x \<in> set t" "k x = i"
  shows "select_row (\<lambda>y. k y = i) t = Inr x"
  using find_key_unique [OF assms(1,2)] assms(3) by (simp add: select_row_def)

lemma select_row_none: "(\<And>x. x \<in> set t \<Longrightarrow> \<not> P x) \<Longrightarrow> select_row P t = Inl ErrNotFound"
  using find_None_all [of P t] by (auto simp: select_row_def split: option.splits dest: find_SomeD)

text \<open>An exhausted script of driver failures stays exhausted.\<close>

definition calm :: "world \<Rightarrow> world \<Rightarrow> bool" where
  "calm w w' \<longleftrightarrow> (w_faults w = [] \<longrightarrow> w_faults w' = [])"

interpretation calm: step_rel calm
  by unfold_locales (auto simp: calm_def)

lemma calm_primitives:
  "always calm get_now" "always calm draw" "always calm (set_cookie n v age)"
  "always calm (send m)" "always calm (journal_append e)"
  "always calm (GenerateRawToken s)" "always calm (newUUID s)" "always calm (HashPassword s p)"
  "always calm (store op)" "always calm (store_at op')"
  by (auto intro!: alwaysI simp: run_simps calm_def split: if_splits)

lemma calm_logAudit: "always calm (logAudit s r a u c meta)"
  unfolding logAudit_def by (intro calm.rules calm_primitives)

lemmas calm_rules = calm.rules calm_primitives calm_logAudit

lemma logAudit_calm:
  "run_state (logAudit s r a u c meta) w = (ok, w') \<Longrightarrow> w_faults w = [] \<Longrightarrow> w_faults w' = []"
  using alwaysD [OF calm_logAudit] by (simp add: calm_def)

lemma run_store_ok:
  "w_faults w = [] \<Longrightarrow> run_state (store op) w = (fst (op (w_db w)), w\<lparr>w_db := snd (op (w_db w))\<rparr>)"
  by (simp add: run_store)

lemma authenticateClient_ok:
  assumes "w_faults w = []" "uniq_clients (clients (w_db w))" "c \<in> set (clients (w_db w))"
    "client_proved s r c"
  shows "run_state (authenticateClient s r) w = (Inr c, w)"
proof -
  have "select_row (\<lambda>x. c_ClientID x = fst (client_credentials r)) (clients (w_db w)) = Inr c"
    using assms by (intro select_row_unique) (auto simp: uniq_clients_def client_proved_def)
  then show ?thesis
    using assms(1,4) unfolding authenticateClient_def
    by (auto simp: run_store_ok GetClientByClientID_def client_proved_def Let_def split: prod.splits)
qed

text \<open>A retired refresh token presented by its own client: the session behind it is deleted
  and the request is refused.\<close>

lemma handleTokenRefresh_replay:
  assumes ok: "w_faults w = []" "wf_db (w_db w)" "c \<in> set (clients (w_db w))" "client_proved s r c"
    and old: "\<forall>x\<in>set (sessions (w_db w)). s_RefreshTokenHash x \<noteq> HashToken s (FormValue r ''refresh_token'')"
    and rt: "rt \<in> set (retired (w_db w))" "rt_TokenHash rt = HashToken s (FormValue r ''refresh_token'')"
      "sess \<in> set (sessions (w_db w))" "s_ID sess = rt_SessionID rt" "s_ClientID sess = c_ID c"
    and run: "run_state (handleTokenRefresh s r) w = (resp, w')"
  shows "w_db w' = delete_sessions (\<lambda>x. s_ID x = s_ID sess) (w_db w) \<and>
    (resp = writeError 400 ''invalid_grant'' ''refresh token not found'' \<or> resp = auditFail)"
proof -
  have a: "run_state (authenticateClient s r) w = (Inr c, w)"
    using ok by (intro authenticateClient_ok) (auto simp: wf_db_def uniq_db_def)
  have b: "GetSessionByRefreshTokenHash (HashToken s (FormValue r ''refresh_token'')) (w_db w) = (Inl ErrNotFound, w_db w)"
    using old by (simp add: GetSessionByRefreshTokenHash_def select_row_none)
  have "find (\<lambda>t. rt_TokenHash t = HashToken s (FormValue r ''refresh_token'')) (retired (w_db w)) = Some rt"
    using ok(2) rt(1,2) by (auto simp: wf_db_def uniq_db_def uniq_retired_def find_key_iff)
  moreover have "select_row (\<lambda>x. s_ID x = rt_SessionID rt) (sessions (w_db w)) = Inr sess"
    using ok(2) rt by (intro select_row_unique) (auto simp: wf_db_def uniq_db_def uniq_sessions_def)
  ultimately have c: "GetSessionByRetiredRefreshTokenHash (HashToken s (FormValue r ''refresh_token'')) (w_db w)
      = (Inr sess, w_db w)"
    by (simp add: GetSessionByRetiredRefreshTokenHash_def)
  show ?thesis
    using run ok(1) rt(5) unfolding handleTokenRefresh_def revokeOnRefreshReuse_def
    by (auto simp: a b c run_store_ok DeleteSession_def unknownRefresh_def Let_def split: prod.splits if_splits
        dest!: logAudit_same)
qed

text \<open>What \<open>/revoke\<close> leaves behind when it answers 200.\<close>

lemma revoke_session_effect:
  assumes "run_state (revoke_session s r sess) w = (RStatus 200, w')" "w_faults w = []"
  shows "w_db w' = delete_sessions (\<lambda>x. s_ID x = s_ID sess) (w_db w)"
proof -
  obtain ok w1 where a: "run_state (logAudit s r ''auth.token.revoked'' (Some (s_UserID sess))
      (Some (s_ClientID sess)) []) w = (ok, w1)" by fastforce
  have "w_faults w1 = []" "w_db w1 = w_db w" using logAudit_calm [OF a assms(2)] logAudit_same [OF a] by auto
  then show ?thesis using assms(1) a
    by (auto simp: revoke_session_def auditFail_def run_store_ok DeleteSession_def split: if_splits)
qed

lemma handleRevoke_effect:
  assumes "run_state (handleRevoke s r) w = (RStatus 200, w')" "w_faults w = []" "FormValue r ''token'' \<noteq> []"
  obtains (access) sess where "sess \<in> set (sessions (w_db w))"
      "s_AccessTokenHash sess = HashToken s (FormValue r ''token'')"
      "w_db w' = delete_sessions (\<lambda>x. s_ID x = s_ID sess) (w_db w)"
  | (refresh) sess where "\<forall>x\<in>set (sessions (w_db w)). s_AccessTokenHash x \<noteq> HashToken s (FormValue r ''token'')"
      "sess \<in> set (sessions (w_db w))" "s_RefreshTokenHash sess = HashToken s (FormValue r ''token'')"
      "w_db w' = delete_sessions (\<lambda>x. s_ID x = s_ID sess) (w_db w)"
  | (unknown) "\<forall>x\<in>set (sessions (w_db w)). s_AccessTokenHash x \<noteq> HashToken s (FormValue r ''token'')"
      "\<forall>x\<in>set (sessions (w_db w)). s_RefreshTokenHash x \<noteq> HashToken s (FormValue r ''token'')"
      "w_db w' = w_db w"
proof (cases "select_row (\<lambda>x. s_AccessTokenHash x = HashToken s (FormValue r ''token'')) (sessions (w_db w))")
  case (Inr sess)
  then have "run_state (revoke_session s r sess) w = (RStatus 200, w')"
    using assms by (simp add: handleRevoke_def Let_def run_store_ok GetSessionByAccessTokenHash_def)
  from revoke_session_effect [OF this assms(2)] select_row_Inr [OF Inr] show thesis
    by (intro access) auto
next
  case (Inl e)
  note no_access = select_row_Inl [OF Inl, THEN conjunct2]
  show thesis
  proof (cases "select_row (\<lambda>x. s_RefreshTokenHash x = HashToken s (FormValue r ''token'')) (sessions (w_db w))")
    case (Inr sess)
    then have "run_state (revoke_session s r sess) w = (RStatus 200, w')"
      using assms Inl by (simp add: handleRevoke_def Let_def run_store_ok GetSessionByAccessTokenHash_def
          GetSessionByRefreshTokenHash_def)
    from revoke_session_effect [OF this assms(2)] select_row_Inr [OF Inr] show thesis
      using no_access by (intro refresh) auto
  next
    case (Inl e2)
    then show thesis
      using assms \<open>select_row (\<lambda>x. s_AccessTokenHash x = _) _ = Inl e\<close> no_access
        select_row_Inl [OF Inl, THEN conjunct2]
      by (intro unknown) (auto simp: handleRevoke_def Let_def run_store_ok GetSessionByAccessTokenHash_def
          GetSessionByRefreshTokenHash_def)
  qed
qed

lemma delete_session_gone:
  assumes "distinct (map k (sessions d))" "sess \<in> set (sessions d)" "k sess = h"
  shows "\<forall>x\<in>set (sessions (delete_sessions (\<lambda>x. s_ID x = s_ID sess) d)). k x \<noteq> h"
  using assms distinct_key_eq [OF assms(1)]
  by (auto simp: delete_sessions_def Let_def table_sets)

lemma handleRevoke_gone:
  assumes "wf_db (w_db w)" "w_faults w = []" "FormValue r ''token'' \<noteq> []"
    "run_state (handleRevoke s r) w = (RStatus 200, w')"
  shows "\<forall>x\<in>set (sessions (w_db w')). s_AccessTokenHash x \<noteq> HashToken s (FormValue r ''token'')"
  using assms(4,2,3)
proof (cases rule: handleRevoke_effect)
  case (access sess)
  then show ?thesis
    using assms(1) delete_session_gone [of s_AccessTokenHash "w_db w" sess]
    by (simp add: wf_db_def uniq_db_def uniq_sessions_def)
qed (auto simp: delete_sessions_def Let_def table_sets)

lemma unregisteredScope_none:
  "[] \<notin> set scopes \<Longrightarrow> unregisteredScope c scopes = [] \<longleftrightarrow> (\<forall>sc\<in>set scopes. containsStr (c_Scopes c) sc)"
  by (induction scopes) auto

lemma splitScopes_nonempty: "[] \<notin> set (splitScopes sc)"
  using Fields_nonempty by (auto simp: splitScopes_def)

lemma handleTokenClientCreds_success:
  assumes "run_state (handleTokenClientCreds s r) w = (RJSON 200 body, w')"
  shows "\<exists>c sess raw. c \<in> set (clients (w_db w)) \<and> client_proved s r c \<and> \<not> c_Public c \<and>
    w_db w' = (w_db w)\<lparr>sessions := sessions (w_db w) @ [sess]\<rparr> \<and>
    map_of body ''access_token'' = Some (JStr raw) \<and> s_AccessTokenHash sess = HashToken s raw \<and>
    s_UserID sess = uuid_nil \<and> s_ClientID sess = c_ID c \<and> \<not> s_MFAVerified sess \<and>
    s_Scopes sess = splitScopes (FormValue r ''scope'') \<and>
    (\<forall>sc\<in>set (s_Scopes sess). containsStr (c_Scopes c) sc)"
proof -
  obtain c w1 ra rb sid w2 where c: "c \<in> set (clients (w_db w))" "client_proved s r c" "\<not> c_Public c"
    and bad: "unregisteredScope c (splitScopes (FormValue r ''scope'')) = []"
    and st: "run_state (store (CreateSession (w_now w) (mint_session s (w_now w) sid ra rb uuid_nil (c_ID c)
      (splitScopes (FormValue r ''scope'')) False None zero_time))) w1 = (Inr (), w2)" "w_db w1 = w_db w"
    and w': "w_db w' = w_db w2" and body: "map_of body ''access_token'' = Some (JStr ra)"
    using assms unfolding handleTokenClientCreds_def
    by (auto simp: run_draws Let_def split: case_splits dest!: authenticateClient_Inr logAudit_same)
  let ?sess = "mint_session s (w_now w) sid ra rb uuid_nil (c_ID c) (splitScopes (FormValue r ''scope'')) False
    None zero_time\<lparr>s_LastActivityAt := current_timestamp (w_now w), s_CreatedAt := current_timestamp (w_now w)\<rparr>"
  have "w_db w' = (w_db w)\<lparr>sessions := sessions (w_db w) @ [?sess]\<rparr>"
    using store_Inr [OF st(1)] CreateSession_Inr st(2) w' by auto
  then show ?thesis
    using c body bad unregisteredScope_none [OF splitScopes_nonempty]
    by (intro exI [of _ c] exI [of _ ?sess] exI [of _ ra]) (simp add: mint_session_def)
qed

subsection \<open>Concurrent exchanges of one code\<close>

text \<open>Requests that present the code with hash \<open>h\<close>, at the granularity of the store calls of
  \<open>handleTokenAuthCode\<close>: each reads the grant, refuses a used one, and otherwise claims it
  with \<open>MarkGrantUsed\<close>; any request may move next, new ones may arrive, and winners store
  sessions.\<close>

datatype exchange = Reading | Claiming uuid | Claimed uuid | Refused

inductive exchange_step :: "string \<Rightarrow> db \<times> exchange list \<Rightarrow> db \<times> exchange list \<Rightarrow> bool" for h where
  arrive: "exchange_step h (d, ps) (d, ps @ [Reading])"
| read: "i < length ps \<Longrightarrow> ps ! i = Reading \<Longrightarrow> fst (GetGrantByCodeHash h d) = Inr g \<Longrightarrow> g_UsedAt g = None \<Longrightarrow>
    exchange_step h (d, ps) (d, ps[i := Claiming (g_ID g)])"
| refuse: "i < length ps \<Longrightarrow> ps ! i = Reading \<Longrightarrow> exchange_step h (d, ps) (d, ps[i := Refused])"
| claim: "i < length ps \<Longrightarrow> ps ! i = Claiming gid \<Longrightarrow> MarkGrantUsed now gid d = (Inr (), d') \<Longrightarrow>
    exchange_step h (d, ps) (d', ps[i := Claimed gid])"
| lose: "i < length ps \<Longrightarrow> ps ! i = Claiming gid \<Longrightarrow> MarkGrantUsed now gid d = (Inl e, d') \<Longrightarrow>
    exchange_step h (d, ps) (d', ps[i := Refused])"
| mint: "CreateSession now sess d = (res, d') \<Longrightarrow> exchange_step h (d, ps) (d', ps)"

inductive_cases exchange_stepE: "exchange_step h st st'"

definition is_claimed :: "exchange \<Rightarrow> bool" where
  "is_claimed p \<longleftrightarrow> (case p of Claimed gid \<Rightarrow> True | _ \<Rightarrow> False)"

definition claims :: "exchange list \<Rightarrow> nat" where
  "claims ps = length (filter is_claimed ps)"

lemma claims_update:
  "i < length ps \<Longrightarrow> \<not> is_claimed (ps ! i) \<Longrightarrow>
   claims (ps[i := p]) = claims ps + (if is_claimed p then 1 else 0)"
  unfolding claims_def
  by (induction ps arbitrary: i) (auto simp: nth_Cons' split: nat.splits)

text \<open>Every claim is on the one grant with that hash, and once it is claimed it is spent.\<close>

definition exchange_inv :: "string \<Rightarrow> uuid \<Rightarrow> db \<times> exchange list \<Rightarrow> bool" where
  "exchange_inv h gid = (\<lambda>(d, ps).
     (\<forall>g\<in>set (grants d). g_CodeHash g = h \<longrightarrow> g_ID g = gid) \<and>
     (\<forall>x. Claiming x \<in> set ps \<or> Claimed x \<in> set ps \<longrightarrow> x = gid) \<and>
     claims ps \<le> 1 \<and> (claims ps = 1 \<longrightarrow> code_spent gid d))"

lemma MarkGrantUsed_grants:
  "(\<forall>g\<in>set (grants (snd (MarkGrantUsed now gid d))). g_CodeHash g = h \<longrightarrow> g_ID g = x) \<longleftrightarrow>
   (\<forall>g\<in>set (grants d). g_CodeHash g = h \<longrightarrow> g_ID g = x)"
  by (simp add: MarkGrantUsed_def Let_def ball_sql_update)

lemma exchange_inv_step:
  "exchange_step h st st' \<Longrightarrow> exchange_inv h gid st \<Longrightarrow> exchange_inv h gid st'"
proof (induction rule: exchange_step.induct)
  case (arrive d ps)
  then show ?case by (auto simp: exchange_inv_def claims_def is_claimed_def)
next
  case (read i ps d g)
  then have "g_ID g = gid"
    by (auto simp: exchange_inv_def GetGrantByCodeHash_def dest!: select_row_Inr)
  with read show ?case
    by (auto simp: exchange_inv_def claims_update is_claimed_def dest: set_update_subset_insert [THEN subsetD])
next
  case (refuse i ps d)
  then show ?case
    by (auto simp: exchange_inv_def claims_update is_claimed_def dest: set_update_subset_insert [THEN subsetD])
next
  case (claim i ps x now d d')
  then have x: "x = gid" by (force simp: exchange_inv_def dest: nth_mem)
  have d': "d' = snd (MarkGrantUsed now gid d)" "fst (MarkGrantUsed now gid d) = Inr ()" using claim x by auto
  then have "\<not> code_spent gid d" "code_spent gid d'"
    using code.wins_unspent [of now gid d] code.spends [of now gid d] by auto
  then show ?case using claim d' x MarkGrantUsed_grants [of now gid d h gid]
    by (auto simp: exchange_inv_def claims_update is_claimed_def dest: set_update_subset_insert [THEN subsetD])
next
  case (lose i ps x now d e d')
  have d': "d' = snd (MarkGrantUsed now x d)" using lose by auto
  then show ?case using lose MarkGrantUsed_grants [of now x d h gid] code.stays_spent [of gid d now x]
    by (auto simp: exchange_inv_def claims_update is_claimed_def dest: set_update_subset_insert [THEN subsetD])
next
  case (mint now sess d res d' ps)
  then have "grants d' = grants d" by (auto simp: CreateSession_def insert_outcome_def Let_def split: if_splits)
  with mint show ?case by (auto simp: exchange_inv_def code_spent_def)
qed

lemma exchange_at_most_one:
  assumes "(exchange_step h)\<^sup>*\<^sup>* (d, []) (d', ps)" "uniq_grants (grants d)"
  shows "claims ps \<le> 1"
proof -
  obtain gid where "\<forall>g\<in>set (grants d). g_CodeHash g = h \<longrightarrow> g_ID g = gid"
    using assms(2) by (metis distinct_key_eq uniq_grants_def)
  then have init: "exchange_inv h gid (d, [])" by (simp add: exchange_inv_def claims_def)
  have "exchange_inv h gid (d', ps)"
    using assms(1) init by (induction rule: rtranclp_induct2) (auto intro: exchange_inv_step)
  then show ?thesis by (simp add: exchange_inv_def)
qed

lemma rotated_session:
  assumes u: "distinct (map s_RefreshTokenHash (sessions d))" and old: "old \<in> set (sessions d)"
    and rot: "RotateRefreshToken (s_ID old) (s_RefreshTokenHash old) na nr ea er d = (Inr (), d')"
  shows "old\<lparr>s_AccessTokenHash := na, s_RefreshTokenHash := nr, s_AccessExpiresAt := ea,
      s_RefreshExpiresAt := er\<rparr> \<in> set (sessions d') \<and>
    s_RefreshTokenHash old \<in> rt_TokenHash ` set (retired d') \<and>
    (nr \<noteq> s_RefreshTokenHash old \<longrightarrow> (\<forall>x\<in>set (sessions d'). s_RefreshTokenHash x \<noteq> s_RefreshTokenHash old))"
proof -
  let ?hit = "\<lambda>s. s_ID s = s_ID old \<and> s_RefreshTokenHash s = s_RefreshTokenHash old"
  let ?f = "\<lambda>s. s\<lparr>s_AccessTokenHash := na, s_RefreshTokenHash := nr, s_AccessExpiresAt := ea,
      s_RefreshExpiresAt := er\<rparr>"
  have s: "sessions d' = sql_update ?hit ?f (sessions d)"
    using RotateRefreshToken_sessions(1) [of "s_ID old" "s_RefreshTokenHash old" na nr ea er d] rot by simp
  have "?f old \<in> set (sessions d')" using old unfolding s by (force simp: sql_update_def)
  moreover have "s_RefreshTokenHash old \<in> rt_TokenHash ` set (retired d')"
    using rot by (auto simp: RotateRefreshToken_def Let_def split: if_splits)
  moreover have "\<forall>x\<in>set (sessions d'). s_RefreshTokenHash x \<noteq> s_RefreshTokenHash old"
    if "nr \<noteq> s_RefreshTokenHash old"
    unfolding s using that distinct_key_eq [OF u _ old] by (intro ball_sql_updateI) auto
  ultimately show ?thesis by blast
qed

end
