(* ===== verification/Example.thy ===== *)
theory Example
  imports OAuth2
begin

text \<open>
  A small concrete deployment on which the properties of the library are exhibited: one user, the
  portal client, a confidential client, and one row of each kind of credential. The
  functions from outside the repository are replaced by simple computable ones (a prefix for
  the token hash, a tally for the random tokens).
\<close>

definition demo_ext :: ext where
  "demo_ext = \<lparr>x_HashToken = (\<lambda>t. CHR ''h'' # t), x_RawToken = (\<lambda>n. Some (replicate n CHR ''x'')),
     x_UUID = (\<lambda>n. 1000 + n), x_CheckPassword = (\<lambda>h p. h = CHR ''p'' # p),
     x_HashPassword = (\<lambda>n p. Some (CHR ''p'' # p)), x_SealFails = (\<lambda>n. False), x_BoxBytes = (\<lambda>b. ''json''),
     x_DecryptEnvelope = (\<lambda>a b. Some b), x_EncryptEnvelope = (\<lambda>n p. Some (p, [])),
     x_GenerateTOTP = (\<lambda>n e. Some (''secret'', ''otpauth'')),
     x_ValidateTOTP = (\<lambda>code secret now. code = ''123456''), x_MintIDToken = (\<lambda>c. Some ''jwt''),
     x_RandomBytes = (\<lambda>n. Some [0, 1, 2, 3, 4, 5, 6, 7]), x_ParseUUID = (\<lambda>s. Some (length s)),
     x_WABeginRegistration = (\<lambda>n u cs. Some (''options'', ''data'')),
     x_WABeginLogin = (\<lambda>n u cs. Some (''options'', ''data'')), x_WASessionOK = (\<lambda>b. True),
     x_WAFinishRegistration = (\<lambda>u cs d b. Some \<lparr>wr_ID = ''key'', wr_PublicKey = ''pub'', wr_AAGUID = ''aaguid'',
       wr_SignCount = 1, wr_BackupEligible = False, wr_BackupState = False, wr_CloneWarning = False\<rparr>),
     x_WAParseAssertion = (\<lambda>b. Some \<lparr>wp_RawID = ''key'', wp_HasBackupEligible = False, wp_Body = b\<rparr>),
     x_TLSForURL = (\<lambda>u. True), x_LoadAWSConfig = True, x_UUIDString = (\<lambda>u. replicate u CHR ''u''), x_MintFederationToken = (\<lambda>c. Some ''fed''),
     x_WAValidateLogin = (\<lambda>u cs d a. Some \<lparr>wr_ID = ''key'', wr_PublicKey = ''pub'', wr_AAGUID = ''aaguid'',
       wr_SignCount = 2, wr_BackupEligible = False, wr_BackupState = False, wr_CloneWarning = False\<rparr>)\<rparr>"

text \<open>Character classes of ASCII.\<close>

definition demo_unicode :: unicode_tables where
  "demo_unicode = \<lparr>ut_IsUpper = (\<lambda>c. 65 \<le> c \<and> c \<le> 90), ut_IsLower = (\<lambda>c. 97 \<le> c \<and> c \<le> 122),
     ut_IsDigit = (\<lambda>c. 48 \<le> c \<and> c \<le> 57), ut_IsLetter = (\<lambda>c. (65 \<le> c \<and> c \<le> 90) \<or> (97 \<le> c \<and> c \<le> 122))\<rparr>"

definition demo_server :: server where
  "demo_server = \<lparr>srv_ext = demo_ext, srv_policy = DefaultPCIRules, srv_unicode = demo_unicode,
     srv_hasSigner = True, srv_issuer = ''https://auth'', srv_awsAudience = ''sts'',
     srv_awsRegions = [''us-east-1''], srv_awsDefaultRegion = ''us-east-1'',
     srv_stepUpMFATTL = 5 * minute, srv_allowReg = True, srv_hasSCIMTLS = False\<rparr>"

definition demo_now :: time where "demo_now = 1000000 * hour"

definition demo_user :: User where
  "demo_user = \<lparr>u_ID = 10, u_Email = ''a@b.c'', u_PasswordHash = ''pCorrect-Horse-1'', u_Name = ''Ann'',
     u_Active = True, u_SCIMExternalID = [], u_MFAEnabled = False, u_IsAdmin = True,
     u_PasswordChangedAt = demo_now, u_FailedAttempts = 0, u_LockedUntil = None,
     u_MustChangePassword = False, u_CreatedAt = demo_now, u_UpdatedAt = demo_now\<rparr>"

definition demo_client :: Client where
  "demo_client = \<lparr>c_ID = 20, c_ClientID = ''app'', c_ClientSecretHash = ''hs'', c_Name = ''App'',
     c_RedirectURIs = [''https://rp/cb''], c_Scopes = [''openid'', ''profile''], c_Public = False,
     c_BackchannelLogoutURI = Some ''https://rp/logout'', c_ShowInPortal = True, c_LaunchURL = [],
     c_BrandColor = [], c_IconURL = [], c_VisibleToAll = True, c_AllowDeviceGrant = True,
     c_SecretRotatedAt = demo_now, c_CreatedAt = demo_now\<rparr>"

definition demo_portal :: Client where
  "demo_portal = demo_client\<lparr>c_ID := portalClientUUID, c_ClientID := ''portal'', c_Public := True\<rparr>"

text \<open>An authorization code for the verifier \<open>v\<close>, and a session of the client.\<close>

definition demo_grant :: Grant where
  "demo_grant = \<lparr>g_ID = 30, g_UserID = 10, g_ClientID = 20, g_CodeHash = ''hcode'',
     g_CodeChallenge = RawURLEncoding (Sum256 (byte_values ''v'')), g_Nonce = ''n'', g_Scopes = [''openid''],
     g_RedirectURI = ''https://rp/cb'', g_ExpiresAt = demo_now + 10 * minute, g_UsedAt = None,
     g_MFAVerifiedAt = None, g_AuthTime = demo_now\<rparr>"

definition demo_session :: Session where
  "demo_session = \<lparr>s_ID = 40, s_UserID = 10, s_ClientID = 20, s_AccessTokenHash = ''hacc'',
     s_RefreshTokenHash = ''href'', s_Scopes = [''openid''], s_AccessExpiresAt = demo_now + 15 * minute,
     s_RefreshExpiresAt = demo_now + hour, s_LastActivityAt = demo_now, s_MFAVerified = False,
     s_MFAVerifiedAt = None, s_AuthTime = demo_now, s_CreatedAt = demo_now\<rparr>"

definition demo_db :: db where
  "demo_db = \<lparr>users = [demo_user], clients = [demo_client, demo_portal], grants = [demo_grant],
     sessions = [demo_session], retired = [], totps = [], webauthns = [], wa_sessions = [],
     groups = [], members = [], signing_keys = [], ext_ids = [], integrations = [], aws_accounts = [],
     aws_roles = [], aws_assignments = [], aws_revoked = [], device_grants = [], visibility = []\<rparr>"

definition demo_world :: world where
  "demo_world = \<lparr>w_db = demo_db, w_now = demo_now, w_faults = [], w_draws = 7, w_journal = [],
     w_auditFaults = [], w_cookies = [], w_outbox = [], w_replies = [], w_registry = None\<rparr>"

definition demo_request :: "(string \<times> string) list \<Rightarrow> request" where
  "demo_request form = \<lparr>rq_form = form, rq_query = [], rq_badForm = False, rq_isPost = True,
     rq_authorization = [], rq_basic = None, rq_cookies = [], rq_ip = ''ip'', rq_agent = ''agent'',
     rq_pathID = None, rq_body = [], rq_json = None\<rparr>"

lemmas demo_defs = demo_ext_def demo_unicode_def demo_server_def demo_now_def demo_user_def
  demo_client_def demo_portal_def demo_grant_def demo_session_def demo_db_def demo_world_def
  demo_request_def portalClientUUID_def

lemma replicate_eval: "replicate (numeral k) x = x # replicate (pred_numeral k) x"
  by (simp add: numeral_eq_Suc)

lemma demo_scopes:
  "\<not> EqualFold ''openid'' ''groups''" "\<not> EqualFold ''openid'' ''admin''" "\<not> EqualFold ''openid'' ''profile''"
  by code_simp+

lemmas demo_eval = demo_scopes replicate_eval containsStr_def run_simps store_defs select_row_def requireOneRow_def rows_affected_def
  insert_outcome_def uniq_defs sql_update_def Let_def FormValue_def QueryGet_def lookup_or_empty_def
  HashToken_def CheckPassword_def undoOnAuditFailure_def

lemma demo_wf: "wf_db demo_db"
  by (simp add: demo_defs wf_defs uniq_defs fk_defs)

definition code_request :: request where
  "code_request = demo_request [(''client_id'', ''app''), (''client_secret'', ''s''), (''code'', ''code''),
     (''redirect_uri'', ''https://rp/cb''), (''code_verifier'', ''v'')]"

lemma code_request_run:
  "fst (run_state (handleTokenAuthCode demo_server code_request) demo_world) = 
   RJSON 200 (token_fields (replicate 7 CHR ''x'') (replicate 8 CHR ''x'') 900 [''openid''] @ [(''id_token'', JStr ''jwt'')])"
  by (simp add: handleTokenAuthCode_def authenticateClient_def client_credentials_def mintTokenResponseWithMFAAt_def mint_session_def
   logAudit_def groups_claim_def  demo_eval demo_defs code_request_def verifyPKCE_self duration_defs ttl_defs
   containsStr_def token_fields_def seconds_int_def)
end
