(* ===== verification/Token_Properties.thy ===== *)
theory Token_Properties
  imports Example
begin

text \<open>
  The properties of the token endpoint: exchange of authorization codes, refresh rotation and
  replay, client credentials and revocation.
\<close>

text \<open>C1. A successful authorization-code exchange happened for an authenticated client and an
  unused, unexpired code of that client, with the redirect URI of the authorization request and a
  verifier that satisfies the PKCE challenge; it marks exactly that code as used and stores exactly
  one session, for the user, client, scopes and MFA state of the grant, whose token hashes
  are those of the tokens in the response.\<close>

theorem code_exchange_sound:
  assumes "wf_db (w_db w)" "run_state (handleTokenAuthCode s r) w = (RJSON 200 body, w')"
  shows "\<exists>c g sess. c \<in> set (clients (w_db w)) \<and> client_proved s r c \<and> g \<in> set (grants (w_db w)) \<and>
    g_CodeHash g = HashToken s (FormValue r ''code'') \<and> g_UsedAt g = None \<and> g_ClientID g = c_ID c \<and>
    g_RedirectURI g = FormValue r ''redirect_uri'' \<and> w_now w \<le> g_ExpiresAt g \<and>
    verifyPKCE (g_CodeChallenge g) (FormValue r ''code_verifier'') \<and>
    w_db w' = (snd (MarkGrantUsed (w_now w) (g_ID g) (w_db w)))\<lparr>sessions := sessions (w_db w) @ [sess]\<rparr> \<and>
    minted s body sess \<and> s_UserID sess = g_UserID g \<and> s_ClientID sess = c_ID c \<and> s_Scopes sess = g_Scopes g \<and>
    s_MFAVerified sess = (g_MFAVerifiedAt g \<noteq> None) \<and> s_MFAVerifiedAt sess = g_MFAVerifiedAt g \<and>
    code_spent (g_ID g) (w_db w')"
proof -
  from assms(2) obtain c g u w1 w2 where *: "c \<in> set (clients (w_db w))" "client_proved s r c"
    "g \<in> set (grants (w_db w))" "g_CodeHash g = HashToken s (FormValue r ''code'')" "g_UsedAt g = None"
    "g_ClientID g = c_ID c" "g_RedirectURI g = FormValue r ''redirect_uri''" "w_now w \<le> g_ExpiresAt g"
    "verifyPKCE (g_CodeChallenge g) (FormValue r ''code_verifier'')" "u_ID u = g_UserID g"
    and w1: "w_db w1 = snd (MarkGrantUsed (w_now w) (g_ID g) (w_db w))"
    and m: "run_state (mintTokenResponseWithMFAAt s u c (g_Scopes g) (g_MFAVerifiedAt g \<noteq> None)
        (g_MFAVerifiedAt g) (g_AuthTime g) (g_Nonce g)) w1 = (Some body, w2)"
    and a: "run_state (logAudit s r ''auth.token.issued'' (Some (g_UserID g)) (Some (c_ID c))
        [(''scopes'', JStrs (g_Scopes g))]) w2 = (True, w')"
    by (rule handleTokenAuthCode_success)
  have sessions: "sessions (snd (MarkGrantUsed now gid d)) = sessions d" for now gid d
    by (simp add: MarkGrantUsed_def Let_def)
  have "code_spent (g_ID g) (snd (MarkGrantUsed (w_now w) (g_ID g) (w_db w)))"
    using * by (intro code.spends) (auto simp: MarkGrantUsed_def Let_def requireOneRow_def rows_affected_0)
  with mint_success [OF m] logAudit_same [OF a] * show ?thesis
    by (intro exI [of _ c] exI [of _ g]) (auto simp: w1 sessions code_spent_def)
qed


theorem code_exchange_sound_witness:
  "\<exists>c g sess. c \<in> set (clients demo_db) \<and> client_proved demo_server code_request c \<and> g \<in> set (grants demo_db) \<and>
     g_CodeHash g = ''hcode'' \<and> s_UserID (sess :: Session) = g_UserID g \<and>
     s_ClientID sess = c_ID c"
proof -
  obtain body w' where run: "run_state (handleTokenAuthCode demo_server code_request) demo_world = (RJSON 200 body, w')"
    using code_request_run by (cases "run_state (handleTokenAuthCode demo_server code_request) demo_world") auto
  have eqs: "HashToken demo_server (FormValue code_request ''code'') = ''hcode''" "w_db demo_world = demo_db"
    by (simp_all add: demo_defs code_request_def demo_eval)
  have wf: "wf_db (w_db demo_world)" by (simp add: eqs demo_wf)
  from code_exchange_sound [OF wf run, unfolded eqs] show ?thesis
    by blast
qed

text \<open>However the store calls of any number of concurrent requests for the same
  authorization code interleave, at most one of them claims it.\<close>

theorem code_claimed_at_most_once:
  assumes "wf_db d" "(exchange_step h)\<^sup>*\<^sup>* (d, []) (d', ps)"
  shows "claims ps \<le> 1"
  using assms by (intro exchange_at_most_one) (auto simp: wf_db_def uniq_db_def)

lemma demo_exchange:
  "(exchange_step ''hcode'')\<^sup>*\<^sup>* (demo_db, []) (snd (MarkGrantUsed demo_now 30 demo_db), [Claimed 30])"
proof -
  have "exchange_step ''hcode'' (demo_db, []) (demo_db, [Reading])"
    using exchange_step.arrive [of "''hcode''" demo_db "[]"] by simp
  moreover have "exchange_step ''hcode'' (demo_db, [Reading]) (demo_db, [Claiming 30])"
    using exchange_step.read [of 0 "[Reading]" "''hcode''" demo_db demo_grant]
    by (simp add: demo_defs demo_eval)
  moreover have "exchange_step ''hcode'' (demo_db, [Claiming 30]) (snd (MarkGrantUsed demo_now 30 demo_db), [Claimed 30])"
    using exchange_step.claim [of 0 "[Claiming 30]" 30 demo_now demo_db "snd (MarkGrantUsed demo_now 30 demo_db)" "''hcode''"]
    by (simp add: demo_defs demo_eval)
  ultimately show ?thesis by (meson converse_rtranclp_into_rtranclp rtranclp.rtrancl_refl)
qed

theorem code_claimed_at_most_once_witness: "claims [Claimed 30] \<le> 1"
  by (rule code_claimed_at_most_once [OF demo_wf demo_exchange])

text \<open>C13. A successful refresh is for a live session of the authenticated client whose current
  refresh token was presented. Afterwards the presented token is not the refresh token of any session and is
  recorded as retired for that session (provided the hash of the new token differs), the session holds the
  hashes of the new tokens, keeps its identity, user, client and scopes, and neither deadline
  exceeds four hours after its creation.\<close>

theorem refresh_rotates:
  assumes "wf_db (w_db w)" "run_state (handleTokenRefresh s r) w = (RJSON 200 body, w')"
  shows "\<exists>c old new. c \<in> set (clients (w_db w)) \<and> client_proved s r c \<and>
    old \<in> set (sessions (w_db w)) \<and> s_ClientID old = c_ID c \<and>
    s_RefreshTokenHash old = HashToken s (FormValue r ''refresh_token'') \<and>
    w_now w \<le> s_RefreshExpiresAt old \<and> w_now w \<le> s_CreatedAt old + absoluteSessionTTL \<and>
    new \<in> set (sessions (w_db w')) \<and> minted s body new \<and> session_capped new \<and>
    s_ID new = s_ID old \<and> s_UserID new = s_UserID old \<and> s_ClientID new = s_ClientID old \<and>
    s_Scopes new = s_Scopes old \<and> s_CreatedAt new = s_CreatedAt old \<and>
    s_RefreshTokenHash old \<in> rt_TokenHash ` set (retired (w_db w')) \<and>
    (s_RefreshTokenHash new \<noteq> s_RefreshTokenHash old \<longrightarrow>
       (\<forall>x\<in>set (sessions (w_db w')). s_RefreshTokenHash x \<noteq> s_RefreshTokenHash old))"
proof -
  from assms(2) obtain c old na nr rest where c: "c \<in> set (clients (w_db w))" "client_proved s r c"
    and old: "old \<in> set (sessions (w_db w))" "s_ClientID old = c_ID c"
      "s_RefreshTokenHash old = HashToken s (FormValue r ''refresh_token'')"
      "w_now w \<le> s_RefreshExpiresAt old" "w_now w \<le> s_CreatedAt old + absoluteSessionTTL"
    and rot: "RotateRefreshToken (s_ID old) (s_RefreshTokenHash old) (HashToken s na) (HashToken s nr)
       (capByAbsolute (w_now w + accessTokenTTL) (s_CreatedAt old))
       (capByAbsolute (w_now w + refreshTokenTTL) (s_CreatedAt old)) (w_db w) = (Inr (), w_db w')"
    and body: "body = token_fields na nr (seconds_int (capByAbsolute (w_now w + accessTokenTTL)
       (s_CreatedAt old) - w_now w)) (s_Scopes old) @ rest"
    by (rule handleTokenRefresh_success) auto
  let ?new = "old\<lparr>s_AccessTokenHash := HashToken s na, s_RefreshTokenHash := HashToken s nr,
    s_AccessExpiresAt := capByAbsolute (w_now w + accessTokenTTL) (s_CreatedAt old),
    s_RefreshExpiresAt := capByAbsolute (w_now w + refreshTokenTTL) (s_CreatedAt old)\<rparr>"
  have u: "distinct (map s_RefreshTokenHash (sessions (w_db w)))"
    using assms(1) by (simp add: wf_db_def uniq_db_def uniq_sessions_def)
  note upd = rotated_session [OF u old(1) rot]
  show ?thesis using c old upd
    by (intro exI [of _ c] exI [of _ old] exI [of _ ?new])
       (simp add: body minted_token_fields session_capped_def capByAbsolute_le)
qed

definition refresh_request :: request where
  "refresh_request = demo_request [(''client_id'', ''app''), (''client_secret'', ''s''), (''refresh_token'', ''ref'')]"

lemma refresh_request_run:
  "\<exists>body w'. run_state (handleTokenRefresh demo_server refresh_request) demo_world = (RJSON 200 body, w')"
  by (simp add: handleTokenRefresh_def authenticateClient_def client_credentials_def refresh_response_def
   logAudit_def groups_claim_def  demo_eval demo_defs refresh_request_def duration_defs ttl_defs capByAbsolute_def
    token_fields_def seconds_int_def)

theorem refresh_rotates_witness:
  "\<exists>c old. c \<in> set (clients demo_db) \<and> client_proved demo_server refresh_request c \<and>
     old \<in> set (sessions demo_db) \<and> s_RefreshTokenHash old = ''href''"
proof -
  obtain body w' where run: "run_state (handleTokenRefresh demo_server refresh_request) demo_world = (RJSON 200 body, w')"
    using refresh_request_run by blast
  have eqs: "HashToken demo_server (FormValue refresh_request ''refresh_token'') = ''href''" "w_db demo_world = demo_db"
    by (simp_all add: demo_defs refresh_request_def demo_eval)
  have wf: "wf_db (w_db demo_world)" by (simp add: eqs demo_wf)
  from refresh_rotates [OF wf run, unfolded eqs] show ?thesis by blast
qed

text \<open>C14. A retired refresh token presented again by the client it was issued to revokes the
  session it belonged to: the session and everything that hangs on it is deleted, nothing else
  changes, and the answer is a refusal.\<close>

theorem refresh_replay_revokes:
  assumes "w_faults w = []" "wf_db (w_db w)" "c \<in> set (clients (w_db w))" "client_proved s r c"
    and "\<forall>x\<in>set (sessions (w_db w)). s_RefreshTokenHash x \<noteq> HashToken s (FormValue r ''refresh_token'')"
    and "rt \<in> set (retired (w_db w))" "rt_TokenHash rt = HashToken s (FormValue r ''refresh_token'')"
      "sess \<in> set (sessions (w_db w))" "s_ID sess = rt_SessionID rt" "s_ClientID sess = c_ID c"
    and "run_state (handleTokenRefresh s r) w = (resp, w')"
  shows "w_db w' = delete_sessions (\<lambda>x. s_ID x = s_ID sess) (w_db w) \<and> sess \<notin> set (sessions (w_db w')) \<and>
    (resp = writeError 400 ''invalid_grant'' ''refresh token not found'' \<or> resp = auditFail)"
  using handleTokenRefresh_replay [OF assms] by (auto simp: delete_sessions_def Let_def table_sets)

definition retired_world :: world where
  "retired_world = demo_world\<lparr>w_db := demo_db\<lparr>retired := [\<lparr>rt_TokenHash = ''hold'', rt_SessionID = 40\<rparr>]\<rparr>\<rparr>"

definition replay_request :: request where
  "replay_request = demo_request [(''client_id'', ''app''), (''client_secret'', ''s''), (''refresh_token'', ''old'')]"

theorem refresh_replay_revokes_witness:
  "demo_session \<notin> set (sessions (w_db (snd (run_state (handleTokenRefresh demo_server replay_request) retired_world))))"
proof -
  have db: "w_faults retired_world = []" "wf_db (w_db retired_world)" "demo_client \<in> set (clients (w_db retired_world))"
    "\<lparr>rt_TokenHash = ''hold'', rt_SessionID = 40\<rparr> \<in> set (retired (w_db retired_world))"
    "demo_session \<in> set (sessions (w_db retired_world))"
    "\<forall>x\<in>set (sessions (w_db retired_world)). s_RefreshTokenHash x \<noteq> HashToken demo_server (FormValue replay_request ''refresh_token'')"
    by (simp_all add: retired_world_def replay_request_def demo_defs demo_eval wf_defs fk_defs)
  have cl: "client_proved demo_server replay_request demo_client"
    by (simp add: client_proved_def client_credentials_def replay_request_def demo_defs demo_eval)
  have eqs: "rt_TokenHash \<lparr>rt_TokenHash = ''hold'', rt_SessionID = 40\<rparr> = HashToken demo_server (FormValue replay_request ''refresh_token'')"
    "s_ID demo_session = rt_SessionID \<lparr>rt_TokenHash = ''hold'', rt_SessionID = 40\<rparr>"
    "s_ClientID demo_session = c_ID demo_client"
    by (simp_all add: replay_request_def demo_defs demo_eval)
  show ?thesis
    using refresh_replay_revokes [OF db(1-3) cl db(6,4) eqs(1) db(5) eqs(2,3) surjective_pairing] by blast
qed

text \<open>C15. A client-credentials token is issued only to an authenticated confidential client, belongs
  to no user, carries no MFA, and every scope it carries is registered for the client.\<close>

theorem client_credentials_scoped:
  assumes "run_state (handleTokenClientCreds s r) w = (RJSON 200 body, w')"
  shows "\<exists>c sess raw. c \<in> set (clients (w_db w)) \<and> client_proved s r c \<and> \<not> c_Public c \<and>
    w_db w' = (w_db w)\<lparr>sessions := sessions (w_db w) @ [sess]\<rparr> \<and>
    map_of body ''access_token'' = Some (JStr raw) \<and> s_AccessTokenHash sess = HashToken s raw \<and>
    s_UserID sess = uuid_nil \<and> s_ClientID sess = c_ID c \<and> \<not> s_MFAVerified sess \<and>
    s_Scopes sess = splitScopes (FormValue r ''scope'') \<and>
    (\<forall>sc\<in>set (s_Scopes sess). containsStr (c_Scopes c) sc)"
  by (rule handleTokenClientCreds_success [OF assms])

definition creds_request :: request where
  "creds_request = demo_request [(''client_id'', ''app''), (''client_secret'', ''s''), (''scope'', ''openid'')]"

lemma creds_request_run:
  "\<exists>body w'. run_state (handleTokenClientCreds demo_server creds_request) demo_world = (RJSON 200 body, w')"
proof -
  have sc: "splitScopes ''openid'' = [''openid'']" by code_simp
  show ?thesis
    by (simp add: handleTokenClientCreds_def authenticateClient_def client_credentials_def mint_session_def sc
      logAudit_def demo_eval demo_defs creds_request_def duration_defs ttl_defs seconds_int_def)
qed

theorem client_credentials_scoped_witness:
  "\<exists>c sess. c \<in> set (clients demo_db) \<and> client_proved demo_server creds_request c \<and> \<not> c_Public c \<and>
     s_UserID (sess :: Session) = uuid_nil"
proof -
  obtain body w' where run: "run_state (handleTokenClientCreds demo_server creds_request) demo_world = (RJSON 200 body, w')"
    using creds_request_run by blast
  have db: "w_db demo_world = demo_db" by (simp add: demo_world_def)
  from client_credentials_scoped [OF run, unfolded db] show ?thesis by blast
qed

text \<open>C16. After a token has been revoked, the bearer middleware refuses it at any later time and
  does not call the handler, as long as the sessions are those the revocation left.\<close>

theorem revoked_token_refused:
  assumes "wf_db (w_db w)" "w_faults w = []" "FormValue r ''token'' \<noteq> []"
    "run_state (handleRevoke s r) w = (RStatus 200, w')"
    "sessions (w_db v) = sessions (w_db w')" "extractBearerToken r2 = FormValue r ''token''"
    "run_state (bearerAuth s k r2) v = (resp, v')"
  shows "refusal resp \<and> w_db v' = w_db v"
  using bearerAuth_run [OF assms(7)] handleRevoke_gone [OF assms(1-4)] assms(5,6) by auto

definition revoke_request :: request where
  "revoke_request = (demo_request [(''token'', ''acc'')])\<lparr>rq_authorization := ''Bearer acc''\<rparr>"

theorem revoked_token_refused_witness:
  "refusal (fst (run_state (bearerAuth demo_server handleUserInfo revoke_request)
     (snd (run_state (handleRevoke demo_server revoke_request) demo_world))))"
proof -
  have a: "wf_db (w_db demo_world)" "w_faults demo_world = []" by (simp_all add: demo_world_def demo_wf)
  have b: "FormValue revoke_request ''token'' \<noteq> []" "extractBearerToken revoke_request = FormValue revoke_request ''token''"
    by (simp_all add: revoke_request_def demo_defs demo_eval extractBearerToken_def CutPrefix_def HasPrefix_def)
  have c: "run_state (handleRevoke demo_server revoke_request) demo_world =
      (RStatus 200, snd (run_state (handleRevoke demo_server revoke_request) demo_world))"
    by (simp add: handleRevoke_def revoke_session_def logAudit_def revoke_request_def demo_defs demo_eval)
  show ?thesis using revoked_token_refused [OF a b(1) c refl b(2) surjective_pairing] by simp
qed

end
