(* ===== verification/Mfa.thy ===== *)
theory Mfa
  imports Session_Auth
begin

text \<open>
  Multi-factor authentication: \<open>src/internal/mfa/totp.go\<close> (enrolment, confirmation and
  verification of TOTP secrets) and \<open>src/internal/mfa/webauthn.go\<close> (the registration and
  login ceremonies around the go-webauthn library, whose calls are fields of \<open>ext\<close>).
  An error keeps its text up to what a wrapped library error appends.
\<close>

datatype mfa_error = StoreError store_error | MessageError string | ErrCloneSuspected

fun mfa_error_text :: "mfa_error \<Rightarrow> string" where
  "mfa_error_text (StoreError e) = ''store''"
| "mfa_error_text (MessageError m) = m"
| "mfa_error_text ErrCloneSuspected = ''webauthn: signature counter did not advance; authenticator may be cloned''"

subsection \<open>TOTP\<close>

record TOTPEnrollResponse =
  te_CredentialID :: uuid
  te_Secret :: string
  te_OTPURI :: string

definition EnrollTOTP :: "server \<Rightarrow> User \<Rightarrow> (mfa_error + TOTPEnrollResponse) act" where
  "EnrollTOTP s user = do {
     n \<leftarrow> draw;
     case x_GenerateTOTP (srv_ext s) n (u_Email user) of
       None \<Rightarrow> ret (Inl (MessageError ''generate totp key''))
     | Some (secret, url) \<Rightarrow> do {
     k \<leftarrow> draw;
     case x_EncryptEnvelope (srv_ext s) k secret of
       None \<Rightarrow> ret (Inl (MessageError ''encrypt totp secret''))
     | Some (encSecret, encDEK) \<Rightarrow> do {
     x \<leftarrow> store (DeleteTOTP (u_ID user));
     tid \<leftarrow> newUUID s;
     y \<leftarrow> store_at (\<lambda>now. CreateTOTPCredential now
            \<lparr>t_ID = tid, t_UserID = u_ID user, t_EncryptedSecret = encSecret,
             t_EncryptedDEK = encDEK, t_Enabled = False, t_CreatedAt = zero_time\<rparr>);
     ret (case y of
            Inl e \<Rightarrow> Inl (MessageError ''store totp credential'')
          | Inr u \<Rightarrow> Inr \<lparr>te_CredentialID = tid, te_Secret = secret, te_OTPURI = url\<rparr>) } } }"

definition decryptTOTPSecret :: "server \<Rightarrow> TOTPCredential \<Rightarrow> mfa_error + string" where
  "decryptTOTPSecret s cred =
     (case x_DecryptEnvelope (srv_ext s) (t_EncryptedDEK cred) (t_EncryptedSecret cred) of
        None \<Rightarrow> Inl (MessageError ''decrypt totp secret'')
      | Some plain \<Rightarrow> Inr plain)"

definition validateTOTP :: "server \<Rightarrow> time \<Rightarrow> string \<Rightarrow> string \<Rightarrow> bool" where
  "validateTOTP s now secret code = x_ValidateTOTP (srv_ext s) code secret now"

definition ConfirmTOTP :: "server \<Rightarrow> uuid \<Rightarrow> string \<Rightarrow> (mfa_error + unit) act" where
  "ConfirmTOTP s userID code = do {
     x \<leftarrow> store (GetTOTPByUserID userID);
     now \<leftarrow> get_now;
     case x of
       Inl e \<Rightarrow> ret (Inl (StoreError e))
     | Inr cred \<Rightarrow>
         (case decryptTOTPSecret s cred of
            Inl e \<Rightarrow> ret (Inl e)
          | Inr secret \<Rightarrow>
              if \<not> validateTOTP s now secret code then ret (Inl (MessageError ''invalid TOTP code''))
              else do {
                y \<leftarrow> store (EnableTOTP (t_ID cred));
                ret (case y of Inl e \<Rightarrow> Inl (StoreError e) | Inr u \<Rightarrow> Inr ()) }) }"

definition VerifyTOTP :: "server \<Rightarrow> uuid \<Rightarrow> string \<Rightarrow> (mfa_error + unit) act" where
  "VerifyTOTP s userID code = do {
     x \<leftarrow> store (GetTOTPByUserID userID);
     now \<leftarrow> get_now;
     ret (case x of
       Inl e \<Rightarrow> Inl (StoreError e)
     | Inr cred \<Rightarrow>
         if \<not> t_Enabled cred then Inl (MessageError ''TOTP not enabled'')
         else (case decryptTOTPSecret s cred of
            Inl e \<Rightarrow> Inl e
          | Inr secret \<Rightarrow>
              if \<not> validateTOTP s now secret code then Inl (MessageError ''invalid TOTP code'')
              else Inr ())) }"

subsection \<open>WebAuthn\<close>

definition modelToWACreds :: "WebAuthnCredential list \<Rightarrow> wa_credential list" where
  "modelToWACreds creds = map (\<lambda>c.
     \<lparr>wr_ID = wc_CredentialID c, wr_PublicKey = wc_PublicKey c, wr_AAGUID = wc_AAGUID c,
      wr_SignCount = wc_SignCount c, wr_BackupEligible = (wc_BackupEligible c = Some True),
      wr_BackupState = wc_BackupState c, wr_CloneWarning = False\<rparr>) creds"

definition adoptLegacyBackupEligible ::
  "WebAuthnCredential list \<Rightarrow> wa_assertion \<Rightarrow> WebAuthnCredential list" where
  "adoptLegacyBackupEligible creds parsed = map (\<lambda>c.
     if wc_BackupEligible c = None \<and> wc_CredentialID c = wp_RawID parsed
     then c\<lparr>wc_BackupEligible := Some (wp_HasBackupEligible parsed)\<rparr> else c) creds"

text \<open>A listing error is ignored where the code discards it.\<close>

definition list_or_empty :: "store_error + 'a list \<Rightarrow> 'a list" where
  "list_or_empty x = (case x of Inl e \<Rightarrow> [] | Inr xs \<Rightarrow> xs)"

definition BeginRegistration :: "server \<Rightarrow> User \<Rightarrow> (mfa_error + bytes \<times> uuid) act" where
  "BeginRegistration s user = do {
     x \<leftarrow> store (ListWebAuthnCredentials (u_ID user));
     n \<leftarrow> draw;
     case x_WABeginRegistration (srv_ext s) n user (modelToWACreds (list_or_empty x)) of
       None \<Rightarrow> ret (Inl (MessageError ''begin registration''))
     | Some (optionsJSON, sessionBytes) \<Rightarrow> do {
         wid \<leftarrow> newUUID s;
         y \<leftarrow> store_at (\<lambda>now. CreateWebAuthnSession now wid (u_ID user) sessionBytes ''register'');
         ret (case y of Inl e \<Rightarrow> Inl (StoreError e) | Inr sid \<Rightarrow> Inr (optionsJSON, sid)) } }"

definition FinishRegistration ::
  "server \<Rightarrow> User \<Rightarrow> uuid \<Rightarrow> request \<Rightarrow> string \<Rightarrow> (mfa_error + WebAuthnCredential) act" where
  "FinishRegistration s user sessionID r deviceName = do {
     x \<leftarrow> store_at (\<lambda>now. GetWebAuthnSession now sessionID (u_ID user) ''register'');
     case x of
       Inl e \<Rightarrow> ret (Inl (MessageError ''webauthn session not found''))
     | Inr sessionBytes \<Rightarrow> do {
         d \<leftarrow> store (DeleteWebAuthnSession sessionID);
         if \<not> x_WASessionOK (srv_ext s) sessionBytes then ret (Inl (MessageError ''json''))
         else do {
           l \<leftarrow> store (ListWebAuthnCredentials (u_ID user));
           case x_WAFinishRegistration (srv_ext s) user (modelToWACreds (list_or_empty l)) sessionBytes (rq_body r) of
             None \<Rightarrow> ret (Inl (MessageError ''finish registration''))
           | Some cred \<Rightarrow> do {
               wid \<leftarrow> newUUID s;
               let m = \<lparr>wc_ID = wid, wc_UserID = u_ID user, wc_CredentialID = wr_ID cred,
                        wc_PublicKey = wr_PublicKey cred, wc_AAGUID = wr_AAGUID cred,
                        wc_SignCount = wr_SignCount cred, wc_BackupEligible = Some (wr_BackupEligible cred),
                        wc_BackupState = wr_BackupState cred, wc_DeviceName = deviceName,
                        wc_CreatedAt = zero_time, wc_LastUsedAt = zero_time\<rparr>;
               y \<leftarrow> store_at (\<lambda>now. CreateWebAuthnCredential now m);
               ret (case y of Inl e \<Rightarrow> Inl (StoreError e) | Inr u \<Rightarrow> Inr m) } } } }"

definition BeginLogin :: "server \<Rightarrow> User \<Rightarrow> (mfa_error + bytes \<times> uuid) act" where
  "BeginLogin s user = do {
     x \<leftarrow> store (ListWebAuthnCredentials (u_ID user));
     if list_or_empty x = [] then ret (Inl (MessageError ''no WebAuthn credentials registered''))
     else do {
       n \<leftarrow> draw;
       case x_WABeginLogin (srv_ext s) n user (modelToWACreds (list_or_empty x)) of
         None \<Rightarrow> ret (Inl (MessageError ''begin login''))
       | Some (optionsJSON, sessionBytes) \<Rightarrow> do {
           wid \<leftarrow> newUUID s;
           y \<leftarrow> store_at (\<lambda>now. CreateWebAuthnSession now wid (u_ID user) sessionBytes ''login'');
           ret (case y of Inl e \<Rightarrow> Inl (StoreError e) | Inr sid \<Rightarrow> Inr (optionsJSON, sid)) } } }"

text \<open>The loop over the credentials stops at the one that was verified.\<close>

definition record_use :: "WebAuthnCredential list \<Rightarrow> wa_credential \<Rightarrow> (mfa_error + string) act" where
  "record_use creds cred =
     (case find (\<lambda>c. wc_CredentialID c = wr_ID cred) creds of
        None \<Rightarrow> ret (Inl (MessageError ''verified credential not found''))
      | Some c \<Rightarrow> do {
          now \<leftarrow> get_now;
          y \<leftarrow> store (UpdateWebAuthnCredentialUse (wc_ID c) (wr_SignCount cred) (wr_BackupEligible cred)
                 (wr_BackupState cred) now);
          ret (case y of Inl e \<Rightarrow> Inl (MessageError ''record credential use'') | Inr u \<Rightarrow> Inr ''hwk'') })"

definition FinishLogin :: "server \<Rightarrow> User \<Rightarrow> uuid \<Rightarrow> request \<Rightarrow> (mfa_error + string) act" where
  "FinishLogin s user sessionID r = do {
     x \<leftarrow> store_at (\<lambda>now. GetWebAuthnSession now sessionID (u_ID user) ''login'');
     case x of
       Inl e \<Rightarrow> ret (Inl (MessageError ''webauthn session not found''))
     | Inr sessionBytes \<Rightarrow> do {
         d \<leftarrow> store (DeleteWebAuthnSession sessionID);
         if \<not> x_WASessionOK (srv_ext s) sessionBytes then ret (Inl (MessageError ''json''))
         else (case x_WAParseAssertion (srv_ext s) (rq_body r) of
           None \<Rightarrow> ret (Inl (MessageError ''parse assertion''))
         | Some parsed \<Rightarrow> do {
             l \<leftarrow> store (ListWebAuthnCredentials (u_ID user));
             case l of
               Inl e \<Rightarrow> ret (Inl (MessageError ''list credentials''))
             | Inr stored \<Rightarrow>
                 (let creds = adoptLegacyBackupEligible stored parsed in
                  case x_WAValidateLogin (srv_ext s) user (modelToWACreds creds) sessionBytes parsed of
                    None \<Rightarrow> ret (Inl (MessageError ''finish login''))
                  | Some cred \<Rightarrow>
                      if wr_CloneWarning cred then ret (Inl ErrCloneSuspected)
                      else record_use creds cred) }) } }"

subsection \<open>Relations kept by the ceremonies\<close>

context db_rel
begin

lemma VerifyTOTP_db: "always (on_db D) (VerifyTOTP s uid code)"
  unfolding VerifyTOTP_def by (intro db_rules) (simp_all add: D_refl)

end

lemmas mfa_defs = EnrollTOTP_def ConfirmTOTP_def BeginRegistration_def FinishRegistration_def
  BeginLogin_def FinishLogin_def record_use_def

lemma wf_mfa:
  "keeps_wf (EnrollTOTP s user)" "keeps_wf (ConfirmTOTP s uid code)" "keeps_wf (BeginRegistration s user)"
  "keeps_wf (FinishRegistration s user wid r name)" "keeps_wf (BeginLogin s user)"
  "keeps_wf (FinishLogin s user wid r)"
  unfolding mfa_defs by ((intro wf.db_rules)?; (simp_all add: store_wf)?)+

context core_rel
begin

lemma mfa_core:
  "always (on_db D) (EnrollTOTP s user)" "always (on_db D) (ConfirmTOTP s uid code)" 
  "always (on_db D) (BeginRegistration s user)"
  "always (on_db D) (FinishRegistration s user wid r name)" "always (on_db D) (BeginLogin s user)"
  "always (on_db D) (FinishLogin s user wid r)"
  unfolding mfa_defs by ((intro rules quiet core_store core_store_at)?; (simp_all add: frames)?)+

end

subsection \<open>What a successful check shows\<close>

lemma VerifyTOTP_Inr:
  assumes "run_state (VerifyTOTP s uid code) w = (Inr u, w')"
  shows "\<exists>cred\<in>set (totps (w_db w)). t_UserID cred = uid \<and> t_Enabled cred \<and>
    (\<exists>secret. x_DecryptEnvelope (srv_ext s) (t_EncryptedDEK cred) (t_EncryptedSecret cred) = Some secret \<and>
      x_ValidateTOTP (srv_ext s) code secret (w_now w))"
  using assms unfolding VerifyTOTP_def
  by (auto simp: run_simps GetTOTPByUserID_def decryptTOTPSecret_def validateTOTP_def
      split: case_splits dest!: select_row_Inr)

lemma adoptLegacyBackupEligible_pinned:
  "\<forall>c\<in>set creds. wc_BackupEligible c \<noteq> None \<Longrightarrow> adoptLegacyBackupEligible creds parsed = creds"
  by (simp add: adoptLegacyBackupEligible_def map_idI)

lemma find_adopted:
  "find (\<lambda>c. wc_CredentialID c = i) (adoptLegacyBackupEligible creds p) = Some c \<Longrightarrow>
   \<exists>c0\<in>set creds. wc_ID c = wc_ID c0 \<and> wc_UserID c = wc_UserID c0 \<and> wc_CredentialID c0 = i"
  by (auto simp: adoptLegacyBackupEligible_def dest!: find_SomeD split: if_splits) blast+

text \<open>A verified assertion answers an unexpired challenge issued to this user for login, with a
  credential this user registered, and the counter did advance.\<close>

lemma FinishLogin_Inr:
  assumes "run_state (FinishLogin s user wid r) w = (Inr amr, w')"
  shows "amr = ''hwk'' \<and>
    (\<exists>ws\<in>set (wa_sessions (w_db w)). \<exists>c\<in>set (webauthns (w_db w)). \<exists>parsed creds cred.
       ws_ID ws = wid \<and> ws_UserID ws = u_ID user \<and> ws_Purpose ws = ''login'' \<and>
       current_timestamp (w_now w) < ws_ExpiresAt ws \<and>
       x_WAParseAssertion (srv_ext s) (rq_body r) = Some parsed \<and>
       x_WAValidateLogin (srv_ext s) user creds (ws_Data ws) parsed = Some cred \<and>
       wc_UserID c = u_ID user \<and> wc_CredentialID c = wr_ID cred \<and> \<not> wr_CloneWarning cred)"
  using assms unfolding FinishLogin_def record_use_def
  apply (simp add: Let_def split: case_splits)
  apply (clarsimp simp: run_store_at dest!: store_Inr)
  apply (auto simp: GetWebAuthnSession_def ListWebAuthnCredentials_def DeleteWebAuthnSession_def run_simps
      split: case_splits dest!: select_row_Inr find_adopted)
  apply (blast)+
  done

lemma FinishLogin_consumes:
  assumes "w_faults w = []" "run_state (FinishLogin s user wid r) w = (res, w')"
    "res \<noteq> Inl (MessageError ''webauthn session not found'')"
  shows "\<forall>x\<in>set (wa_sessions (w_db w')). ws_ID x \<noteq> wid"
proof -
  have keep: "wa_sessions (snd (UpdateWebAuthnCredentialUse a b c d e db)) = wa_sessions db" for a b c d e db
    by (simp add: UpdateWebAuthnCredentialUse_def)
  show ?thesis
    using assms unfolding FinishLogin_def record_use_def
    by (auto simp: run_simps Let_def keep DeleteWebAuthnSession_def table_sets split: case_splits)
qed

end
