(* ===== verification/Portal_Session.thy ===== *)
theory Portal_Session
  imports Session_Auth
begin

text \<open>
  How portal sessions come to be: \<open>promoteIfFirstUser\<close>, \<open>ensurePortalCookie\<close> and
  \<open>createPortalSession\<close> of \<open>src/internal/api/web_portal.go\<close>.
\<close>

definition promoteIfFirstUser :: "User \<Rightarrow> User act" where
  "promoteIfFirstUser u = do {
     n \<leftarrow> store CountUsers;
     case n of
       Inl e \<Rightarrow> ret u
     | Inr k \<Rightarrow>
         if k \<noteq> 1 then ret u
         else do {
           x \<leftarrow> store_at (\<lambda>now. SetUserAdmin now (u_ID u) True);
           ret (case x of Inl e \<Rightarrow> u | Inr v \<Rightarrow> u\<lparr>u_IsAdmin := True\<rparr>) } }"

definition portal_session :: "server \<Rightarrow> time \<Rightarrow> uuid \<Rightarrow> string \<Rightarrow> string \<Rightarrow> User \<Rightarrow> Session" where
  "portal_session s now sid rawAccess rawRefresh user =
     \<lparr>s_ID = sid, s_UserID = u_ID user, s_ClientID = portalClientUUID,
      s_AccessTokenHash = HashToken s rawAccess, s_RefreshTokenHash = HashToken s rawRefresh,
      s_Scopes = ''portal'' # (if u_IsAdmin user then [''admin''] else []),
      s_AccessExpiresAt = now + portalCookieTTL, s_RefreshExpiresAt = now + portalCookieTTL,
      s_LastActivityAt = zero_time, s_MFAVerified = u_MFAEnabled user,
      s_MFAVerifiedAt = (if u_MFAEnabled user then Some now else None), s_AuthTime = zero_time,
      s_CreatedAt = zero_time\<rparr>"

definition switch_user :: "server \<Rightarrow> request \<Rightarrow> User \<Rightarrow> unit act" where
  "switch_user s r user = do {
     p \<leftarrow> readAuthPortalSession s r;
     case p of
       PortalSession prevSess prevUser raw \<Rightarrow>
         if u_ID prevUser = u_ID user then ret ()
         else do {
           broadcastLogout s (u_ID prevUser) [];
           x \<leftarrow> store (DeleteSessionsByUserID (u_ID prevUser));
           ok \<leftarrow> logAudit s r ''auth.logout'' (Some (u_ID prevUser)) None
                  [(''via'', JStr ''user_switch''), (''by'', JStr (u_Email user))];
           ret () }
     | _ \<Rightarrow> ret () }"

definition ensurePortalCookie :: "server \<Rightarrow> request \<Rightarrow> User \<Rightarrow> unit act" where
  "ensurePortalCookie s r user = do {
     switch_user s r user;
     a \<leftarrow> GenerateRawToken s;
     case a of None \<Rightarrow> ret () | Some rawAccess \<Rightarrow> do {
     b \<leftarrow> GenerateRawToken s;
     case b of None \<Rightarrow> ret () | Some rawRefresh \<Rightarrow> do {
     now \<leftarrow> get_now;
     sid \<leftarrow> newUUID s;
     x \<leftarrow> store (CreateSession now (portal_session s now sid rawAccess rawRefresh user));
     case x of Inl e \<Rightarrow> ret () | Inr u \<Rightarrow> do {
       z \<leftarrow> setPortalCookie s rawAccess portalCookieTTL portalCookie;
       ret () } } } }"

text \<open>The outcomes of \<open>createPortalSession\<close>: success, \<open>errAuditUnavailable\<close>, another error.\<close>

datatype portal_outcome = PortalOK | PortalAuditDown | PortalFailed

definition createPortalSession :: "server \<Rightarrow> request \<Rightarrow> User \<Rightarrow> portal_outcome act" where
  "createPortalSession s r user = do {
     a \<leftarrow> GenerateRawToken s;
     case a of None \<Rightarrow> ret PortalFailed | Some rawAccess \<Rightarrow> do {
     b \<leftarrow> GenerateRawToken s;
     case b of None \<Rightarrow> ret PortalFailed | Some rawRefresh \<Rightarrow> do {
     now \<leftarrow> get_now;
     sid \<leftarrow> newUUID s;
     x \<leftarrow> store (CreateSession now (portal_session s now sid rawAccess rawRefresh user));
     case x of Inl e \<Rightarrow> ret PortalFailed | Inr u \<Rightarrow> do {
       ok \<leftarrow> logAudit s r ''auth.login'' (Some (u_ID user)) None [(''via'', JStr ''portal'')];
       if \<not> ok then ret PortalAuditDown
       else do {
         z \<leftarrow> setPortalCookie s rawAccess portalCookieTTL portalCookie;
         ret (if z then PortalOK else PortalFailed) } } } } }"

subsection \<open>Invariants\<close>

lemma wf_promoteIfFirstUser: "keeps_wf (promoteIfFirstUser u)"
  unfolding promoteIfFirstUser_def by (intro wf.db_rules) (simp_all add: store_wf)

lemma wf_switch_user: "keeps_wf (switch_user s r u)"
  unfolding switch_user_def
  by (intro wf.db_rules wf.portal_case wf.readAuthPortalSession_db wf.broadcastLogout_db) (simp_all add: store_wf)

lemma wf_ensurePortalCookie: "keeps_wf (ensurePortalCookie s r u)"
  unfolding ensurePortalCookie_def by (intro wf.db_rules wf_switch_user wf.cookie_db) (simp_all add: store_wf)

lemma wf_createPortalSession: "keeps_wf (createPortalSession s r u)"
  unfolding createPortalSession_def by (intro wf.db_rules wf.cookie_db) (simp_all add: store_wf)

lemma cap_portal_session:
  "cap_inv d \<Longrightarrow> cap_inv (snd (CreateSession now (portal_session s now sid ra rb u) d))"
  by (rule cap_CreateSession) (simp_all add: portal_session_def ttl_defs duration_defs)

lemma cap_promoteIfFirstUser: "keeps_cap (promoteIfFirstUser u)"
  unfolding promoteIfFirstUser_def by (intro cap.rules cap.core_store cap.core_store_at) (simp_all add: frames)

lemma cap_ensurePortalCookie: "keeps_cap (ensurePortalCookie s r u)"
  unfolding ensurePortalCookie_def switch_user_def
  by (intro cap.db_rules cap.portal_case cap.readAuthPortalSession_db cap.broadcastLogout_db cap.cookie_db)
     (simp_all add: cap_portal_session cap_deletes)

lemma cap_createPortalSession: "keeps_cap (createPortalSession s r u)"
  unfolding createPortalSession_def
  by (intro cap.db_rules cap.cookie_db) (simp_all add: cap_portal_session)

end
