(* ===== verification/Go_Time.thy ===== *)
theory Go_Time
  imports Go_Strings
begin

text \<open>
  Go's \<open>time.ParseDuration\<close>, which \<open>trySilentSSO\<close> (\<open>src/internal/api/oauth2.go\<close>) applies to
  the \<open>max_age\<close> parameter with the unit \<open>s\<close> appended: an optional sign, then one or more
  decimal numbers with a unit, with the overflow checks of the standard library. \<open>None\<close> is
  the error result. The fraction of a number is added rounded down to the
  nanosecond.
\<close>

definition int63 :: int where "int63 = 2 ^ 63"

definition digit_value :: "char \<Rightarrow> int" where "digit_value c = int (char_code c - 48)"

lemma digit_value_nonneg [simp]: "0 \<le> digit_value c"
  by (simp add: digit_value_def)

text \<open>\<open>leadingInt\<close>: the number and the rest, \<open>None\<close> on overflow.\<close>

fun leadingInt :: "int \<Rightarrow> string \<Rightarrow> (int \<times> string) option" where
  "leadingInt x [] = Some (x, [])"
| "leadingInt x (c # s) =
     (if \<not> is_digit c then Some (x, c # s)
      else if x > int63 div 10 then None
      else (let y = x * 10 + digit_value c in
            if y > int63 then None else leadingInt y s))"

text \<open>\<open>leadingFraction\<close>: digits beyond the range of 63 bits are skipped; the scale is a power
  of ten.\<close>

fun leadingFraction :: "int \<Rightarrow> int \<Rightarrow> bool \<Rightarrow> string \<Rightarrow> int \<times> int \<times> string" where
  "leadingFraction x scale overflow [] = (x, scale, [])"
| "leadingFraction x scale overflow (c # s) =
     (if \<not> is_digit c then (x, scale, c # s)
      else if overflow then leadingFraction x scale True s
      else if x > (int63 - 1) div 10 then leadingFraction x scale True s
      else (let y = x * 10 + digit_value c in
            if y > int63 then leadingFraction x scale True s
            else leadingFraction y (scale * 10) False s))"

definition unit_map :: "string \<Rightarrow> int option" where
  "unit_map = map_of [(''ns'', 1), (''us'', 1000), ([CHR 0xC2, CHR 0xB5, CHR ''s''], 1000),
     ([CHR 0xCE, CHR 0xBC, CHR ''s''], 1000), (''ms'', 1000000), (''s'', second), (''m'', minute),
     (''h'', hour)]"

definition number_char :: "char \<Rightarrow> bool" where
  "number_char c \<longleftrightarrow> c = CHR ''.'' \<or> is_digit c"

text \<open>One number with its unit: its value in nanoseconds and the rest.\<close>

definition duration_item :: "string \<Rightarrow> (int \<times> string) option" where
  "duration_item s =
     (if s = [] \<or> \<not> number_char (hd s) then None
      else (case leadingInt 0 s of
        None \<Rightarrow> None
      | Some (v, s1) \<Rightarrow>
          (let pre = (length s1 \<noteq> length s);
               point = (s1 \<noteq> [] \<and> hd s1 = CHR ''.'');
               (f, scale, s2) = (if point then leadingFraction 0 1 False (tl s1) else (0, 1, s1));
               post = (point \<and> length s2 \<noteq> length (tl s1));
               u = takeWhile (\<lambda>c. \<not> number_char c) s2;
               s3 = dropWhile (\<lambda>c. \<not> number_char c) s2 in
           if \<not> pre \<and> \<not> post then None
           else if u = [] then None
           else (case unit_map u of
             None \<Rightarrow> None
           | Some unit \<Rightarrow>
               if v > int63 div unit then None
               else (let v' = v * unit + f * unit div scale in
                     if v' > int63 then None else Some (v', s3))))))"

lemma leadingInt_length: "leadingInt x s = Some (v, s') \<Longrightarrow> length s' \<le> length s"
  by (induction x s rule: leadingInt.induct) (auto simp: Let_def split: if_splits)

lemma leadingFraction_length: "leadingFraction x sc ov s = (v, sc', s') \<Longrightarrow> length s' \<le> length s"
  by (induction x sc ov s rule: leadingFraction.induct) (auto simp: Let_def split: if_splits)

lemma duration_item_length:
  assumes "duration_item s = Some (v, s')"
  shows "length s' < length s"
proof -
  obtain n s1 s2 where l: "leadingInt 0 s = Some (n, s1)" and s2: "s2 = s1 \<or> (\<exists>f sc. s1 \<noteq> [] \<and>
      leadingFraction 0 1 False (tl s1) = (f, sc, s2))"
    and u: "takeWhile (\<lambda>c. \<not> number_char c) s2 \<noteq> []" and s': "s' = dropWhile (\<lambda>c. \<not> number_char c) s2"
    using assms by (auto simp: duration_item_def Let_def split: if_splits option.splits prod.splits)
  have "length s2 \<le> length s"
    using s2 leadingInt_length [OF l] leadingFraction_length by fastforce
  moreover have "length s' < length s2"
    using u s' by (metis length_append length_greater_0_conv less_add_same_cancel2 takeWhile_dropWhile_id)
  ultimately show ?thesis by simp
qed

function duration_items :: "int \<Rightarrow> string \<Rightarrow> int option" where
  "duration_items d s =
     (if s = [] then Some d
      else (case duration_item s of
        None \<Rightarrow> None
      | Some (v, s') \<Rightarrow> if d + v > int63 then None else duration_items (d + v) s'))"
  by auto
termination
  by (relation "measure (\<lambda>(d, s). length s)") (auto dest: duration_item_length)

declare duration_items.simps [simp del]

definition ParseDuration :: "string \<Rightarrow> int option" where
  "ParseDuration s =
     (let neg = (s \<noteq> [] \<and> hd s = CHR ''-'');
          t = (if s \<noteq> [] \<and> hd s \<in> set ''+-'' then tl s else s) in
      if t = ''0'' then Some 0
      else if t = [] then None
      else (case duration_items 0 t of
        None \<Rightarrow> None
      | Some d \<Rightarrow> if neg then Some (- d) else if d > int63 - 1 then None else Some d))"

lemma ParseDuration_examples:
  "ParseDuration ''300s'' = Some (300 * second)" "ParseDuration ''1.5s'' = Some 1500000000"
  "ParseDuration ''1h5s'' = Some (hour + 5 * second)" "ParseDuration ''-3s'' = Some (- 3 * second)"
  "ParseDuration ''s'' = None" "ParseDuration ''9223372037s'' = None"
  by code_simp+

text \<open>A plain decimal count of seconds parses to that many seconds when it fits.\<close>

definition digits_value :: "int \<Rightarrow> string \<Rightarrow> int" where
  "digits_value x s = foldl (\<lambda>x c. x * 10 + digit_value c) x s"

lemma digits_value_mono: "0 \<le> x \<Longrightarrow> x \<le> digits_value x s"
proof (induction s arbitrary: x)
  case (Cons c s)
  have "x \<le> x * 10 + digit_value c" using Cons.prems digit_value_nonneg [of c] by linarith
  also have "\<dots> \<le> digits_value (x * 10 + digit_value c) s" using Cons by simp
  finally show ?case by (simp add: digits_value_def)
qed (simp add: digits_value_def)

lemma leadingInt_digits:
  "\<forall>c\<in>set ds. is_digit c \<Longrightarrow> 0 \<le> x \<Longrightarrow> digits_value x ds \<le> int63 \<Longrightarrow> \<not> is_digit u \<Longrightarrow>
   leadingInt x (ds @ u # rest) = Some (digits_value x ds, u # rest)"
proof (induction ds arbitrary: x)
  case (Cons c ds)
  let ?y = "x * 10 + digit_value c"
  have "digits_value x (c # ds) = digits_value ?y ds" by (simp add: digits_value_def)
  moreover have "?y \<le> digits_value ?y ds" using Cons.prems by (intro digits_value_mono) simp
  ultimately have y: "?y \<le> int63" "digits_value ?y ds \<le> int63" using Cons.prems by auto
  then have "x \<le> int63 div 10" using digit_value_nonneg [of c] unfolding int63_def by linarith
  then show ?case using Cons y by (simp add: Let_def digits_value_def)
qed (simp add: digits_value_def)

lemma ParseDuration_seconds:
  assumes "ds \<noteq> []" "\<forall>c\<in>set ds. is_digit c" "digits_value 0 ds \<le> 9223372036"
  shows "ParseDuration (ds @ ''s'') = Some (digits_value 0 ds * second)"
proof -
  obtain c ds' where ds: "ds = c # ds'" using assms(1) by (cases ds) auto
  have s: "\<not> is_digit CHR ''s''" "\<not> number_char CHR ''s''" by code_simp+
  have c: "is_digit c" "c \<notin> set ''+-''" "number_char c"
    using assms(2) ds by (auto simp: number_char_def char_class_defs)
  have "leadingInt 0 (ds @ ''s'') = Some (digits_value 0 ds, ''s'')"
    using leadingInt_digits [of ds 0 "CHR ''s''" "[]"] assms s by (simp add: int63_def)
  moreover have "unit_map ''s'' = Some second" by code_simp
  moreover have "0 \<le> digits_value 0 ds" using digits_value_mono [of 0 ds] by simp
  ultimately have "duration_item (ds @ ''s'') = Some (digits_value 0 ds * second, [])"
    using assms(3) c(3) s unfolding duration_item_def by (simp add: ds Let_def int63_def second_def)
  then have "duration_items 0 (ds @ ''s'') = Some (digits_value 0 ds * second)"
    using assms(3) by (simp add: duration_items.simps int63_def second_def)
  then show ?thesis
    using c ds assms(3) by (auto simp: ParseDuration_def Let_def int63_def second_def)
qed

end
