(* ===== verification/Authorize.thy ===== *)
theory Authorize
  imports OAuth2 Mfa Portal_Session Go_Time
begin

text \<open>
  The authorization endpoint: \<open>handleAuthorizeGET\<close>, \<open>trySilentSSO\<close>,
  \<open>handleAuthorizePost\<close>, \<open>handleMFATOTPPost\<close> and \<open>issueCodeAndRedirect\<close> of
  \<open>src/internal/api/oauth2.go\<close>, and the registration and WebAuthn pages of
  \<open>src/internal/api/web_sso.go\<close>. A handler that panics (a redirect URI that does not parse)
  answers what \<open>recoverMiddleware\<close> writes.
\<close>

definition panic_response :: response where
  "panic_response = writeError 500 ''server_error'' ''internal error''"

definition no_context :: PolicyContext where
  "no_context = \<lparr>pc_User = None, pc_Client = None, pc_Scopes = [], pc_Password = [], pc_MFAVerified = False,
     pc_SessionAge = 0, pc_LastActivity = 0\<rparr>"

definition first_violation :: "server \<Rightarrow> PolicyContext \<Rightarrow> PolicyViolation option act" where
  "first_violation s ctx = do {
     now \<leftarrow> get_now;
     ret (policy_First (srv_unicode s) now (srv_policy s) ctx) }"

subsection \<open>Issuing a code\<close>

definition new_grant ::
  "server \<Rightarrow> time \<Rightarrow> uuid \<Rightarrow> User \<Rightarrow> Client \<Rightarrow> string \<Rightarrow> string list \<Rightarrow> string \<Rightarrow> string \<Rightarrow> string
   \<Rightarrow> time option \<Rightarrow> time \<Rightarrow> Grant" where
  "new_grant s now gid user client rawCode scopes nonce codeChallenge redirectURI mfaVerifiedAt authTime =
     \<lparr>g_ID = gid, g_UserID = u_ID user, g_ClientID = c_ID client, g_CodeHash = HashToken s rawCode,
      g_CodeChallenge = codeChallenge, g_Nonce = nonce, g_Scopes = scopes, g_RedirectURI = redirectURI,
      g_ExpiresAt = now + 10 * minute, g_UsedAt = None, g_MFAVerifiedAt = mfaVerifiedAt,
      g_AuthTime = authTime\<rparr>"

definition code_params :: "string \<Rightarrow> string \<Rightarrow> (string \<times> string) list" where
  "code_params rawCode state = (''code'', rawCode) # (if state = [] then [] else [(''state'', state)])"

definition issueCodeAndRedirect ::
  "server \<Rightarrow> User \<Rightarrow> Client \<Rightarrow> string list \<Rightarrow> string \<Rightarrow> string \<Rightarrow> string \<Rightarrow> string \<Rightarrow> time option \<Rightarrow> time
   \<Rightarrow> response act" where
  "issueCodeAndRedirect s user client scopes state nonce codeChallenge redirectURI mfaVerifiedAt authTime = do {
     c \<leftarrow> GenerateRawToken s;
     case c of
       None \<Rightarrow> ret (RText 500 ''internal error'')
     | Some rawCode \<Rightarrow> do {
         gid \<leftarrow> newUUID s;
         now \<leftarrow> get_now;
         x \<leftarrow> store (CreateGrant (new_grant s now gid user client rawCode scopes nonce codeChallenge
                redirectURI mfaVerifiedAt authTime));
         ret (case x of
                Inl e \<Rightarrow> RText 500 ''internal error''
              | Inr u \<Rightarrow>
                  (case Parse redirectURI of
                     None \<Rightarrow> panic_response
                   | Some p \<Rightarrow> RRedirect redirectURI (code_params rawCode state))) } }"

definition redirectWithOIDCError :: "string \<Rightarrow> string \<Rightarrow> string \<Rightarrow> response" where
  "redirectWithOIDCError redirectURI code state =
     (case Parse redirectURI of
        None \<Rightarrow> RText 400 ''invalid redirect_uri''
      | Some p \<Rightarrow> RRedirect redirectURI ((''error'', code) # (if state = [] then [] else [(''state'', state)])))"

subsection \<open>Silent single sign-on\<close>

definition max_age_exceeded :: "time \<Rightarrow> string \<Rightarrow> Session \<Rightarrow> bool" where
  "max_age_exceeded now mas sess \<longleftrightarrow> mas \<noteq> [] \<and>
     (case ParseDuration (mas @ ''s'') of
        None \<Rightarrow> False
      | Some maxAge \<Rightarrow> maxAge > 0 \<and> now - s_CreatedAt sess > maxAge)"

definition silent_mfaAt :: "Session \<Rightarrow> time option" where
  "silent_mfaAt sess =
     (if s_MFAVerified sess
      then (case s_MFAVerifiedAt sess of None \<Rightarrow> Some (s_CreatedAt sess) | Some t \<Rightarrow> Some t)
      else None)"

text \<open>Past all the criteria: slide, audit, issue the code.\<close>

definition silent_issue :: "server \<Rightarrow> request \<Rightarrow> Client \<Rightarrow> Session \<Rightarrow> User \<Rightarrow> string \<Rightarrow> response act" where
  "silent_issue s r client sess user rawToken = do {
     sl \<leftarrow> slidePortalSession s sess rawToken;
     ok \<leftarrow> logAudit s r ''auth.login'' (Some (u_ID user)) (Some (c_ID client)) [(''via'', JStr ''silent_sso'')];
     if \<not> ok then ret auditFail
     else issueCodeAndRedirect s user client (splitScopes (QueryGet r ''scope'')) (QueryGet r ''state'')
       (QueryGet r ''nonce'') (QueryGet r ''code_challenge'') (QueryGet r ''redirect_uri'')
       (silent_mfaAt sess) (s_CreatedAt sess) }"

text \<open>\<open>None\<close> is Go's \<open>false\<close>: no response was written.\<close>

definition trySilentSSO :: "server \<Rightarrow> request \<Rightarrow> Client \<Rightarrow> response option act" where
  "trySilentSSO s r client = do {
     p \<leftarrow> readAuthPortalSession s r;
     case p of
       PortalAnonymous \<Rightarrow> ret None
     | PortalError \<Rightarrow> ret None
     | PortalSession sess user rawToken \<Rightarrow> do {
     now \<leftarrow> get_now;
     let hint = QueryGet r ''login_hint'';
     if \<not> u_Active user then ret None
     else if u_MFAEnabled user \<and> \<not> s_MFAVerified sess then ret None
     else if hint \<noteq> [] \<and> \<not> EqualFold (TrimSpace hint) (u_Email user) then ret None
     else if max_age_exceeded now (QueryGet r ''max_age'') sess then ret None
     else do {
       v \<leftarrow> first_violation s (no_context\<lparr>pc_User := Some user, pc_Client := Some client,
              pc_MFAVerified := s_MFAVerified sess\<rparr>);
       if v \<noteq> None then ret None
       else do {
         resp \<leftarrow> silent_issue s r client sess user rawToken;
         ret (Some resp) } } } }"

definition handleAuthorizeGET :: "server \<Rightarrow> request \<Rightarrow> response act" where
  "handleAuthorizeGET s r = do {
     c \<leftarrow> store (GetClientByClientID (QueryGet r ''client_id''));
     case c of
       Inl e \<Rightarrow> ret (RText 400 ''invalid client_id'')
     | Inr client \<Rightarrow>
         (let redirectURI = QueryGet r ''redirect_uri''; state = QueryGet r ''state'';
              prompt = QueryGet r ''prompt'' in
          if \<not> validRedirectURI client redirectURI then ret (RText 400 ''invalid redirect_uri'')
          else if unregisteredScope client (splitScopes (QueryGet r ''scope'')) \<noteq> []
          then ret (redirectWithOIDCError redirectURI ''invalid_scope'' state)
          else if prompt \<noteq> ''login'' then do {
            done \<leftarrow> trySilentSSO s r client;
            ret (case done of
                   Some resp \<Rightarrow> resp
                 | None \<Rightarrow>
                     if prompt = ''none'' then redirectWithOIDCError redirectURI ''login_required'' state
                     else RPage ''login.html'' []) }
          else ret (RPage ''login.html'' [])) }"

subsection \<open>Password and TOTP steps\<close>

definition showLoginErr :: "string \<Rightarrow> response" where "showLoginErr msg = RPage ''login.html'' msg"

definition auth_state_for :: "time \<Rightarrow> User \<Rightarrow> request \<Rightarrow> authState" where
  "auth_state_for now user r =
     \<lparr>st_UserID = u_ID user, st_AuthTime = now, st_MFAVerified = False, st_MFAAMR = [],
      st_ClientID = FormValue r ''client_id'', st_RedirectURI = FormValue r ''redirect_uri'',
      st_Scopes = splitScopes (FormValue r ''scope''), st_State = FormValue r ''state'',
      st_Nonce = FormValue r ''nonce'', st_CodeChallenge = FormValue r ''code_challenge'',
      st_Exp = now + authStateTTL\<rparr>"

text \<open>After the password and the policy: the MFA detour, or the code.\<close>

definition authorize_accepted :: "server \<Rightarrow> request \<Rightarrow> Client \<Rightarrow> User \<Rightarrow> response act" where
  "authorize_accepted s r client user = do {
     x \<leftarrow> store_at (\<lambda>now. UpdateUserFailedAttempts now (u_ID user) 0 None);
     authTime \<leftarrow> get_now;
     if u_MFAEnabled user then do {
       ok \<leftarrow> setAuthStateCookie s (auth_state_for authTime user r);
       if \<not> ok then ret (showLoginErr ''An error occurred. Please try again.'')
       else do {
         t \<leftarrow> store (GetTOTPByUserID (u_ID user));
         ret (case t of
                Inr cred \<Rightarrow> if t_Enabled cred then RPage ''mfa_totp.html'' []
                  else RRedirect ''/authorize/mfa/webauthn'' []
              | Inl e \<Rightarrow> RRedirect ''/authorize/mfa/webauthn'' []) } }
     else do {
       ok \<leftarrow> logAudit s r ''auth.login'' (Some (u_ID user)) (Some (c_ID client)) [];
       if \<not> ok then ret auditFail
       else do {
         ensurePortalCookie s r user;
         issueCodeAndRedirect s user client (splitScopes (FormValue r ''scope'')) (FormValue r ''state'')
           (FormValue r ''nonce'') (FormValue r ''code_challenge'') (FormValue r ''redirect_uri'') None authTime } } }"

definition login_failed :: "server \<Rightarrow> request \<Rightarrow> Client \<Rightarrow> string \<Rightarrow> response act" where
  "login_failed s r client email = do {
     ok \<leftarrow> logAudit s r ''auth.login.failed'' None (Some (c_ID client)) [(''email'', JStr email)];
     ret (if ok then showLoginErr ''Invalid email or password.'' else auditFail) }"

definition handleAuthorizePost :: "server \<Rightarrow> request \<Rightarrow> response act" where
  "handleAuthorizePost s r =
     (if rq_badForm r then ret (RText 400 ''bad request'')
      else (let email = ToLower (TrimSpace (FormValue r ''email'')); password = FormValue r ''password'' in do {
        c \<leftarrow> store (GetClientByClientID (FormValue r ''client_id''));
        case c of
          Inl e \<Rightarrow> ret (RText 400 ''invalid client'')
        | Inr client \<Rightarrow>
            if \<not> validRedirectURI client (FormValue r ''redirect_uri'') then ret (RText 400 ''invalid client'')
            else (let bad = unregisteredScope client (splitScopes (FormValue r ''scope'')) in
            if bad \<noteq> [] then ret (RText 400 (''invalid_scope: '' @ bad))
            else do {
              u \<leftarrow> store (GetUserByEmail email);
              case u of
                Inl ErrNotFound \<Rightarrow> login_failed s r client email
              | Inl e \<Rightarrow> ret (showLoginErr ''An error occurred. Please try again.'')
              | Inr user \<Rightarrow>
                  if \<not> CheckPassword s (u_PasswordHash user) password then do {
                    incrementFailedAttempts user;
                    login_failed s r client email }
                  else if \<not> u_Active user then ret (showLoginErr ''Account is disabled.'')
                  else do {
                    v \<leftarrow> first_violation s (no_context\<lparr>pc_User := Some user, pc_Client := Some client,
                           pc_Password := password\<rparr>);
                    case v of
                      Some viol \<Rightarrow> ret (showLoginErr (pv_Message viol))
                    | None \<Rightarrow> authorize_accepted s r client user } }) }))"

definition handleMFATOTPPost :: "server \<Rightarrow> request \<Rightarrow> response act" where
  "handleMFATOTPPost s r =
     (if rq_badForm r then ret (RText 400 ''bad request'')
      else do {
        c \<leftarrow> getAuthStateCookie r;
        case c of
          None \<Rightarrow> ret (RRedirect ''/authorize'' [])
        | Some st \<Rightarrow> do {
        u \<leftarrow> store (GetUserByID (st_UserID st));
        case u of
          Inl e \<Rightarrow> ret (RText 400 ''user not found'')
        | Inr user \<Rightarrow> do {
        v \<leftarrow> VerifyTOTP s (u_ID user) (FormValue r ''code'');
        case v of
          Inl e \<Rightarrow> do {
            ok \<leftarrow> logAudit s r ''auth.login.mfa.failed'' (Some (u_ID user)) None [];
            ret (if ok then RPage ''mfa_totp.html'' ''Invalid code. Please try again.'' else auditFail) }
        | Inr x \<Rightarrow> do {
        cl \<leftarrow> store (GetClientByClientID (st_ClientID st));
        case cl of
          Inl e \<Rightarrow> ret (RText 400 ''invalid client'')
        | Inr client \<Rightarrow> do {
        clearCookie authStateCookie;
        ok \<leftarrow> logAudit s r ''auth.login.mfa'' (Some (u_ID user)) (Some (c_ID client)) [];
        if \<not> ok then ret auditFail
        else do {
        ok2 \<leftarrow> logAudit s r ''auth.login'' (Some (u_ID user)) (Some (c_ID client)) [];
        if \<not> ok2 then ret auditFail
        else do {
        ensurePortalCookie s r user;
        mfaAt \<leftarrow> get_now;
        issueCodeAndRedirect s user client (st_Scopes st) (st_State st) (st_Nonce st) (st_CodeChallenge st)
          (st_RedirectURI st) (Some mfaAt) (st_AuthTime st) } } } } } } })"

subsection \<open>Registration\<close>

definition handleRegisterPOST :: "server \<Rightarrow> request \<Rightarrow> response act" where
  "handleRegisterPOST s r =
     (if \<not> srv_allowReg s then ret (RText 403 ''registration disabled'')
      else if rq_badForm r then ret (RText 400 ''bad request'')
      else (let name = TrimSpace (FormValue r ''name''); email = ToLower (TrimSpace (FormValue r ''email''));
                password = FormValue r ''password''; showErr = RPage ''register.html'' in
      if name = [] \<or> email = [] \<or> password = [] then ret (showErr ''All fields are required.'')
      else do {
        v \<leftarrow> first_violation s (no_context\<lparr>pc_Password := password\<rparr>);
        case v of
          Some viol \<Rightarrow> ret (showErr (pv_Message viol))
        | None \<Rightarrow> do {
        h \<leftarrow> HashPassword s password;
        case h of
          None \<Rightarrow> ret (showErr ''An error occurred. Please try again.'')
        | Some hash \<Rightarrow> do {
        uid \<leftarrow> newUUID s;
        u \<leftarrow> store_at (\<lambda>now. CreateUser now uid email hash name);
        case u of
          Inl ErrConflict \<Rightarrow> ret (showErr ''An account with that email already exists.'')
        | Inl e \<Rightarrow> ret (showErr ''An error occurred. Please try again.'')
        | Inr user0 \<Rightarrow> do {
        user \<leftarrow> promoteIfFirstUser user0;
        ok \<leftarrow> logAudit s r ''admin.user.created'' (Some (u_ID user)) None
               [(''email'', JStr email), (''via'', JStr ''self-registration'')];
        if \<not> ok then do {
          undoOnAuditFailure (DeleteUser (u_ID user));
          ret auditFail }
        else do {
          provisionUser s OpCreate (Some user);
          ret (RRedirect ''/authorize'' (map (\<lambda>k. (k, FormValue r k))
            [''client_id'', ''redirect_uri'', ''response_type'', ''scope'', ''state'', ''nonce'',
             ''code_challenge'', ''code_challenge_method''])) } } } } }))"

subsection \<open>WebAuthn during authorization\<close>

definition handleSSOWebAuthnPage :: "request \<Rightarrow> response act" where
  "handleSSOWebAuthnPage r = do {
     c \<leftarrow> getAuthStateCookie r;
     ret (if c = None then RRedirect ''/authorize'' [] else RPage ''mfa_webauthn.html'' []) }"

definition handleSSOWebAuthnBegin :: "server \<Rightarrow> request \<Rightarrow> response act" where
  "handleSSOWebAuthnBegin s r = do {
     c \<leftarrow> getAuthStateCookie r;
     case c of
       None \<Rightarrow> ret (writeError 401 ''invalid_request'' ''missing or expired auth state'')
     | Some st \<Rightarrow> do {
         u \<leftarrow> store (GetUserByID (st_UserID st));
         case u of
           Inl e \<Rightarrow> ret (writeError 401 ''invalid_request'' ''user not found'')
         | Inr user \<Rightarrow> do {
             b \<leftarrow> BeginLogin s user;
             ret (case b of
                    Inl e \<Rightarrow> writeError 400 ''invalid_request'' (mfa_error_text e)
                  | Inr (opt, sid) \<Rightarrow> RJSON 200 [(''options'', JStr opt), (''session_id'', JID sid)]) } } }"

definition handleSSOWebAuthnFinish :: "server \<Rightarrow> request \<Rightarrow> response act" where
  "handleSSOWebAuthnFinish s r = do {
     c \<leftarrow> getAuthStateCookie r;
     case c of
       None \<Rightarrow> ret (writeError 401 ''invalid_request'' ''missing or expired auth state'')
     | Some st \<Rightarrow>
         (case x_ParseUUID (srv_ext s) (QueryGet r ''session_id'') of
            None \<Rightarrow> ret (writeError 400 ''invalid_request'' ''invalid session_id'')
          | Some sessionID \<Rightarrow> do {
     u \<leftarrow> store (GetUserByID (st_UserID st));
     case u of
       Inl e \<Rightarrow> ret (writeError 401 ''invalid_request'' ''user not found'')
     | Inr user \<Rightarrow> do {
     f \<leftarrow> FinishLogin s user sessionID r;
     case f of
       Inl e \<Rightarrow> ret (writeError 401 ''invalid_request'' ''WebAuthn verification failed'')
     | Inr amr \<Rightarrow> do {
     cl \<leftarrow> store (GetClientByClientID (st_ClientID st));
     case cl of
       Inl e \<Rightarrow> ret (writeError 400 ''invalid_request'' ''client not found'')
     | Inr client \<Rightarrow> do {
     clearCookie authStateCookie;
     ok \<leftarrow> logAudit s r ''auth.login.mfa'' (Some (u_ID user)) (Some (c_ID client)) [(''method'', JStr ''webauthn'')];
     if \<not> ok then ret auditFail
     else do {
     ok2 \<leftarrow> logAudit s r ''auth.login'' (Some (u_ID user)) (Some (c_ID client)) [];
     if \<not> ok2 then ret auditFail
     else do {
     ensurePortalCookie s r user;
     t \<leftarrow> GenerateRawToken s;
     case t of
       None \<Rightarrow> ret (writeError 500 ''server_error'' ''internal error'')
     | Some rawCode \<Rightarrow> do {
     now \<leftarrow> get_now;
     gid \<leftarrow> newUUID s;
     x \<leftarrow> store (CreateGrant (new_grant s now gid user client rawCode (st_Scopes st) (st_Nonce st)
            (st_CodeChallenge st) (st_RedirectURI st) (Some now) (st_AuthTime st)));
     ret (case x of
            Inl e \<Rightarrow> writeError 500 ''server_error'' ''internal error''
          | Inr z \<Rightarrow>
              (case Parse (st_RedirectURI st) of
                 None \<Rightarrow> panic_response
               | Some p \<Rightarrow> RJSON 200 [(''redirect_to'', JURL (st_RedirectURI st) (code_params rawCode (st_State st)))])) } } } } } } }) }"

subsection \<open>Invariants\<close>

lemma first_violation_same [simp]:
  "run_state (first_violation s ctx) w = (policy_First (srv_unicode s) (w_now w) (srv_policy s) ctx, w)"
  by (simp add: first_violation_def)

context db_rel
begin

lemma first_violation_db: "always (on_db D) (first_violation s ctx)"
  by (rule alwaysI) (auto simp: on_db_def D_refl)

end

lemma wf_issueCodeAndRedirect: "keeps_wf (issueCodeAndRedirect s u c sc st n cc ru ma at)"
  unfolding issueCodeAndRedirect_def by (intro wf.db_rules) (simp_all add: store_wf)

lemma wf_trySilentSSO: "keeps_wf (trySilentSSO s r c)"
  unfolding trySilentSSO_def silent_issue_def slidePortalSession_def
  by (intro wf.db_rules wf.portal_case wf.readAuthPortalSession_db wf.cookie_db wf.first_violation_db
      wf_issueCodeAndRedirect) (simp_all add: store_wf)

lemma wf_incrementFailedAttempts: "keeps_wf (incrementFailedAttempts u)"
  unfolding incrementFailedAttempts_def by (intro wf.db_rules) (simp_all add: store_wf)

lemma wf_authorize:
  "keeps_wf (handleAuthorizeGET s r)" "keeps_wf (handleAuthorizePost s r)" "keeps_wf (handleMFATOTPPost s r)"
  "keeps_wf (handleRegisterPOST s r)" "keeps_wf (handleSSOWebAuthnPage r)" "keeps_wf (handleSSOWebAuthnBegin s r)"
  "keeps_wf (handleSSOWebAuthnFinish s r)"
  unfolding handleAuthorizeGET_def handleAuthorizePost_def handleMFATOTPPost_def handleRegisterPOST_def
    handleSSOWebAuthnPage_def handleSSOWebAuthnBegin_def handleSSOWebAuthnFinish_def login_failed_def
    authorize_accepted_def
  by ((intro wf.db_rules wf.cookie_db wf.first_violation_db wf_trySilentSSO wf_issueCodeAndRedirect
      wf_ensurePortalCookie wf_mfa wf.VerifyTOTP_db wf_promoteIfFirstUser wf_incrementFailedAttempts wf.provisioning_db)?;
      (simp_all add: store_wf)?)+

lemma cap_issueCodeAndRedirect: "keeps_cap (issueCodeAndRedirect s u c sc st n cc ru ma at)"
  unfolding issueCodeAndRedirect_def by (intro cap.db_rules) (simp_all add: cap_grant_ops)

lemma silent_issue_cap:
  assumes "run_state (silent_issue s r c sess user raw) w = (resp, w')" "cap_inv (w_db w)"
    "sess \<in> set (sessions (w_db w))"
  shows "cap_inv (w_db w')"
proof -
  obtain x w1 where sl: "run_state (slidePortalSession s sess raw) w = (x, w1)" by fastforce
  have rest: "keeps_cap (do {
       ok \<leftarrow> logAudit s r a u cl meta;
       if \<not> ok then ret auditFail
       else issueCodeAndRedirect s user c sc st n cc ru ma at })" for a u cl meta sc st n cc ru ma at
    by (intro cap.db_rules cap_issueCodeAndRedirect)
  show ?thesis
    using assms(1) sl slide_keeps_cap [OF sl assms(2,3)] alwaysD [OF rest]
    unfolding silent_issue_def on_db_def by fastforce
qed

lemma cap_trySilentSSO: "keeps_cap (trySilentSSO s r c)"
proof (rule alwaysI)
  fix w resp w' assume run: "run_state (trySilentSSO s r c) w = (resp, w')"
  obtain p w1 where p: "run_state (readAuthPortalSession s r) w = (p, w1)" by fastforce
  show "on_db (\<lambda>d d'. cap_inv d \<longrightarrow> cap_inv d') w w'"
  proof (cases p)
    case (PortalSession sess user raw)
    note rd = readAuthPortalSession_session [OF p [unfolded this]]
    show ?thesis
      using run p PortalSession rd(1,6) unfolding trySilentSSO_def Let_def on_db_def
      by (auto split: if_splits prod.splits dest: silent_issue_cap)
  qed (use run p alwaysD [OF cap.readAuthPortalSession_db p] in \<open>auto simp: trySilentSSO_def on_db_def\<close>)
qed

lemma cap_incrementFailedAttempts: "keeps_cap (incrementFailedAttempts u)"
  unfolding incrementFailedAttempts_def by (intro cap.rules cap.quiet cap.core_store) (simp_all add: frames)

lemma cap_authorize:
  "keeps_cap (handleAuthorizeGET s r)" "keeps_cap (handleAuthorizePost s r)" "keeps_cap (handleMFATOTPPost s r)"
  "keeps_cap (handleRegisterPOST s r)" "keeps_cap (handleSSOWebAuthnPage r)" "keeps_cap (handleSSOWebAuthnBegin s r)"
  "keeps_cap (handleSSOWebAuthnFinish s r)"
  unfolding handleAuthorizeGET_def handleAuthorizePost_def handleMFATOTPPost_def handleRegisterPOST_def
    handleSSOWebAuthnPage_def handleSSOWebAuthnBegin_def handleSSOWebAuthnFinish_def login_failed_def
    authorize_accepted_def
  by ((intro cap.db_rules cap.cookie_db cap.first_violation_db cap_trySilentSSO cap_issueCodeAndRedirect
      cap_ensurePortalCookie cap.mfa_core cap.VerifyTOTP_db cap_promoteIfFirstUser cap_incrementFailedAttempts cap.provisioning_db)?;
      (simp_all add: cap_grant_ops cap_deletes cap_frames)?)+

end
