(* ===== verification/Code_Provenance.thy ===== *)
theory Code_Provenance
  imports Authorize
begin

text \<open>
  Where authorization codes come from: for each handler that may issue one, what must have
  held when the set of stored codes changed. The lemmas named \<open>_steps\<close> summarise one call
  inside a handler for the analysis of a run.
\<close>

subsection \<open>Where codes come from\<close>

definition same_grants :: "db \<Rightarrow> db \<Rightarrow> bool" where "same_grants d d' \<longleftrightarrow> grants d' = grants d"

interpretation sg: db_rel same_grants
  by unfold_locales (simp_all add: same_grants_def)

lemma same_grants_ops:
  "same_grants d (snd (CreateSession now sess d))" "same_grants d (snd (DeleteSessionsByUserID uid d))"
  "same_grants d (snd (ExtendSessionExpiry sid t d))" "same_grants d (snd (UpdateSessionActivity sid t d))"
  by (simp_all add: same_grants_def store_defs delete_sessions_def insert_outcome_def Let_def)

lemma same_grants_core: "core_same d d' \<Longrightarrow> same_grants d d'"
  by (simp add: same_grants_def core_same_def)

lemmas same_grants_frames = core_same_ops [THEN same_grants_core]

lemma sg_slide: "always (on_db same_grants) (slidePortalSession s sess raw)"
  unfolding slidePortalSession_def by (intro sg.db_rules sg.cookie_db) (simp_all add: same_grants_ops)

lemma sg_ensure: "always (on_db same_grants) (ensurePortalCookie s r u)"
  unfolding ensurePortalCookie_def switch_user_def
  by (intro sg.db_rules sg.portal_case sg.readAuthPortalSession_db sg.broadcastLogout_db sg.cookie_db)
     (simp_all add: same_grants_ops)

lemma sg_FinishLogin: "always (on_db same_grants) (FinishLogin s u wid r)"
  unfolding FinishLogin_def record_use_def by (intro sg.db_rules) (simp_all add: same_grants_frames sg.D_refl)

text \<open>A code was issued: exactly one grant was added, unused, valid for ten minutes, for the given user,
  client, redirect URI, scopes, challenge and MFA time.\<close>

definition code_issued ::
  "server \<Rightarrow> db \<Rightarrow> time \<Rightarrow> User \<Rightarrow> Client \<Rightarrow> string \<Rightarrow> string list \<Rightarrow> string \<Rightarrow> time option \<Rightarrow> db \<Rightarrow> bool" where
  "code_issued s d now user client redirectURI scopes challenge mfaAt d' \<longleftrightarrow>
     (\<exists>g. grants d' = grants d @ [g] \<and> g_UserID g = u_ID user \<and> g_ClientID g = c_ID client \<and>
        g_RedirectURI g = redirectURI \<and> g_Scopes g = scopes \<and> g_CodeChallenge g = challenge \<and>
        g_MFAVerifiedAt g = mfaAt \<and> g_UsedAt g = None \<and> g_ExpiresAt g = now + 10 * minute)"

lemma CreateGrant_grants:
  "grants (snd (CreateGrant g d)) = (if fst (CreateGrant g d) = Inr () then grants d @ [g\<lparr>g_UsedAt := None\<rparr>] else grants d)"
  by (simp add: CreateGrant_def insert_outcome_def Let_def)

lemma issueCodeAndRedirect_effect:
  assumes "run_state (issueCodeAndRedirect s u c sc st n cc ru ma at) w = (resp, w')" "grants (w_db w) = grants d"
    "w_now w = now"
  shows "grants (w_db w') = grants d \<or> code_issued s d now u c ru sc cc ma (w_db w')"
  using assms unfolding issueCodeAndRedirect_def
  by (auto simp: run_simps code_issued_def CreateGrant_grants new_grant_def split: option.splits if_splits)

lemma grows_now: "always grows m \<Longrightarrow> run_state m w = (x, w') \<Longrightarrow> w_now w' = w_now w"
  by (drule (1) alwaysD) (simp add: grows_def)

lemma grows_read: "always grows (readAuthPortalSession s r)"
  unfolding readAuthPortalSession_def by (auto split: cookie_read.splits intro!: grow_rules)

lemma grows_cookies:
  "always grows (setPortalCookie s t ttl n)" "always grows (clearCookie n)"
  unfolding setPortalCookie_def seal_cookie_def clearCookie_def by (intro grow_rules)+

lemma grows_slide: "always grows (slidePortalSession s sess raw)"
  unfolding slidePortalSession_def by (intro grow_rules grows_cookies)

lemma grows_notify: "always grows (notify_clients u sid cs)"
proof (induction cs)
  case (Cons c cs)
  then show ?case by (simp, intro conjI impI) (intro grow_rules, simp_all)
qed (simp add: grow.ret)

lemma grows_broadcast: "always grows (broadcastLogout s u sid)"
  unfolding broadcastLogout_def by (intro grow_rules grows_notify)

lemma grows_ensure: "always grows (ensurePortalCookie s r u)"
  unfolding ensurePortalCookie_def switch_user_def
  by (intro grow_rules grows_read grows_broadcast grows_cookies; 
      auto split: portal_read.splits intro!: grow_rules grows_read grows_broadcast grows_cookies)

lemma sg_run: "always (on_db same_grants) m \<Longrightarrow> run_state m w = (x, w') \<Longrightarrow> grants (w_db w') = grants (w_db w)"
  by (drule (1) alwaysD) (simp add: on_db_def same_grants_def)

lemma logAudit_steps:
  "run_state (logAudit s r a u c meta) w = (ok, w') \<Longrightarrow> grants (w_db w') = grants (w_db w) \<and> w_now w' = w_now w"
  using logAudit_same by fastforce

lemma ensure_steps:
  "run_state (ensurePortalCookie s r u) w = (x, w') \<Longrightarrow> grants (w_db w') = grants (w_db w) \<and> w_now w' = w_now w"
  using sg_run [OF sg_ensure] grows_now [OF grows_ensure] by blast

lemma slide_steps:
  "run_state (slidePortalSession s sess raw) w = (x, w') \<Longrightarrow> grants (w_db w') = grants (w_db w) \<and> w_now w' = w_now w"
  using sg_run [OF sg_slide] grows_now [OF grows_slide] by blast

lemma failed_attempts_steps:
  "run_state (store (UpdateUserFailedAttempts t uid k lu)) w = (x, w') \<Longrightarrow>
   grants (w_db w') = grants (w_db w) \<and> w_now w' = w_now w"
  by (auto simp: run_store store_defs split: if_splits)

lemma authorize_accepted_effect:
  assumes "run_state (authorize_accepted s r client user) w = (resp, w')"
  shows "grants (w_db w') = grants (w_db w) \<or> (\<not> u_MFAEnabled user \<and>
    code_issued s (w_db w) (w_now w) user client (FormValue r ''redirect_uri'')
      (splitScopes (FormValue r ''scope'')) (FormValue r ''code_challenge'') None (w_db w'))"
proof (cases "u_MFAEnabled user")
  case True
  have "always (on_db same_grants) (authorize_accepted s r client user)"
    unfolding authorize_accepted_def using True
    by (simp, intro sg.db_rules sg.cookie_db) (simp_all add: same_grants_frames sg.D_refl)
  from sg_run [OF this assms] show ?thesis ..
next
  case False
  then show ?thesis using assms unfolding authorize_accepted_def
    by (auto simp: run_store_at split: prod.splits if_splits
        dest!: failed_attempts_steps logAudit_steps ensure_steps
        dest: issueCodeAndRedirect_effect [of _ _ _ _ _ _ _ _ _ _ _ _ _ "w_db w" "w_now w"])
qed

lemma sg_login_failed: "always (on_db same_grants) (login_failed s r c e)"
  unfolding login_failed_def by (intro sg.db_rules)

lemma sg_increment: "always (on_db same_grants) (incrementFailedAttempts u)"
  unfolding incrementFailedAttempts_def by (intro sg.db_rules) (simp_all add: same_grants_frames)

lemma registered_scopes:
  "unregisteredScope c (splitScopes x) = [] \<longleftrightarrow> (\<forall>sc\<in>set (splitScopes x). containsStr (c_Scopes c) sc)"
  using unregisteredScope_none [OF splitScopes_nonempty] .

text \<open>A code from the password form.\<close>

lemma handleAuthorizePost_effect:
  assumes "run_state (handleAuthorizePost s r) w = (resp, w')" "grants (w_db w') \<noteq> grants (w_db w)"
  obtains c u where "c \<in> set (clients (w_db w))" "u \<in> set (users (w_db w))"
    "c_ClientID c = FormValue r ''client_id''" "validRedirectURI c (FormValue r ''redirect_uri'')"
    "\<forall>sc\<in>set (splitScopes (FormValue r ''scope'')). containsStr (c_Scopes c) sc"
    "u_Email u = ToLower (TrimSpace (FormValue r ''email''))"
    "CheckPassword s (u_PasswordHash u) (FormValue r ''password'')" "u_Active u" "\<not> u_MFAEnabled u"
    "policy_First (srv_unicode s) (w_now w) (srv_policy s) (no_context\<lparr>pc_User := Some u, pc_Client := Some c,
       pc_Password := FormValue r ''password''\<rparr>) = None"
    "code_issued s (w_db w) (w_now w) u c (FormValue r ''redirect_uri'') (splitScopes (FormValue r ''scope''))
      (FormValue r ''code_challenge'') None (w_db w')"
  using assms unfolding handleAuthorizePost_def
  apply (simp add: Let_def registered_scopes run_store GetClientByClientID_def GetUserByEmail_def split: case_splits)
  apply (clarsimp dest!: authorize_accepted_effect select_row_Inr sg_run [OF sg_login_failed] sg_run [OF sg_increment])+
  done


text \<open>A code from the TOTP form.\<close>

lemma authState_read:
  "run_state (getAuthStateCookie r) w = (c, w') \<Longrightarrow> w' = w \<and> (\<forall>st. c = Some st \<longrightarrow> w_now w \<le> st_Exp st \<and>
     (\<exists>b. read_cookie r authStateCookie = Opened b \<and> box_state b = Some st))"
  by (auto simp: getAuthStateCookie_def split: cookie_read.splits option.splits if_splits)

lemma run_clearCookie: "run_state (clearCookie n) w =
  ((), w\<lparr>w_cookies := w_cookies w @ [\<lparr>sc_Name = n, sc_Value = None, sc_MaxAge = -1\<rparr>]\<rparr>)"
  by (simp add: clearCookie_def)

definition totp_checked :: "server \<Rightarrow> db \<Rightarrow> time \<Rightarrow> uuid \<Rightarrow> string \<Rightarrow> bool" where
  "totp_checked s d now uid code \<longleftrightarrow>
     (\<exists>cred\<in>set (totps d). t_UserID cred = uid \<and> t_Enabled cred \<and>
       (\<exists>secret. x_DecryptEnvelope (srv_ext s) (t_EncryptedDEK cred) (t_EncryptedSecret cred) = Some secret \<and>
          x_ValidateTOTP (srv_ext s) code secret now))"

lemma verify_steps:
  assumes "run_state (VerifyTOTP s uid code) w = (x, w')"
  shows "w_db w' = w_db w \<and> w_now w' = w_now w \<and> (\<forall>u. x = Inr u \<longrightarrow> totp_checked s (w_db w) (w_now w) uid code)"
  using assms VerifyTOTP_Inr [of s uid code w]
  by (auto simp: totp_checked_def VerifyTOTP_def run_simps GetTOTPByUserID_def split: if_splits)

lemma get_user_steps:
  "run_state (store (GetUserByID uid)) w = (x, w') \<Longrightarrow> w_db w' = w_db w \<and> w_now w' = w_now w \<and>
   (\<forall>u. x = Inr u \<longrightarrow> u \<in> set (users (w_db w)) \<and> u_ID u = uid)"
  by (auto simp: run_store GetUserByID_def split: if_splits dest!: select_row_Inr)

lemma get_client_steps:
  "run_state (store (GetClientByClientID cid)) w = (x, w') \<Longrightarrow> w_db w' = w_db w \<and> w_now w' = w_now w \<and>
   (\<forall>c. x = Inr c \<longrightarrow> c \<in> set (clients (w_db w)) \<and> c_ClientID c = cid)"
  by (auto simp: run_store GetClientByClientID_def split: if_splits dest!: select_row_Inr)

lemmas auth_steps = authState_read get_user_steps get_client_steps verify_steps logAudit_steps ensure_steps

lemma handleMFATOTPPost_effect:
  assumes "run_state (handleMFATOTPPost s r) w = (resp, w')" "grants (w_db w') \<noteq> grants (w_db w)"
  obtains c u st b where "read_cookie r authStateCookie = Opened b" "box_state b = Some st" "w_now w \<le> st_Exp st"
    "c \<in> set (clients (w_db w))" "u \<in> set (users (w_db w))" "u_ID u = st_UserID st" "c_ClientID c = st_ClientID st"
    "totp_checked s (w_db w) (w_now w) (u_ID u) (FormValue r ''code'')"
    "code_issued s (w_db w) (w_now w) u c (st_RedirectURI st) (st_Scopes st) (st_CodeChallenge st)
      (Some (w_now w)) (w_db w')"
  using assms unfolding handleMFATOTPPost_def
  apply (simp add: run_clearCookie split: case_splits)
  apply (clarsimp dest!: auth_steps)+
  apply (drule issueCodeAndRedirect_effect [where d = "w_db w" and now = "w_now w"], simp, simp)
  apply (erule disjE, simp)
  apply (rule that, assumption+)
  apply (simp_all)
  done

text \<open>A code after a security key. The ceremony itself may only touch the WebAuthn tables.\<close>

definition assertion_checked :: "server \<Rightarrow> db \<Rightarrow> time \<Rightarrow> User \<Rightarrow> uuid \<Rightarrow> string \<Rightarrow> bool" where
  "assertion_checked s d now user wid body \<longleftrightarrow>
     (\<exists>ws\<in>set (wa_sessions d). \<exists>c\<in>set (webauthns d). \<exists>parsed creds cred.
       ws_ID ws = wid \<and> ws_UserID ws = u_ID user \<and> ws_Purpose ws = ''login'' \<and>
       current_timestamp now < ws_ExpiresAt ws \<and>
       x_WAParseAssertion (srv_ext s) body = Some parsed \<and>
       x_WAValidateLogin (srv_ext s) user creds (ws_Data ws) parsed = Some cred \<and>
       wc_UserID c = u_ID user \<and> wc_CredentialID c = wr_ID cred \<and> \<not> wr_CloneWarning cred)"

definition ceremony_frame :: "db \<Rightarrow> db \<Rightarrow> bool" where
  "ceremony_frame d d' \<longleftrightarrow> users d' = users d \<and> clients d' = clients d \<and> grants d' = grants d \<and> sessions d' = sessions d"

interpretation cf: db_rel ceremony_frame
  by unfold_locales (simp_all add: ceremony_frame_def)

lemma cf_FinishLogin: "always (on_db ceremony_frame) (FinishLogin s u wid r)"
  unfolding FinishLogin_def record_use_def
  by (intro cf.db_rules) (simp_all add: ceremony_frame_def DeleteWebAuthnSession_def UpdateWebAuthnCredentialUse_def)

lemma grows_FinishLogin: "always grows (FinishLogin s u wid r)"
  unfolding FinishLogin_def record_use_def by (intro grow_rules)

lemma finish_steps:
  assumes "run_state (FinishLogin s user wid r) w = (x, w')"
  shows "users (w_db w') = users (w_db w) \<and> clients (w_db w') = clients (w_db w) \<and>
    grants (w_db w') = grants (w_db w) \<and> sessions (w_db w') = sessions (w_db w) \<and>
    w_now w' = w_now w \<and> (\<forall>amr. x = Inr amr \<longrightarrow> assertion_checked s (w_db w) (w_now w) user wid (rq_body r))"
  using alwaysD [OF cf_FinishLogin assms] grows_now [OF grows_FinishLogin assms]
    FinishLogin_Inr [of s user wid r w _ w'] assms
  by (auto simp: on_db_def ceremony_frame_def assertion_checked_def)

lemma create_grant_steps:
  "run_state (store (CreateGrant g)) w = (x, w') \<Longrightarrow> w_now w' = w_now w \<and>
   grants (w_db w') = (if x = Inr () then grants (w_db w) @ [g\<lparr>g_UsedAt := None\<rparr>] else grants (w_db w))"
  by (auto simp: run_store CreateGrant_grants split: if_splits)

lemma handleSSOWebAuthnFinish_effect:
  assumes "run_state (handleSSOWebAuthnFinish s r) w = (resp, w')" "grants (w_db w') \<noteq> grants (w_db w)"
  obtains c u st b wid where "read_cookie r authStateCookie = Opened b" "box_state b = Some st" "w_now w \<le> st_Exp st"
    "c \<in> set (clients (w_db w))" "u \<in> set (users (w_db w))" "u_ID u = st_UserID st" "c_ClientID c = st_ClientID st"
    "assertion_checked s (w_db w) (w_now w) u wid (rq_body r)"
    "code_issued s (w_db w) (w_now w) u c (st_RedirectURI st) (st_Scopes st) (st_CodeChallenge st)
      (Some (w_now w)) (w_db w')"
  using assms unfolding handleSSOWebAuthnFinish_def
  apply (simp add: run_clearCookie run_draws split: case_splits)
  apply (clarsimp dest!: auth_steps finish_steps create_grant_steps)+
  subgoal by (rule that, assumption+) (simp_all add: code_issued_def new_grant_def)
  apply (clarsimp dest!: auth_steps finish_steps create_grant_steps)
  subgoal by (rule that, assumption+) (simp_all add: code_issued_def new_grant_def)
  done

text \<open>A code without any form: the portal session already says who the user is.\<close>

definition silent_ok :: "server \<Rightarrow> request \<Rightarrow> time \<Rightarrow> Client \<Rightarrow> Session \<Rightarrow> User \<Rightarrow> bool" where
  "silent_ok s r now client sess user \<longleftrightarrow> u_Active user \<and> (u_MFAEnabled user \<longrightarrow> s_MFAVerified sess) \<and>
     (QueryGet r ''login_hint'' = [] \<or> EqualFold (TrimSpace (QueryGet r ''login_hint'')) (u_Email user)) \<and>
     \<not> max_age_exceeded now (QueryGet r ''max_age'') sess \<and>
     policy_First (srv_unicode s) now (srv_policy s) (no_context\<lparr>pc_User := Some user,
       pc_Client := Some client, pc_MFAVerified := s_MFAVerified sess\<rparr>) = None"

lemma silent_issue_effect:
  assumes "run_state (silent_issue s r client sess user raw) w = (resp, w')"
  shows "grants (w_db w') = grants (w_db w) \<or>
    code_issued s (w_db w) (w_now w) user client (QueryGet r ''redirect_uri'')
      (splitScopes (QueryGet r ''scope'')) (QueryGet r ''code_challenge'') (silent_mfaAt sess) (w_db w')"
  using assms unfolding silent_issue_def
  by (auto split: prod.splits if_splits dest!: slide_steps logAudit_steps
      dest: issueCodeAndRedirect_effect [where d = "w_db w" and now = "w_now w"])

lemma trySilentSSO_effect:
  assumes "run_state (trySilentSSO s r client) w = (resp, w')" "grants (w_db w') \<noteq> grants (w_db w)"
  obtains sess user where "sess \<in> set (sessions (w_db w))" "user \<in> set (users (w_db w))"
    "u_ID user = s_UserID sess" "sessionTokenLive (w_now w) sess" "silent_ok s r (w_now w) client sess user"
    "code_issued s (w_db w) (w_now w) user client (QueryGet r ''redirect_uri'')
      (splitScopes (QueryGet r ''scope'')) (QueryGet r ''code_challenge'') (silent_mfaAt sess) (w_db w')"
proof -
  obtain p w1 where p: "run_state (readAuthPortalSession s r) w = (p, w1)" by fastforce
  have same: "w_db w1 = w_db w" using alwaysD [OF same_db.readAuthPortalSession_db p] by (simp add: on_db_def)
  obtain sess user raw where ps: "p = PortalSession sess user raw"
    using assms p same by (cases p) (auto simp: trySilentSSO_def)
  note rd = readAuthPortalSession_session [OF p [unfolded ps]]
  have ok: "silent_ok s r (w_now w) client sess user"
    and run: "run_state (silent_issue s r client sess user raw) w1 = (the resp, w')"
    using assms p rd(6,7) unfolding ps trySilentSSO_def silent_ok_def Let_def
    by (auto split: if_splits prod.splits)
  from silent_issue_effect [OF run] show thesis
    using that [OF rd(1,4,5,3) ok] assms(2) rd(6,7) by (simp add: code_issued_def)
qed

lemma handleAuthorizeGET_effect:
  assumes "run_state (handleAuthorizeGET s r) w = (resp, w')" "grants (w_db w') \<noteq> grants (w_db w)"
  obtains c sess user where "c \<in> set (clients (w_db w))" "c_ClientID c = QueryGet r ''client_id''"
    "validRedirectURI c (QueryGet r ''redirect_uri'')"
    "\<forall>sc\<in>set (splitScopes (QueryGet r ''scope'')). containsStr (c_Scopes c) sc" "QueryGet r ''prompt'' \<noteq> ''login''"
    "sess \<in> set (sessions (w_db w))" "user \<in> set (users (w_db w))"
    "u_ID user = s_UserID sess" "sessionTokenLive (w_now w) sess" "silent_ok s r (w_now w) c sess user"
    "code_issued s (w_db w) (w_now w) user c (QueryGet r ''redirect_uri'')
      (splitScopes (QueryGet r ''scope'')) (QueryGet r ''code_challenge'') (silent_mfaAt sess) (w_db w')"
proof -
  obtain c w1 y where c: "run_state (store (GetClientByClientID (QueryGet r ''client_id''))) w = (Inr c, w1)"
    and ok: "validRedirectURI c (QueryGet r ''redirect_uri'')"
      "\<forall>sc\<in>set (splitScopes (QueryGet r ''scope'')). containsStr (c_Scopes c) sc" "QueryGet r ''prompt'' \<noteq> ''login''"
    and run: "run_state (trySilentSSO s r c) w1 = (y, w')"
    using assms unfolding handleAuthorizeGET_def Let_def
    by (auto simp: registered_scopes split: sum.splits prod.splits if_splits dest!: get_client_steps)
  note cs = get_client_steps [OF c]
  have "grants (w_db w') \<noteq> grants (w_db w1)" using assms(2) cs by simp
  from run this show thesis
    by (rule trySilentSSO_effect) (rule that; use cs ok in simp)
qed

end
