(* ===== verification/Device.thy ===== *)
theory Device
  imports Authorize
begin

text \<open>
  The device authorization grant (RFC 8628) of \<open>src/internal/api/web_portal_device.go\<close>:
  the codes, the device endpoint, the approval pages and the polling branch of the token
  endpoint, and the dispatcher \<open>handleToken\<close> of \<open>src/internal/api/oauth2.go\<close>.
\<close>

definition deviceCodeTTL :: duration where "deviceCodeTTL = 15 * minute"
definition defaultDevicePollInterval :: int where "defaultDevicePollInterval = 5"
definition userCodeAlphabet :: string where
  "userCodeAlphabet = ''ABCDEFGHJKLMNPQRSTUVWXYZ23456789''"

subsection \<open>Codes\<close>

definition generateDeviceCode :: "server \<Rightarrow> string option act" where
  "generateDeviceCode s = GenerateRawToken s"

definition user_code_char :: "nat \<Rightarrow> char" where
  "user_code_char b = userCodeAlphabet ! (b mod length userCodeAlphabet)"

text \<open>The loop over the eight random bytes: a hyphen after the fourth character.\<close>

fun user_code_loop :: "nat \<Rightarrow> nat list \<Rightarrow> string" where
  "user_code_loop i [] = []"
| "user_code_loop i (b # bs) =
     user_code_char b # (if i = 3 then CHR ''-'' # user_code_loop (Suc i) bs else user_code_loop (Suc i) bs)"

definition generateUserCode :: "server \<Rightarrow> string option act" where
  "generateUserCode s = do {
     n \<leftarrow> draw;
     ret (map_option (user_code_loop 0) (x_RandomBytes (srv_ext s) n)) }"

fun normalizeUserCode :: "string \<Rightarrow> string" where
  "normalizeUserCode [] = []"
| "normalizeUserCode (c # s) =
     (if c = CHR '' '' \<or> c = CHR ''-'' \<or> c = CHR 0x09 then normalizeUserCode s
      else upper_char c # normalizeUserCode s)"

subsection \<open>Starting the flow\<close>

definition TrimRight :: "string \<Rightarrow> char \<Rightarrow> string" where
  "TrimRight s c = rev (dropWhile (\<lambda>x. x = c) (rev s))"

definition new_device_grant ::
  "server \<Rightarrow> time \<Rightarrow> uuid \<Rightarrow> string \<Rightarrow> string \<Rightarrow> Client \<Rightarrow> string list \<Rightarrow> DeviceGrant" where
  "new_device_grant s now gid deviceCode userCode client scopes =
     \<lparr>d_ID = gid, d_DeviceCodeHash = HashToken s deviceCode,
      d_UserCodeHash = HashToken s (normalizeUserCode userCode), d_ClientID = c_ID client, d_Scopes = scopes,
      d_Status = DeviceGrantStatusPending, d_UserID = None, d_MFAVerified = False, d_MFAVerifiedAt = None,
      d_ApproverIP = [], d_IntervalSec = defaultDevicePollInterval, d_LastPolledAt = None,
      d_CreatedAt = zero_time, d_ExpiresAt = now + deviceCodeTTL\<rparr>"

definition handleDeviceAuthorization :: "server \<Rightarrow> request \<Rightarrow> response act" where
  "handleDeviceAuthorization s r =
     (let clientID = TrimSpace (FormValue r ''client_id'') in
      if clientID = [] then ret (writeError 400 ''invalid_request'' ''client_id is required'')
      else do {
        c \<leftarrow> store (GetClientByClientID clientID);
        case c of
          Inl e \<Rightarrow> ret (writeError 400 ''unauthorized_client''
                     ''this client is not authorized to use the device authorization grant'')
        | Inr client \<Rightarrow>
            if \<not> c_AllowDeviceGrant client
            then ret (writeError 400 ''unauthorized_client''
                     ''this client is not authorized to use the device authorization grant'')
            else (let asked = splitScopes (TrimSpace (FormValue r ''scope''));
                      scopes = (if asked = [] then c_Scopes client else asked) in
              case find (\<lambda>sc. \<not> containsStr (c_Scopes client) sc) scopes of
                Some sc \<Rightarrow> ret (writeError 400 ''invalid_scope''
                             (''requested scope is not registered for this client: '' @ sc))
              | None \<Rightarrow> do {
                  dc \<leftarrow> generateDeviceCode s;
                  case dc of
                    None \<Rightarrow> ret (writeError 500 ''server_error'' ''code generation failed'')
                  | Some deviceCode \<Rightarrow> do {
                  uc \<leftarrow> generateUserCode s;
                  case uc of
                    None \<Rightarrow> ret (writeError 500 ''server_error'' ''code generation failed'')
                  | Some userCode \<Rightarrow> do {
                  gid \<leftarrow> newUUID s;
                  now \<leftarrow> get_now;
                  x \<leftarrow> store (CreateDeviceGrant now gid (new_device_grant s now gid deviceCode userCode client scopes));
                  case x of
                    Inl e \<Rightarrow> ret (writeError 500 ''server_error'' ''could not create grant'')
                  | Inr g \<Rightarrow> do {
                  ok \<leftarrow> logAudit s r ''auth.device.authorization.created'' None (Some (c_ID client))
                         [(''grant_id'', JID gid), (''scopes'', JStrs scopes)];
                  let uri = TrimRight (srv_issuer s) CHR ''/'' @ ''/device'';
                  ret (if ok
                       then RJSON 200 [(''device_code'', JStr deviceCode), (''user_code'', JStr userCode),
                         (''verification_uri'', JStr uri),
                         (''verification_uri_complete'', JStr (uri @ ''?user_code='' @ userCode)),
                         (''expires_in'', JInt (seconds_int deviceCodeTTL)),
                         (''interval'', JInt defaultDevicePollInterval)]
                       else auditFail) } } } }) })"

subsection \<open>Approval in the browser\<close>

definition handleDevice :: "server \<Rightarrow> request \<Rightarrow> response act" where
  "handleDevice s r =
     (let fromForm = TrimSpace (FormValue r ''user_code'');
          userCode = (if fromForm = [] then TrimSpace (QueryGet r ''user_code'') else fromForm);
          render = RPage ''portal_device.html'' in
      if \<not> rq_isPost r then ret (render [])
      else if userCode = [] then ret (render ''Enter the code shown by your device.'')
      else do {
        g \<leftarrow> store (GetDeviceGrantByUserCodeHash (HashToken s (normalizeUserCode userCode)));
        now \<leftarrow> get_now;
        case g of
          Inl e \<Rightarrow> ret (render ''Invalid or expired code.'')
        | Inr grant \<Rightarrow>
            if d_Status grant \<noteq> DeviceGrantStatusPending \<or> now > d_ExpiresAt grant
            then ret (render ''Invalid or expired code.'')
            else do {
              c \<leftarrow> store (GetClientByID (d_ClientID grant));
              ret (case c of
                     Inl e \<Rightarrow> render ''Internal error; please try again.''
                   | Inr client \<Rightarrow> RPage ''portal_device_confirm.html'' []) } })"

definition handleDeviceConfirm :: "server \<Rightarrow> request \<Rightarrow> Session \<Rightarrow> User \<Rightarrow> response act" where
  "handleDeviceConfirm s r sess user =
     (case x_ParseUUID (srv_ext s) (FormValue r ''grant_id'') of
        None \<Rightarrow> ret (RRedirect ''/device'' [(''error'', ''invalid grant'')])
      | Some grantID \<Rightarrow>
          (let action = FormValue r ''action'' in
           if action = ''approve'' then do {
             x \<leftarrow> store (MarkDeviceGrantApproved grantID (u_ID user) (s_MFAVerified sess) (s_MFAVerifiedAt sess) (rq_ip r));
             case x of
               Inl e \<Rightarrow> ret (RPage ''portal_device_done.html'' ''This code has already been processed or expired.'')
             | Inr u \<Rightarrow> do {
                 ok \<leftarrow> logAudit s r ''auth.device.code.approved'' (Some (u_ID user)) None
                   [(''grant_id'', JID grantID), (''ip'', JStr (rq_ip r)), (''mfa_verified'', JBool (s_MFAVerified sess))];
                 ret (if ok then RPage ''portal_device_done.html'' [] else auditFail) } }
           else if action = ''deny'' then do {
             x \<leftarrow> store (MarkDeviceGrantDenied grantID (rq_ip r));
             ok \<leftarrow> logAudit s r ''auth.device.code.denied'' (Some (u_ID user)) None
               [(''grant_id'', JID grantID), (''ip'', JStr (rq_ip r))];
             ret (if ok then RPage ''portal_device_done.html'' [] else auditFail) }
           else ret (RRedirect ''/device'' [(''error'', ''invalid action'')])))"

subsection \<open>Polling\<close>

text \<open>\<open>time.Duration(interval) * time.Second\<close>; the interval is a small non-negative number.\<close>

definition polled_too_soon :: "time \<Rightarrow> DeviceGrant \<Rightarrow> bool" where
  "polled_too_soon now grant \<longleftrightarrow>
     (case d_LastPolledAt grant of
        None \<Rightarrow> False
      | Some t \<Rightarrow> now - t < d_IntervalSec grant * second)"

definition redeem_device :: "server \<Rightarrow> request \<Rightarrow> Client \<Rightarrow> DeviceGrant \<Rightarrow> response act" where
  "redeem_device s r client grant = do {
     x \<leftarrow> store (MarkDeviceGrantRedeemed (d_ID grant));
     case x of
       Inl e \<Rightarrow> ret (writeError 400 ''invalid_grant'' ''device_code already redeemed'')
     | Inr u \<Rightarrow>
         (case d_UserID grant of
            None \<Rightarrow> ret (writeError 500 ''server_error'' ''approved grant has no user'')
          | Some uid \<Rightarrow> do {
              y \<leftarrow> store (GetUserByID uid);
              case y of
                Inl e \<Rightarrow> ret (writeError 500 ''server_error'' ''approver not found'')
              | Inr user \<Rightarrow>
                  if \<not> u_Active user then ret (writeError 403 ''access_denied'' ''approver account is inactive'')
                  else do {
                    m \<leftarrow> mintTokenResponseWithMFAAt s user client (d_Scopes grant) (d_MFAVerified grant)
                      (d_MFAVerifiedAt grant) zero_time [];
                    case m of
                      None \<Rightarrow> ret (writeError 500 ''server_error'' ''token issuance failed'')
                    | Some body \<Rightarrow> do {
                        ok \<leftarrow> logAudit s r ''auth.device.code.redeemed'' (Some (u_ID user)) (Some (c_ID client))
                          [(''grant_id'', JID (d_ID grant)), (''scopes'', JStrs (d_Scopes grant))];
                        ret (if ok then RJSON 200 body else auditFail) } } }) }"

definition handleTokenDeviceCode :: "server \<Rightarrow> request \<Rightarrow> response act" where
  "handleTokenDeviceCode s r =
     (let deviceCode = FormValue r ''device_code''; clientID = FormValue r ''client_id'' in
      if deviceCode = [] \<or> clientID = []
      then ret (writeError 400 ''invalid_request'' ''device_code and client_id are required'')
      else do {
        c \<leftarrow> store (GetClientByClientID clientID);
        case c of
          Inl e \<Rightarrow> ret (writeError 401 ''invalid_client'' ''unknown client'')
        | Inr client \<Rightarrow> do {
        g \<leftarrow> store (GetDeviceGrantByDeviceCodeHash (HashToken s deviceCode));
        now \<leftarrow> get_now;
        case g of
          Inl e \<Rightarrow> ret (writeError 400 ''expired_token'' ''device_code not found or expired'')
        | Inr grant \<Rightarrow>
            if d_ClientID grant \<noteq> c_ID client then ret (writeError 400 ''invalid_grant'' ''client mismatch'')
            else if now > d_ExpiresAt grant
            then ret (writeError 400 ''expired_token'' ''device_code expired; restart the flow'')
            else (case d_Status grant of
              DeviceGrantStatusDenied \<Rightarrow> ret (writeError 400 ''access_denied'' ''user denied the authorization request'')
            | DeviceGrantStatusExpired \<Rightarrow> ret (writeError 400 ''expired_token'' ''device_code expired'')
            | DeviceGrantStatusRedeemed \<Rightarrow> ret (writeError 400 ''invalid_grant'' ''device_code already redeemed'')
            | DeviceGrantStatusPending \<Rightarrow>
                if polled_too_soon now grant then do {
                  x \<leftarrow> store (UpdateDeviceGrantPoll (d_ID grant) now (d_IntervalSec grant + defaultDevicePollInterval));
                  ret (writeError 400 ''slow_down'' ''polling too frequently; back off'') }
                else do {
                  x \<leftarrow> store (UpdateDeviceGrantPoll (d_ID grant) now (d_IntervalSec grant));
                  ret (writeError 400 ''authorization_pending'' ''waiting for user to approve'') }
            | DeviceGrantStatusApproved \<Rightarrow> redeem_device s r client grant) } })"

subsection \<open>The token endpoint\<close>

definition handleToken :: "server \<Rightarrow> request \<Rightarrow> response act" where
  "handleToken s r =
     (if rq_badForm r then ret (writeError 400 ''invalid_request'' ''bad form'')
      else (let gt = FormValue r ''grant_type'' in
        if gt = ''authorization_code'' then handleTokenAuthCode s r
        else if gt = ''refresh_token'' then handleTokenRefresh s r
        else if gt = ''client_credentials'' then handleTokenClientCreds s r
        else if gt = ''urn:ietf:params:oauth:grant-type:device_code'' then handleTokenDeviceCode s r
        else ret (writeError 400 ''unsupported_grant_type'' ''unsupported grant_type'')))"

subsection \<open>Normalisation of user codes\<close>

definition code_separator :: "char \<Rightarrow> bool" where
  "code_separator c \<longleftrightarrow> c = CHR '' '' \<or> c = CHR ''-'' \<or> c = CHR 0x09"

lemma normalizeUserCode_map: "normalizeUserCode s = map upper_char (filter (\<lambda>c. \<not> code_separator c) s)"
  by (induction s rule: normalizeUserCode.induct) (auto simp: code_separator_def)

lemma upper_lower_char: "upper_char (lower_char c) = upper_char c"
proof (cases "is_upper c")
  case True
  have l: "char_code (lower_char c) = char_code c + 32" "is_lower (lower_char c)"
    using True by (auto simp: lower_char_def char_class_defs)
  then have "upper_char (lower_char c) = char_of (char_code c)" by (simp add: upper_char_def)
  moreover have "\<not> is_lower c" using True by (auto simp: char_class_defs)
  ultimately show ?thesis by (simp add: upper_char_def char_code_def)
qed (simp add: lower_char_def)

lemma separator_lower: "code_separator (lower_char c) = code_separator c"
proof (cases "is_upper c")
  case True
  then have "65 \<le> char_code c" "char_code (lower_char c) = char_code c + 32"
    by (auto simp: lower_char_def char_class_defs)
  then show ?thesis by (auto simp: code_separator_def char_code_def)
qed (simp add: lower_char_def)

lemma normalizeUserCode_ToLower: "normalizeUserCode (ToLower s) = normalizeUserCode s"
  by (simp add: normalizeUserCode_map ToLower_def filter_map comp_def separator_lower upper_lower_char)

lemma normalizeUserCode_separator:
  "code_separator c \<Longrightarrow> normalizeUserCode (s @ c # t) = normalizeUserCode (s @ t)"
  by (simp add: normalizeUserCode_map)

lemma user_code_chars: "user_code_char b \<in> set userCodeAlphabet"
  unfolding user_code_char_def by (rule nth_mem) (simp add: userCodeAlphabet_def)

lemma alphabet_upper: "c \<in> set userCodeAlphabet \<Longrightarrow> upper_char c = c \<and> \<not> code_separator c"
proof -
  have "list_all (\<lambda>c. upper_char c = c \<and> \<not> code_separator c) userCodeAlphabet" by code_simp
  then show "c \<in> set userCodeAlphabet \<Longrightarrow> upper_char c = c \<and> \<not> code_separator c" by (simp add: list_all_iff)
qed

lemma normalizeUserCode_generated: "normalizeUserCode (user_code_loop i bs) = map user_code_char bs"
  using alphabet_upper [OF user_code_chars]
  by (induction i bs rule: user_code_loop.induct) (auto simp: code_separator_def)

subsection \<open>Invariants\<close>

context step_rel
begin

lemma status_case:
  "always R a \<Longrightarrow> always R b \<Longrightarrow> always R c \<Longrightarrow> always R m \<Longrightarrow> always R e \<Longrightarrow>
   always R (case st of DeviceGrantStatusPending \<Rightarrow> a | DeviceGrantStatusApproved \<Rightarrow> b
     | DeviceGrantStatusDenied \<Rightarrow> c | DeviceGrantStatusRedeemed \<Rightarrow> m | DeviceGrantStatusExpired \<Rightarrow> e)"
  by (cases st) auto

end

lemma wf_device:
  "keeps_wf (handleDeviceAuthorization s r)" "keeps_wf (handleDevice s r)" "keeps_wf (handleDeviceConfirm s r sess u)"
  "keeps_wf (handleTokenDeviceCode s r)"
  unfolding handleDeviceAuthorization_def handleDevice_def handleDeviceConfirm_def handleTokenDeviceCode_def
    redeem_device_def generateDeviceCode_def generateUserCode_def
  by ((intro wf.db_rules wf.status_case wf_mint)?; (simp_all add: store_wf)?)+

lemma wf_handleToken: "keeps_wf (handleToken s r)"
  unfolding handleToken_def
  by (intro wf.db_rules wf_handleTokenAuthCode wf_handleTokenRefresh wf_handleTokenClientCreds wf_device)

lemma cap_device:
  "keeps_cap (handleDeviceAuthorization s r)" "keeps_cap (handleDevice s r)" "keeps_cap (handleDeviceConfirm s r sess u)"
  "keeps_cap (handleTokenDeviceCode s r)"
  unfolding handleDeviceAuthorization_def handleDevice_def handleDeviceConfirm_def handleTokenDeviceCode_def
    redeem_device_def generateDeviceCode_def generateUserCode_def
  by ((intro cap.db_rules cap.status_case cap_mint)?; (simp_all add: cap_grant_ops)?)+

lemma cap_handleToken: "keeps_cap (handleToken s r)"
  unfolding handleToken_def
  by (intro cap.db_rules cap_handleTokenAuthCode cap_handleTokenRefresh cap_handleTokenClientCreds cap_device)

subsection \<open>The states of a device grant\<close>

text \<open>A pending grant is approved or denied once, an approved one is redeemed once, and
  nothing leaves the other states.\<close>

inductive device_next :: "DeviceGrantStatus \<Rightarrow> DeviceGrantStatus \<Rightarrow> bool" where
  approve: "device_next DeviceGrantStatusPending DeviceGrantStatusApproved"
| deny: "device_next DeviceGrantStatusPending DeviceGrantStatusDenied"
| redeem: "device_next DeviceGrantStatusApproved DeviceGrantStatusRedeemed"

inductive_simps device_next_from:
  "device_next DeviceGrantStatusPending st" "device_next DeviceGrantStatusApproved st"
  "device_next DeviceGrantStatusDenied st" "device_next DeviceGrantStatusRedeemed st"
  "device_next DeviceGrantStatusExpired st"

lemma device_terminal:
  "device_next\<^sup>*\<^sup>* DeviceGrantStatusRedeemed st \<longleftrightarrow> st = DeviceGrantStatusRedeemed"
  "device_next\<^sup>*\<^sup>* DeviceGrantStatusDenied st \<longleftrightarrow> st = DeviceGrantStatusDenied"
  by (auto elim: converse_rtranclpE simp: device_next_from)

text \<open>Every grant stays, with its codes, client and scopes, and only moves along these edges.\<close>

definition moved :: "DeviceGrant \<Rightarrow> DeviceGrant \<Rightarrow> bool" where
  "moved g g' \<longleftrightarrow> d_ID g' = d_ID g \<and> d_DeviceCodeHash g' = d_DeviceCodeHash g \<and> d_UserCodeHash g' = d_UserCodeHash g \<and>
     d_ClientID g' = d_ClientID g \<and> d_Scopes g' = d_Scopes g \<and> d_ExpiresAt g' = d_ExpiresAt g \<and>
     device_next\<^sup>*\<^sup>* (d_Status g) (d_Status g')"

definition device_forward :: "db \<Rightarrow> db \<Rightarrow> bool" where
  "device_forward d d' \<longleftrightarrow> (\<forall>g\<in>set (device_grants d). \<exists>g'\<in>set (device_grants d'). moved g g')"

lemma moved_refl [simp]: "moved g g"
  by (simp add: moved_def)

lemma moved_ex [intro]: "g \<in> A \<Longrightarrow> \<exists>g'\<in>A. moved g g'"
  by (rule bexI [of _ g]) simp_all

lemma moved_trans: "moved g g' \<Longrightarrow> moved g' g'' \<Longrightarrow> moved g g''"
  by (auto simp: moved_def)

interpretation fw: core_rel device_forward
proof
  fix d e f
  show "device_forward d d" by (auto simp: device_forward_def)
  show "device_forward d f" if "device_forward d e" "device_forward e f"
    using that unfolding device_forward_def by (meson moved_trans)
  show "core_same d e \<Longrightarrow> device_forward d e" by (auto simp: core_same_def device_forward_def)
qed

lemma forward_update:
  assumes "\<And>g. g \<in> set (device_grants d) \<Longrightarrow> P g \<Longrightarrow> moved g (f g)"
  shows "device_forward d (d\<lparr>device_grants := sql_update P f (device_grants d)\<rparr>)"
proof -
  have "\<exists>g'\<in>set (sql_update P f (device_grants d)). moved g g'" if "g \<in> set (device_grants d)" for g
    using that assms by (intro bexI [of _ "if P g then f g else g"]) (auto simp: sql_update_def)
  then show ?thesis by (simp add: device_forward_def)
qed

lemma forward_same: "device_grants d' = device_grants d \<Longrightarrow> device_forward d d'"
  by (auto simp: device_forward_def)

lemma forward_transitions:
  "device_forward d (snd (CreateDeviceGrant now fresh dg d))"
  "device_forward d (snd (MarkDeviceGrantApproved gid uid b t ip d))"
  "device_forward d (snd (MarkDeviceGrantDenied gid ip d))"
  "device_forward d (snd (MarkDeviceGrantRedeemed gid d))"
  "device_forward d (snd (UpdateDeviceGrantPoll gid now n d))"
  "device_forward d (snd (CreateSession now sess d))"
  "device_forward d (snd (ExtendSessionExpiry sid ex d))"
  "device_forward d (snd (UpdateSessionActivity sid la d))"
proof -
  show "device_forward d (snd (CreateDeviceGrant now fresh dg d))"
    by (auto simp: CreateDeviceGrant_def insert_outcome_def Let_def device_forward_def intro: moved_refl)
  show "device_forward d (snd (MarkDeviceGrantApproved gid uid b t ip d))"
    by (auto simp: MarkDeviceGrantApproved_def device_transition_def device_hit_def moved_def
        fw.D_refl intro!: forward_update r_into_rtranclp approve)
  show "device_forward d (snd (MarkDeviceGrantDenied gid ip d))"
    by (auto simp: MarkDeviceGrantDenied_def device_transition_def device_hit_def moved_def
        intro!: forward_update r_into_rtranclp deny)
  show "device_forward d (snd (MarkDeviceGrantRedeemed gid d))"
    by (auto simp: MarkDeviceGrantRedeemed_def device_transition_def device_hit_def moved_def
        intro!: forward_update r_into_rtranclp redeem)
  show "device_forward d (snd (UpdateDeviceGrantPoll gid now n d))"
    by (auto simp: UpdateDeviceGrantPoll_def moved_def intro!: forward_update)
qed (simp_all add: forward_same store_defs insert_outcome_def Let_def)

lemma fw_mint: "always (on_db device_forward) (mintTokenResponseWithMFAAt s u c sc m ma at n)"
  unfolding mintTokenResponseWithMFAAt_def
  by (intro fw.db_rules fw.groups_claim_db) (simp_all add: forward_transitions)

lemma fw_device:
  "always (on_db device_forward) (handleDeviceAuthorization s r)" "always (on_db device_forward) (handleDevice s r)"
  "always (on_db device_forward) (handleDeviceConfirm s r sess u)" "always (on_db device_forward) (handleTokenDeviceCode s r)"
  unfolding handleDeviceAuthorization_def handleDevice_def handleDeviceConfirm_def handleTokenDeviceCode_def
    redeem_device_def generateDeviceCode_def generateUserCode_def
  by ((intro fw.db_rules fw.status_case fw_mint)?; (simp_all add: forward_transitions fw.D_refl)?)+

lemma fw_portalAuth:
  "(\<And>sess user. always (on_db device_forward) (k sess user)) \<Longrightarrow> always (on_db device_forward) (portalAuth s k r)"
  unfolding portalAuth_def slidePortalSession_def
  by (intro fw.db_rules fw.portal_case fw.readAuthPortalSession_db fw.cookie_db) (simp_all add: forward_transitions)

subsection \<open>Redemption\<close>

lemma redeem_device_success:
  assumes "run_state (redeem_device s r c g) w = (RJSON 200 body, w')"
  shows "\<exists>u sess uid. d_UserID g = Some uid \<and> u \<in> set (users (w_db w)) \<and> u_ID u = uid \<and> u_Active u \<and>
    w_db w' = (snd (MarkDeviceGrantRedeemed (d_ID g) (w_db w)))\<lparr>sessions := sessions (w_db w) @ [sess]\<rparr> \<and>
    fst (MarkDeviceGrantRedeemed (d_ID g) (w_db w)) = Inr () \<and>
    minted s body sess \<and> s_UserID sess = uid \<and> s_ClientID sess = c_ID c \<and> s_Scopes sess = d_Scopes g \<and>
    s_MFAVerified sess = d_MFAVerified g \<and> s_MFAVerifiedAt sess = d_MFAVerifiedAt g"
proof -
  obtain uid u w1 w2 where uid: "d_UserID g = Some uid"
    and red: "run_state (store (MarkDeviceGrantRedeemed (d_ID g))) w = (Inr (), w1)"
    and u: "u \<in> set (users (w_db w1))" "u_ID u = uid" "u_Active u"
    and m: "\<exists>w1'. w_db w1' = w_db w1 \<and> run_state (mintTokenResponseWithMFAAt s u c (d_Scopes g) (d_MFAVerified g)
      (d_MFAVerifiedAt g) zero_time []) w1' = (Some body, w2)"
    and w': "w_db w' = w_db w2"
    using assms unfolding redeem_device_def
    apply (simp split: case_splits)
    apply (clarsimp dest!: logAudit_same)
    apply (frule store_Inr [of "GetUserByID _"])
    apply (clarsimp simp: GetUserByID_def dest!: select_row_Inr)
    by (metis (no_types, lifting) world.select_convs(1) world.surjective world.update_convs(3))
  have red': "w_db w1 = snd (MarkDeviceGrantRedeemed (d_ID g) (w_db w))" "fst (MarkDeviceGrantRedeemed (d_ID g) (w_db w)) = Inr ()"
    using store_Inr [OF red] by auto
  have fr: "users (snd (MarkDeviceGrantRedeemed i d)) = users d" "sessions (snd (MarkDeviceGrantRedeemed i d)) = sessions d" for i d
    by (simp_all add: MarkDeviceGrantRedeemed_def device_transition_def)
  from m obtain w1' where m: "w_db w1' = w_db w1" "run_state (mintTokenResponseWithMFAAt s u c (d_Scopes g) (d_MFAVerified g)
      (d_MFAVerifiedAt g) zero_time []) w1' = (Some body, w2)" by blast
  from mint_success [OF m(2)] show ?thesis using m(1) uid u red' w' by (auto simp: fr)
qed

lemma handleTokenDeviceCode_success:
  assumes "run_state (handleTokenDeviceCode s r) w = (RJSON 200 body, w')"
  obtains c g w1 where "c \<in> set (clients (w_db w))" "c_ClientID c = FormValue r ''client_id''"
    "g \<in> set (device_grants (w_db w))" "d_DeviceCodeHash g = HashToken s (FormValue r ''device_code'')"
    "d_ClientID g = c_ID c" "w_now w \<le> d_ExpiresAt g" "d_Status g = DeviceGrantStatusApproved"
    "w_db w1 = w_db w" "run_state (redeem_device s r c g) w1 = (RJSON 200 body, w')"
  using assms unfolding handleTokenDeviceCode_def
  apply (simp add: Let_def split: case_splits DeviceGrantStatus.splits)
  by ((clarsimp simp: GetClientByClientID_def GetDeviceGrantByDeviceCodeHash_def dest!: store_Inr select_row_Inr,
      rule that, assumption+, simp_all)[1])+

text \<open>Polling a pending grant: the poll is recorded, and a client that polls faster than its
  interval has it raised by five seconds.\<close>

lemma handleTokenDeviceCode_pending:
  assumes ok: "w_faults w = []" "wf_db (w_db w)" "c \<in> set (clients (w_db w))" "g \<in> set (device_grants (w_db w))"
    and req: "c_ClientID c = FormValue r ''client_id''" "FormValue r ''client_id'' \<noteq> []"
      "FormValue r ''device_code'' \<noteq> []" "d_DeviceCodeHash g = HashToken s (FormValue r ''device_code'')"
    and g: "d_ClientID g = c_ID c" "w_now w \<le> d_ExpiresAt g" "d_Status g = DeviceGrantStatusPending"
  shows "run_state (handleTokenDeviceCode s r) w =
    (if polled_too_soon (w_now w) g then writeError 400 ''slow_down'' ''polling too frequently; back off''
     else writeError 400 ''authorization_pending'' ''waiting for user to approve'',
     w\<lparr>w_db := snd (UpdateDeviceGrantPoll (d_ID g) (w_now w)
        (d_IntervalSec g + (if polled_too_soon (w_now w) g then 5 else 0)) (w_db w))\<rparr>)"
proof -
  have c: "select_row (\<lambda>x. c_ClientID x = FormValue r ''client_id'') (clients (w_db w)) = Inr c"
    using ok req by (intro select_row_unique) (auto simp: wf_db_def uniq_db_def uniq_clients_def)
  have d: "select_row (\<lambda>x. d_DeviceCodeHash x = HashToken s (FormValue r ''device_code'')) (device_grants (w_db w)) = Inr g"
    using ok req by (intro select_row_unique) (auto simp: wf_db_def uniq_db_def uniq_device_grants_def)
  show ?thesis
    using ok(1) req(2,3) g c d unfolding handleTokenDeviceCode_def Let_def
    by (simp add: run_store_ok GetClientByClientID_def GetDeviceGrantByDeviceCodeHash_def defaultDevicePollInterval_def)
qed

end
