(* ===== verification/Login_Properties.thy ===== *)
theory Login_Properties
  imports Example Code_Provenance Device
begin

text \<open>
  Properties of the authorization endpoint and of the device flow: what must have happened
  before an authorization code or a device token exists, and how the states of a device
  grant move.
\<close>

subsection \<open>Authorization codes\<close>

text \<open>What the default rules leave through when a password was typed.\<close>

lemma default_rules_password:
  assumes "policy_First t now DefaultPCIRules (no_context\<lparr>pc_User := Some u, pc_Client := Some c, pc_Password := p\<rparr>) = None"
    "\<not> u_MFAEnabled u"
  shows "c_Public c" "\<forall>x. u_LockedUntil u = Some x \<longrightarrow> x \<le> now" "now - u_PasswordChangedAt u \<le> 90 * 24 * hour"
  using assms
  by (auto simp: policy_First_None_iff DefaultPCIRules_def eval_MFARequired_def eval_AccountLockout_def eval_PasswordAge_def
      violation_def no_context_def split: if_splits option.splits)

lemma default_rules_confidential:
  assumes "policy_First t now DefaultPCIRules (no_context\<lparr>pc_User := Some u, pc_Client := Some c, pc_MFAVerified := b\<rparr>) = None"
    "\<not> c_Public c"
  shows b
proof -
  have "MFARequiredRule \<in> set DefaultPCIRules" by (simp add: DefaultPCIRules_def)
  with assms(1) have "rule_Evaluate t now (no_context\<lparr>pc_User := Some u, pc_Client := Some c, pc_MFAVerified := b\<rparr>) MFARequiredRule = None"
    by (simp only: policy_First_None_iff)
  then show ?thesis using assms(2) by (auto simp: eval_MFARequired_def violation_def no_context_def split: if_splits)
qed

text \<open>C5. Under the default policy the password form yields an authorization code only for an
  active user whose password was given, who is not locked out and whose password is at most 90
  days old, only for a public client (a confidential one needs MFA), a valid redirect URI and
  registered scopes; exactly one code is stored, and it carries no MFA.\<close>

theorem password_code_sound:
  assumes "run_state (handleAuthorizePost s r) w = (resp, w')" "grants (w_db w') \<noteq> grants (w_db w)"
    "srv_policy s = DefaultPCIRules"
  shows "\<exists>c u. c \<in> set (clients (w_db w)) \<and> c_ClientID c = FormValue r ''client_id'' \<and> c_Public c \<and>
    validRedirectURI c (FormValue r ''redirect_uri'') \<and>
    (\<forall>sc\<in>set (splitScopes (FormValue r ''scope'')). containsStr (c_Scopes c) sc) \<and>
    u \<in> set (users (w_db w)) \<and> u_Email u = ToLower (TrimSpace (FormValue r ''email'')) \<and>
    CheckPassword s (u_PasswordHash u) (FormValue r ''password'') \<and> u_Active u \<and> \<not> u_MFAEnabled u \<and>
    (\<forall>t. u_LockedUntil u = Some t \<longrightarrow> t \<le> w_now w) \<and> w_now w - u_PasswordChangedAt u \<le> 90 * 24 * hour \<and>
    code_issued s (w_db w) (w_now w) u c (FormValue r ''redirect_uri'') (splitScopes (FormValue r ''scope''))
      (FormValue r ''code_challenge'') None (w_db w')"
  using assms(1,2)
proof (rule handleAuthorizePost_effect)
  fix c u
  assume p: "policy_First (srv_unicode s) (w_now w) (srv_policy s) (no_context\<lparr>pc_User := Some u, pc_Client := Some c,
       pc_Password := FormValue r ''password''\<rparr>) = None" "\<not> u_MFAEnabled u"
    and "c \<in> set (clients (w_db w))" "u \<in> set (users (w_db w))"
    "c_ClientID c = FormValue r ''client_id''" "validRedirectURI c (FormValue r ''redirect_uri'')"
    "\<forall>sc\<in>set (splitScopes (FormValue r ''scope'')). containsStr (c_Scopes c) sc"
    "u_Email u = ToLower (TrimSpace (FormValue r ''email''))"
    "CheckPassword s (u_PasswordHash u) (FormValue r ''password'')" "u_Active u"
    "code_issued s (w_db w) (w_now w) u c (FormValue r ''redirect_uri'') (splitScopes (FormValue r ''scope''))
      (FormValue r ''code_challenge'') None (w_db w')"
  with default_rules_password [OF p(1)[unfolded assms(3)] p(2)] show ?thesis
    by (intro exI [of _ c] exI [of _ u]) simp
qed

definition public_world :: world where
  "public_world = demo_world\<lparr>w_db := demo_db\<lparr>clients := [demo_client\<lparr>c_Public := True\<rparr>, demo_portal]\<rparr>\<rparr>"

definition login_request :: request where
  "login_request = demo_request [(''client_id'', ''app''), (''redirect_uri'', ''https://rp/cb''), (''scope'', ''openid''),
     (''email'', ''a@b.c''), (''password'', ''Correct-Horse-1''), (''code_challenge'', ''ch'')]"

lemma login_strings:
  "ToLower (TrimSpace ''a@b.c'') = ''a@b.c''" "splitScopes ''openid'' = [''openid'']"
  "scan_classes demo_unicode (string_runes ''Correct-Horse-1'') (False, False, False, False) = (True, True, True, True)"
  by code_simp+

lemma login_redirect: "validRedirectURI (c\<lparr>c_Public := True\<rparr>) u = validRedirectURI c u"
  by (simp add: validRedirectURI_def)

lemma demo_redirect: "validRedirectURI demo_client ''https://rp/cb''" "Parse ''https://rp/cb'' \<noteq> None"
  by code_simp+

lemmas mfa_store_eval = GetTOTPByUserID_def ListWebAuthnCredentials_def UpdateWebAuthnCredentialUse_def GetWebAuthnSession_def
  DeleteWebAuthnSession_def sql_delete_def

lemmas policy_eval = DefaultPCIRules_def eval_MFARequired_def eval_AccountLockout_def eval_PasswordAge_def eval_PasswordComplexity_def
  eval_SessionIdle_def eval_ClientSecretAge_def containsScope_def no_context_def first_violation_same

lemma login_policy:
  "policy_First demo_unicode demo_now DefaultPCIRules (no_context\<lparr>pc_User := Some demo_user,
     pc_Client := Some (demo_client\<lparr>c_Public := True\<rparr>), pc_Password := ''Correct-Horse-1''\<rparr>) = None"
  by (simp add: policy_eval login_strings demo_user_def demo_client_def duration_defs)

lemma login_run:
  "length (grants (w_db (snd (run_state (handleAuthorizePost demo_server login_request) public_world)))) = 2"
proof -
  have c: "run_state (store (GetClientByClientID ''app'')) public_world = (Inr (demo_client\<lparr>c_Public := True\<rparr>), public_world)"
    by (simp add: public_world_def demo_defs demo_eval)
  have u: "run_state (store (GetUserByEmail ''a@b.c'')) public_world = (Inr demo_user, public_world)"
    by (simp add: public_world_def demo_defs demo_eval)
  have form: "FormValue login_request ''client_id'' = ''app''" "FormValue login_request ''redirect_uri'' = ''https://rp/cb''"
    "FormValue login_request ''scope'' = ''openid''" "FormValue login_request ''email'' = ''a@b.c''"
    "FormValue login_request ''password'' = ''Correct-Horse-1''" "\<not> rq_badForm login_request"
    by (simp_all add: login_request_def demo_request_def FormValue_def lookup_or_empty_def)
  have sc: "containsStr (c_Scopes demo_client) ''openid''"
    by code_simp
  have pw: "CheckPassword demo_server (u_PasswordHash demo_user) ''Correct-Horse-1''" "u_Active demo_user" "\<not> u_MFAEnabled demo_user"
    by (simp_all add: demo_defs CheckPassword_def)
  have pol: "policy_First (srv_unicode demo_server) (w_now public_world) (srv_policy demo_server) (no_context\<lparr>pc_User := Some demo_user,
     pc_Client := Some (demo_client\<lparr>c_Public := True\<rparr>), pc_Password := ''Correct-Horse-1''\<rparr>) = None"
    using login_policy by (simp add: demo_server_def public_world_def demo_world_def)
  have acc: "length (grants (w_db (snd (run_state (authorize_accepted demo_server login_request (demo_client\<lparr>c_Public := True\<rparr>) demo_user) public_world)))) = 2"
    by (simp add: authorize_accepted_def ensurePortalCookie_def switch_user_def readAuthPortalSession_def read_cookie_def
      setPortalCookie_def seal_cookie_def portal_session_def issueCodeAndRedirect_def new_grant_def logAudit_def
      public_world_def login_request_def demo_defs demo_eval)
  show ?thesis
    unfolding handleAuthorizePost_def
    by (simp add: form Let_def login_strings c u demo_redirect login_redirect sc pw pol acc)
qed

theorem password_code_sound_witness:
  "\<exists>c u. c \<in> set (clients (w_db public_world)) \<and> c_Public c \<and> u \<in> set (users (w_db public_world)) \<and>
     CheckPassword demo_server (u_PasswordHash u) (FormValue login_request ''password'')"
proof -
  obtain resp w' where run: "run_state (handleAuthorizePost demo_server login_request) public_world = (resp, w')" by fastforce
  have ch: "grants (w_db w') \<noteq> grants (w_db public_world)"
    using login_run run by (auto simp: public_world_def demo_db_def)
  have pol: "srv_policy demo_server = DefaultPCIRules" by (simp add: demo_server_def)
  from password_code_sound [OF run ch pol] show ?thesis by blast
qed


text \<open>C6. A code from the TOTP form: the sealed state cookie of the login was presented before it
  expired, its user has an enabled TOTP credential and the given code is valid for its secret at this
  moment; the one stored code is for that user and for the client, redirect URI, scopes and
  challenge of the cookie, with the time of this verification as its MFA time.\<close>

theorem totp_code_sound:
  assumes "run_state (handleMFATOTPPost s r) w = (resp, w')" "grants (w_db w') \<noteq> grants (w_db w)"
  shows "\<exists>c u st b. read_cookie r authStateCookie = Opened b \<and> box_state b = Some st \<and> w_now w \<le> st_Exp st \<and>
    c \<in> set (clients (w_db w)) \<and> c_ClientID c = st_ClientID st \<and> u \<in> set (users (w_db w)) \<and> u_ID u = st_UserID st \<and>
    totp_checked s (w_db w) (w_now w) (u_ID u) (FormValue r ''code'') \<and>
    code_issued s (w_db w) (w_now w) u c (st_RedirectURI st) (st_Scopes st) (st_CodeChallenge st)
      (Some (w_now w)) (w_db w')"
  using assms by (rule handleMFATOTPPost_effect) blast

definition demo_state :: authState where
  "demo_state = \<lparr>st_UserID = 10, st_AuthTime = demo_now, st_MFAVerified = False, st_MFAAMR = [], st_ClientID = ''app'',
     st_RedirectURI = ''https://rp/cb'', st_Scopes = [''openid''], st_State = ''s'', st_Nonce = ''n'',
     st_CodeChallenge = ''ch'', st_Exp = demo_now + 15 * minute\<rparr>"

definition demo_totp :: TOTPCredential where
  "demo_totp = \<lparr>t_ID = 50, t_UserID = 10, t_EncryptedSecret = ''secret'', t_EncryptedDEK = ''dek'', t_Enabled = True,
     t_CreatedAt = demo_now\<rparr>"

definition mfa_world :: world where
  "mfa_world = demo_world\<lparr>w_db := demo_db\<lparr>totps := [demo_totp], users := [demo_user\<lparr>u_MFAEnabled := True\<rparr>]\<rparr>\<rparr>"

definition totp_request :: request where
  "totp_request = (demo_request [(''code'', ''123456'')])\<lparr>rq_cookies := [(''auth_state'', Some (BoxState demo_state))]\<rparr>"

lemma totp_run:
  "length (grants (w_db (snd (run_state (handleMFATOTPPost demo_server totp_request) mfa_world)))) = 2"
  by (simp add: handleMFATOTPPost_def getAuthStateCookie_def authStateCookie_def clearCookie_def VerifyTOTP_def decryptTOTPSecret_def
      validateTOTP_def ensurePortalCookie_def switch_user_def readAuthPortalSession_def read_cookie_def portalCookie_def
      setPortalCookie_def seal_cookie_def portal_session_def issueCodeAndRedirect_def new_grant_def logAudit_def
      mfa_store_eval mfa_world_def demo_totp_def demo_state_def totp_request_def demo_defs demo_eval duration_defs)

theorem totp_code_sound_witness:
  "\<exists>u c. u \<in> set (users (w_db mfa_world)) \<and> totp_checked demo_server (w_db mfa_world) demo_now (u_ID u) ''123456'' \<and>
     c \<in> set (clients (w_db mfa_world))"
proof -
  obtain resp w' where run: "run_state (handleMFATOTPPost demo_server totp_request) mfa_world = (resp, w')" by fastforce
  have ch: "grants (w_db w') \<noteq> grants (w_db mfa_world)"
    using totp_run run by (auto simp: mfa_world_def demo_db_def)
  have eqs: "w_now mfa_world = demo_now" "FormValue totp_request ''code'' = ''123456''"
    by (simp_all add: mfa_world_def demo_world_def totp_request_def demo_request_def FormValue_def lookup_or_empty_def)
  from totp_code_sound [OF run ch] show ?thesis unfolding eqs by blast
qed

text \<open>C7. A code after a security key: the sealed state cookie was presented before it expired, and a
  login ceremony begun for its user within its time limit was completed with an assertion the WebAuthn library
  accepts for one of the user's registered keys, without a clone warning; the one stored code is for
  the user, client, redirect URI, scopes and challenge of the cookie.\<close>

theorem webauthn_code_sound:
  assumes "run_state (handleSSOWebAuthnFinish s r) w = (resp, w')" "grants (w_db w') \<noteq> grants (w_db w)"
  shows "\<exists>c u st b wid. read_cookie r authStateCookie = Opened b \<and> box_state b = Some st \<and> w_now w \<le> st_Exp st \<and>
    c \<in> set (clients (w_db w)) \<and> c_ClientID c = st_ClientID st \<and> u \<in> set (users (w_db w)) \<and> u_ID u = st_UserID st \<and>
    assertion_checked s (w_db w) (w_now w) u wid (rq_body r) \<and>
    code_issued s (w_db w) (w_now w) u c (st_RedirectURI st) (st_Scopes st) (st_CodeChallenge st)
      (Some (w_now w)) (w_db w')"
  using assms by (rule handleSSOWebAuthnFinish_effect) blast

definition key_world :: world where
  "key_world = demo_world\<lparr>w_db := demo_db\<lparr>
     webauthns := [\<lparr>wc_ID = 60, wc_UserID = 10, wc_CredentialID = ''key'', wc_PublicKey = ''pub'', wc_AAGUID = ''aaguid'', wc_SignCount = 1,
       wc_BackupEligible = Some False, wc_BackupState = False, wc_DeviceName = ''k'', wc_CreatedAt = demo_now, wc_LastUsedAt = demo_now\<rparr>],
     wa_sessions := [\<lparr>ws_ID = 4, ws_UserID = 10, ws_Data = ''data'', ws_Purpose = ''login'', ws_ExpiresAt = demo_now + minute\<rparr>]\<rparr>\<rparr>"

definition key_request :: request where
  "key_request = (demo_request [])\<lparr>rq_cookies := [(''auth_state'', Some (BoxState demo_state))], rq_query := [(''session_id'', ''four'')]\<rparr>"

lemma key_run:
  "length (grants (w_db (snd (run_state (handleSSOWebAuthnFinish demo_server key_request) key_world)))) = 2"
  by (simp add: handleSSOWebAuthnFinish_def getAuthStateCookie_def authStateCookie_def clearCookie_def FinishLogin_def record_use_def
      adoptLegacyBackupEligible_def modelToWACreds_def ensurePortalCookie_def switch_user_def readAuthPortalSession_def read_cookie_def
      portalCookie_def setPortalCookie_def seal_cookie_def portal_session_def new_grant_def logAudit_def
      mfa_store_eval key_world_def demo_state_def key_request_def current_timestamp_def demo_defs demo_eval duration_defs)

theorem webauthn_code_sound_witness:
  "\<exists>u wid. u \<in> set (users (w_db key_world)) \<and> assertion_checked demo_server (w_db key_world) demo_now u wid (rq_body key_request)"
proof -
  obtain resp w' where run: "run_state (handleSSOWebAuthnFinish demo_server key_request) key_world = (resp, w')" by fastforce
  have ch: "grants (w_db w') \<noteq> grants (w_db key_world)"
    using key_run run by (auto simp: key_world_def demo_db_def)
  have eqs: "w_now key_world = demo_now" by (simp add: key_world_def demo_world_def)
  from webauthn_code_sound [OF run ch] show ?thesis unfolding eqs by blast
qed


definition silent_world :: world where
  "silent_world = demo_world\<lparr>w_db := demo_db\<lparr>sessions := [demo_session\<lparr>s_ClientID := portalClientUUID, s_MFAVerified := True,
     s_MFAVerifiedAt := Some demo_now\<rparr>]\<rparr>\<rparr>"

definition silent_request :: request where
  "silent_request = (demo_request [])\<lparr>rq_cookies := [(''auth_portal'', Some (BoxToken ''acc''))],
     rq_query := [(''client_id'', ''app''), (''redirect_uri'', ''https://rp/cb''), (''scope'', ''openid''), (''code_challenge'', ''ch'')]\<rparr>"

lemma silent_run:
  "length (grants (w_db (snd (run_state (handleAuthorizeGET demo_server silent_request) silent_world)))) = 2"
proof -
  have c: "run_state (store (GetClientByClientID ''app'')) silent_world = (Inr demo_client, silent_world)"
    by (simp add: silent_world_def demo_defs demo_eval)
  have q: "QueryGet silent_request ''client_id'' = ''app''" "QueryGet silent_request ''redirect_uri'' = ''https://rp/cb''"
    "QueryGet silent_request ''scope'' = ''openid''" "QueryGet silent_request ''prompt'' = []"
    by (simp_all add: silent_request_def demo_request_def QueryGet_def lookup_or_empty_def)
  have sc: "containsStr (c_Scopes demo_client) ''openid''" by code_simp
  have "length (grants (w_db (snd (run_state (trySilentSSO demo_server silent_request demo_client) silent_world)))) = 2"
    by (simp add: trySilentSSO_def readAuthPortalSession_def read_cookie_def portalCookie_def silent_issue_def slidePortalSession_def
        setPortalCookie_def seal_cookie_def max_age_exceeded_def issueCodeAndRedirect_def new_grant_def logAudit_def policy_eval
        silent_world_def silent_request_def capByAbsolute_def silent_mfaAt_def box_token_def demo_defs demo_eval duration_defs ttl_defs login_strings)
  then show ?thesis
    unfolding handleAuthorizeGET_def
    by (cases "run_state (trySilentSSO demo_server silent_request demo_client) silent_world")
       (simp add: q Let_def login_strings c demo_redirect sc)
qed



subsection \<open>The device flow\<close>

text \<open>C17. A device code that yields tokens belonged to the named client, had not expired and had been approved by a
  user who is still active; the grant is redeemed by the same request, and exactly one session is stored, for the
  approver with the scopes of the grant and the MFA state recorded at the approval.\<close>

theorem device_redemption_sound:
  assumes "run_state (handleTokenDeviceCode s r) w = (RJSON 200 body, w')"
  shows "\<exists>c g u sess. c \<in> set (clients (w_db w)) \<and> c_ClientID c = FormValue r ''client_id'' \<and>
    g \<in> set (device_grants (w_db w)) \<and> d_DeviceCodeHash g = HashToken s (FormValue r ''device_code'') \<and>
    d_ClientID g = c_ID c \<and> w_now w \<le> d_ExpiresAt g \<and> d_Status g = DeviceGrantStatusApproved \<and>
    u \<in> set (users (w_db w)) \<and> d_UserID g = Some (u_ID u) \<and> u_Active u \<and>
    w_db w' = (snd (MarkDeviceGrantRedeemed (d_ID g) (w_db w)))\<lparr>sessions := sessions (w_db w) @ [sess]\<rparr> \<and>
    device_spent (d_ID g) (w_db w') \<and> minted s body sess \<and> s_UserID sess = u_ID u \<and> s_ClientID sess = c_ID c \<and>
    s_Scopes sess = d_Scopes g \<and> s_MFAVerified sess = d_MFAVerified g \<and> s_MFAVerifiedAt sess = d_MFAVerifiedAt g"
proof -
  from assms obtain c g w1 where *: "c \<in> set (clients (w_db w))" "c_ClientID c = FormValue r ''client_id''"
    "g \<in> set (device_grants (w_db w))" "d_DeviceCodeHash g = HashToken s (FormValue r ''device_code'')"
    "d_ClientID g = c_ID c" "w_now w \<le> d_ExpiresAt g" "d_Status g = DeviceGrantStatusApproved"
    and w1: "w_db w1 = w_db w" and run: "run_state (redeem_device s r c g) w1 = (RJSON 200 body, w')"
    by (rule handleTokenDeviceCode_success)
  have "device_spent i (d\<lparr>sessions := t\<rparr>) = device_spent i d" for i d t by (simp add: device_spent_def)
  moreover have "fst (MarkDeviceGrantRedeemed (d_ID g) (w_db w)) = Inr () \<Longrightarrow>
      device_spent (d_ID g) (snd (MarkDeviceGrantRedeemed (d_ID g) (w_db w)))"
    by (rule device.spends) simp_all
  ultimately show ?thesis
    using redeem_device_success [OF run, unfolded w1] *
    by (elim exE conjE) (intro exI [of _ c] exI [of _ g], auto)
qed

definition demo_device :: DeviceGrant where
  "demo_device = \<lparr>d_ID = 70, d_DeviceCodeHash = ''hdev'', d_UserCodeHash = ''huser'', d_ClientID = 20, d_Scopes = [''openid''],
     d_Status = DeviceGrantStatusApproved, d_UserID = Some 10, d_MFAVerified = True, d_MFAVerifiedAt = Some demo_now,
     d_ApproverIP = ''ip'', d_IntervalSec = 5, d_LastPolledAt = None, d_CreatedAt = demo_now, d_ExpiresAt = demo_now + 15 * minute\<rparr>"

definition device_world :: world where
  "device_world = demo_world\<lparr>w_db := demo_db\<lparr>device_grants := [demo_device]\<rparr>\<rparr>"

definition device_request :: request where
  "device_request = demo_request [(''client_id'', ''app''), (''device_code'', ''dev'')]"

lemmas device_store_eval = GetDeviceGrantByDeviceCodeHash_def MarkDeviceGrantRedeemed_def device_transition_def device_hit_def

lemma device_run: "\<exists>body w'. run_state (handleTokenDeviceCode demo_server device_request) device_world = (RJSON 200 body, w')"
  by (simp add: handleTokenDeviceCode_def redeem_device_def mintTokenResponseWithMFAAt_def mint_session_def groups_claim_def logAudit_def
      device_store_eval device_world_def demo_device_def device_request_def token_fields_def seconds_int_def
      demo_defs demo_eval duration_defs ttl_defs)

theorem device_redemption_sound_witness:
  "\<exists>g u. g \<in> set (device_grants (w_db device_world)) \<and> u \<in> set (users (w_db device_world)) \<and> d_UserID g = Some (u_ID u) \<and> u_Active u"
proof -
  obtain body w' where run: "run_state (handleTokenDeviceCode demo_server device_request) device_world = (RJSON 200 body, w')"
    using device_run by blast
  from device_redemption_sound [OF run] show ?thesis by blast
qed

text \<open>C18. The requests of the device flow move a grant only forward: it stays stored with its codes, client,
  scopes and expiry, goes from pending to approved or denied and from approved to redeemed, and
  never leaves the denied or the redeemed state.\<close>

theorem device_states_forward:
  assumes "m \<in> {handleDeviceAuthorization s r, handleTokenDeviceCode s r, portalAuth s (\<lambda>sess u. handleDevice s r) r,
      portalAuth s (handleDeviceConfirm s r) r}"
    and "run_state m w = (resp, w')" "g \<in> set (device_grants (w_db w))"
  shows "\<exists>g'\<in>set (device_grants (w_db w')). d_ID g' = d_ID g \<and> d_DeviceCodeHash g' = d_DeviceCodeHash g \<and>
    d_ClientID g' = d_ClientID g \<and> d_Scopes g' = d_Scopes g \<and> d_ExpiresAt g' = d_ExpiresAt g \<and>
    device_next\<^sup>*\<^sup>* (d_Status g) (d_Status g') \<and>
    (d_Status g = DeviceGrantStatusRedeemed \<longrightarrow> d_Status g' = DeviceGrantStatusRedeemed) \<and>
    (d_Status g = DeviceGrantStatusDenied \<longrightarrow> d_Status g' = DeviceGrantStatusDenied)"
proof -
  have "always (on_db device_forward) m" using assms(1) by (auto intro: fw_device fw_portalAuth)
  from alwaysD [OF this assms(2)] assms(3) obtain g' where "g' \<in> set (device_grants (w_db w'))" "moved g g'"
    by (auto simp: on_db_def device_forward_def)
  then show ?thesis by (intro bexI [of _ g']) (auto simp: moved_def device_terminal)
qed

theorem device_states_forward_witness:
  "\<exists>g'\<in>set (device_grants (w_db (snd (run_state (handleTokenDeviceCode demo_server device_request) device_world)))).
     d_ID g' = 70 \<and> device_next\<^sup>*\<^sup>* DeviceGrantStatusApproved (d_Status g')"
proof -
  have m: "handleTokenDeviceCode demo_server device_request \<in> {handleDeviceAuthorization demo_server device_request,
     handleTokenDeviceCode demo_server device_request, portalAuth demo_server (\<lambda>sess u. handleDevice demo_server device_request) device_request,
     portalAuth demo_server (handleDeviceConfirm demo_server device_request) device_request}" by simp
  have g: "demo_device \<in> set (device_grants (w_db device_world))" "d_ID demo_device = 70" "d_Status demo_device = DeviceGrantStatusApproved"
    by (simp_all add: device_world_def demo_device_def)
  from device_states_forward [OF m surjective_pairing g(1)] show ?thesis unfolding g by blast
qed

text \<open>A poll of a pending grant is recorded with its time and answered \<open>authorization_pending\<close>; a poll
  sooner than the interval is answered \<open>slow_down\<close> and raises the interval by five seconds. Nothing
  else changes.\<close>

lemma device_poll_backoff:
  assumes "w_faults w = []" "wf_db (w_db w)" "c \<in> set (clients (w_db w))" "g \<in> set (device_grants (w_db w))"
    "c_ClientID c = FormValue r ''client_id''" "FormValue r ''client_id'' \<noteq> []"
    "FormValue r ''device_code'' \<noteq> []" "d_DeviceCodeHash g = HashToken s (FormValue r ''device_code'')"
    "d_ClientID g = c_ID c" "w_now w \<le> d_ExpiresAt g" "d_Status g = DeviceGrantStatusPending"
  shows "run_state (handleTokenDeviceCode s r) w =
    (if polled_too_soon (w_now w) g then writeError 400 ''slow_down'' ''polling too frequently; back off''
     else writeError 400 ''authorization_pending'' ''waiting for user to approve'',
     w\<lparr>w_db := snd (UpdateDeviceGrantPoll (d_ID g) (w_now w)
        (d_IntervalSec g + (if polled_too_soon (w_now w) g then 5 else 0)) (w_db w))\<rparr>)"
  using assms by (rule handleTokenDeviceCode_pending)

definition pending_device :: DeviceGrant where
  "pending_device = demo_device\<lparr>d_Status := DeviceGrantStatusPending, d_UserID := None, d_LastPolledAt := Some (demo_now - second)\<rparr>"

definition pending_world :: world where
  "pending_world = demo_world\<lparr>w_db := demo_db\<lparr>device_grants := [pending_device]\<rparr>\<rparr>"

theorem device_poll_backoff_witness:
  "fst (run_state (handleTokenDeviceCode demo_server device_request) pending_world) =
     writeError 400 ''slow_down'' ''polling too frequently; back off''"
proof -
  have a: "w_faults pending_world = []" "wf_db (w_db pending_world)" "demo_client \<in> set (clients (w_db pending_world))"
    "pending_device \<in> set (device_grants (w_db pending_world))"
    by (simp_all add: pending_world_def pending_device_def demo_device_def demo_defs wf_defs uniq_defs fk_defs)
  have b: "c_ClientID demo_client = FormValue device_request ''client_id''" "FormValue device_request ''client_id'' \<noteq> []"
    "FormValue device_request ''device_code'' \<noteq> []"
    "d_DeviceCodeHash pending_device = HashToken demo_server (FormValue device_request ''device_code'')"
    by (simp_all add: device_request_def pending_device_def demo_device_def demo_defs demo_eval)
  have c: "d_ClientID pending_device = c_ID demo_client" "w_now pending_world \<le> d_ExpiresAt pending_device"
    "d_Status pending_device = DeviceGrantStatusPending" "polled_too_soon (w_now pending_world) pending_device"
    by (simp_all add: pending_device_def demo_device_def pending_world_def demo_defs polled_too_soon_def duration_defs)
  show ?thesis using device_poll_backoff [OF a b c(1-3)] c(4) by simp
qed

text \<open>A user code survives being typed by hand: in lower case, without its hyphen, or with a blank, a
  hyphen or a tab inserted anywhere, it normalises to the same eight characters whose hash the grant stores.\<close>

theorem user_code_roundtrip:
  "normalizeUserCode (user_code_loop 0 bs) = map user_code_char bs \<and>
   normalizeUserCode (ToLower (user_code_loop 0 bs)) = map user_code_char bs \<and>
   normalizeUserCode (map user_code_char bs) = map user_code_char bs \<and>
   (c \<in> {CHR '' '', CHR ''-'', CHR 0x09} \<longrightarrow> user_code_loop 0 bs = p @ q \<longrightarrow> normalizeUserCode (p @ c # q) = map user_code_char bs)"
proof -
  have "normalizeUserCode (map user_code_char bs) = map user_code_char bs"
    using alphabet_upper [OF user_code_chars] by (simp add: normalizeUserCode_map filter_id_conv comp_def)
  moreover have "normalizeUserCode (p @ q) = map user_code_char bs" if "user_code_loop 0 bs = p @ q"
    using normalizeUserCode_generated [of 0 bs] that by simp
  ultimately show ?thesis
    by (auto simp: normalizeUserCode_generated normalizeUserCode_ToLower normalizeUserCode_separator code_separator_def)
qed

theorem user_code_roundtrip_witness:
  "normalizeUserCode (''ab'' @ CHR '' '' # ''cd-efgh'') = normalizeUserCode ''ABCDEFGH''"
proof -
  have "user_code_loop 0 [0, 1, 2, 3, 4, 5, 6, 7] = ''AB'' @ ''CD-EFGH''" by code_simp
  then have "normalizeUserCode (''AB'' @ CHR '' '' # ''CD-EFGH'') = map user_code_char [0, 1, 2, 3, 4, 5, 6, 7]"
    using user_code_roundtrip [of "[0, 1, 2, 3, 4, 5, 6, 7]" "CHR '' ''" "''AB''" "''CD-EFGH''"] by blast
  moreover have "normalizeUserCode (''ab'' @ CHR '' '' # ''cd-efgh'') = normalizeUserCode (''AB'' @ CHR '' '' # ''CD-EFGH'')"
    "map user_code_char [0, 1, 2, 3, 4, 5, 6, 7] = normalizeUserCode ''ABCDEFGH''" by code_simp+
  ultimately show ?thesis by simp
qed

end
