(* ===== verification/Lockout.thy ===== *)
theory Lockout
  imports Login_Properties
begin

text \<open>
  Account lockout across a sequence of requests to the login form, and the reference definition of the
  password rule.
\<close>

subsection \<open>Sequences of login attempts\<close>

fun attempts :: "server \<Rightarrow> (time \<times> request) list \<Rightarrow> world \<Rightarrow> world" where
  "attempts s [] w = w"
| "attempts s ((t, r) # rs) w = attempts s rs (snd (run_state (handleAuthorizePost s r) (w\<lparr>w_now := t\<rparr>)))"

definition form_email :: "request \<Rightarrow> string" where
  "form_email r = ToLower (TrimSpace (FormValue r ''email''))"

definition wrong_password :: "server \<Rightarrow> string \<Rightarrow> request \<Rightarrow> db \<Rightarrow> bool" where
  "wrong_password s email r d \<longleftrightarrow> \<not> rq_badForm r \<and> form_email r = email \<and>
     (case fst (GetClientByClientID (FormValue r ''client_id'') d) of
        Inl e \<Rightarrow> False
      | Inr c \<Rightarrow> validRedirectURI c (FormValue r ''redirect_uri'') \<and> unregisteredScope c (splitScopes (FormValue r ''scope'')) = []) \<and>
     (case fst (GetUserByEmail email d) of Inl e \<Rightarrow> False | Inr u \<Rightarrow> \<not> CheckPassword s (u_PasswordHash u) (FormValue r ''password''))"

definition failed_once :: "time \<Rightarrow> User \<Rightarrow> User" where
  "failed_once now u = u\<lparr>u_FailedAttempts := u_FailedAttempts u + 1,
     u_LockedUntil := (if u_FailedAttempts u + 1 \<ge> 10 then Some (now + 30 * minute) else None), u_UpdatedAt := current_timestamp now\<rparr>"

lemma find_map_same: "(\<And>x. P (f x) = P x) \<Longrightarrow> find P (map f xs) = map_option f (find P xs)"
  by (induction xs) auto

lemma logAudit_faultless: "run_state (logAudit s r a u c meta) w = (x, w') \<Longrightarrow> w_db w' = w_db w \<and> (w_faults w = [] \<longrightarrow> w_faults w' = [])"
  by (auto simp: logAudit_def run_simps GetUserByID_def GetClientByID_def split: option.splits if_splits)

lemma wrong_password_run:
  assumes "w_faults w = []" "wrong_password s email r (w_db w)" "fst (GetUserByEmail email (w_db w)) = Inr u"
    "run_state (handleAuthorizePost s r) w = (resp, w')"
  shows "w_faults w' = []" "w_db w' = (w_db w)\<lparr>users := sql_update (\<lambda>v. u_ID v = u_ID u)
    (\<lambda>v. v\<lparr>u_FailedAttempts := u_FailedAttempts u + 1, u_LockedUntil := u_LockedUntil (failed_once (w_now w) u),
       u_UpdatedAt := current_timestamp (w_now w)\<rparr>) (users (w_db w))\<rparr>"
  using assms
  by (auto simp: handleAuthorizePost_def wrong_password_def form_email_def run_store Let_def login_failed_def incrementFailedAttempts_def
      failed_once_def UpdateUserFailedAttempts_def update_user_def
      split: sum.splits prod.splits dest!: logAudit_faultless)

lemma failed_login_step:
  assumes "w_faults w = []" "wrong_password s email r (w_db w)" "fst (GetUserByEmail email (w_db w)) = Inr u"
    "distinct (map u_Email (users (w_db w)))" "run_state (handleAuthorizePost s r) w = (resp, w')"
  shows "w_faults w' = []" "fst (GetUserByEmail email (w_db w')) = Inr (failed_once (w_now w) u)"
    "distinct (map u_Email (users (w_db w')))" "wrong_password s email r' (w_db w) \<Longrightarrow> wrong_password s email r' (w_db w')"
proof -
  let ?f = "\<lambda>v. if u_ID v = u_ID u then v\<lparr>u_FailedAttempts := u_FailedAttempts u + 1,
     u_LockedUntil := u_LockedUntil (failed_once (w_now w) u), u_UpdatedAt := current_timestamp (w_now w)\<rparr> else v"
  have db: "w_db w' = (w_db w)\<lparr>users := map ?f (users (w_db w))\<rparr>"
    using wrong_password_run(2) [OF assms(1,2,3,5)] by (simp add: sql_update_def)
  show "w_faults w' = []" by (rule wrong_password_run(1) [OF assms(1,2,3,5)])
  have u: "find (\<lambda>v. u_Email v = email) (users (w_db w)) = Some u"
    using assms(3) by (simp add: GetUserByEmail_def select_row_def split: option.splits)
  have "find (\<lambda>v. u_Email v = email) (map ?f (users (w_db w))) = map_option ?f (find (\<lambda>v. u_Email v = email) (users (w_db w)))"
    by (rule find_map_same) simp
  then show found: "fst (GetUserByEmail email (w_db w')) = Inr (failed_once (w_now w) u)"
    by (simp add: GetUserByEmail_def select_row_def db u failed_once_def)
  have "map u_Email (users (w_db w')) = map u_Email (users (w_db w))" unfolding db by simp
  then show "distinct (map u_Email (users (w_db w')))" using assms(4) by simp
  show "wrong_password s email r' (w_db w')" if "wrong_password s email r' (w_db w)"
    using that assms(3) found by (simp add: wrong_password_def GetClientByClientID_def db failed_once_def)
qed

lemma attempts_lock:
  assumes "w_faults w = []" "\<forall>(t, r) \<in> set rs. wrong_password s email r (w_db w)" "fst (GetUserByEmail email (w_db w)) = Inr u"
    "distinct (map u_Email (users (w_db w)))"
  shows "\<exists>u'. fst (GetUserByEmail email (w_db (attempts s rs w))) = Inr u' \<and> u_FailedAttempts u' = u_FailedAttempts u + int (length rs) \<and>
    (rs \<noteq> [] \<longrightarrow> u_LockedUntil u' = (if u_FailedAttempts u' \<ge> 10 then Some (fst (last rs) + 30 * minute) else None)) \<and>
    distinct (map u_Email (users (w_db (attempts s rs w))))"
  using assms
proof (induction rs arbitrary: w u)
  case (Cons a rs)
  obtain t r where a: "a = (t, r)" by fastforce
  obtain resp w' where run: "run_state (handleAuthorizePost s r) (w\<lparr>w_now := t\<rparr>) = (resp, w')" by (metis surj_pair)
  have "wrong_password s email r (w_db w)" using Cons.prems(2) a by simp
  note step = failed_login_step [of "w\<lparr>w_now := t\<rparr>", simplified, OF Cons.prems(1) this Cons.prems(3,4) run]
  have "\<forall>(t, r) \<in> set rs. wrong_password s email r (w_db w')" using Cons.prems(2) step(4) by auto
  from Cons.IH [OF step(1) this step(2,3)] obtain u' where
    u': "fst (GetUserByEmail email (w_db (attempts s rs w'))) = Inr u'" "u_FailedAttempts u' = u_FailedAttempts (failed_once t u) + int (length rs)"
    "rs \<noteq> [] \<longrightarrow> u_LockedUntil u' = (if u_FailedAttempts u' \<ge> 10 then Some (fst (last rs) + 30 * minute) else None)"
    "distinct (map u_Email (users (w_db (attempts s rs w'))))" by blast
  have "rs = [] \<Longrightarrow> u' = failed_once t u" using u'(1) step(2) by simp
  with u' show ?case
    by (intro exI [of _ u']) (cases "rs = []"; simp add: a run failed_once_def)
qed simp

text \<open>C19. Under the default policy, after ten or more consecutive wrong passwords for an account the login form
  issues no authorization code for that account, not even for the right password, until thirty minutes after the last of
  them.\<close>

theorem lockout_after_ten_failures:
  assumes "wf_db (w_db w)" "w_faults w = []" "srv_policy s = DefaultPCIRules"
    "fst (GetUserByEmail email (w_db w)) = Inr u" "0 \<le> u_FailedAttempts u"
    "10 \<le> length rs" "\<forall>(t, r) \<in> set rs. wrong_password s email r (w_db w)"
    "form_email r' = email" "now < fst (last rs) + 30 * minute"
    "run_state (handleAuthorizePost s r') ((attempts s rs w)\<lparr>w_now := now\<rparr>) = (resp, w')"
  shows "grants (w_db w') = grants (w_db (attempts s rs w))"
proof (rule ccontr)
  assume changed: "grants (w_db w') \<noteq> grants (w_db (attempts s rs w))"
  have "distinct (map u_Email (users (w_db w)))" using assms(1) by (simp add: wf_db_def uniq_db_def uniq_users_def)
  from attempts_lock [OF assms(2,7,4) this] obtain u' where
    u': "fst (GetUserByEmail email (w_db (attempts s rs w))) = Inr u'" "u_FailedAttempts u' = u_FailedAttempts u + int (length rs)"
    "rs \<noteq> [] \<longrightarrow> u_LockedUntil u' = (if u_FailedAttempts u' \<ge> 10 then Some (fst (last rs) + 30 * minute) else None)"
    "distinct (map u_Email (users (w_db (attempts s rs w))))" by blast
  then have locked: "u_LockedUntil u' = Some (fst (last rs) + 30 * minute)" using assms(5,6) by auto
  from assms(10) show False
  proof (rule handleAuthorizePost_effect)
    show "grants (w_db w') \<noteq> grants (w_db ((attempts s rs w)\<lparr>w_now := now\<rparr>))" using changed by simp
  next
    fix c v
    assume v0: "v \<in> set (users (w_db ((attempts s rs w)\<lparr>w_now := now\<rparr>)))" "u_Email v = ToLower (TrimSpace (FormValue r' ''email''))" "\<not> u_MFAEnabled v"
      and pol0: "policy_First (srv_unicode s) (w_now ((attempts s rs w)\<lparr>w_now := now\<rparr>)) (srv_policy s)
        (no_context\<lparr>pc_User := Some v, pc_Client := Some c, pc_Password := FormValue r' ''password''\<rparr>) = None"
    have v: "v \<in> set (users (w_db (attempts s rs w)))" "u_Email v = ToLower (TrimSpace (FormValue r' ''email''))" "\<not> u_MFAEnabled v"
      and pol: "policy_First (srv_unicode s) now (srv_policy s)
        (no_context\<lparr>pc_User := Some v, pc_Client := Some c, pc_Password := FormValue r' ''password''\<rparr>) = None"
      using v0 pol0 by simp_all
    have "v = u'"
      using u'(1,4) v(1,2) assms(8) distinct_key_eq by (fastforce simp: GetUserByEmail_def form_email_def dest!: select_row_Inr)
    with default_rules_password(2) [OF pol [unfolded assms(3)] v(3)] locked assms(9) show False by simp
  qed
qed

definition wrong_request :: request where
  "wrong_request = demo_request [(''client_id'', ''app''), (''redirect_uri'', ''https://rp/cb''), (''scope'', ''openid''),
     (''email'', ''a@b.c''), (''password'', ''guess''), (''code_challenge'', ''ch'')]"

lemma wrong_request_wrong: "wrong_password demo_server ''a@b.c'' wrong_request (w_db public_world)"
proof -
  have "FormValue wrong_request ''client_id'' = ''app''" "FormValue wrong_request ''redirect_uri'' = ''https://rp/cb''"
    "FormValue wrong_request ''scope'' = ''openid''" "FormValue wrong_request ''email'' = ''a@b.c''"
    "FormValue wrong_request ''password'' = ''guess''" "\<not> rq_badForm wrong_request"
    by (simp_all add: wrong_request_def demo_request_def FormValue_def lookup_or_empty_def)
  moreover have "fst (GetClientByClientID ''app'' (w_db public_world)) = Inr (demo_client\<lparr>c_Public := True\<rparr>)"
    "fst (GetUserByEmail ''a@b.c'' (w_db public_world)) = Inr demo_user" "\<not> CheckPassword demo_server (u_PasswordHash demo_user) ''guess''"
    "unregisteredScope (demo_client\<lparr>c_Public := True\<rparr>) [''openid''] = []"
    by (simp_all add: public_world_def demo_defs demo_eval)
  ultimately show ?thesis
    by (simp add: wrong_password_def form_email_def login_strings login_redirect demo_redirect)
qed

theorem lockout_after_ten_failures_witness:
  "let w = attempts demo_server (replicate 10 (demo_now, wrong_request)) public_world in
   grants (w_db (snd (run_state (handleAuthorizePost demo_server login_request) (w\<lparr>w_now := demo_now + minute\<rparr>)))) = grants (w_db w)"
proof -
  have "wf_db (w_db public_world)" "w_faults public_world = []" "srv_policy demo_server = DefaultPCIRules"
    "fst (GetUserByEmail ''a@b.c'' (w_db public_world)) = Inr demo_user" "0 \<le> u_FailedAttempts demo_user"
    by (simp_all add: public_world_def demo_defs demo_eval wf_defs uniq_defs fk_defs)
  moreover have "form_email login_request = ''a@b.c''"
    by (simp add: form_email_def login_request_def demo_request_def FormValue_def lookup_or_empty_def login_strings)
  moreover have "\<forall>(t, r) \<in> set (replicate 10 (demo_now, wrong_request)). wrong_password demo_server ''a@b.c'' r (w_db public_world)"
    using wrong_request_wrong by simp
  moreover have "demo_now + minute < fst (last (replicate 10 (demo_now, wrong_request))) + 30 * minute" "10 \<le> length (replicate 10 (demo_now, wrong_request))"
    by (simp_all add: duration_defs)
  ultimately show ?thesis
    unfolding Let_def by (intro lockout_after_ten_failures [OF _ _ _ _ _ _ _ _ _ surjective_pairing])
qed

subsection \<open>The password rule\<close>

text \<open>What the rule means: at least twelve bytes, and a rune of each of the four classes (each class without those
  before it).\<close>

definition strong_password :: "unicode_tables \<Rightarrow> string \<Rightarrow> bool" where
  "strong_password u p \<longleftrightarrow> 12 \<le> length p \<and> (let rs = string_runes p in
     (\<exists>c \<in> set rs. ut_IsUpper u c) \<and>
     (\<exists>c \<in> set rs. ut_IsLower u c \<and> \<not> ut_IsUpper u c) \<and>
     (\<exists>c \<in> set rs. ut_IsDigit u c \<and> \<not> ut_IsUpper u c \<and> \<not> ut_IsLower u c) \<and>
     (\<exists>c \<in> set rs. \<not> ut_IsUpper u c \<and> \<not> ut_IsLower u c \<and> \<not> ut_IsDigit u c \<and> \<not> ut_IsLetter u c))"

lemma scan_classes_spec:
  "scan_classes u cs (a, b, c, d) =
     (a \<or> (\<exists>x \<in> set cs. ut_IsUpper u x), b \<or> (\<exists>x \<in> set cs. ut_IsLower u x \<and> \<not> ut_IsUpper u x),
      c \<or> (\<exists>x \<in> set cs. ut_IsDigit u x \<and> \<not> ut_IsUpper u x \<and> \<not> ut_IsLower u x),
      d \<or> (\<exists>x \<in> set cs. \<not> ut_IsUpper u x \<and> \<not> ut_IsLower u x \<and> \<not> ut_IsDigit u x \<and> \<not> ut_IsLetter u x))"
  by (induction cs arbitrary: a b c d) auto

text \<open>The scan of the password rule accepts exactly the strong passwords (and the empty one, which stands for a
  context without a password).\<close>

theorem password_rule_exact:
  "eval_PasswordComplexity u ctx = None \<longleftrightarrow> pc_Password ctx = [] \<or> strong_password u (pc_Password ctx)"
  by (auto simp: eval_PasswordComplexity_def strong_password_def scan_classes_spec Let_def violation_def)

end
