(* ===== verification/Mfa_Api.thy ===== *)
theory Mfa_Api
  imports Authorize
begin

text \<open>
  The MFA endpoints of the bearer API, \<open>src/internal/api/mfa_api.go\<close>. Handlers behind
  \<open>bearerAuth\<close> take the session of the token. The members of a JSON body are read with
  \<open>body_str\<close>, \<open>body_bool\<close> and \<open>body_strs\<close>; a missing member is Go's zero value.
\<close>

definition body_str :: "(string \<times> json) list \<Rightarrow> string \<Rightarrow> string" where
  "body_str b k = (case map_of b k of Some (JStr s) \<Rightarrow> s | _ \<Rightarrow> [])"

definition body_bool :: "(string \<times> json) list \<Rightarrow> string \<Rightarrow> bool option" where
  "body_bool b k = (case map_of b k of Some (JBool v) \<Rightarrow> Some v | _ \<Rightarrow> None)"

definition body_strs :: "(string \<times> json) list \<Rightarrow> string \<Rightarrow> string list" where
  "body_strs b k = (case map_of b k of Some (JStrs v) \<Rightarrow> v | _ \<Rightarrow> [])"

text \<open>\<open>Decode\<close> followed by the check that the one expected member is not empty.\<close>

definition required_str :: "request \<Rightarrow> string \<Rightarrow> string option" where
  "required_str r k =
     (case rq_json r of
        None \<Rightarrow> None
      | Some b \<Rightarrow> if body_str b k = [] then None else Some (body_str b k))"

subsection \<open>TOTP\<close>

definition handleTOTPEnroll :: "server \<Rightarrow> request \<Rightarrow> Session \<Rightarrow> response act" where
  "handleTOTPEnroll s r sess = do {
     u \<leftarrow> store (GetUserByID (s_UserID sess));
     case u of
       Inl e \<Rightarrow> ret (writeError 500 ''server_error'' ''user not found'')
     | Inr user \<Rightarrow> do {
         x \<leftarrow> EnrollTOTP s user;
         ret (case x of
                Inl e \<Rightarrow> writeError 500 ''server_error'' ''enrollment failed''
              | Inr resp \<Rightarrow> RJSON 200 [(''credential_id'', JID (te_CredentialID resp)),
                  (''secret'', JStr (te_Secret resp)), (''otp_uri'', JStr (te_OTPURI resp))]) } }"

definition handleTOTPConfirm :: "server \<Rightarrow> request \<Rightarrow> Session \<Rightarrow> response act" where
  "handleTOTPConfirm s r sess =
     (case required_str r ''code'' of
        None \<Rightarrow> ret (writeError 400 ''invalid_request'' ''code required'')
      | Some code \<Rightarrow> do {
          x \<leftarrow> ConfirmTOTP s (s_UserID sess) code;
          case x of
            Inl e \<Rightarrow> ret (writeError 400 ''invalid_code'' (mfa_error_text e))
          | Inr z \<Rightarrow> do {
              y \<leftarrow> store_at (\<lambda>now. UpdateUserMFAEnabled now (s_UserID sess) True);
              ok \<leftarrow> logAudit s r ''mfa.totp.enrolled'' (Some (s_UserID sess)) None [];
              ret (if ok then RStatus 204 else auditFail) } })"

definition handleTOTPVerify :: "server \<Rightarrow> request \<Rightarrow> Session \<Rightarrow> response act" where
  "handleTOTPVerify s r sess =
     (case required_str r ''code'' of
        None \<Rightarrow> ret (writeError 400 ''invalid_request'' ''code required'')
      | Some code \<Rightarrow> do {
          x \<leftarrow> VerifyTOTP s (s_UserID sess) code;
          case x of
            Inl e \<Rightarrow> ret (writeError 400 ''invalid_code'' ''invalid TOTP code'')
          | Inr z \<Rightarrow> do {
              y \<leftarrow> store_at (\<lambda>now. UpdateSessionActivity (s_ID sess) now);
              ret (RJSON 200 [(''verified'', JBool True)]) } })"

definition handleTOTPDelete :: "server \<Rightarrow> request \<Rightarrow> Session \<Rightarrow> response act" where
  "handleTOTPDelete s r sess = do {
     ok \<leftarrow> logAudit s r ''mfa.totp.deleted'' (Some (s_UserID sess)) None [];
     if \<not> ok then ret auditFail
     else do {
       x \<leftarrow> store (DeleteTOTP (s_UserID sess));
       if x \<noteq> Inr () \<and> x \<noteq> Inl ErrNotFound then ret (writeError 500 ''server_error'' ''delete failed'')
       else do {
         y \<leftarrow> store_at (\<lambda>now. UpdateUserMFAEnabled now (s_UserID sess) False);
         ret (RStatus 204) } } }"

subsection \<open>WebAuthn\<close>

definition handleWebAuthnRegisterBegin :: "server \<Rightarrow> request \<Rightarrow> Session \<Rightarrow> response act" where
  "handleWebAuthnRegisterBegin s r sess = do {
     u \<leftarrow> store (GetUserByID (s_UserID sess));
     case u of
       Inl e \<Rightarrow> ret (writeError 500 ''server_error'' ''user not found'')
     | Inr user \<Rightarrow> do {
         b \<leftarrow> BeginRegistration s user;
         ret (case b of
                Inl e \<Rightarrow> writeError 500 ''server_error'' ''registration failed''
              | Inr (opt, sid) \<Rightarrow> RJSON 200 [(''options'', JStr opt), (''session_id'', JID sid)]) } }"

definition handleWebAuthnRegisterFinish :: "server \<Rightarrow> request \<Rightarrow> Session \<Rightarrow> response act" where
  "handleWebAuthnRegisterFinish s r sess =
     (case x_ParseUUID (srv_ext s) (QueryGet r ''session_id'') of
        None \<Rightarrow> ret (writeError 400 ''invalid_request'' ''invalid session_id'')
      | Some sessionID \<Rightarrow> do {
          u \<leftarrow> store (GetUserByID (s_UserID sess));
          case u of
            Inl e \<Rightarrow> ret (writeError 500 ''server_error'' ''user not found'')
          | Inr user \<Rightarrow> do {
              f \<leftarrow> FinishRegistration s user sessionID r (QueryGet r ''device_name'');
              case f of
                Inl e \<Rightarrow> ret (writeError 400 ''invalid_request'' (mfa_error_text e))
              | Inr cred \<Rightarrow> do {
                  y \<leftarrow> store_at (\<lambda>now. UpdateUserMFAEnabled now (s_UserID sess) True);
                  ok \<leftarrow> logAudit s r ''mfa.webauthn.enrolled'' (Some (s_UserID sess)) None [(''credential_id'', JID (wc_ID cred))];
                  ret (if ok then RJSON 200 [(''id'', JID (wc_ID cred)), (''device_name'', JStr (wc_DeviceName cred))]
                       else auditFail) } } })"

definition handleWebAuthnLoginBegin :: "server \<Rightarrow> request \<Rightarrow> response act" where
  "handleWebAuthnLoginBegin s r =
     (case required_str r ''email'' of
        None \<Rightarrow> ret (writeError 400 ''invalid_request'' ''email required'')
      | Some email \<Rightarrow> do {
          u \<leftarrow> store (GetUserByEmail email);
          case u of
            Inl e \<Rightarrow> ret (writeError 400 ''invalid_request'' ''no WebAuthn credentials registered'')
          | Inr user \<Rightarrow> do {
              b \<leftarrow> BeginLogin s user;
              ret (case b of
                     Inl e \<Rightarrow> writeError 400 ''invalid_request'' (mfa_error_text e)
                   | Inr (opt, sid) \<Rightarrow> RJSON 200 [(''options'', JStr opt), (''session_id'', JID sid),
                       (''user_id'', JID (u_ID user))]) } })"

definition handleWebAuthnLoginFinish :: "server \<Rightarrow> request \<Rightarrow> response act" where
  "handleWebAuthnLoginFinish s r =
     (case x_ParseUUID (srv_ext s) (QueryGet r ''session_id'') of
        None \<Rightarrow> ret (writeError 400 ''invalid_request'' ''invalid session_id'')
      | Some sessionID \<Rightarrow>
          (case x_ParseUUID (srv_ext s) (QueryGet r ''user_id'') of
             None \<Rightarrow> ret (writeError 400 ''invalid_request'' ''invalid user_id'')
           | Some userID \<Rightarrow> do {
               u \<leftarrow> store (GetUserByID userID);
               case u of
                 Inl e \<Rightarrow> ret (writeError 401 ''invalid_request'' ''user not found'')
               | Inr user \<Rightarrow> do {
                   f \<leftarrow> FinishLogin s user sessionID r;
                   case f of
                     Inl e \<Rightarrow> ret (writeError 401 ''invalid_request'' ''WebAuthn verification failed'')
                   | Inr amr \<Rightarrow> do {
                       ok \<leftarrow> logAudit s r ''auth.login.mfa'' (Some (u_ID user)) None [(''method'', JStr ''webauthn'')];
                       ret (if ok then RJSON 200 [(''verified'', JBool True)] else auditFail) } } }))"

definition handleWebAuthnDelete :: "server \<Rightarrow> request \<Rightarrow> Session \<Rightarrow> response act" where
  "handleWebAuthnDelete s r sess =
     (case rq_pathID r of
        None \<Rightarrow> ret (writeError 400 ''invalid_request'' ''invalid credential id'')
      | Some credID \<Rightarrow> do {
          o1 \<leftarrow> store (ListWebAuthnCredentials (s_UserID sess));
          if \<not> list_ex (\<lambda>c. wc_ID c = credID) (list_or_empty o1)
          then ret (writeError 404 ''not_found'' ''credential not found'')
          else do {
            ok \<leftarrow> logAudit s r ''mfa.webauthn.deleted'' (Some (s_UserID sess)) None [(''credential_id'', JID credID)];
            if \<not> ok then ret auditFail
            else do {
              x \<leftarrow> store (DeleteWebAuthnCredential credID (s_UserID sess));
              case x of
                Inl ErrNotFound \<Rightarrow> ret (writeError 404 ''not_found'' ''credential not found'')
              | Inl e \<Rightarrow> ret (writeError 500 ''server_error'' ''delete failed'')
              | Inr z \<Rightarrow> do {
                  l \<leftarrow> store (ListWebAuthnCredentials (s_UserID sess));
                  t \<leftarrow> store (GetTOTPByUserID (s_UserID sess));
                  (if list_or_empty l = [] \<and> (case t of Inl e \<Rightarrow> True | Inr c \<Rightarrow> False) then do {
                     y \<leftarrow> store_at (\<lambda>now. UpdateUserMFAEnabled now (s_UserID sess) False);
                     ret () }
                   else ret ());
                  ret (RStatus 204) } } } })"

subsection \<open>Invariants\<close>

lemma wf_mfa_api:
  "keeps_wf (handleTOTPEnroll s r sess)" "keeps_wf (handleTOTPConfirm s r sess)" "keeps_wf (handleTOTPVerify s r sess)"
  "keeps_wf (handleTOTPDelete s r sess)" "keeps_wf (handleWebAuthnRegisterBegin s r sess)"
  "keeps_wf (handleWebAuthnRegisterFinish s r sess)" "keeps_wf (handleWebAuthnLoginBegin s r)"
  "keeps_wf (handleWebAuthnLoginFinish s r)" "keeps_wf (handleWebAuthnDelete s r sess)"
  unfolding handleTOTPEnroll_def handleTOTPConfirm_def handleTOTPVerify_def handleTOTPDelete_def
    handleWebAuthnRegisterBegin_def handleWebAuthnRegisterFinish_def handleWebAuthnLoginBegin_def
    handleWebAuthnLoginFinish_def handleWebAuthnDelete_def
  by ((intro wf.db_rules wf_mfa wf.VerifyTOTP_db)?; (simp_all add: store_wf)?)+

lemma cap_mfa_api:
  "keeps_cap (handleTOTPEnroll s r sess)" "keeps_cap (handleTOTPConfirm s r sess)" "keeps_cap (handleTOTPVerify s r sess)"
  "keeps_cap (handleTOTPDelete s r sess)" "keeps_cap (handleWebAuthnRegisterBegin s r sess)"
  "keeps_cap (handleWebAuthnRegisterFinish s r sess)" "keeps_cap (handleWebAuthnLoginBegin s r)"
  "keeps_cap (handleWebAuthnLoginFinish s r)" "keeps_cap (handleWebAuthnDelete s r sess)"
  unfolding handleTOTPEnroll_def handleTOTPConfirm_def handleTOTPVerify_def handleTOTPDelete_def
    handleWebAuthnRegisterBegin_def handleWebAuthnRegisterFinish_def handleWebAuthnLoginBegin_def
    handleWebAuthnLoginFinish_def handleWebAuthnDelete_def
  by ((intro cap.db_rules cap.mfa_core cap.VerifyTOTP_db)?; (simp_all add: cap_deletes cap_frames cap_session_updates)?)+

end
