(* ===== verification/Admin.thy ===== *)
theory Admin
  imports Mfa_Api
begin

text \<open>
  The administration API, \<open>src/internal/api/admin.go\<close>; every handler runs behind
  \<open>adminAuth\<close>. Creations are audited after the row exists and undone when the journal
  refuses the entry; destructive operations are audited first.
\<close>

subsection \<open>Views\<close>

definition toUserView :: "User \<Rightarrow> (string \<times> json) list" where
  "toUserView u =
     [(''id'', JID (u_ID u)), (''email'', JStr (u_Email u)), (''name'', JStr (u_Name u)),
      (''active'', JBool (u_Active u)), (''mfa_enabled'', JBool (u_MFAEnabled u)),
      (''scim_external_id'', JStr (u_SCIMExternalID u)), (''password_changed_at'', JTime (u_PasswordChangedAt u)),
      (''created_at'', JTime (u_CreatedAt u)), (''updated_at'', JTime (u_UpdatedAt u))]"

definition toClientView :: "Client \<Rightarrow> (string \<times> json) list" where
  "toClientView c =
     [(''id'', JID (c_ID c)), (''client_id'', JStr (c_ClientID c)), (''name'', JStr (c_Name c)),
      (''redirect_uris'', JStrs (c_RedirectURIs c)), (''scopes'', JStrs (c_Scopes c)), (''public'', JBool (c_Public c)),
      (''secret_rotated_at'', JTime (c_SecretRotatedAt c)), (''created_at'', JTime (c_CreatedAt c))]
     @ (case c_BackchannelLogoutURI c of None \<Rightarrow> [] | Some u \<Rightarrow> [(''backchannel_logout_uri'', JStr u)])"

subsection \<open>Users\<close>

definition handleAdminListUsers :: "server \<Rightarrow> request \<Rightarrow> Session \<Rightarrow> response act" where
  "handleAdminListUsers s r sess = do {
     x \<leftarrow> store ListUsers;
     ret (case x of
            Inl e \<Rightarrow> writeError 500 ''server_error'' ''list failed''
          | Inr us \<Rightarrow> RJSON 200 [(''users'', JList (map (\<lambda>u. JObj (toUserView u)) us))]) }"

definition handleAdminCreateUser :: "server \<Rightarrow> request \<Rightarrow> Session \<Rightarrow> response act" where
  "handleAdminCreateUser s r sess =
     (case rq_json r of
        None \<Rightarrow> ret (writeError 400 ''invalid_request'' ''invalid JSON'')
      | Some b \<Rightarrow>
          (let email = ToLower (TrimSpace (body_str b ''email'')); password = body_str b ''password'';
               admin = (body_bool b ''admin'' = Some True) in
           if email = [] \<or> password = [] then ret (writeError 400 ''invalid_request'' ''email and password required'')
           else do {
             v \<leftarrow> first_violation s (no_context\<lparr>pc_Password := password\<rparr>);
             case v of
               Some viol \<Rightarrow> ret (writeError 400 ''weak_password'' (pv_Message viol))
             | None \<Rightarrow> do {
             h \<leftarrow> HashPassword s password;
             case h of
               None \<Rightarrow> ret (writeError 500 ''server_error'' ''hash failed'')
             | Some hash \<Rightarrow> do {
             uid \<leftarrow> newUUID s;
             x \<leftarrow> store_at (\<lambda>now. CreateUser now uid email hash (body_str b ''name''));
             case x of
               Inl ErrConflict \<Rightarrow> ret (writeError 409 ''conflict'' ''user already exists'')
             | Inl e \<Rightarrow> ret (writeError 500 ''server_error'' ''create failed'')
             | Inr user \<Rightarrow> do {
             ok \<leftarrow> logAudit s r ''admin.user.created'' (Some (u_ID user)) None
                    [(''email'', JStr email), (''admin'', JBool admin)];
             if \<not> ok then do {
               undoOnAuditFailure (DeleteUser (u_ID user));
               ret auditFail }
             else do {
               provisionUser s OpCreate (Some user);
               ret (RJSON 201 (toUserView user)) } } } } }))"

definition adminParseUser :: "request \<Rightarrow> (response + User) act" where
  "adminParseUser r =
     (case rq_pathID r of
        None \<Rightarrow> ret (Inl (writeError 400 ''invalid_request'' ''invalid user id''))
      | Some i \<Rightarrow> do {
          x \<leftarrow> store (GetUserByID i);
          ret (case x of
                 Inl ErrNotFound \<Rightarrow> Inl (writeError 404 ''not_found'' ''user not found'')
               | Inl e \<Rightarrow> Inl (writeError 500 ''server_error'' ''lookup failed'')
               | Inr user \<Rightarrow> Inr user) })"

definition handleAdminGetUser :: "server \<Rightarrow> request \<Rightarrow> Session \<Rightarrow> response act" where
  "handleAdminGetUser s r sess = do {
     p \<leftarrow> adminParseUser r;
     ret (case p of Inl resp \<Rightarrow> resp | Inr user \<Rightarrow> RJSON 200 (toUserView user)) }"

text \<open>The row is read again after the update; when that read fails the user is nil, the fan-out
  does nothing and the view panics.\<close>

definition handleAdminUpdateUser :: "server \<Rightarrow> request \<Rightarrow> Session \<Rightarrow> response act" where
  "handleAdminUpdateUser s r sess = do {
     p \<leftarrow> adminParseUser r;
     case p of
       Inl resp \<Rightarrow> ret resp
     | Inr user \<Rightarrow>
         (case rq_json r of
            None \<Rightarrow> ret (writeError 400 ''invalid_request'' ''invalid JSON'')
          | Some b \<Rightarrow>
              (let name = (if body_str b ''name'' \<noteq> [] then body_str b ''name'' else u_Name user);
                   active = (case body_bool b ''active'' of None \<Rightarrow> u_Active user | Some a \<Rightarrow> a) in do {
               ok \<leftarrow> logAudit s r ''admin.user.updated'' (Some (u_ID user)) None
                      [(''name'', JStr name), (''active'', JBool active)];
               if \<not> ok then ret auditFail
               else do {
                 x \<leftarrow> store_at (\<lambda>now. UpdateUser now (u_ID user) name active);
                 case x of
                   Inl e \<Rightarrow> ret (writeError 500 ''server_error'' ''update failed'')
                 | Inr z \<Rightarrow> do {
                     u \<leftarrow> store (GetUserByID (u_ID user));
                     let user' = (case u of Inl e \<Rightarrow> None | Inr v \<Rightarrow> Some v);
                     provisionUser s (if active then OpUpdate else OpDeactivate) user';
                     ret (case user' of None \<Rightarrow> panic_response | Some v \<Rightarrow> RJSON 200 (toUserView v)) } } })) }"

definition handleAdminDeleteUser :: "server \<Rightarrow> request \<Rightarrow> Session \<Rightarrow> response act" where
  "handleAdminDeleteUser s r sess = do {
     p \<leftarrow> adminParseUser r;
     case p of
       Inl resp \<Rightarrow> ret resp
     | Inr user \<Rightarrow> do {
         ok \<leftarrow> logAudit s r ''admin.user.deleted'' (Some (u_ID user)) None [];
         if \<not> ok then ret auditFail
         else do {
           broadcastLogout s (u_ID user) [];
           x \<leftarrow> store (DeleteSessionsByUserID (u_ID user));
           y \<leftarrow> store (DeleteUser (u_ID user));
           case y of
             Inl e \<Rightarrow> ret (writeError 500 ''server_error'' ''delete failed'')
           | Inr z \<Rightarrow> do {
               provisionUser s OpDelete (Some user);
               ret (RStatus 204) } } } }"

subsection \<open>Clients\<close>

definition handleAdminListClients :: "server \<Rightarrow> request \<Rightarrow> Session \<Rightarrow> response act" where
  "handleAdminListClients s r sess = do {
     x \<leftarrow> store ListClients;
     ret (case x of
            Inl e \<Rightarrow> writeError 500 ''server_error'' ''list failed''
          | Inr cs \<Rightarrow> RJSON 200 [(''clients'', JList (map (\<lambda>c. JObj (toClientView c)) cs))]) }"

text \<open>The secret of a new client: none for a public one; \<open>None\<close> when the generator fails.\<close>

definition new_secret :: "server \<Rightarrow> bool \<Rightarrow> (string \<times> string) option act" where
  "new_secret s public =
     (if public then ret (Some ([], []))
      else do {
        t \<leftarrow> GenerateRawToken s;
        ret (case t of None \<Rightarrow> None | Some rawSecret \<Rightarrow> Some (rawSecret, HashToken s rawSecret)) })"

definition default_scopes :: "string list \<Rightarrow> string list" where
  "default_scopes scopes = (if scopes = [] then [''openid'', ''profile'', ''email''] else scopes)"

definition handleAdminCreateClient :: "server \<Rightarrow> request \<Rightarrow> Session \<Rightarrow> response act" where
  "handleAdminCreateClient s r sess =
     (case rq_json r of
        None \<Rightarrow> ret (writeError 400 ''invalid_request'' ''invalid JSON'')
      | Some b \<Rightarrow>
          (let name = body_str b ''name''; public = (body_bool b ''public'' = Some True);
               uri = body_str b ''backchannel_logout_uri'' in
           if name = [] then ret (writeError 400 ''invalid_request'' ''name required'')
           else do {
             t \<leftarrow> GenerateRawToken s;
             case t of
               None \<Rightarrow> ret (writeError 500 ''server_error'' ''generation failed'')
             | Some rawClientID \<Rightarrow>
                 if length rawClientID < 24 then ret panic_response
                 else do {
             sec \<leftarrow> new_secret s public;
             case sec of
               None \<Rightarrow> ret (writeError 500 ''server_error'' ''generation failed'')
             | Some (rawSecret, secretHash) \<Rightarrow> do {
             cid \<leftarrow> newUUID s;
             x \<leftarrow> store_at (\<lambda>now. CreateClient now cid (take 24 rawClientID) secretHash name
                    (body_strs b ''redirect_uris'') (default_scopes (body_strs b ''scopes'')) public
                    (if uri = [] then None else Some uri));
             case x of
               Inl e \<Rightarrow> ret (writeError 500 ''server_error'' ''create failed'')
             | Inr client \<Rightarrow> do {
             ok \<leftarrow> logAudit s r ''admin.client.created'' None (Some (c_ID client)) [(''name'', JStr name)];
             if \<not> ok then do {
               undoOnAuditFailure (DeleteClient (c_ID client));
               ret auditFail }
             else ret (RJSON 201 (toClientView client @
                     (if rawSecret = [] then [] else [(''client_secret'', JStr rawSecret)]))) } } } }))"

definition adminParseClient :: "request \<Rightarrow> (response + Client) act" where
  "adminParseClient r =
     (case rq_pathID r of
        None \<Rightarrow> ret (Inl (writeError 400 ''invalid_request'' ''invalid client id''))
      | Some i \<Rightarrow> do {
          x \<leftarrow> store (GetClientByID i);
          ret (case x of
                 Inl ErrNotFound \<Rightarrow> Inl (writeError 404 ''not_found'' ''client not found'')
               | Inl e \<Rightarrow> Inl (writeError 500 ''server_error'' ''lookup failed'')
               | Inr client \<Rightarrow> Inr client) })"

definition handleAdminGetClient :: "server \<Rightarrow> request \<Rightarrow> Session \<Rightarrow> response act" where
  "handleAdminGetClient s r sess = do {
     p \<leftarrow> adminParseClient r;
     ret (case p of Inl resp \<Rightarrow> resp | Inr c \<Rightarrow> RJSON 200 (toClientView c)) }"

definition handleAdminDeleteClient :: "server \<Rightarrow> request \<Rightarrow> Session \<Rightarrow> response act" where
  "handleAdminDeleteClient s r sess = do {
     p \<leftarrow> adminParseClient r;
     case p of
       Inl resp \<Rightarrow> ret resp
     | Inr client \<Rightarrow> do {
         ok \<leftarrow> logAudit s r ''admin.client.deleted'' None (Some (c_ID client)) [];
         if \<not> ok then ret auditFail
         else do {
           x \<leftarrow> store (DeleteClient (c_ID client));
           ret (case x of Inl e \<Rightarrow> writeError 500 ''server_error'' ''delete failed'' | Inr z \<Rightarrow> RStatus 204) } } }"

definition handleAdminRotateClientSecret :: "server \<Rightarrow> request \<Rightarrow> Session \<Rightarrow> response act" where
  "handleAdminRotateClientSecret s r sess = do {
     p \<leftarrow> adminParseClient r;
     case p of
       Inl resp \<Rightarrow> ret resp
     | Inr client \<Rightarrow>
         if c_Public client then ret (writeError 400 ''invalid_request'' ''public clients have no secret'')
         else do {
           t \<leftarrow> GenerateRawToken s;
           case t of
             None \<Rightarrow> ret (writeError 500 ''server_error'' ''generation failed'')
           | Some rawSecret \<Rightarrow> do {
               ok \<leftarrow> logAudit s r ''admin.client.secret.rotated'' None (Some (c_ID client)) [];
               if \<not> ok then ret auditFail
               else do {
                 x \<leftarrow> store_at (\<lambda>now. UpdateClientSecret now (c_ID client) (HashToken s rawSecret));
                 ret (case x of
                        Inl e \<Rightarrow> writeError 500 ''server_error'' ''update failed''
                      | Inr z \<Rightarrow> RJSON 200 [(''client_id'', JStr (c_ClientID client)), (''client_secret'', JStr rawSecret)]) } } } }"

subsection \<open>Invariants\<close>

lemmas admin_defs = handleAdminListUsers_def handleAdminCreateUser_def handleAdminGetUser_def handleAdminUpdateUser_def
  handleAdminDeleteUser_def handleAdminListClients_def handleAdminCreateClient_def handleAdminGetClient_def
  handleAdminDeleteClient_def handleAdminRotateClientSecret_def adminParseUser_def adminParseClient_def new_secret_def

lemma wf_admin:
  "keeps_wf (handleAdminListUsers s r sess)" "keeps_wf (handleAdminCreateUser s r sess)"
  "keeps_wf (handleAdminGetUser s r sess)" "keeps_wf (handleAdminUpdateUser s r sess)"
  "keeps_wf (handleAdminDeleteUser s r sess)" "keeps_wf (handleAdminListClients s r sess)"
  "keeps_wf (handleAdminCreateClient s r sess)" "keeps_wf (handleAdminGetClient s r sess)"
  "keeps_wf (handleAdminDeleteClient s r sess)" "keeps_wf (handleAdminRotateClientSecret s r sess)"
  unfolding admin_defs
  by ((intro wf.db_rules wf.first_violation_db wf.broadcastLogout_db wf.provisioning_db)?; (simp_all add: store_wf)?)+

lemma cap_admin:
  "keeps_cap (handleAdminListUsers s r sess)" "keeps_cap (handleAdminCreateUser s r sess)"
  "keeps_cap (handleAdminGetUser s r sess)" "keeps_cap (handleAdminUpdateUser s r sess)"
  "keeps_cap (handleAdminDeleteUser s r sess)" "keeps_cap (handleAdminListClients s r sess)"
  "keeps_cap (handleAdminCreateClient s r sess)" "keeps_cap (handleAdminGetClient s r sess)"
  "keeps_cap (handleAdminDeleteClient s r sess)" "keeps_cap (handleAdminRotateClientSecret s r sess)"
  unfolding admin_defs
  by ((intro cap.db_rules cap.first_violation_db cap.broadcastLogout_db cap.provisioning_db)?;
      (simp_all add: cap_deletes cap_frames)?)+

end
