(* ===== verification/Portal_Admin.thy ===== *)
theory Portal_Admin
  imports Admin
begin

text \<open>
  User, client and group administration in the portal: \<open>src/internal/api/web_portal.go\<close>
  (from \<open>currentMembershipFor\<close> on) and \<open>src/internal/api/web_portal_groups.go\<close>. Every
  handler runs behind \<open>portalAdminAuth\<close> and takes the administrator's session and row.
\<close>

fun decimal :: "nat \<Rightarrow> string" where
  "decimal n = (if n < 10 then [char_of (48 + n)] else decimal (n div 10) @ [char_of (48 + n mod 10)])"

declare decimal.simps [simp del]

subsection \<open>Group membership of a user\<close>

definition currentMembershipFor :: "uuid \<Rightarrow> uuid list act" where
  "currentMembershipFor userID = do {
     x \<leftarrow> store ListGroups;
     ret (case x of Inl e \<Rightarrow> [] | Inr gs \<Rightarrow> map gr_ID (filter (\<lambda>g. userID \<in> set (gr_Members g)) gs)) }"

text \<open>One iteration of the loop of \<open>syncUserGroups\<close>, and the loop.\<close>

definition sync_group :: "server \<Rightarrow> uuid \<Rightarrow> uuid list \<Rightarrow> User list \<Rightarrow> SCIMGroup \<Rightarrow> unit act" where
  "sync_group s userID selected allUsers g =
     (let wasMember = (userID \<in> set (gr_Members g)); isMember = (gr_ID g \<in> set selected) in
      if wasMember = isMember then ret ()
      else do {
        x \<leftarrow> (if isMember then store (AddGroupMember (gr_ID g) userID) else store (RemoveGroupMember (gr_ID g) userID));
        case x of
          Inl e \<Rightarrow> ret ()
        | Inr u \<Rightarrow> do {
            f \<leftarrow> store (GetGroupByID (gr_ID g));
            case f of
              Inl e \<Rightarrow> ret ()
            | Inr fresh \<Rightarrow> provisionGroup s OpUpdate fresh (picked allUsers (gr_Members fresh)) } })"

fun sync_user_groups :: "server \<Rightarrow> uuid \<Rightarrow> uuid list \<Rightarrow> User list \<Rightarrow> SCIMGroup list \<Rightarrow> unit act" where
  "sync_user_groups s userID selected allUsers [] = ret ()"
| "sync_user_groups s userID selected allUsers (g # gs) = do {
     sync_group s userID selected allUsers g;
     sync_user_groups s userID selected allUsers gs }"

definition syncUserGroups :: "server \<Rightarrow> uuid \<Rightarrow> uuid list \<Rightarrow> unit act" where
  "syncUserGroups s userID selected = do {
     x \<leftarrow> store ListGroups;
     case x of
       Inl e \<Rightarrow> ret ()
     | Inr allGroups \<Rightarrow> do {
         y \<leftarrow> store ListUsers;
         sync_user_groups s userID selected (case y of Inl e \<Rightarrow> [] | Inr us \<Rightarrow> us) allGroups } }"

definition parseGroupIDs :: "server \<Rightarrow> string list \<Rightarrow> uuid list" where
  "parseGroupIDs s raw = List.map_filter (\<lambda>v. x_ParseUUID (srv_ext s) (TrimSpace v)) raw"

definition renderUserForm :: "string \<Rightarrow> response act" where
  "renderUserForm errMsg = do { x \<leftarrow> store ListGroups; ret (RPage ''portal_admin_user_edit.html'' errMsg) }"

subsection \<open>Users\<close>

definition handlePortalAdminUserNew :: "server \<Rightarrow> request \<Rightarrow> Session \<Rightarrow> User \<Rightarrow> response act" where
  "handlePortalAdminUserNew s r sess admin =
     (if \<not> rq_isPost r then renderUserForm []
      else (let groupIDs = parseGroupIDs s (FormValues r ''group_ids'');
                email = ToLower (TrimSpace (FormValue r ''email'')); name = TrimSpace (FormValue r ''name'');
                password = FormValue r ''password'' in
      if email = [] \<or> name = [] \<or> password = [] then renderUserForm ''Email, name, and password are required.''
      else do {
        v \<leftarrow> first_violation s (no_context\<lparr>pc_Password := password\<rparr>);
        case v of
          Some viol \<Rightarrow> renderUserForm (pv_Message viol)
        | None \<Rightarrow> do {
        h \<leftarrow> HashPassword s password;
        case h of
          None \<Rightarrow> renderUserForm ''An error occurred.''
        | Some hash \<Rightarrow> do {
        uid \<leftarrow> newUUID s;
        x \<leftarrow> store_at (\<lambda>now. CreateUser now uid email hash name);
        case x of
          Inl e \<Rightarrow> renderUserForm (if e = ErrConflict then ''A user with that email already exists.'' else ''An error occurred.'')
        | Inr user \<Rightarrow> do {
        (if FormValue r ''active'' \<noteq> ''1'' then do {
           a \<leftarrow> store_at (\<lambda>now. SetUserActive now (u_ID user) False); ret () } else ret ());
        (if FormValue r ''is_admin'' = ''1'' then do {
           a \<leftarrow> store_at (\<lambda>now. SetUserAdmin now (u_ID user) True); ret () } else ret ());
        syncUserGroups s (u_ID user) groupIDs;
        ok \<leftarrow> logAudit s r ''admin.user.created'' (Some (u_ID user)) None
               [(''email'', JStr email), (''by'', JStr (u_Email admin)), (''groups'', JInt (int (length groupIDs)))];
        if \<not> ok then do {
          undoOnAuditFailure (DeleteUser (u_ID user));
          ret auditFail }
        else do {
          u \<leftarrow> store (GetUserByID (u_ID user));
          provisionUser s OpCreate (case u of Inl e \<Rightarrow> None | Inr v \<Rightarrow> Some v);
          ret (RRedirect ''/portal/admin/users'' [(''success'', ''User created.'')]) } } } } }))"

text \<open>Only a missing row is checked after the first lookup: on another error the user is nil, a
  form that has to be shown again panics on it, and the update goes on by identifier.\<close>

definition edit_form_again :: "User option \<Rightarrow> string \<Rightarrow> response act" where
  "edit_form_again user msg = (case user of None \<Rightarrow> ret panic_response | Some u \<Rightarrow> renderUserForm msg)"

definition handlePortalAdminUserEdit :: "server \<Rightarrow> request \<Rightarrow> Session \<Rightarrow> User \<Rightarrow> response act" where
  "handlePortalAdminUserEdit s r sess admin =
     (case rq_pathID r of
        None \<Rightarrow> ret (RText 400 ''invalid id'')
      | Some i \<Rightarrow> do {
          x \<leftarrow> store (GetUserByID i);
          let user = (case x of Inl e \<Rightarrow> None | Inr u \<Rightarrow> Some u);
          if x = Inl ErrNotFound then ret (RText 404 ''user not found'')
          else if \<not> rq_isPost r then do {
            m \<leftarrow> currentMembershipFor i;
            renderUserForm (QueryGet r ''error'') }
          else (let name = TrimSpace (FormValue r ''name''); active = (FormValue r ''active'' = ''1'');
                    isAdmin = (FormValue r ''is_admin'' = ''1'') in
            if name = [] then edit_form_again user ''Name cannot be empty.''
            else do {
              ok \<leftarrow> logAudit s r ''admin.user.updated'' (Some i) None [(''by'', JStr (u_Email admin))];
              if \<not> ok then ret auditFail
              else do {
                a \<leftarrow> store_at (\<lambda>now. UpdateUser now i name active);
                case a of
                  Inl e \<Rightarrow> edit_form_again user ''Update failed.''
                | Inr z \<Rightarrow> do {
                b \<leftarrow> store_at (\<lambda>now. SetUserAdmin now i isAdmin);
                case b of
                  Inl e \<Rightarrow> edit_form_again user ''Update failed.''
                | Inr z2 \<Rightarrow> do {
                syncUserGroups s i (parseGroupIDs s (FormValues r ''group_ids''));
                u \<leftarrow> store (GetUserByID i);
                provisionUser s (if active then OpUpdate else OpDeactivate)
                  (case u of Inl e \<Rightarrow> None | Inr v \<Rightarrow> Some v);
                ret (RRedirect ''/portal/admin/users'' [(''success'', ''User updated.'')]) } } } }) })"

definition edit_redirect :: "server \<Rightarrow> uuid \<Rightarrow> string \<Rightarrow> string \<Rightarrow> response" where
  "edit_redirect s i k v = RRedirect (''/portal/admin/users/'' @ uuid_string s i @ ''/edit'') [(k, v)]"

text \<open>A temporary password that has to be rotated at the next login; \<open>Inl\<close> is the error banner.\<close>

definition set_temp_password :: "uuid \<Rightarrow> string \<Rightarrow> (string + unit) act" where
  "set_temp_password i hash = do {
     a \<leftarrow> store_at (\<lambda>now. UpdateUserPassword now i hash);
     case a of
       Inl e \<Rightarrow> ret (Inl ''An error occurred.'')
     | Inr z \<Rightarrow> do {
         b \<leftarrow> store_at (\<lambda>now. SetUserMustChangePassword now i True);
         ret (case b of Inl e \<Rightarrow> Inl ''An error occurred.'' | Inr z2 \<Rightarrow> Inr ()) } }"

definition end_sessions :: "server \<Rightarrow> uuid \<Rightarrow> unit act" where
  "end_sessions s i = do {
     broadcastLogout s i [];
     x \<leftarrow> store (DeleteSessionsByUserID i);
     ret () }"

definition handlePortalAdminUserResetPassword :: "server \<Rightarrow> request \<Rightarrow> Session \<Rightarrow> User \<Rightarrow> response act" where
  "handlePortalAdminUserResetPassword s r sess admin =
     (case rq_pathID r of
        None \<Rightarrow> ret (RText 400 ''invalid id'')
      | Some i \<Rightarrow> do {
          t \<leftarrow> GenerateRawToken s;
          case t of
            None \<Rightarrow> ret (edit_redirect s i ''error'' ''An error occurred generating the temp password.'')
          | Some tempPw \<Rightarrow> do {
          h \<leftarrow> HashPassword s tempPw;
          case h of
            None \<Rightarrow> ret (edit_redirect s i ''error'' ''An error occurred.'')
          | Some hash \<Rightarrow> do {
          ok \<leftarrow> logAudit s r ''admin.user.updated'' (Some i) None
                 [(''field'', JStr ''password''), (''by'', JStr (u_Email admin)), (''via'', JStr ''admin_reset'')];
          if \<not> ok then ret auditFail
          else do {
          p \<leftarrow> set_temp_password i hash;
          case p of
            Inl msg \<Rightarrow> ret (edit_redirect s i ''error'' msg)
          | Inr z \<Rightarrow> do {
              end_sessions s i;
              ret (edit_redirect s i ''temp_pw'' tempPw) } } } } })"

fun delete_webauthns :: "uuid \<Rightarrow> WebAuthnCredential list \<Rightarrow> unit act" where
  "delete_webauthns i [] = ret ()"
| "delete_webauthns i (c # cs) = do {
     x \<leftarrow> store (DeleteWebAuthnCredential (wc_ID c) i);
     delete_webauthns i cs }"

text \<open>\<open>RevokeUser\<close> on every federation provisioner of the snapshot: how many succeeded and whether
  one failed.\<close>

fun revoke_targets :: "string \<Rightarrow> provisioner list \<Rightarrow> (nat \<times> bool) act" where
  "revoke_targets sub [] = ret (0, False)"
| "revoke_targets sub (p # ps) =
     (if \<not> is_awsfed p then revoke_targets sub ps
      else do {
        ok \<leftarrow> RevokeUser sub;
        (n, failed) \<leftarrow> revoke_targets sub ps;
        ret (if ok then (Suc n, failed) else (n, True)) })"

definition handlePortalAdminUserCompromisedReset :: "server \<Rightarrow> request \<Rightarrow> Session \<Rightarrow> User \<Rightarrow> response act" where
  "handlePortalAdminUserCompromisedReset s r sess admin =
     (case rq_pathID r of
        None \<Rightarrow> ret (RText 400 ''invalid id'')
      | Some i \<Rightarrow> do {
          u \<leftarrow> store (GetUserByID i);
          case u of
            Inl e \<Rightarrow> ret (edit_redirect s i ''error'' ''user not found'')
          | Inr user \<Rightarrow> do {
          totp \<leftarrow> store (GetTOTPByUserID i);
          l \<leftarrow> store (ListWebAuthnCredentials i);
          let waCreds = list_or_empty l;
          ps \<leftarrow> Snapshot;
          ok \<leftarrow> logAudit s r ''admin.user.compromised_reset'' (Some i) None
                 [(''by'', JStr (u_Email admin)), (''totp_cleared'', JBool (case totp of Inl e \<Rightarrow> False | Inr c \<Rightarrow> True)),
                  (''webauthn_cleared'', JInt (int (length waCreds))),
                  (''aws_targets_revoked'', JInt (int (length (filter is_awsfed ps))))];
          if \<not> ok then ret auditFail
          else do {
          t \<leftarrow> GenerateRawToken s;
          case t of
            None \<Rightarrow> ret (edit_redirect s i ''error'' ''An error occurred generating the temp password.'')
          | Some tempPw \<Rightarrow> do {
          h \<leftarrow> HashPassword s tempPw;
          case h of
            None \<Rightarrow> ret (edit_redirect s i ''error'' ''An error occurred.'')
          | Some hash \<Rightarrow> do {
          p \<leftarrow> set_temp_password i hash;
          case p of
            Inl msg \<Rightarrow> ret (edit_redirect s i ''error'' msg)
          | Inr z \<Rightarrow> do {
              a \<leftarrow> store (DeleteTOTP i);
              delete_webauthns i waCreds;
              b \<leftarrow> store_at (\<lambda>now. UpdateUserMFAEnabled now i False);
              end_sessions s i;
              ps2 \<leftarrow> Snapshot;
              n \<leftarrow> revoke_targets (uuid_string s (u_ID user)) ps2;
              ret (edit_redirect s i ''temp_pw'' tempPw) } } } } } })"

text \<open>Each credential is audited before it goes; \<open>False\<close> when the journal refused one.\<close>

fun clear_webauthns :: "server \<Rightarrow> request \<Rightarrow> User \<Rightarrow> uuid \<Rightarrow> WebAuthnCredential list \<Rightarrow> bool act" where
  "clear_webauthns s r admin i [] = ret True"
| "clear_webauthns s r admin i (c # cs) = do {
     ok \<leftarrow> logAudit s r ''mfa.webauthn.deleted'' (Some i) None
            [(''credential_id'', JID (wc_ID c)), (''by'', JStr (u_Email admin))];
     if \<not> ok then ret False
     else do {
       x \<leftarrow> store (DeleteWebAuthnCredential (wc_ID c) i);
       clear_webauthns s r admin i cs } }"

definition clear_totp :: "server \<Rightarrow> request \<Rightarrow> User \<Rightarrow> uuid \<Rightarrow> bool act" where
  "clear_totp s r admin i = do {
     t \<leftarrow> store (GetTOTPByUserID i);
     case t of
       Inl e \<Rightarrow> ret True
     | Inr c \<Rightarrow> do {
         ok \<leftarrow> logAudit s r ''mfa.totp.deleted'' (Some i) None [(''by'', JStr (u_Email admin))];
         if \<not> ok then ret False
         else do { x \<leftarrow> store (DeleteTOTP i); ret True } } }"

definition handlePortalAdminUserClearMFA :: "server \<Rightarrow> request \<Rightarrow> Session \<Rightarrow> User \<Rightarrow> response act" where
  "handlePortalAdminUserClearMFA s r sess admin =
     (case rq_pathID r of
        None \<Rightarrow> ret (RText 400 ''invalid id'')
      | Some i \<Rightarrow> do {
          ok \<leftarrow> clear_totp s r admin i;
          if \<not> ok then ret auditFail
          else do {
            l \<leftarrow> store (ListWebAuthnCredentials i);
            ok2 \<leftarrow> clear_webauthns s r admin i (list_or_empty l);
            if \<not> ok2 then ret auditFail
            else do {
              x \<leftarrow> store_at (\<lambda>now. UpdateUserMFAEnabled now i False);
              ret (edit_redirect s i ''success'' ''MFA credentials cleared.'') } } })"

definition handlePortalAdminUserRevokeAWS :: "server \<Rightarrow> request \<Rightarrow> Session \<Rightarrow> User \<Rightarrow> response act" where
  "handlePortalAdminUserRevokeAWS s r sess admin =
     (case rq_pathID r of
        None \<Rightarrow> ret (RText 400 ''invalid id'')
      | Some i \<Rightarrow> do {
          u \<leftarrow> store (GetUserByID i);
          case u of
            Inl e \<Rightarrow> ret (edit_redirect s i ''error'' ''user not found'')
          | Inr user \<Rightarrow> do {
          reg \<leftarrow> get_registry;
          case reg of
            None \<Rightarrow> ret (edit_redirect s i ''error'' ''provisioner registry not configured'')
          | Some ps \<Rightarrow> do {
          (revoked, failed) \<leftarrow> revoke_targets (uuid_string s (u_ID user)) ps;
          if revoked = 0 \<and> \<not> failed then
            ret (edit_redirect s i ''error'' ''No AWS federation integration is enabled; nothing to revoke. Enable one under /portal/admin/integrations.'')
          else do {
            ok \<leftarrow> logAudit s r ''aws.federation.revoked.manual'' (Some (u_ID user)) None
                   [(''by'', JStr (u_Email admin)), (''targets_revoked'', JInt (int revoked)), (''any_error'', JBool failed)];
            ret (if \<not> ok then auditFail
                 else if failed then edit_redirect s i ''error'' (''Revoked on '' @ decimal revoked @ '' target(s); some failed '' @ [CHR 0xE2, CHR 0x80, CHR 0x94] @ '' see logs.'')
                 else edit_redirect s i ''success'' (''AWS sessions revoked across '' @ decimal revoked @
                   '' target(s). Existing STS credentials will start failing within ~30 seconds.'')) } } } })"

definition handlePortalAdminUserDelete :: "server \<Rightarrow> request \<Rightarrow> Session \<Rightarrow> User \<Rightarrow> response act" where
  "handlePortalAdminUserDelete s r sess admin =
     (case rq_pathID r of
        None \<Rightarrow> ret (RText 400 ''invalid id'')
      | Some i \<Rightarrow> do {
          u \<leftarrow> store (GetUserByID i);
          ok \<leftarrow> logAudit s r ''admin.user.deleted'' (Some i) None [(''by'', JStr (u_Email admin))];
          if \<not> ok then ret auditFail
          else do {
            end_sessions s i;
            y \<leftarrow> store (DeleteUser i);
            case y of
              Inl e \<Rightarrow> ret (RRedirect ''/portal/admin/users'' [(''error'', ''delete failed'')])
            | Inr z \<Rightarrow> do {
                provisionUser s OpDelete (case u of Inl e \<Rightarrow> None | Inr v \<Rightarrow> Some v);
                ret (RRedirect ''/portal/admin/users'' [(''success'', ''User deleted.'')]) } } })"

subsection \<open>Clients\<close>

definition parseLines :: "string \<Rightarrow> string list" where
  "parseLines t = filter (\<lambda>l. l \<noteq> []) (map TrimSpace (Split (CHR 0x0A) t))"

definition renderClientForm :: "string \<Rightarrow> response act" where
  "renderClientForm errMsg = do { x \<leftarrow> store ListGroups; ret (RPage ''portal_admin_client_edit.html'' errMsg) }"

text \<open>The fields of the client form as both handlers read them.\<close>

record client_form =
  cf_name :: string
  cf_public :: bool
  cf_redirectURIs :: "string list"
  cf_scopes :: "string list"
  cf_backchannel :: "string option"
  cf_showInPortal :: bool
  cf_launchURL :: string
  cf_brandColor :: string
  cf_iconURL :: string
  cf_visibleToAll :: bool
  cf_allowDeviceGrant :: bool
  cf_groupIDs :: "uuid list"

definition read_client_form :: "server \<Rightarrow> request \<Rightarrow> client_form" where
  "read_client_form s r =
     \<lparr>cf_name = TrimSpace (FormValue r ''name''), cf_public = (FormValue r ''public'' = ''1''),
      cf_redirectURIs = parseLines (FormValue r ''redirect_uris''),
      cf_scopes = default_scopes (Fields (FormValue r ''scopes'')),
      cf_backchannel = (let v = TrimSpace (FormValue r ''backchannel_logout_uri'') in if v = [] then None else Some v),
      cf_showInPortal = (FormValue r ''show_in_portal'' = ''1''), cf_launchURL = TrimSpace (FormValue r ''launch_url''),
      cf_brandColor = TrimSpace (FormValue r ''brand_color''), cf_iconURL = TrimSpace (FormValue r ''icon_url''),
      cf_visibleToAll = (FormValue r ''visible_to_all'' = ''1''),
      cf_allowDeviceGrant = (FormValue r ''allow_device_grant'' = ''1''),
      cf_groupIDs = parseGroupIDs s (FormValues r ''visibility_group_ids'')\<rparr>"

fun with_row_ids :: "server \<Rightarrow> uuid list \<Rightarrow> (uuid \<times> uuid) list act" where
  "with_row_ids s [] = ret []"
| "with_row_ids s (g # gs) = do { v \<leftarrow> newUUID s; rest \<leftarrow> with_row_ids s gs; ret ((g, v) # rest) }"

definition set_visibility :: "server \<Rightarrow> uuid \<Rightarrow> uuid list \<Rightarrow> (store_error + unit) act" where
  "set_visibility s cid gids = do {
     rows \<leftarrow> with_row_ids s gids;
     store_at (\<lambda>now. ReplaceClientVisibility now cid rows) }"

definition handlePortalAdminClientNew :: "server \<Rightarrow> request \<Rightarrow> Session \<Rightarrow> User \<Rightarrow> response act" where
  "handlePortalAdminClientNew s r sess admin =
     (if \<not> rq_isPost r then renderClientForm []
      else (let f = read_client_form s r in
      if cf_name f = [] then renderClientForm ''Name is required.''
      else if cf_showInPortal f \<and> cf_launchURL f = []
      then renderClientForm ''Launch URL is required when the client is shown in the portal.''
      else do {
        t \<leftarrow> GenerateRawToken s;
        case t of
          None \<Rightarrow> renderClientForm ''An error occurred.''
        | Some rawClientID \<Rightarrow>
            if length rawClientID < 24 then ret panic_response
            else do {
        sec \<leftarrow> new_secret s (cf_public f);
        case sec of
          None \<Rightarrow> renderClientForm ''An error occurred.''
        | Some (rawSecret, secretHash) \<Rightarrow> do {
        cid \<leftarrow> newUUID s;
        x \<leftarrow> store_at (\<lambda>now. CreateClient now cid (take 24 rawClientID) secretHash (cf_name f) (cf_redirectURIs f)
               (cf_scopes f) (cf_public f) (cf_backchannel f));
        case x of
          Inl e \<Rightarrow> renderClientForm ''An error occurred.''
        | Inr client \<Rightarrow> do {
        a \<leftarrow> store (UpdateClientPortalConfig (c_ID client) (cf_showInPortal f) (cf_launchURL f) (cf_brandColor f)
               (cf_iconURL f) (cf_visibleToAll f));
        b \<leftarrow> set_visibility s (c_ID client) (cf_groupIDs f);
        (if cf_allowDeviceGrant f then do {
           z \<leftarrow> store (UpdateClientDeviceGrant (c_ID client) True); ret () } else ret ());
        ok \<leftarrow> logAudit s r ''admin.client.created'' None (Some (c_ID client))
               [(''by'', JStr (u_Email admin)), (''portal_visible'', JBool (cf_showInPortal f))];
        if \<not> ok then do {
          undoOnAuditFailure (DeleteClient (c_ID client));
          ret auditFail }
        else ret (RRedirect ''/portal/admin/clients'' ((''success'', ''Client created.'') #
                (if rawSecret = [] then [] else [(''secret'', rawSecret)]))) } } } }))"

definition client_form_again :: "Client option \<Rightarrow> string \<Rightarrow> response act" where
  "client_form_again client msg = (case client of None \<Rightarrow> ret panic_response | Some c \<Rightarrow> renderClientForm msg)"

text \<open>The four updates of an edited client, in order; \<open>False\<close> at the first that fails.\<close>

definition apply_client_form :: "server \<Rightarrow> uuid \<Rightarrow> client_form \<Rightarrow> bool act" where
  "apply_client_form s i f = do {
     a \<leftarrow> store (UpdateClient i (cf_name f) (cf_redirectURIs f) (cf_scopes f) (cf_public f) (cf_backchannel f));
     case a of Inl e \<Rightarrow> ret False | Inr z1 \<Rightarrow> do {
     b \<leftarrow> store (UpdateClientPortalConfig i (cf_showInPortal f) (cf_launchURL f) (cf_brandColor f) (cf_iconURL f) (cf_visibleToAll f));
     case b of Inl e \<Rightarrow> ret False | Inr z2 \<Rightarrow> do {
     c \<leftarrow> store (UpdateClientDeviceGrant i (cf_allowDeviceGrant f));
     case c of Inl e \<Rightarrow> ret False | Inr z3 \<Rightarrow> do {
     d \<leftarrow> set_visibility s i (cf_groupIDs f);
     ret (case d of Inl e \<Rightarrow> False | Inr z4 \<Rightarrow> True) } } } }"

definition handlePortalAdminClientEdit :: "server \<Rightarrow> request \<Rightarrow> Session \<Rightarrow> User \<Rightarrow> response act" where
  "handlePortalAdminClientEdit s r sess admin =
     (case rq_pathID r of
        None \<Rightarrow> ret (RText 400 ''invalid id'')
      | Some i \<Rightarrow> do {
          x \<leftarrow> store (GetClientByID i);
          let client = (case x of Inl e \<Rightarrow> None | Inr c \<Rightarrow> Some c);
          if x = Inl ErrNotFound then ret (RText 404 ''client not found'')
          else if \<not> rq_isPost r then do {
            cur \<leftarrow> store (ListClientVisibility i);
            renderClientForm [] }
          else (let f = read_client_form s r in
            if cf_name f = [] then client_form_again client ''Name is required.''
            else if cf_showInPortal f \<and> cf_launchURL f = []
            then client_form_again client ''Launch URL is required when the client is shown in the portal.''
            else do {
              ok \<leftarrow> apply_client_form s i f;
              if \<not> ok then client_form_again client ''An error occurred. Please try again.''
              else do {
                au \<leftarrow> logAudit s r ''admin.client.updated'' None (Some i)
                       [(''by'', JStr (u_Email admin)), (''portal_visible'', JBool (cf_showInPortal f))];
                ret (if au then RRedirect ''/portal/admin/clients'' [(''success'', ''Client details saved.'')] else auditFail) } }) })"

definition handlePortalAdminClientDelete :: "server \<Rightarrow> request \<Rightarrow> Session \<Rightarrow> User \<Rightarrow> response act" where
  "handlePortalAdminClientDelete s r sess admin =
     (case rq_pathID r of
        None \<Rightarrow> ret (RText 400 ''invalid id'')
      | Some i \<Rightarrow> do {
          ok \<leftarrow> logAudit s r ''admin.client.deleted'' None (Some i) [(''by'', JStr (u_Email admin))];
          if \<not> ok then ret auditFail
          else do {
            x \<leftarrow> store (DeleteClient i);
            ret (RRedirect ''/portal/admin/clients''
              [case x of Inl e \<Rightarrow> (''error'', ''delete failed'') | Inr z \<Rightarrow> (''success'', ''Client deleted.'')]) } })"

definition clients_error :: "string \<Rightarrow> response" where
  "clients_error msg = RRedirect ''/portal/admin/clients'' [(''error'', msg)]"

definition handlePortalAdminClientRotate :: "server \<Rightarrow> request \<Rightarrow> Session \<Rightarrow> User \<Rightarrow> response act" where
  "handlePortalAdminClientRotate s r sess admin =
     (case rq_pathID r of
        None \<Rightarrow> ret (clients_error ''invalid id'')
      | Some i \<Rightarrow> do {
          x \<leftarrow> store (GetClientByID i);
          case x of
            Inl e \<Rightarrow> ret (clients_error ''client not found'')
          | Inr client \<Rightarrow>
              if c_Public client then ret (clients_error ''public clients have no secret'')
              else do {
                t \<leftarrow> GenerateRawToken s;
                case t of
                  None \<Rightarrow> ret (clients_error ''generation failed'')
                | Some rawSecret \<Rightarrow> do {
                    ok \<leftarrow> logAudit s r ''admin.client.secret.rotated'' None (Some i) [(''by'', JStr (u_Email admin))];
                    if \<not> ok then ret auditFail
                    else do {
                      y \<leftarrow> store_at (\<lambda>now. UpdateClientSecret now i (HashToken s rawSecret));
                      ret (case y of
                             Inl e \<Rightarrow> clients_error ''update failed''
                           | Inr z \<Rightarrow> RRedirect ''/portal/admin/clients''
                               [(''success'', ''Secret rotated.''), (''secret'', rawSecret)]) } } } })"

subsection \<open>Groups\<close>

definition parseMemberIDs :: "server \<Rightarrow> string list \<Rightarrow> uuid list" where
  "parseMemberIDs s raw =
     List.map_filter (\<lambda>v. let t = TrimSpace v in if t = [] then None else x_ParseUUID (srv_ext s) t) raw"

definition renderGroupForm :: "string \<Rightarrow> response" where
  "renderGroupForm errMsg = RPage ''portal_admin_group_edit.html'' errMsg"

definition handlePortalAdminGroupNew :: "server \<Rightarrow> request \<Rightarrow> Session \<Rightarrow> User \<Rightarrow> response act" where
  "handlePortalAdminGroupNew s r sess admin = do {
     us \<leftarrow> store ListUsers;
     case us of
       Inl e \<Rightarrow> ret (RText 500 ''list users failed'')
     | Inr allUsers \<Rightarrow>
         if \<not> rq_isPost r then ret (renderGroupForm [])
         else (let displayName = TrimSpace (FormValue r ''display_name'');
                   memberIDs = parseMemberIDs s (FormValues r ''members'') in
           if displayName = [] then ret (renderGroupForm ''Display name is required.'')
           else do {
             gid \<leftarrow> newUUID s;
             x \<leftarrow> store_at (\<lambda>now. CreateGroup now gid displayName);
             case x of
               Inl e \<Rightarrow> ret (renderGroupForm ''Create failed.'')
             | Inr g \<Rightarrow> do {
                 (if memberIDs \<noteq> [] then do { y \<leftarrow> store (ReplaceGroupMembers (gr_ID g) memberIDs); ret () } else ret ());
                 ok \<leftarrow> logAudit s r ''admin.group.created'' (Some (u_ID admin)) None
                        [(''name'', JStr displayName), (''members'', JInt (int (length memberIDs)))];
                 if \<not> ok then do {
                   undoOnAuditFailure (DeleteGroup (gr_ID g));
                   ret auditFail }
                 else do {
                   provisionGroup s OpCreate (g\<lparr>gr_Members := memberIDs\<rparr>) (picked allUsers memberIDs);
                   ret (RRedirect ''/portal/admin/groups'' [(''success'', ''Group created.'')]) } } }) }"

definition handlePortalAdminGroupEdit :: "server \<Rightarrow> request \<Rightarrow> Session \<Rightarrow> User \<Rightarrow> response act" where
  "handlePortalAdminGroupEdit s r sess admin =
     (case rq_pathID r of
        None \<Rightarrow> ret (RText 400 ''invalid id'')
      | Some i \<Rightarrow> do {
          x \<leftarrow> store (GetGroupByID i);
          case x of
            Inl ErrNotFound \<Rightarrow> ret (RText 404 ''group not found'')
          | Inl e \<Rightarrow> ret (RText 500 ''lookup failed'')
          | Inr g \<Rightarrow> do {
          us \<leftarrow> store ListUsers;
          case us of
            Inl e \<Rightarrow> ret (RText 500 ''list users failed'')
          | Inr allUsers \<Rightarrow>
              if \<not> rq_isPost r then ret (renderGroupForm [])
              else (let displayName = TrimSpace (FormValue r ''display_name'');
                        memberIDs = parseMemberIDs s (FormValues r ''members'') in
                if displayName = [] then ret (renderGroupForm ''Display name is required.'')
                else do {
                  a \<leftarrow> store_at (\<lambda>now. UpdateGroup now i displayName);
                  case a of
                    Inl e \<Rightarrow> ret (renderGroupForm ''Update failed.'')
                  | Inr z \<Rightarrow> do {
                      y \<leftarrow> store (ReplaceGroupMembers i memberIDs);
                      ok \<leftarrow> logAudit s r ''admin.group.updated'' (Some (u_ID admin)) None
                             [(''name'', JStr displayName), (''members'', JInt (int (length memberIDs)))];
                      if \<not> ok then ret auditFail
                      else do {
                        provisionGroup s OpUpdate (g\<lparr>gr_DisplayName := displayName, gr_Members := memberIDs\<rparr>)
                          (picked allUsers memberIDs);
                        ret (RRedirect ''/portal/admin/groups'' [(''success'', ''Group updated.'')]) } } }) } })"

definition handlePortalAdminGroupDelete :: "server \<Rightarrow> request \<Rightarrow> Session \<Rightarrow> User \<Rightarrow> response act" where
  "handlePortalAdminGroupDelete s r sess admin =
     (case rq_pathID r of
        None \<Rightarrow> ret (RText 400 ''invalid id'')
      | Some i \<Rightarrow> do {
          x \<leftarrow> store (GetGroupByID i);
          case x of
            Inl e \<Rightarrow> ret (RRedirect ''/portal/admin/groups'' [(''error'', ''group not found'')])
          | Inr g \<Rightarrow> do {
              ok \<leftarrow> logAudit s r ''admin.group.deleted'' (Some (u_ID admin)) None [(''name'', JStr (gr_DisplayName g))];
              if \<not> ok then ret auditFail
              else do {
                y \<leftarrow> store (DeleteGroup i);
                case y of
                  Inl e \<Rightarrow> ret (RRedirect ''/portal/admin/groups'' [(''error'', ''delete failed'')])
                | Inr z \<Rightarrow> do {
                    provisionGroup s OpDelete g [];
                    ret (RRedirect ''/portal/admin/groups'' [(''success'', ''Group deleted.'')]) } } } })"

subsection \<open>Invariants\<close>

text \<open>The loops keep every relation that their store calls keep.\<close>

context prov_rel
begin

lemma admin_loops:
  assumes "\<And>gid uid d. D d (snd (AddGroupMember gid uid d))" "\<And>gid uid d. D d (snd (RemoveGroupMember gid uid d))"
    "\<And>wid uid d. D d (snd (DeleteWebAuthnCredential wid uid d))"
  shows "always (on_db D) (syncUserGroups s uid sel)" "always (on_db D) (delete_webauthns uid cs)"
    "always (on_db D) (clear_webauthns s r admin uid cs)" "always (on_db D) (revoke_targets sub ps)"
    "always (on_db D) (with_row_ids s gids)"
proof -
  have "always (on_db D) (sync_group s uid sel us g)" for us g
    unfolding sync_group_def
    by (intro db_rules provisioning_db) (simp_all add: GetGroupByID_def D_refl assms)
  then have "always (on_db D) (sync_user_groups s uid sel us gs)" for us gs
    by (induction gs) (simp_all add: ret bind)
  then show "always (on_db D) (syncUserGroups s uid sel)"
    unfolding syncUserGroups_def by (intro db_rules) (simp_all add: ListGroups_def ListUsers_def D_refl)
  show "always (on_db D) (delete_webauthns uid cs)"
    by (induction cs) (simp_all add: ret, intro db_rules, simp_all add: assms)
  show "always (on_db D) (clear_webauthns s r admin uid cs)"
    by (induction cs) (simp_all add: ret, intro db_rules, simp_all add: assms ret)
  show "always (on_db D) (revoke_targets sub ps)"
    by (induction ps) (simp_all add: ret, intro impI db_rules provisioning_db, simp_all)
  show "always (on_db D) (with_row_ids s gids)"
    by (induction gids) (simp_all add: ret, intro db_rules, simp_all)
qed

end

lemmas wf_admin_loops = wf.admin_loops [simplified store_wf, simplified]
lemmas cap_admin_loops = cap.admin_loops [simplified cap_frames, simplified]

lemmas portal_user_defs = handlePortalAdminUserNew_def handlePortalAdminUserEdit_def handlePortalAdminUserResetPassword_def
  handlePortalAdminUserCompromisedReset_def handlePortalAdminUserClearMFA_def handlePortalAdminUserRevokeAWS_def
  handlePortalAdminUserDelete_def renderUserForm_def edit_form_again_def currentMembershipFor_def set_temp_password_def
  end_sessions_def clear_totp_def

lemmas portal_client_defs = handlePortalAdminClientNew_def handlePortalAdminClientEdit_def
  handlePortalAdminClientDelete_def handlePortalAdminClientRotate_def renderClientForm_def client_form_again_def
  apply_client_form_def set_visibility_def new_secret_def

lemmas portal_group_defs = handlePortalAdminGroupNew_def handlePortalAdminGroupEdit_def handlePortalAdminGroupDelete_def

lemma wf_portal_users:
  "keeps_wf (handlePortalAdminUserNew s r sess a)" "keeps_wf (handlePortalAdminUserEdit s r sess a)"
  "keeps_wf (handlePortalAdminUserResetPassword s r sess a)" "keeps_wf (handlePortalAdminUserCompromisedReset s r sess a)"
  "keeps_wf (handlePortalAdminUserClearMFA s r sess a)" "keeps_wf (handlePortalAdminUserRevokeAWS s r sess a)"
  "keeps_wf (handlePortalAdminUserDelete s r sess a)"
  unfolding portal_user_defs
  by ((intro wf.db_rules wf.first_violation_db wf.broadcastLogout_db wf.provisioning_db wf_admin_loops)?; (simp_all add: store_wf)?)+

lemma wf_portal_clients:
  "keeps_wf (handlePortalAdminClientNew s r sess a)" "keeps_wf (handlePortalAdminClientEdit s r sess a)"
  "keeps_wf (handlePortalAdminClientDelete s r sess a)" "keeps_wf (handlePortalAdminClientRotate s r sess a)"
  unfolding portal_client_defs
  by ((intro wf.db_rules wf_admin_loops)?; (simp_all add: store_wf)?)+

lemma wf_portal_groups:
  "keeps_wf (handlePortalAdminGroupNew s r sess a)" "keeps_wf (handlePortalAdminGroupEdit s r sess a)"
  "keeps_wf (handlePortalAdminGroupDelete s r sess a)"
  unfolding portal_group_defs
  by ((intro wf.db_rules wf.provisioning_db)?; (simp_all add: store_wf)?)+

lemma cap_portal_users:
  "keeps_cap (handlePortalAdminUserNew s r sess a)" "keeps_cap (handlePortalAdminUserEdit s r sess a)"
  "keeps_cap (handlePortalAdminUserResetPassword s r sess a)" "keeps_cap (handlePortalAdminUserCompromisedReset s r sess a)"
  "keeps_cap (handlePortalAdminUserClearMFA s r sess a)" "keeps_cap (handlePortalAdminUserRevokeAWS s r sess a)"
  "keeps_cap (handlePortalAdminUserDelete s r sess a)"
  unfolding portal_user_defs
  by ((intro cap.db_rules cap.first_violation_db cap.broadcastLogout_db cap.provisioning_db cap_admin_loops)?;
      (simp_all add: cap_deletes cap_frames)?)+

lemma cap_portal_clients:
  "keeps_cap (handlePortalAdminClientNew s r sess a)" "keeps_cap (handlePortalAdminClientEdit s r sess a)"
  "keeps_cap (handlePortalAdminClientDelete s r sess a)" "keeps_cap (handlePortalAdminClientRotate s r sess a)"
  unfolding portal_client_defs
  by ((intro cap.db_rules cap_admin_loops)?; (simp_all add: cap_deletes cap_frames)?)+

lemma cap_portal_groups:
  "keeps_cap (handlePortalAdminGroupNew s r sess a)" "keeps_cap (handlePortalAdminGroupEdit s r sess a)"
  "keeps_cap (handlePortalAdminGroupDelete s r sess a)"
  unfolding portal_group_defs
  by ((intro cap.db_rules cap.provisioning_db)?; (simp_all add: cap_deletes cap_frames)?)+

end
