(* ===== verification/Portal.thy ===== *)
theory Portal
  imports Authorize
begin

text \<open>
  The self-service portal of \<open>src/internal/api/web_portal.go\<close>: registration, login with its
  forced-rotation and MFA steps, logout, the profile page and the MFA settings. Handlers
  behind \<open>portalAuth\<close> take the session and the user it put into the request context.
\<close>

text \<open>The tail of every login: seat the session, or say why not.\<close>

definition finish_login :: "server \<Rightarrow> request \<Rightarrow> User \<Rightarrow> response \<Rightarrow> response act" where
  "finish_login s r user failed = do {
     p \<leftarrow> createPortalSession s r user;
     ret (if p = PortalOK then RRedirect ''/portal'' [] else if p = PortalAuditDown then auditFail else failed) }"

subsection \<open>Login and registration\<close>

definition handlePortalLoginGET :: "server \<Rightarrow> request \<Rightarrow> response act" where
  "handlePortalLoginGET s r =
     (if QueryGet r ''prompt'' = ''login'' then ret (RPage ''portal_login.html'' (QueryGet r ''error''))
      else do {
        p \<leftarrow> readAuthPortalSession s r;
        ret (case p of
               PortalSession sess user raw \<Rightarrow> RRedirect ''/portal'' []
             | _ \<Rightarrow> RPage ''portal_login.html'' (QueryGet r ''error'')) })"

definition handlePortalRegisterGET :: "server \<Rightarrow> request \<Rightarrow> response act" where
  "handlePortalRegisterGET s r =
     (if \<not> srv_allowReg s then ret (RRedirect ''/portal/login'' [])
      else do {
        p \<leftarrow> readAuthPortalSession s r;
        ret (case p of
               PortalSession sess user raw \<Rightarrow> RRedirect ''/portal'' []
             | _ \<Rightarrow> RPage ''portal_register.html'' []) })"

definition handlePortalRegisterPOST :: "server \<Rightarrow> request \<Rightarrow> response act" where
  "handlePortalRegisterPOST s r =
     (if \<not> srv_allowReg s then ret (RRedirect ''/portal/login'' [])
      else (let email = ToLower (TrimSpace (FormValue r ''email'')); name0 = TrimSpace (FormValue r ''name'');
                password = FormValue r ''password''; showErr = RPage ''portal_register.html'' in
      if password \<noteq> FormValue r ''confirm'' then ret (showErr ''Passwords do not match.'')
      else do {
        h \<leftarrow> HashPassword s password;
        case h of
          None \<Rightarrow> ret (showErr ''An error occurred. Please try again.'')
        | Some hash \<Rightarrow> do {
        let name = (if name0 = [] then takeWhile (\<lambda>c. c \<noteq> CHR ''@'') email else name0);
        v \<leftarrow> first_violation s (no_context\<lparr>pc_Password := password\<rparr>);
        case v of
          Some viol \<Rightarrow> ret (showErr (pv_Message viol))
        | None \<Rightarrow> do {
        uid \<leftarrow> newUUID s;
        u \<leftarrow> store_at (\<lambda>now. CreateUser now uid email hash name);
        case u of
          Inl ErrConflict \<Rightarrow> ret (showErr ''An account with that email already exists.'')
        | Inl e \<Rightarrow> ret (showErr ''An error occurred. Please try again.'')
        | Inr user0 \<Rightarrow> do {
        user \<leftarrow> promoteIfFirstUser user0;
        ok \<leftarrow> logAudit s r ''admin.user.created'' (Some (u_ID user)) None [(''via'', JStr ''portal_register'')];
        if \<not> ok then do {
          undoOnAuditFailure (DeleteUser (u_ID user));
          ret auditFail }
        else do {
          provisionUser s OpCreate (Some user);
          finish_login s r user (RRedirect ''/portal/login'' []) } } } } }))"

text \<open>After the password and the policy: rotation first, then MFA, then the session.\<close>

definition portal_accepted :: "server \<Rightarrow> request \<Rightarrow> User \<Rightarrow> response act" where
  "portal_accepted s r user = do {
     x \<leftarrow> store_at (\<lambda>now. UpdateUserFailedAttempts now (u_ID user) 0 None);
     let err = RPage ''portal_login.html'' ''An error occurred. Please try again.'';
     if u_MustChangePassword user then do {
       ok \<leftarrow> setPortalLoginCookie s (u_ID user);
       ret (if ok then RRedirect ''/portal/login/change-password'' [] else err) }
     else if u_MFAEnabled user then do {
       ok \<leftarrow> setPortalLoginCookie s (u_ID user);
       ret (if ok then RRedirect ''/portal/login/mfa'' [] else err) }
     else finish_login s r user err }"

definition portal_login_failed :: "server \<Rightarrow> request \<Rightarrow> string \<Rightarrow> response act" where
  "portal_login_failed s r email = do {
     ok \<leftarrow> logAudit s r ''auth.login.failed'' None None [(''email'', JStr email), (''via'', JStr ''portal'')];
     ret (if ok then RPage ''portal_login.html'' ''Invalid email or password.'' else auditFail) }"

definition handlePortalLoginPOST :: "server \<Rightarrow> request \<Rightarrow> response act" where
  "handlePortalLoginPOST s r =
     (let email = ToLower (TrimSpace (FormValue r ''email'')); password = FormValue r ''password'' in do {
        u \<leftarrow> store (GetUserByEmail email);
        case u of
          Inl ErrNotFound \<Rightarrow> portal_login_failed s r email
        | Inl e \<Rightarrow> ret (RPage ''portal_login.html'' ''An error occurred. Please try again.'')
        | Inr user \<Rightarrow>
            if \<not> CheckPassword s (u_PasswordHash user) password then do {
              incrementFailedAttempts user;
              portal_login_failed s r email }
            else if \<not> u_Active user then ret (RPage ''portal_login.html'' ''Account is disabled.'')
            else do {
              v \<leftarrow> first_violation s (no_context\<lparr>pc_User := Some user\<rparr>);
              case v of
                Some viol \<Rightarrow> ret (RPage ''portal_login.html'' (pv_Message viol))
              | None \<Rightarrow> portal_accepted s r user } })"

text \<open>Forced rotation. The \<open>GET\<close> form, then the new password; the user row is read again
  before the login goes on.\<close>

definition rotate_password :: "server \<Rightarrow> request \<Rightarrow> User \<Rightarrow> response act" where
  "rotate_password s r user =
     (let newPw = FormValue r ''new_password''; showForm = RPage ''portal_change_password.html'' in
      if newPw = [] then ret (showForm ''New password is required.'')
      else if newPw \<noteq> FormValue r ''confirm'' then ret (showForm ''Passwords do not match.'')
      else do {
        v \<leftarrow> first_violation s (no_context\<lparr>pc_Password := newPw, pc_User := Some user\<rparr>);
        case v of
          Some viol \<Rightarrow> ret (showForm (pv_Message viol))
        | None \<Rightarrow> do {
        h \<leftarrow> HashPassword s newPw;
        case h of
          None \<Rightarrow> ret (showForm ''An error occurred. Please try again.'')
        | Some hash \<Rightarrow> do {
        x \<leftarrow> store_at (\<lambda>now. UpdateUserPassword now (u_ID user) hash);
        case x of
          Inl e \<Rightarrow> ret (showForm ''An error occurred. Please try again.'')
        | Inr z \<Rightarrow> do {
        ok \<leftarrow> logAudit s r ''admin.user.updated'' (Some (u_ID user)) None
               [(''field'', JStr ''password''), (''via'', JStr ''forced_rotation'')];
        if \<not> ok then ret auditFail
        else do {
        u \<leftarrow> store (GetUserByID (u_ID user));
        case u of
          Inl e \<Rightarrow> ret (showForm ''An error occurred. Please try again.'')
        | Inr user2 \<Rightarrow>
            if u_MFAEnabled user2 then ret (RRedirect ''/portal/login/mfa'' [])
            else do {
              clearCookie portalLoginCookie;
              finish_login s r user2 (showForm ''An error occurred. Please try again.'') } } } } } })"

definition handlePortalChangePassword :: "server \<Rightarrow> request \<Rightarrow> response act" where
  "handlePortalChangePassword s r = do {
     c \<leftarrow> getPortalLoginCookie r;
     case c of
       None \<Rightarrow> ret (RRedirect ''/portal/login'' [])
     | Some st \<Rightarrow> do {
         u \<leftarrow> store (GetUserByID (pl_UserID st));
         case u of
           Inl e \<Rightarrow> ret (RRedirect ''/portal/login'' [])
         | Inr user \<Rightarrow>
             if \<not> u_MustChangePassword user then do {
               clearCookie portalLoginCookie;
               ret (RRedirect ''/portal/login'' []) }
             else if \<not> rq_isPost r then ret (RPage ''portal_change_password.html'' [])
             else rotate_password s r user } }"

definition portalMFAMethods :: "uuid \<Rightarrow> (bool \<times> bool) act" where
  "portalMFAMethods userID = do {
     t \<leftarrow> store (GetTOTPByUserID userID);
     l \<leftarrow> store (ListWebAuthnCredentials userID);
     ret (case t of Inl e \<Rightarrow> False | Inr c \<Rightarrow> t_Enabled c, list_or_empty l \<noteq> []) }"

definition handlePortalLoginMFA :: "server \<Rightarrow> request \<Rightarrow> response act" where
  "handlePortalLoginMFA s r = do {
     c \<leftarrow> getPortalLoginCookie r;
     case c of
       None \<Rightarrow> ret (RRedirect ''/portal/login'' [])
     | Some st \<Rightarrow> do {
     u \<leftarrow> store (GetUserByID (pl_UserID st));
     case u of
       Inl e \<Rightarrow> ret (RRedirect ''/portal/login'' [])
     | Inr user \<Rightarrow>
         if u_MustChangePassword user then ret (RRedirect ''/portal/login/change-password'' [])
         else do {
           ms \<leftarrow> portalMFAMethods (u_ID user);
           if \<not> rq_isPost r then ret (RPage ''portal_login_mfa.html'' [])
           else do {
             v \<leftarrow> VerifyTOTP s (u_ID user) (FormValue r ''code'');
             case v of
               Inl e \<Rightarrow> do {
                 ok \<leftarrow> logAudit s r ''auth.login.mfa.failed'' (Some (u_ID user)) None [(''via'', JStr ''portal'')];
                 ret (if ok then RPage ''portal_login_mfa.html'' ''Invalid code. Please try again.'' else auditFail) }
             | Inr x \<Rightarrow> do {
                 clearCookie portalLoginCookie;
                 finish_login s r user (RPage ''portal_login_mfa.html'' ''An error occurred. Please try again.'') } } } } }"

definition handlePortalLoginMFAWebAuthnBegin :: "server \<Rightarrow> request \<Rightarrow> response act" where
  "handlePortalLoginMFAWebAuthnBegin s r = do {
     c \<leftarrow> getPortalLoginCookie r;
     case c of
       None \<Rightarrow> ret (writeError 401 ''unauthorized'' ''no login session'')
     | Some st \<Rightarrow> do {
     u \<leftarrow> store (GetUserByID (pl_UserID st));
     case u of
       Inl e \<Rightarrow> ret (writeError 401 ''unauthorized'' ''user not found'')
     | Inr user \<Rightarrow> do {
         b \<leftarrow> BeginLogin s user;
         ret (case b of
                Inl e \<Rightarrow> writeError 500 ''server_error'' ''begin login failed''
              | Inr (opt, sid) \<Rightarrow> RJSON 200 [(''options'', JStr opt), (''session_id'', JID sid)]) } } }"

definition handlePortalLoginMFAWebAuthnFinish :: "server \<Rightarrow> request \<Rightarrow> response act" where
  "handlePortalLoginMFAWebAuthnFinish s r = do {
     c \<leftarrow> getPortalLoginCookie r;
     case c of
       None \<Rightarrow> ret (writeError 401 ''unauthorized'' ''no login session'')
     | Some st \<Rightarrow> do {
     u \<leftarrow> store (GetUserByID (pl_UserID st));
     case u of
       Inl e \<Rightarrow> ret (writeError 401 ''unauthorized'' ''user not found'')
     | Inr user \<Rightarrow>
         (case x_ParseUUID (srv_ext s) (QueryGet r ''session_id'') of
            None \<Rightarrow> ret (writeError 400 ''invalid_request'' ''invalid session_id'')
          | Some sessionID \<Rightarrow> do {
     f \<leftarrow> FinishLogin s user sessionID r;
     case f of
       Inl e \<Rightarrow> do {
         ok \<leftarrow> logAudit s r ''auth.login.mfa.failed'' (Some (u_ID user)) None [(''via'', JStr ''portal_webauthn'')];
         ret (if ok then writeError 401 ''unauthorized'' ''webauthn verification failed'' else auditFail) }
     | Inr amr \<Rightarrow> do {
         clearCookie portalLoginCookie;
         p \<leftarrow> createPortalSession s r user;
         ret (if p = PortalOK then RJSON 200 [(''redirect_to'', JStr ''/portal'')]
              else if p = PortalAuditDown then auditFail
              else writeError 500 ''server_error'' ''session creation failed'') } }) } }"

definition handlePortalLogout :: "server \<Rightarrow> request \<Rightarrow> Session \<Rightarrow> User \<Rightarrow> response act" where
  "handlePortalLogout s r sess user = do {
     broadcastLogout s (u_ID user) [];
     x \<leftarrow> store (DeleteSessionsByUserID (u_ID user));
     ok \<leftarrow> logAudit s r ''auth.logout'' (Some (u_ID user)) None [(''via'', JStr ''portal'')];
     clearCookie portalCookie;
     ret (RRedirect ''/portal/login'' []) }"

subsection \<open>Profile and MFA settings\<close>

definition account_page :: "User \<Rightarrow> string \<Rightarrow> response act" where
  "account_page user errMsg = do {
     t \<leftarrow> store (GetTOTPByUserID (u_ID user));
     l \<leftarrow> store (ListWebAuthnCredentials (u_ID user));
     ret (RPage ''portal_account.html'' errMsg) }"

definition account_redirect :: "string \<Rightarrow> string \<Rightarrow> response" where
  "account_redirect k msg = RRedirect ''/portal/account'' [(k, msg)]"

definition handlePortalAccountProfile :: "server \<Rightarrow> request \<Rightarrow> Session \<Rightarrow> User \<Rightarrow> response act" where
  "handlePortalAccountProfile s r sess user =
     (let name = TrimSpace (FormValue r ''name'') in
      if name = [] then account_page user ''Name cannot be empty.''
      else do {
        x \<leftarrow> store_at (\<lambda>now. UpdateUser now (u_ID user) name (u_Active user));
        case x of
          Inl e \<Rightarrow> ret (account_redirect ''error'' ''update failed'')
        | Inr z \<Rightarrow> do {
            ok \<leftarrow> logAudit s r ''admin.user.updated'' (Some (u_ID user)) None [(''field'', JStr ''name'')];
            ret (if ok then account_redirect ''success'' ''Profile updated.'' else auditFail) } })"

definition handlePortalAccountPassword :: "server \<Rightarrow> request \<Rightarrow> Session \<Rightarrow> User \<Rightarrow> response act" where
  "handlePortalAccountPassword s r sess user =
     (let newPw = FormValue r ''new_password'' in
      if \<not> CheckPassword s (u_PasswordHash user) (FormValue r ''current_password'')
      then account_page user ''Current password is incorrect.''
      else do {
        v \<leftarrow> first_violation s (no_context\<lparr>pc_Password := newPw\<rparr>);
        case v of
          Some viol \<Rightarrow> account_page user (pv_Message viol)
        | None \<Rightarrow> do {
        h \<leftarrow> HashPassword s newPw;
        case h of
          None \<Rightarrow> account_page user ''An error occurred. Please try again.''
        | Some hash \<Rightarrow> do {
        x \<leftarrow> store_at (\<lambda>now. UpdateUserPassword now (u_ID user) hash);
        case x of
          Inl e \<Rightarrow> account_page user ''An error occurred. Please try again.''
        | Inr z \<Rightarrow> do {
            ok \<leftarrow> logAudit s r ''admin.user.updated'' (Some (u_ID user)) None [(''field'', JStr ''password'')];
            ret (if ok then account_redirect ''success'' ''Password updated.'' else auditFail) } } } })"

definition handlePortalMFATOTPEnroll :: "server \<Rightarrow> request \<Rightarrow> Session \<Rightarrow> User \<Rightarrow> response act" where
  "handlePortalMFATOTPEnroll s r sess user = do {
     x \<leftarrow> EnrollTOTP s user;
     case x of
       Inl e \<Rightarrow> ret (account_redirect ''error'' ''enrollment failed'')
     | Inr resp \<Rightarrow> do {
         ok \<leftarrow> setTOTPPendingCookie s (te_OTPURI resp) (te_Secret resp);
         ret (if ok then RRedirect ''/portal/account'' [] else account_redirect ''error'' ''enrollment failed'') } }"

definition handlePortalMFATOTPConfirm :: "server \<Rightarrow> request \<Rightarrow> Session \<Rightarrow> User \<Rightarrow> response act" where
  "handlePortalMFATOTPConfirm s r sess user = do {
     x \<leftarrow> ConfirmTOTP s (u_ID user) (FormValue r ''code'');
     case x of
       Inl e \<Rightarrow> ret (account_redirect ''error'' ''Invalid code. Please try again.'')
     | Inr z \<Rightarrow> do {
         y \<leftarrow> store_at (\<lambda>now. UpdateUserMFAEnabled now (u_ID user) True);
         ok \<leftarrow> logAudit s r ''mfa.totp.enrolled'' (Some (u_ID user)) None [];
         if \<not> ok then ret auditFail
         else do {
           clearCookie portalTOTPCookie;
           ret (account_redirect ''success'' ''TOTP enrolled successfully.'') } } }"

definition handlePortalMFATOTPDelete :: "server \<Rightarrow> request \<Rightarrow> Session \<Rightarrow> User \<Rightarrow> response act" where
  "handlePortalMFATOTPDelete s r sess user = do {
     ok \<leftarrow> logAudit s r ''mfa.totp.deleted'' (Some (u_ID user)) None [];
     if \<not> ok then ret auditFail
     else do {
       x \<leftarrow> store (DeleteTOTP (u_ID user));
       if x \<noteq> Inr () \<and> x \<noteq> Inl ErrNotFound then ret (account_redirect ''error'' ''delete failed'')
       else do {
         y \<leftarrow> store_at (\<lambda>now. UpdateUserMFAEnabled now (u_ID user) False);
         ret (account_redirect ''success'' ''Authenticator app removed.'') } } }"

definition handlePortalMFAWebAuthnBegin :: "server \<Rightarrow> request \<Rightarrow> Session \<Rightarrow> User \<Rightarrow> response act" where
  "handlePortalMFAWebAuthnBegin s r sess user = do {
     b \<leftarrow> BeginRegistration s user;
     ret (case b of
            Inl e \<Rightarrow> writeError 500 ''server_error'' ''registration failed''
          | Inr (opt, sid) \<Rightarrow> RJSON 200 [(''options'', JStr opt), (''session_id'', JID sid)]) }"

definition handlePortalMFAWebAuthnFinish :: "server \<Rightarrow> request \<Rightarrow> Session \<Rightarrow> User \<Rightarrow> response act" where
  "handlePortalMFAWebAuthnFinish s r sess user =
     (case x_ParseUUID (srv_ext s) (QueryGet r ''session_id'') of
        None \<Rightarrow> ret (writeError 400 ''invalid_request'' ''invalid session_id'')
      | Some sessionID \<Rightarrow> do {
          f \<leftarrow> FinishRegistration s user sessionID r (QueryGet r ''device_name'');
          case f of
            Inl e \<Rightarrow> ret (writeError 400 ''invalid_request'' (mfa_error_text e))
          | Inr cred \<Rightarrow> do {
              y \<leftarrow> store_at (\<lambda>now. UpdateUserMFAEnabled now (u_ID user) True);
              ok \<leftarrow> logAudit s r ''mfa.webauthn.enrolled'' (Some (u_ID user)) None [(''credential_id'', JID (wc_ID cred))];
              ret (if ok then RJSON 200 [(''id'', JID (wc_ID cred)), (''device_name'', JStr (wc_DeviceName cred))]
                   else auditFail) } })"

definition handlePortalMFAWebAuthnDelete :: "server \<Rightarrow> request \<Rightarrow> Session \<Rightarrow> User \<Rightarrow> response act" where
  "handlePortalMFAWebAuthnDelete s r sess user =
     (case rq_pathID r of
        None \<Rightarrow> ret (account_redirect ''error'' ''invalid credential id'')
      | Some credID \<Rightarrow> do {
          o1 \<leftarrow> store (ListWebAuthnCredentials (u_ID user));
          if \<not> list_ex (\<lambda>c. wc_ID c = credID) (list_or_empty o1)
          then ret (account_redirect ''error'' ''credential not found'')
          else do {
            ok \<leftarrow> logAudit s r ''mfa.webauthn.deleted'' (Some (u_ID user)) None [(''credential_id'', JID credID)];
            if \<not> ok then ret auditFail
            else do {
              x \<leftarrow> store (DeleteWebAuthnCredential credID (u_ID user));
              case x of
                Inl ErrNotFound \<Rightarrow> ret (account_redirect ''error'' ''credential not found'')
              | Inl e \<Rightarrow> ret (account_redirect ''error'' ''delete failed'')
              | Inr z \<Rightarrow> do {
                  l \<leftarrow> store (ListWebAuthnCredentials (u_ID user));
                  t \<leftarrow> store (GetTOTPByUserID (u_ID user));
                  (if list_or_empty l = [] \<and> (case t of Inl e \<Rightarrow> True | Inr c \<Rightarrow> False) then do {
                     y \<leftarrow> store_at (\<lambda>now. UpdateUserMFAEnabled now (u_ID user) False);
                     ret () }
                   else ret ());
                  ret (account_redirect ''success'' ''Security key removed.'') } } } })"

subsection \<open>Invariants\<close>

lemma wf_portal_login:
  "keeps_wf (finish_login s r u f)" "keeps_wf (handlePortalRegisterPOST s r)" "keeps_wf (handlePortalLoginPOST s r)"
  "keeps_wf (handlePortalChangePassword s r)" "keeps_wf (handlePortalLoginMFA s r)"
  "keeps_wf (handlePortalLoginMFAWebAuthnBegin s r)" "keeps_wf (handlePortalLoginMFAWebAuthnFinish s r)"
  "keeps_wf (handlePortalLoginGET s r)" "keeps_wf (handlePortalRegisterGET s r)"
  unfolding handlePortalRegisterPOST_def handlePortalLoginPOST_def handlePortalChangePassword_def handlePortalLoginMFA_def
    handlePortalLoginMFAWebAuthnBegin_def handlePortalLoginMFAWebAuthnFinish_def portal_accepted_def portal_login_failed_def
    rotate_password_def portalMFAMethods_def finish_login_def handlePortalLoginGET_def handlePortalRegisterGET_def
    incrementFailedAttempts_def
  by ((intro wf.db_rules wf.cookie_db wf.first_violation_db wf.portal_case wf.provisioning_db wf.readAuthPortalSession_db wf_promoteIfFirstUser
        wf_createPortalSession wf_mfa wf.VerifyTOTP_db)?; (simp_all add: store_wf)?)+

lemma cap_portal_login:
  "keeps_cap (finish_login s r u f)" "keeps_cap (handlePortalRegisterPOST s r)" "keeps_cap (handlePortalLoginPOST s r)"
  "keeps_cap (handlePortalChangePassword s r)" "keeps_cap (handlePortalLoginMFA s r)"
  "keeps_cap (handlePortalLoginMFAWebAuthnBegin s r)" "keeps_cap (handlePortalLoginMFAWebAuthnFinish s r)"
  "keeps_cap (handlePortalLoginGET s r)" "keeps_cap (handlePortalRegisterGET s r)"
  unfolding handlePortalRegisterPOST_def handlePortalLoginPOST_def handlePortalChangePassword_def handlePortalLoginMFA_def
    handlePortalLoginMFAWebAuthnBegin_def handlePortalLoginMFAWebAuthnFinish_def portal_accepted_def portal_login_failed_def
    rotate_password_def portalMFAMethods_def finish_login_def handlePortalLoginGET_def handlePortalRegisterGET_def
    incrementFailedAttempts_def
  by ((intro cap.db_rules cap.cookie_db cap.first_violation_db cap.portal_case cap.provisioning_db cap.readAuthPortalSession_db cap_promoteIfFirstUser
        cap_createPortalSession cap.mfa_core cap.VerifyTOTP_db)?; (simp_all add: cap_deletes cap_frames)?)+

lemma wf_portal_account:
  "keeps_wf (handlePortalLogout s r sess u)" "keeps_wf (handlePortalAccountProfile s r sess u)"
  "keeps_wf (handlePortalAccountPassword s r sess u)" "keeps_wf (handlePortalMFATOTPEnroll s r sess u)"
  "keeps_wf (handlePortalMFATOTPConfirm s r sess u)" "keeps_wf (handlePortalMFATOTPDelete s r sess u)"
  "keeps_wf (handlePortalMFAWebAuthnBegin s r sess u)" "keeps_wf (handlePortalMFAWebAuthnFinish s r sess u)"
  "keeps_wf (handlePortalMFAWebAuthnDelete s r sess u)"
  unfolding handlePortalLogout_def handlePortalAccountProfile_def handlePortalAccountPassword_def account_page_def
    handlePortalMFATOTPEnroll_def handlePortalMFATOTPConfirm_def handlePortalMFATOTPDelete_def handlePortalMFAWebAuthnBegin_def
    handlePortalMFAWebAuthnFinish_def handlePortalMFAWebAuthnDelete_def
  by ((intro wf.db_rules wf.cookie_db wf.first_violation_db wf.broadcastLogout_db wf_mfa)?; (simp_all add: store_wf)?)+

lemma cap_portal_account:
  "keeps_cap (handlePortalLogout s r sess u)" "keeps_cap (handlePortalAccountProfile s r sess u)"
  "keeps_cap (handlePortalAccountPassword s r sess u)" "keeps_cap (handlePortalMFATOTPEnroll s r sess u)"
  "keeps_cap (handlePortalMFATOTPConfirm s r sess u)" "keeps_cap (handlePortalMFATOTPDelete s r sess u)"
  "keeps_cap (handlePortalMFAWebAuthnBegin s r sess u)" "keeps_cap (handlePortalMFAWebAuthnFinish s r sess u)"
  "keeps_cap (handlePortalMFAWebAuthnDelete s r sess u)"
  unfolding handlePortalLogout_def handlePortalAccountProfile_def handlePortalAccountPassword_def account_page_def
    handlePortalMFATOTPEnroll_def handlePortalMFATOTPConfirm_def handlePortalMFATOTPDelete_def handlePortalMFAWebAuthnBegin_def
    handlePortalMFAWebAuthnFinish_def handlePortalMFAWebAuthnDelete_def
  by ((intro cap.db_rules cap.cookie_db cap.first_violation_db cap.broadcastLogout_db cap.mfa_core)?; (simp_all add: cap_deletes cap_frames)?)+

end
