(* ===== verification/Aws.thy ===== *)
theory Aws
  imports Portal_Admin Portal
begin

text \<open>
  AWS federation: regions and console hosts, the console redirect, \<open>assumeRoleForUser\<close>
  and the \<open>team\<close> tag of \<open>src/internal/api/web_portal_aws.go\<close>, the step-up challenge of
  \<open>src/internal/api/web_portal_step_up.go\<close>, the credentials endpoint of
  \<open>src/internal/api/aws_credentials.go\<close> and the launcher tiles of
  \<open>src/internal/api/web_portal_apps.go\<close>. STS and the sign-in endpoint are remote calls;
  a URL with a query is its base and its parameters.
\<close>

subsection \<open>Regions\<close>

record awsDoor =
  door_stsRegion :: string
  door_signinFed :: string
  door_consoleHome :: string

definition doorFor :: "string \<Rightarrow> awsDoor" where
  "doorFor region =
     (if region = [] then
        \<lparr>door_stsRegion = ''aws-global'', door_signinFed = ''https://signin.aws.amazon.com/federation'',
         door_consoleHome = ''https://console.aws.amazon.com/''\<rparr>
      else
        \<lparr>door_stsRegion = region,
         door_signinFed = ''https://'' @ region @ ''.signin.aws.amazon.com/federation'',
         door_consoleHome = ''https://'' @ region @ ''.console.aws.amazon.com/console/home?region='' @ region\<rparr>)"

text \<open>The regular expression \<open>^[a-z0-9-]{1,20}$\<close>.\<close>

definition awsRegionPattern :: "string \<Rightarrow> bool" where
  "awsRegionPattern r \<longleftrightarrow> 1 \<le> length r \<and> length r \<le> 20 \<and>
     list_all (\<lambda>c. is_lower c \<or> is_digit c \<or> c = CHR ''-'') r"

definition sanitizeAWSRegion :: "string \<Rightarrow> string" where
  "sanitizeAWSRegion region = (if region = [] \<or> awsRegionPattern region then region else [])"

definition splitRegions :: "string \<Rightarrow> string list" where
  "splitRegions l = FieldsFunc (\<lambda>c. c = CHR '','' \<or> is_space c) l"

definition append_new :: "string list \<Rightarrow> string \<Rightarrow> string list" where
  "append_new rs r = (if r \<in> set rs then rs else rs @ [r])"

fun collect_regions :: "(string \<Rightarrow> bool) \<Rightarrow> string list \<Rightarrow> string list \<Rightarrow> string list option" where
  "collect_regions ok out [] = Some out"
| "collect_regions ok out (r # rs) = (if ok r then collect_regions ok (append_new out r) rs else None)"

definition ParseAWSRegions :: "string \<Rightarrow> string \<Rightarrow> (string list \<times> string) option" where
  "ParseAWSRegions l def0 =
     (case collect_regions awsRegionPattern [] (splitRegions l) of
        None \<Rightarrow> None
      | Some regions \<Rightarrow>
          (let def = TrimSpace def0 in
           if def = [] then Some (regions, [])
           else if \<not> awsRegionPattern def then None
           else Some (append_new regions def, def)))"

definition parseRoleRegions :: "server \<Rightarrow> string \<Rightarrow> string list option" where
  "parseRoleRegions s l = collect_regions (\<lambda>r. r \<in> set (srv_awsRegions s)) [] (splitRegions l)"

record regionOption =
  ro_Value :: string
  ro_Label :: string
  ro_Selected :: bool

definition eligibleAWSRegions :: "server \<Rightarrow> AWSRole \<Rightarrow> string list \<times> bool" where
  "eligibleAWSRegions s role =
     (if ar_AllowedRegions role = [] then (srv_awsRegions s, False)
      else (filter (\<lambda>r. r \<in> set (ar_AllowedRegions role)) (srv_awsRegions s), True))"

definition awsRegionOptions :: "server \<Rightarrow> AWSRole \<Rightarrow> regionOption list" where
  "awsRegionOptions s role =
     (let (eligible, restricted) = eligibleAWSRegions s role in
      if eligible = [] then []
      else (let includeGlobal = (\<not> restricted \<and> srv_awsDefaultRegion s = []);
                def = (if srv_awsDefaultRegion s \<in> set eligible then srv_awsDefaultRegion s
                       else if \<not> includeGlobal then hd eligible else []) in
        (if includeGlobal then [\<lparr>ro_Value = [], ro_Label = ''Global (default)'', ro_Selected = True\<rparr>] else []) @
        map (\<lambda>r. \<lparr>ro_Value = r, ro_Label = (if r = def then r @ '' (default)'' else r), ro_Selected = (r = def)\<rparr>) eligible))"

definition awsRegionsBlocked :: "server \<Rightarrow> AWSRole \<Rightarrow> bool" where
  "awsRegionsBlocked s role \<longleftrightarrow> srv_awsRegions s \<noteq> [] \<and> awsRegionOptions s role = []"

definition resolveAWSRegion :: "server \<Rightarrow> AWSRole \<Rightarrow> string \<Rightarrow> string option" where
  "resolveAWSRegion s role requested =
     (if srv_awsRegions s = [] then (if requested = [] then Some [] else None)
      else map_option ro_Value (find (\<lambda>opt. (requested = [] \<and> ro_Selected opt) \<or> (requested \<noteq> [] \<and> ro_Value opt = requested))
             (awsRegionOptions s role)))"

subsection \<open>Who may assume a role\<close>

definition resolveAuthorizedAWSRole :: "uuid \<Rightarrow> uuid \<Rightarrow> (AWSRole \<times> bool) option act" where
  "resolveAuthorizedAWSRole userID roleID = do {
     x \<leftarrow> store (GetAWSRole roleID);
     case x of
       Inl e \<Rightarrow> ret None
     | Inr role \<Rightarrow> do {
         y \<leftarrow> store (ListAWSRolesForUser userID);
         ret (case y of
                Inl e \<Rightarrow> None
              | Inr authorized \<Rightarrow> Some (role, list_ex (\<lambda>ar. ar_ID ar = roleID) authorized)) } }"

definition resolveAWSRoleBySlugForUser :: "uuid \<Rightarrow> string \<Rightarrow> AWSRole option option act" where
  "resolveAWSRoleBySlugForUser userID slug = do {
     x \<leftarrow> store (ListAWSRolesForUser userID);
     ret (case x of Inl e \<Rightarrow> None | Inr roles \<Rightarrow> Some (find (\<lambda>r. ar_Slug r = slug) roles)) }"

text \<open>\<open>None\<close> when a lookup fails.\<close>

definition authorizingGroupsForRole :: "uuid \<Rightarrow> uuid \<Rightarrow> string list option act" where
  "authorizingGroupsForRole userID roleID = do {
     x \<leftarrow> store ListAWSRoleAssignments;
     case x of
       Inl e \<Rightarrow> ret None
     | Inr assigns \<Rightarrow>
         (let authorizing = map as_GroupID (filter (\<lambda>a. as_RoleID a = roleID) assigns) in
          if authorizing = [] then ret (Some [])
          else do {
            y \<leftarrow> store ListGroups;
            ret (case y of
                   Inl e \<Rightarrow> None
                 | Inr gs \<Rightarrow> Some (sort_by name_le (map gr_DisplayName
                     (filter (\<lambda>g. gr_ID g \<in> set authorizing \<and> userID \<in> set (gr_Members g)) gs)))) }) }"

definition stepUpMFAFresh :: "server \<Rightarrow> time \<Rightarrow> Session \<Rightarrow> bool" where
  "stepUpMFAFresh s now sess =
     (case s_MFAVerifiedAt sess of None \<Rightarrow> False | Some t \<Rightarrow> now - t \<le> srv_stepUpMFATTL s)"

subsection \<open>Assuming a role\<close>

definition session_char :: "char \<Rightarrow> char" where
  "session_char c = (if is_lower c \<or> is_upper c \<or> is_digit c \<or> c \<in> set ''=,.@-'' then c else CHR ''-'')"

definition decimal_int :: "int \<Rightarrow> string" where
  "decimal_int i = (if i < 0 then CHR ''-'' # decimal (nat (- i)) else decimal (nat i))"

definition buildRoleSessionName :: "server \<Rightarrow> time \<Rightarrow> string \<Rightarrow> uuid \<Rightarrow> string" where
  "buildRoleSessionName s now email userID =
     (let local = takeWhile (\<lambda>c. c \<noteq> CHR ''@'') email;
          raw = local @ ''-'' @ take 8 (uuid_string s userID) @ ''-'' @ decimal_int (now div second) in
      take 64 (map session_char raw))"

definition federationTokenTTL :: duration where "federationTokenTTL = 15 * minute"

datatype fed_error = FedUnconfigured | FedGroups | FedMint | FedSTS string

text \<open>The text shown and journalled; the text of a wrapped driver error is left out.\<close>

definition fed_error_text :: "fed_error \<Rightarrow> string" where
  "fed_error_text e =
     (case e of
        FedUnconfigured \<Rightarrow> ''AUTHD_AWS_AUDIENCE is not set; aws federation is disabled''
      | FedGroups \<Rightarrow> ''resolve authorizing groups: ''
      | FedMint \<Rightarrow> ''mint federation token: ''
      | FedSTS msg \<Rightarrow> msg)"

definition principal_tags :: "server \<Rightarrow> User \<Rightarrow> string list \<Rightarrow> (string \<times> string) list" where
  "principal_tags s user authzGroups =
     (''sub'', uuid_string s (u_ID user)) #
     (if u_Email user = [] then [] else [(''email'', u_Email user)]) @
     (case authzGroups of [] \<Rightarrow> [] | g # gs \<Rightarrow> [(''team'', g)])"

definition federation_claims_for ::
  "server \<Rightarrow> User \<Rightarrow> Session \<Rightarrow> string list \<Rightarrow> string list \<Rightarrow> federation_claims" where
  "federation_claims_for s user sess gs authzGroups =
     \<lparr>fc_Sub = uuid_string s (u_ID user), fc_Aud = srv_awsAudience s, fc_Email = u_Email user, fc_Name = u_Name user,
      fc_Groups = gs, fc_AMR = ''pwd'' # (if s_MFAVerified sess then [''mfa''] else []),
      fc_AuthTime = s_CreatedAt sess, fc_TTL = federationTokenTTL,
      fc_PrincipalTags = principal_tags s user authzGroups\<rparr>"

text \<open>The output of STS: credentials, or a reply without any.\<close>

type_synonym sts_output = "(string \<times> string \<times> string \<times> time option) option"

definition assumeRoleForUser ::
  "server \<Rightarrow> User \<Rightarrow> Session \<Rightarrow> AWSRole \<Rightarrow> string \<Rightarrow> (fed_error + sts_output \<times> string) act" where
  "assumeRoleForUser s user sess role region =
     (if srv_awsAudience s = [] then ret (Inl FedUnconfigured)
      else do {
        g \<leftarrow> groupNamesForUser (u_ID user);
        az \<leftarrow> authorizingGroupsForRole (u_ID user) (ar_ID role);
        case az of
          None \<Rightarrow> ret (Inl FedGroups)
        | Some authzGroups \<Rightarrow>
            (case x_MintFederationToken (srv_ext s) (federation_claims_for s user sess
                     (case g of Inl e \<Rightarrow> [] | Inr gs \<Rightarrow> gs) authzGroups) of
               None \<Rightarrow> ret (Inl FedMint)
             | Some idToken \<Rightarrow> do {
                 now \<leftarrow> get_now;
                 let sessionName = buildRoleSessionName s now (u_Email user) (u_ID user);
                 x \<leftarrow> remote_call (AssumeRoleWithWebIdentity (door_stsRegion (doorFor region)) (ar_RoleARN role)
                        sessionName idToken (int32 (ar_MaxSessionDurationSec role)));
                 ret (case x of
                        RemoteCreds k t tok ex \<Rightarrow> Inr (Some (k, t, tok, ex), sessionName)
                      | RemoteOK r \<Rightarrow> Inr (None, sessionName)
                      | RemoteNotFound \<Rightarrow> Inl (FedSTS [])
                      | RemoteError msg \<Rightarrow> Inl (FedSTS msg)) }) })"

definition exchangeSigninToken :: "sts_output \<Rightarrow> string \<Rightarrow> (string + string) act" where
  "exchangeSigninToken out region =
     (case out of
        None \<Rightarrow> ret (Inl ''nil STS credentials'')
      | Some (k, t, tok, ex) \<Rightarrow> do {
          x \<leftarrow> remote_call (GetSigninToken (door_signinFed (doorFor region)) k t tok);
          ret (case x of
                 RemoteOK (signinToken # r) \<Rightarrow>
                   if signinToken = [] then Inl ''empty SigninToken in response'' else Inr signinToken
               | RemoteError msg \<Rightarrow> Inl msg
               | RemoteNotFound \<Rightarrow> Inl []
               | _ \<Rightarrow> Inl ''empty SigninToken in response'') })"

text \<open>\<open>url.QueryEscape\<close>, and the query of the refresh URL (keys in order).\<close>

definition hex_digit :: "nat \<Rightarrow> char" where
  "hex_digit n = (if n < 10 then char_of (48 + n) else char_of (55 + n))"

definition QueryEscape :: "string \<Rightarrow> string" where
  "QueryEscape t = concat (map (\<lambda>c.
     if is_alnum c \<or> c \<in> set ''-_.~'' then [c]
     else if c = CHR '' '' then ''+''
     else [CHR ''%'', hex_digit (char_code c div 16), hex_digit (char_code c mod 16)]) t)"

definition refresh_url :: "server \<Rightarrow> AWSRole \<Rightarrow> string \<Rightarrow> string" where
  "refresh_url s role region = srv_issuer s @ ''/portal/aws/refresh?region='' @ QueryEscape region @
     ''&role_id='' @ QueryEscape (uuid_string s (ar_ID role))"

definition buildConsoleLoginURL :: "string \<Rightarrow> string \<Rightarrow> string \<Rightarrow> string \<Rightarrow> string \<times> (string \<times> string) list" where
  "buildConsoleLoginURL signinToken issuerURL destination fedURL =
     (fedURL, [(''Action'', ''login''), (''Issuer'', issuerURL), (''Destination'', destination), (''SigninToken'', signinToken)])"

definition assume_failed :: "server \<Rightarrow> request \<Rightarrow> User \<Rightarrow> (string \<times> json) list \<Rightarrow> unit act" where
  "assume_failed s r user meta = do {
     ok \<leftarrow> logAudit s r ''aws.console.assume.failed'' (Some (u_ID user)) None meta; ret () }"

definition console_meta :: "server \<Rightarrow> AWSRole \<Rightarrow> Session \<Rightarrow> string \<Rightarrow> (string \<times> json) list" where
  "console_meta s role sess sessionName =
     [(''role_id'', JStr (uuid_string s (ar_ID role))), (''role_arn'', JStr (ar_RoleARN role)),
      (''role_slug'', JStr (ar_Slug role)), (''audience'', JStr (srv_awsAudience s)),
      (''role_session_name'', JStr sessionName), (''step_up'', JBool (ar_RequireStepUpMFA role)),
      (''mfa_authenticated'', JBool (s_MFAVerified sess))]"

definition buildAWSConsoleURL ::
  "server \<Rightarrow> request \<Rightarrow> Session \<Rightarrow> User \<Rightarrow> AWSRole \<Rightarrow> string \<Rightarrow> (string + string \<times> (string \<times> string) list) act" where
  "buildAWSConsoleURL s r sess user role requested =
     (let rid = (''role_id'', JStr (uuid_string s (ar_ID role))) in
      case resolveAWSRegion s role requested of
        None \<Rightarrow> do {
          assume_failed s r user [rid, (''reason'', JStr ''region_not_allowed'')];
          ret (Inl ''region not available'') }
      | Some region \<Rightarrow> do {
          a \<leftarrow> assumeRoleForUser s user sess role region;
          case a of
            Inl e \<Rightarrow> do {
              assume_failed s r user [rid, (''role_arn'', JStr (ar_RoleARN role)), (''reason'', JStr ''sts_error''),
                (''err'', JStr (fed_error_text e))];
              ret (Inl (''AWS rejected the federation request: '' @ fed_error_text e)) }
          | Inr (out, sessionName) \<Rightarrow> do {
              t \<leftarrow> exchangeSigninToken out region;
              case t of
                Inl msg \<Rightarrow> do {
                  assume_failed s r user [rid, (''reason'', JStr ''signin_token_error''), (''err'', JStr msg)];
                  ret (Inl (''AWS console federation failed: '' @ msg)) }
              | Inr signinToken \<Rightarrow> do {
                  ok \<leftarrow> logAudit s r ''aws.console.assumed'' (Some (u_ID user)) None
                         (console_meta s role sess sessionName @ [(''region'', JStr region)]);
                  ret (if \<not> ok then Inl []
                       else Inr (buildConsoleLoginURL signinToken (refresh_url s role region)
                         (door_consoleHome (doorFor region)) (door_signinFed (doorFor region)))) } } })"

definition form_or_query :: "request \<Rightarrow> string \<Rightarrow> string" where
  "form_or_query r k = (if FormValue r k = [] then QueryGet r k else FormValue r k)"

definition aws_error :: "string \<Rightarrow> response" where
  "aws_error msg = RRedirect ''/portal/aws'' [(''error'', msg)]"

definition handlePortalAWSConsole :: "server \<Rightarrow> request \<Rightarrow> Session \<Rightarrow> User \<Rightarrow> response act" where
  "handlePortalAWSConsole s r sess user =
     (case x_ParseUUID (srv_ext s) (form_or_query r ''role_id'') of
        None \<Rightarrow> ret (aws_error ''invalid role_id'')
      | Some roleID \<Rightarrow> do {
          let rid = (''role_id'', JStr (uuid_string s roleID));
          x \<leftarrow> resolveAuthorizedAWSRole (u_ID user) roleID;
          case x of
            None \<Rightarrow> ret (aws_error ''lookup failed'')
          | Some (role, allowed) \<Rightarrow>
              if \<not> allowed then do {
                assume_failed s r user [rid, (''reason'', JStr ''not_assigned'')];
                ret (RText 403 ''forbidden'') }
              else (case resolveAWSRegion s role (sanitizeAWSRegion (form_or_query r ''region'')) of
                 None \<Rightarrow> do {
                   assume_failed s r user [rid, (''reason'', JStr ''region_not_allowed'')];
                   ret (aws_error ''region not available'') }
               | Some region \<Rightarrow> do {
                   now \<leftarrow> get_now;
                   if ar_RequireStepUpMFA role \<and> \<not> stepUpMFAFresh s now sess then do {
                     assume_failed s r user [rid, (''reason'', JStr ''step_up_required''),
                       (''mfa_authenticated'', JBool (s_MFAVerified sess))];
                     ret (RRedirect ''/portal/step-up'' [(''next'', ''aws_console''),
                       (''role_id'', uuid_string s roleID), (''region'', region)]) }
                   else do {
                     u \<leftarrow> buildAWSConsoleURL s r sess user role region;
                     ret (case u of Inl msg \<Rightarrow> aws_error msg | Inr (dest, ps) \<Rightarrow> RRedirect dest ps) } }) })"

definition handlePortalAWSRefresh :: "server \<Rightarrow> request \<Rightarrow> Session \<Rightarrow> User \<Rightarrow> response act" where
  "handlePortalAWSRefresh s r sess user = handlePortalAWSConsole s r sess user"

subsection \<open>Step-up\<close>

definition markStepUpSuccess :: "Session \<Rightarrow> Session option act" where
  "markStepUpSuccess sess = do {
     now \<leftarrow> get_now;
     x \<leftarrow> store (MarkSessionMFA (s_ID sess) now);
     ret (case x of
            Inl e \<Rightarrow> None
          | Inr u \<Rightarrow> Some (sess\<lparr>s_MFAVerified := True, s_MFAVerifiedAt := Some now\<rparr>)) }"

definition dispatchStepUpNext ::
  "server \<Rightarrow> request \<Rightarrow> Session \<Rightarrow> User \<Rightarrow> string \<Rightarrow> string \<Rightarrow> string \<Rightarrow> (string + string \<times> (string \<times> string) list) act" where
  "dispatchStepUpNext s r sess user next roleIDStr region =
     (if next = ''aws_console'' then
        (case x_ParseUUID (srv_ext s) roleIDStr of
           None \<Rightarrow> ret (Inl ''invalid role_id'')
         | Some roleID \<Rightarrow> do {
             x \<leftarrow> resolveAuthorizedAWSRole (u_ID user) roleID;
             case x of
               None \<Rightarrow> ret (Inl ''role lookup failed: '')
             | Some (role, allowed) \<Rightarrow>
                 if \<not> allowed then ret (Inl ''not authorized for that role'')
                 else buildAWSConsoleURL s r sess user role region })
      else ret (Inr (''/portal'', [])))"

definition no_factors :: string where
  "no_factors = ''This action requires MFA, but no factors are enrolled on your account. Enroll one in /portal/account first.''"

definition handlePortalStepUp :: "server \<Rightarrow> request \<Rightarrow> Session \<Rightarrow> User \<Rightarrow> response act" where
  "handlePortalStepUp s r sess user = do {
     (hasTOTP, hasWebAuthn) \<leftarrow> portalMFAMethods (u_ID user);
     if \<not> hasTOTP \<and> \<not> hasWebAuthn then ret (RRedirect ''/portal'' [(''error'', no_factors)])
     else if \<not> rq_isPost r then ret (RPage ''portal_step_up.html'' [])
     else do {
       v \<leftarrow> VerifyTOTP s (u_ID user) (FormValue r ''code'');
       case v of
         Inl e \<Rightarrow> do {
           ok \<leftarrow> logAudit s r ''auth.login.mfa.failed'' (Some (u_ID user)) None [(''via'', JStr ''step_up'')];
           ret (RPage ''portal_step_up.html'' ''Invalid code. Please try again.'') }
       | Inr x \<Rightarrow> do {
           m \<leftarrow> markStepUpSuccess sess;
           case m of
             None \<Rightarrow> ret (RPage ''portal_step_up.html'' ''Server error. Please try again.'')
           | Some sess' \<Rightarrow> do {
               d \<leftarrow> dispatchStepUpNext s r sess' user (form_or_query r ''next'') (form_or_query r ''role_id'')
                      (sanitizeAWSRegion (form_or_query r ''region''));
               ret (case d of
                      Inl msg \<Rightarrow> RRedirect ''/portal'' [(''error'', msg)]
                    | Inr (dest, ps) \<Rightarrow> RRedirect dest ps) } } } }"

definition handlePortalStepUpWebAuthnBegin :: "server \<Rightarrow> request \<Rightarrow> Session \<Rightarrow> User \<Rightarrow> response act" where
  "handlePortalStepUpWebAuthnBegin s r sess user = do {
     b \<leftarrow> BeginLogin s user;
     ret (case b of
            Inl e \<Rightarrow> writeError 500 ''server_error'' ''begin login failed''
          | Inr (opt, sid) \<Rightarrow> RJSON 200 [(''options'', JStr opt), (''session_id'', JID sid)]) }"

definition handlePortalStepUpWebAuthnFinish :: "server \<Rightarrow> request \<Rightarrow> Session \<Rightarrow> User \<Rightarrow> response act" where
  "handlePortalStepUpWebAuthnFinish s r sess user =
     (case x_ParseUUID (srv_ext s) (QueryGet r ''session_id'') of
        None \<Rightarrow> ret (writeError 400 ''invalid_request'' ''invalid session_id'')
      | Some sessionID \<Rightarrow> do {
          f \<leftarrow> FinishLogin s user sessionID r;
          case f of
            Inl e \<Rightarrow> do {
              ok \<leftarrow> logAudit s r ''auth.login.mfa.failed'' (Some (u_ID user)) None [(''via'', JStr ''step_up_webauthn'')];
              ret (writeError 401 ''unauthorized'' ''webauthn verification failed'') }
          | Inr amr \<Rightarrow> do {
              m \<leftarrow> markStepUpSuccess sess;
              case m of
                None \<Rightarrow> ret (writeError 500 ''server_error'' ''mark session failed'')
              | Some sess' \<Rightarrow> do {
                  d \<leftarrow> dispatchStepUpNext s r sess' user (QueryGet r ''next'') (QueryGet r ''role_id'')
                         (sanitizeAWSRegion (QueryGet r ''region''));
                  ret (case d of
                         Inl msg \<Rightarrow> writeError 502 ''dispatch_failed'' msg
                       | Inr (dest, ps) \<Rightarrow> RJSON 200 [(''redirect_to'', JURL dest ps)]) } } })"

subsection \<open>Credentials for programs\<close>

definition requested_slug :: "request \<Rightarrow> string" where
  "requested_slug r =
     (let slug = TrimSpace (FormValue r ''role'') in if slug = [] then TrimSpace (FormValue r ''audience'') else slug)"

definition issue_credentials :: "server \<Rightarrow> request \<Rightarrow> Session \<Rightarrow> User \<Rightarrow> AWSRole \<Rightarrow> string \<Rightarrow> response act" where
  "issue_credentials s r sess user role slug = do {
     a \<leftarrow> assumeRoleForUser s user sess role [];
     case a of
       Inl FedUnconfigured \<Rightarrow> ret (writeError 503 ''federation_disabled'' (fed_error_text FedUnconfigured))
     | Inl e \<Rightarrow> do {
         assume_failed s r user [(''role_id'', JStr (uuid_string s (ar_ID role))), (''role_slug'', JStr slug),
           (''role_arn'', JStr (ar_RoleARN role)), (''reason'', JStr ''sts_error''), (''err'', JStr (fed_error_text e)),
           (''via'', JStr ''api'')];
         ret (writeError 502 ''sts_error'' (''AWS rejected the federation request: '' @ fed_error_text e)) }
     | Inr (out, sessionName) \<Rightarrow>
         (case out of
            None \<Rightarrow> ret (writeError 502 ''sts_error'' ''AWS returned no credentials'')
          | Some (k, t, tok, ex) \<Rightarrow> do {
              ok \<leftarrow> logAudit s r ''aws.console.assumed'' (Some (u_ID user)) None
                     (console_meta s role sess sessionName @ [(''via'', JStr ''api'')]);
              ret (if \<not> ok then auditFail
                   else RJSON 200 [(''Version'', JInt 1), (''AccessKeyId'', JStr k), (''SecretAccessKey'', JStr t),
                     (''SessionToken'', JStr tok), (''Expiration'', JTime (case ex of None \<Rightarrow> zero_time | Some e \<Rightarrow> e))]) }) }"

definition handleAWSCredentials :: "server \<Rightarrow> request \<Rightarrow> Session \<Rightarrow> response act" where
  "handleAWSCredentials s r sess =
     (if srv_awsAudience s = [] then ret (writeError 503 ''federation_disabled''
        ''AWS federation is not configured (AUTHD_AWS_AUDIENCE is unset)'')
      else if s_UserID sess = uuid_nil then ret (writeError 401 ''unauthorized'' ''no session'')
      else do {
        u \<leftarrow> store (GetUserByID (s_UserID sess));
        case u of
          Inl e \<Rightarrow> ret (writeError 401 ''unauthorized'' ''user not found'')
        | Inr user \<Rightarrow>
            if \<not> u_Active user then ret (writeError 403 ''user_inactive'' ''user is deactivated'')
            else (let slug = requested_slug r in
            if slug = [] then ret (writeError 400 ''invalid_request'' ''role is required'')
            else do {
              x \<leftarrow> resolveAWSRoleBySlugForUser (u_ID user) slug;
              case x of
                None \<Rightarrow> ret (writeError 500 ''server_error'' ''role lookup failed'')
              | Some None \<Rightarrow> do {
                  assume_failed s r user [(''role_slug'', JStr slug), (''reason'', JStr ''not_assigned''), (''via'', JStr ''api'')];
                  ret (writeError 403 ''forbidden'' ''no role with that slug is assigned to you'') }
              | Some (Some role) \<Rightarrow>
                  if ar_RequireStepUpMFA role \<and> \<not> s_MFAVerified sess then do {
                    assume_failed s r user [(''role_id'', JStr (uuid_string s (ar_ID role))), (''role_slug'', JStr slug),
                      (''reason'', JStr ''step_up_required''), (''mfa_authenticated'', JBool False), (''via'', JStr ''api'')];
                    ret (writeError 403 ''step_up_required''
                      ''this role requires MFA; enroll TOTP or a security key and re-authenticate'') }
                  else issue_credentials s r sess user role slug }) })"

subsection \<open>Launcher tiles\<close>

record appTile =
  ti_Kind :: string
  ti_ID :: string
  ti_DisplayName :: string
  ti_Subtitle :: string
  ti_LaunchURL :: string
  ti_BrandColor :: string
  ti_IconURL :: string
  ti_StepUpMFA :: bool
  ti_TTLSeconds :: int
  ti_VisibleToAll :: bool
  ti_Regions :: "regionOption list"
  ti_NoRegion :: bool

definition oidc_tile :: "server \<Rightarrow> Client \<Rightarrow> appTile" where
  "oidc_tile s c = \<lparr>ti_Kind = ''oidc'', ti_ID = uuid_string s (c_ID c), ti_DisplayName = c_Name c, ti_Subtitle = [],
     ti_LaunchURL = c_LaunchURL c, ti_BrandColor = c_BrandColor c, ti_IconURL = c_IconURL c, ti_StepUpMFA = False,
     ti_TTLSeconds = 0, ti_VisibleToAll = c_VisibleToAll c, ti_Regions = [], ti_NoRegion = False\<rparr>"

text \<open>The subtitle separates with a middle dot (two bytes in UTF-8).\<close>

definition aws_subtitle :: "AWSAccount list \<Rightarrow> AWSRole \<Rightarrow> string" where
  "aws_subtitle accounts role =
     (case find (\<lambda>a. aa_ID a = ar_AccountID role) (rev accounts) of
        None \<Rightarrow> ''AWS''
      | Some a \<Rightarrow> ''AWS '' @ [CHR 0xC2, CHR 0xB7] @ '' '' @ aa_AccountID a @
          (if aa_Alias a = [] then [] else '' ('' @ aa_Alias a @ '')''))"

definition aws_tile :: "server \<Rightarrow> AWSAccount list \<Rightarrow> AWSRole \<Rightarrow> appTile" where
  "aws_tile s accounts role = \<lparr>ti_Kind = ''aws'', ti_ID = uuid_string s (ar_ID role), ti_DisplayName = ar_DisplayName role,
     ti_Subtitle = aws_subtitle accounts role, ti_LaunchURL = [], ti_BrandColor = [], ti_IconURL = [],
     ti_StepUpMFA = ar_RequireStepUpMFA role, ti_TTLSeconds = ar_MaxSessionDurationSec role, ti_VisibleToAll = False,
     ti_Regions = awsRegionOptions s role, ti_NoRegion = awsRegionsBlocked s role\<rparr>"

definition portalAppTiles :: "server \<Rightarrow> User \<Rightarrow> appTile list option act" where
  "portalAppTiles s user = do {
     x \<leftarrow> store (ListPortalClientsForUser (u_ID user));
     case x of
       Inl e \<Rightarrow> ret None
     | Inr cs \<Rightarrow> do {
         y \<leftarrow> store (ListAWSRolesForUser (u_ID user));
         case y of
           Inl e \<Rightarrow> ret None
         | Inr roles \<Rightarrow> do {
             a \<leftarrow> store ListAWSAccounts;
             ret (Some (map (oidc_tile s) (filter (\<lambda>c. c_LaunchURL c \<noteq> []) cs) @
               map (aws_tile s (case a of Inl e \<Rightarrow> [] | Inr l \<Rightarrow> l)) roles)) } } }"

subsection \<open>Invariants\<close>

lemmas aws_defs = resolveAuthorizedAWSRole_def resolveAWSRoleBySlugForUser_def authorizingGroupsForRole_def assumeRoleForUser_def
  exchangeSigninToken_def assume_failed_def buildAWSConsoleURL_def handlePortalAWSConsole_def handlePortalAWSRefresh_def
  dispatchStepUpNext_def issue_credentials_def handleAWSCredentials_def portalAppTiles_def groupNamesForUser_def

context step_rel
begin

lemma fed_case:
  "always R a \<Longrightarrow> always R b \<Longrightarrow> always R c \<Longrightarrow> (\<And>m. always R (f m)) \<Longrightarrow>
   always R (case e of FedUnconfigured \<Rightarrow> a | FedGroups \<Rightarrow> b | FedMint \<Rightarrow> c | FedSTS m \<Rightarrow> f m)"
  by (cases e) auto

end

context db_rel
begin

text \<open>Federation reads the database and changes nothing in it.\<close>

lemma aws_db:
  "always (on_db D) (buildAWSConsoleURL s r sess u role reg)" "always (on_db D) (handlePortalAWSConsole s r sess u)"
  "always (on_db D) (handlePortalAWSRefresh s r sess u)" "always (on_db D) (handleAWSCredentials s r sess)"
  "always (on_db D) (dispatchStepUpNext s r sess u n rid reg)" "always (on_db D) (portalAppTiles s u)"
  unfolding aws_defs by ((intro db_rules fed_case)?; (simp_all add: GetAWSRole_def ListAWSRolesForUser_def ListAWSRoleAssignments_def
    ListGroups_def ListPortalClientsForUser_def ListAWSAccounts_def D_refl)?)+

end

lemmas step_up_defs = handlePortalStepUp_def handlePortalStepUpWebAuthnBegin_def handlePortalStepUpWebAuthnFinish_def
  markStepUpSuccess_def portalMFAMethods_def

lemma wf_step_up:
  "keeps_wf (handlePortalStepUp s r sess u)" "keeps_wf (handlePortalStepUpWebAuthnBegin s r sess u)"
  "keeps_wf (handlePortalStepUpWebAuthnFinish s r sess u)"
  unfolding step_up_defs
  by ((intro wf.db_rules wf.aws_db wf_mfa wf.VerifyTOTP_db)?; (simp_all add: store_wf)?)+

lemma cap_step_up:
  "keeps_cap (handlePortalStepUp s r sess u)" "keeps_cap (handlePortalStepUpWebAuthnBegin s r sess u)"
  "keeps_cap (handlePortalStepUpWebAuthnFinish s r sess u)"
  unfolding step_up_defs
  by ((intro cap.db_rules cap.aws_db cap.mfa_core cap.VerifyTOTP_db)?; (simp_all add: cap_session_updates)?)+

end
