(* ===== verification/Aws_Admin.thy ===== *)
theory Aws_Admin
  imports Aws
begin

text \<open>
  The federation catalogue and the integrations: \<open>src/internal/api/web_portal_aws_admin.go\<close>
  and \<open>src/internal/api/web_portal_integrations.go\<close>. Every handler runs behind
  \<open>portalAdminAuth\<close>.
\<close>

subsection \<open>Numbers and patterns\<close>

text \<open>\<open>strconv.Atoi\<close>: the value and whether there was no error. A number out of range has the
  nearest bound as its value and an error; anything else that is not a number has 0.\<close>

fun atoi_digits :: "nat \<Rightarrow> string \<Rightarrow> nat option" where
  "atoi_digits acc [] = Some acc"
| "atoi_digits acc (c # t) = (if is_digit c then atoi_digits (10 * acc + (char_code c - 48)) t else None)"

definition signed_digits :: "string \<Rightarrow> (bool \<times> string)" where
  "signed_digits t = (case t of [] \<Rightarrow> (False, [])
     | c # u \<Rightarrow> if c = CHR ''-'' then (True, u) else if c = CHR ''+'' then (False, u) else (False, t))"

definition Atoi :: "string \<Rightarrow> int \<times> bool" where
  "Atoi t =
     (let (neg, ds) = signed_digits t in
      if ds = [] then (0, False)
      else (case atoi_digits 0 ds of
              None \<Rightarrow> (0, False)
            | Some n \<Rightarrow>
                (let v = (if neg then - int n else int n) in
                 if v < - (2 ^ 63) then (- (2 ^ 63), False)
                 else if v \<ge> 2 ^ 63 then (2 ^ 63 - 1, False)
                 else (v, True))))"

text \<open>The regular expression \<open>^[a-z0-9][a-z0-9_-]{0,62}$\<close>.\<close>

definition slug_start :: "char \<Rightarrow> bool" where "slug_start c \<longleftrightarrow> is_lower c \<or> is_digit c"

definition slugPattern :: "string \<Rightarrow> bool" where
  "slugPattern t = (case t of [] \<Rightarrow> False
     | c # u \<Rightarrow> slug_start c \<and> length u \<le> 62 \<and> list_all (\<lambda>x. slug_start x \<or> x = CHR ''_'' \<or> x = CHR ''-'') u)"

subsection \<open>Accounts\<close>

definition aws_admin_error :: "string \<Rightarrow> response" where
  "aws_admin_error msg = RRedirect ''/portal/admin/aws'' [(''error'', msg)]"
definition aws_admin_success :: "string \<Rightarrow> response" where
  "aws_admin_success msg = RRedirect ''/portal/admin/aws'' [(''success'', msg)]"

definition handlePortalAdminAWSAccountNew :: "server \<Rightarrow> request \<Rightarrow> Session \<Rightarrow> User \<Rightarrow> response act" where
  "handlePortalAdminAWSAccountNew s r sess admin =
     (let row = \<lparr>aa_ID = uuid_nil, aa_AccountID = TrimSpace (FormValue r ''account_id''),
                 aa_Alias = TrimSpace (FormValue r ''alias''),
                 aa_OIDCProviderARN = TrimSpace (FormValue r ''oidc_provider_arn''),
                 aa_CreatedAt = zero_time, aa_UpdatedAt = zero_time\<rparr> in
      if aa_AccountID row = [] \<or> aa_OIDCProviderARN row = []
      then ret (aws_admin_error ''account_id and oidc_provider_arn are required'')
      else do {
        fresh \<leftarrow> newUUID s;
        x \<leftarrow> store_at (\<lambda>now. CreateAWSAccount now fresh row);
        case x of
          Inl ErrConflict \<Rightarrow> ret (aws_admin_error ''account_id already registered'')
        | Inl e \<Rightarrow> ret (aws_admin_error ''create account failed'')
        | Inr a \<Rightarrow> do {
            ok \<leftarrow> logAudit s r ''admin.aws.account.created'' (Some (u_ID admin)) None
                   [(''account_id'', JStr (aa_AccountID a)), (''alias'', JStr (aa_Alias a))];
            if \<not> ok then do {
              undoOnAuditFailure (DeleteAWSAccount (aa_ID a));
              ret auditFail }
            else ret (aws_admin_success ''Account added.'') } })"

text \<open>An account whose lookup fails is not audited.\<close>

definition handlePortalAdminAWSAccountDelete :: "server \<Rightarrow> request \<Rightarrow> Session \<Rightarrow> User \<Rightarrow> response act" where
  "handlePortalAdminAWSAccountDelete s r sess admin =
     (case rq_pathID r of
        None \<Rightarrow> ret (aws_admin_error ''invalid id'')
      | Some i \<Rightarrow> do {
          x \<leftarrow> store (GetAWSAccount i);
          ok \<leftarrow> (case x of
             Inl e \<Rightarrow> ret True
           | Inr existing \<Rightarrow> logAudit s r ''admin.aws.account.deleted'' (Some (u_ID admin)) None
               [(''account_id'', JStr (aa_AccountID existing))]);
          if \<not> ok then ret auditFail
          else do {
            y \<leftarrow> store (DeleteAWSAccount i);
            ret (case y of Inl e \<Rightarrow> aws_admin_error ''delete failed'' | Inr z \<Rightarrow> aws_admin_success ''Account deleted.'') } })"

subsection \<open>Roles\<close>

definition role_duration :: "string \<Rightarrow> int" where
  "role_duration t = (let (v, ok) = Atoi (TrimSpace t) in if ok \<and> v > 0 then v else 3600)"

definition handlePortalAdminAWSRoleNew :: "server \<Rightarrow> request \<Rightarrow> Session \<Rightarrow> User \<Rightarrow> response act" where
  "handlePortalAdminAWSRoleNew s r sess admin =
     (case x_ParseUUID (srv_ext s) (TrimSpace (FormValue r ''account_id'')) of
        None \<Rightarrow> ret (aws_admin_error ''invalid account_id'')
      | Some acctID \<Rightarrow>
          (let row = \<lparr>ar_ID = uuid_nil, ar_AccountID = acctID, ar_RoleARN = TrimSpace (FormValue r ''role_arn''),
                      ar_Slug = TrimSpace (FormValue r ''slug''), ar_DisplayName = TrimSpace (FormValue r ''display_name''),
                      ar_RequireStepUpMFA = (FormValue r ''require_step_up_mfa'' = ''1''),
                      ar_MaxSessionDurationSec = role_duration (FormValue r ''max_session_duration_sec''),
                      ar_AllowedRegions = [], ar_CreatedAt = zero_time, ar_UpdatedAt = zero_time\<rparr> in
           if ar_RoleARN row = [] \<or> ar_Slug row = [] \<or> ar_DisplayName row = []
           then ret (aws_admin_error ''role_arn, slug, and display_name are required'')
           else if \<not> slugPattern (ar_Slug row)
           then ret (aws_admin_error ''slug must match [a-z0-9][a-z0-9_-]{0,62} (lowercase alphanumeric, dash, underscore)'')
           else do {
             fresh \<leftarrow> newUUID s;
             x \<leftarrow> store_at (\<lambda>now. CreateAWSRole now fresh row);
             case x of
               Inl ErrConflict \<Rightarrow> ret (aws_admin_error ''role_arn or slug already registered'')
             | Inl e \<Rightarrow> ret (aws_admin_error ''create role failed'')
             | Inr role \<Rightarrow> do {
                 ok \<leftarrow> logAudit s r ''admin.aws.role.created'' (Some (u_ID admin)) None
                        [(''role_arn'', JStr (ar_RoleARN role)), (''role_slug'', JStr (ar_Slug role))];
                 if \<not> ok then do {
                   undoOnAuditFailure (DeleteAWSRole (ar_ID role));
                   ret auditFail }
                 else ret (aws_admin_success ''Role added.'') } }))"

definition handlePortalAdminAWSRoleDelete :: "server \<Rightarrow> request \<Rightarrow> Session \<Rightarrow> User \<Rightarrow> response act" where
  "handlePortalAdminAWSRoleDelete s r sess admin =
     (case rq_pathID r of
        None \<Rightarrow> ret (aws_admin_error ''invalid id'')
      | Some i \<Rightarrow> do {
          x \<leftarrow> store (GetAWSRole i);
          ok \<leftarrow> (case x of
             Inl e \<Rightarrow> ret True
           | Inr existing \<Rightarrow> logAudit s r ''admin.aws.role.deleted'' (Some (u_ID admin)) None
               [(''role_arn'', JStr (ar_RoleARN existing))]);
          if \<not> ok then ret auditFail
          else do {
            y \<leftarrow> store (DeleteAWSRole i);
            ret (case y of Inl e \<Rightarrow> aws_admin_error ''delete failed'' | Inr z \<Rightarrow> aws_admin_success ''Role deleted.'') } })"

text \<open>The error names the first region that is not configured (in quotes; the escapes of the
  quoting verb are not modelled).\<close>

definition region_error :: "server \<Rightarrow> string \<Rightarrow> string" where
  "region_error s l =
     (case find (\<lambda>r. r \<notin> set (srv_awsRegions s)) (splitRegions l) of
        None \<Rightarrow> []
      | Some r \<Rightarrow> ''region '' @ [CHR 0x22] @ r @ [CHR 0x22] @ '' is not in AUTHD_AWS_REGIONS'')"

definition handlePortalAdminAWSRoleRegions :: "server \<Rightarrow> request \<Rightarrow> Session \<Rightarrow> User \<Rightarrow> response act" where
  "handlePortalAdminAWSRoleRegions s r sess admin =
     (case rq_pathID r of
        None \<Rightarrow> ret (aws_admin_error ''invalid id'')
      | Some i \<Rightarrow>
          (case parseRoleRegions s (FormValue r ''allowed_regions'') of
             None \<Rightarrow> ret (aws_admin_error (region_error s (FormValue r ''allowed_regions'')))
           | Some regions \<Rightarrow> do {
               x \<leftarrow> store (GetAWSRole i);
               case x of
                 Inl e \<Rightarrow> ret (aws_admin_error ''role not found'')
               | Inr role \<Rightarrow> do {
                   ok \<leftarrow> logAudit s r ''admin.aws.role.updated'' (Some (u_ID admin)) None
                          [(''role_id'', JStr (uuid_string s (ar_ID role))), (''role_slug'', JStr (ar_Slug role)),
                           (''allowed_regions'', JStr (Join CHR '','' regions)),
                           (''previous_allowed_regions'', JStr (Join CHR '','' (ar_AllowedRegions role)))];
                   if \<not> ok then ret auditFail
                   else do {
                     y \<leftarrow> store_at (\<lambda>now. UpdateAWSRole now (role\<lparr>ar_AllowedRegions := regions\<rparr>));
                     ret (case y of Inl e \<Rightarrow> aws_admin_error ''update role failed''
                          | Inr z \<Rightarrow> aws_admin_success ''Role regions updated.'') } } }))"

subsection \<open>Assignments\<close>

definition handlePortalAdminAWSAssignmentNew :: "server \<Rightarrow> request \<Rightarrow> Session \<Rightarrow> User \<Rightarrow> response act" where
  "handlePortalAdminAWSAssignmentNew s r sess admin =
     (case x_ParseUUID (srv_ext s) (TrimSpace (FormValue r ''group_id'')) of
        None \<Rightarrow> ret (aws_admin_error ''invalid group_id'')
      | Some groupID \<Rightarrow>
          (case x_ParseUUID (srv_ext s) (TrimSpace (FormValue r ''role_id'')) of
             None \<Rightarrow> ret (aws_admin_error ''invalid role_id'')
           | Some roleID \<Rightarrow> do {
               fresh \<leftarrow> newUUID s;
               x \<leftarrow> store_at (\<lambda>now. CreateAWSRoleAssignment now fresh
                      \<lparr>as_ID = uuid_nil, as_GroupID = groupID, as_RoleID = roleID, as_CreatedAt = zero_time\<rparr>);
               case x of
                 Inl ErrConflict \<Rightarrow> ret (aws_admin_error ''assignment already exists'')
               | Inl e \<Rightarrow> ret (aws_admin_error ''create assignment failed'')
               | Inr a \<Rightarrow> do {
                   ok \<leftarrow> logAudit s r ''admin.aws.assignment.created'' (Some (u_ID admin)) None
                          [(''group_id'', JStr (uuid_string s groupID)), (''role_id'', JStr (uuid_string s roleID))];
                   if \<not> ok then do {
                     undoOnAuditFailure (DeleteAWSRoleAssignment (as_ID a));
                     ret auditFail }
                   else ret (aws_admin_success ''Assignment added.'') } }))"

definition handlePortalAdminAWSAssignmentDelete :: "server \<Rightarrow> request \<Rightarrow> Session \<Rightarrow> User \<Rightarrow> response act" where
  "handlePortalAdminAWSAssignmentDelete s r sess admin =
     (case rq_pathID r of
        None \<Rightarrow> ret (aws_admin_error ''invalid id'')
      | Some i \<Rightarrow> do {
          ok \<leftarrow> logAudit s r ''admin.aws.assignment.deleted'' (Some (u_ID admin)) None
                 [(''assignment_id'', JStr (uuid_string s i))];
          if \<not> ok then ret auditFail
          else do {
            y \<leftarrow> store (DeleteAWSRoleAssignment i);
            ret (case y of Inl e \<Rightarrow> aws_admin_error ''delete failed'' | Inr z \<Rightarrow> aws_admin_success ''Assignment deleted.'') } })"

subsection \<open>Integrations\<close>

record integrationFormInput =
  if_row :: AppIntegration
  if_tokenPlain :: string

definition readIntegrationForm :: "request \<Rightarrow> bool \<Rightarrow> integrationFormInput" where
  "readIntegrationForm r isNew =
     (let am = TrimSpace (FormValue r ''auth_mode'') in
      \<lparr>if_row = \<lparr>i_ID = uuid_nil, i_Name = TrimSpace (FormValue r ''name''),
          i_Provider = (if isNew then FormValue r ''provider'' else []), i_Enabled = (FormValue r ''enabled'' = ''1''),
          i_Config = \<lparr>ic_BaseURL = TrimSpace (FormValue r ''base_url''),
            ic_TimeoutMS = fst (Atoi (TrimSpace (FormValue r ''timeout_ms''))),
            ic_AuthMode = (if am = [] then AppIntegrationAuthBearer else am)\<rparr>,
          i_EncryptedToken = [], i_EncryptedDEK = [], i_CreatedAt = zero_time, i_UpdatedAt = zero_time\<rparr>,
       if_tokenPlain = FormValue r ''token''\<rparr>)"

definition mtls_token_message :: string where
  "mtls_token_message = ''Token must be empty when auth mode is mTLS '' @ [CHR 0xE2, CHR 0x80, CHR 0x94] @
     '' auth presents its client cert from AUTHD_SCIM_* env vars.''"

text \<open>The empty message means valid.\<close>

definition validate :: "integrationFormInput \<Rightarrow> bool \<Rightarrow> string" where
  "validate f needToken =
     (let row = if_row f; mode = ic_AuthMode (i_Config row); blank = (TrimSpace (if_tokenPlain f) = []) in
      if i_Name row = [] then ''Name is required.''
      else if i_Provider row = AppIntegrationProviderSCIM then
        (if ic_BaseURL (i_Config row) = [] then ''Base URL is required for SCIM integrations.''
         else if mode = AppIntegrationAuthBearer \<or> mode = [] then
           (if needToken \<and> blank then ''Token is required for bearer auth.'' else [])
         else if mode = AppIntegrationAuthMTLS then (if \<not> blank then mtls_token_message else [])
         else ''Unsupported auth mode.'')
      else if i_Provider row = AppIntegrationProviderAWSFederation then []
      else if i_Provider row = [] then ''Provider is required.''
      else ''Unsupported provider.'')"

definition EncryptEnvelope :: "server \<Rightarrow> string \<Rightarrow> (bytes \<times> bytes) option act" where
  "EncryptEnvelope s plain = do { n \<leftarrow> draw; ret (x_EncryptEnvelope (srv_ext s) n plain) }"

definition integration_page :: "string \<Rightarrow> response" where
  "integration_page msg = RPage ''portal_admin_integration_edit.html'' msg"
definition integrations_flash :: "string \<Rightarrow> string \<Rightarrow> response" where
  "integrations_flash k msg = RRedirect ''/portal/admin/integrations'' [(k, msg)]"

definition handlePortalAdminIntegrationNew :: "server \<Rightarrow> request \<Rightarrow> Session \<Rightarrow> User \<Rightarrow> response act" where
  "handlePortalAdminIntegrationNew s r sess admin =
     (if \<not> rq_isPost r then ret (integration_page [])
      else (let form = readIntegrationForm r True; row = if_row form; msg = validate form True in
      if msg \<noteq> [] then ret (integration_page msg)
      else do {
        e \<leftarrow> (if i_Provider row = AppIntegrationProviderSCIM \<and> ic_AuthMode (i_Config row) = AppIntegrationAuthBearer
              then do {
                enc \<leftarrow> EncryptEnvelope s (if_tokenPlain form);
                ret (map_option (\<lambda>(tok, dek). row\<lparr>i_EncryptedToken := tok, i_EncryptedDEK := dek\<rparr>) enc) }
              else ret (Some row));
        case e of
          None \<Rightarrow> ret (integration_page ''Encryption failed.'')
        | Some row' \<Rightarrow> do {
        fresh \<leftarrow> newUUID s;
        x \<leftarrow> store_at (\<lambda>now. CreateIntegration now fresh row');
        case x of
          Inl ErrConflict \<Rightarrow> ret (integration_page ''An integration with that name already exists.'')
        | Inl err \<Rightarrow> ret (integration_page ''Create failed.'')
        | Inr i \<Rightarrow> do {
            ok \<leftarrow> logAudit s r ''admin.integration.created'' (Some (u_ID admin)) None
                   [(''name'', JStr (i_Name i)), (''provider'', JStr (i_Provider i))];
            if \<not> ok then do {
              undoOnAuditFailure (DeleteIntegration (i_ID i));
              ret auditFail }
            else do {
              reloadProvisioners s;
              ret (integrations_flash ''success'' ''Integration created.'') } } } }))"

text \<open>What the edited row keeps as its token.\<close>

definition edited_row ::
  "server \<Rightarrow> AppIntegration \<Rightarrow> integrationFormInput \<Rightarrow> bool \<Rightarrow> AppIntegration option act" where
  "edited_row s existing form updateToken =
     (let row = if_row form in
      if ic_AuthMode (i_Config row) = AppIntegrationAuthMTLS
      then ret (Some (row\<lparr>i_EncryptedToken := [], i_EncryptedDEK := []\<rparr>))
      else if i_Provider row = AppIntegrationProviderSCIM \<and> updateToken then do {
        enc \<leftarrow> EncryptEnvelope s (if_tokenPlain form);
        ret (map_option (\<lambda>(tok, dek). row\<lparr>i_EncryptedToken := tok, i_EncryptedDEK := dek\<rparr>) enc) }
      else ret (Some (row\<lparr>i_EncryptedToken := i_EncryptedToken existing, i_EncryptedDEK := i_EncryptedDEK existing\<rparr>)))"

definition handlePortalAdminIntegrationEdit :: "server \<Rightarrow> request \<Rightarrow> Session \<Rightarrow> User \<Rightarrow> response act" where
  "handlePortalAdminIntegrationEdit s r sess admin =
     (case rq_pathID r of
        None \<Rightarrow> ret (RText 400 ''invalid id'')
      | Some i \<Rightarrow> do {
          x \<leftarrow> store (GetIntegration i);
          case x of
            Inl ErrNotFound \<Rightarrow> ret (RText 404 ''integration not found'')
          | Inl e \<Rightarrow> ret (RText 500 ''lookup failed'')
          | Inr existing \<Rightarrow>
              if \<not> rq_isPost r then ret (integration_page
                (if i_Provider existing \<noteq> AppIntegrationProviderSCIM \<and> i_Provider existing \<noteq> AppIntegrationProviderAWSFederation
                 then ''This provider is no longer supported. Clean up downstream resources before deleting this integration.'' else []))
              else (let form0 = readIntegrationForm r False;
                        form = form0\<lparr>if_row := (if_row form0)\<lparr>i_ID := i_ID existing, i_Provider := i_Provider existing\<rparr>\<rparr>;
                        updateToken = (FormValue r ''update_token'' = ''1''); msg = validate form updateToken in
                if msg \<noteq> [] then ret (integration_page msg)
                else do {
                  e \<leftarrow> edited_row s existing form updateToken;
                  case e of
                    None \<Rightarrow> ret (integration_page ''Encryption failed.'')
                  | Some row \<Rightarrow> do {
                  y \<leftarrow> store_at (\<lambda>now. UpdateIntegration now row);
                  case y of
                    Inl ErrConflict \<Rightarrow> ret (integration_page ''An integration with that name already exists.'')
                  | Inl err \<Rightarrow> ret (integration_page ''Update failed.'')
                  | Inr z \<Rightarrow> do {
                      ok \<leftarrow> logAudit s r ''admin.integration.updated'' (Some (u_ID admin)) None
                             [(''name'', JStr (i_Name row)), (''provider'', JStr (i_Provider row)), (''rotated_token'', JBool updateToken)];
                      if \<not> ok then ret auditFail
                      else do {
                        reloadProvisioners s;
                        ret (integrations_flash ''success'' ''Integration updated.'') } } } }) })"

definition handlePortalAdminIntegrationDelete :: "server \<Rightarrow> request \<Rightarrow> Session \<Rightarrow> User \<Rightarrow> response act" where
  "handlePortalAdminIntegrationDelete s r sess admin =
     (case rq_pathID r of
        None \<Rightarrow> ret (RText 400 ''invalid id'')
      | Some i \<Rightarrow> do {
          x \<leftarrow> store (GetIntegration i);
          case x of
            Inl e \<Rightarrow> ret (integrations_flash ''error'' ''integration not found'')
          | Inr existing \<Rightarrow> do {
              ok \<leftarrow> logAudit s r ''admin.integration.deleted'' (Some (u_ID admin)) None
                     [(''name'', JStr (i_Name existing)), (''provider'', JStr (i_Provider existing))];
              if \<not> ok then ret auditFail
              else do {
                y \<leftarrow> store (DeleteIntegration i);
                case y of
                  Inl e \<Rightarrow> ret (integrations_flash ''error'' ''delete failed'')
                | Inr z \<Rightarrow> do {
                    reloadProvisioners s;
                    ret (integrations_flash ''success'' ''Integration deleted.'') } } } })"

definition sync_message :: "string \<Rightarrow> sync_counts \<Rightarrow> string" where
  "sync_message name c = ''Sync '' @ name @ '' done: users '' @ decimal (sy_userOK c) @ '' ok / '' @ decimal (sy_userFail c) @
     '' failed; groups '' @ decimal (sy_groupOK c) @ '' ok / '' @ decimal (sy_groupFail c) @ '' failed''"

definition handlePortalAdminIntegrationSync :: "server \<Rightarrow> request \<Rightarrow> Session \<Rightarrow> User \<Rightarrow> response act" where
  "handlePortalAdminIntegrationSync s r sess admin =
     (case rq_pathID r of
        None \<Rightarrow> ret (integrations_flash ''error'' ''invalid id'')
      | Some i \<Rightarrow> do {
          x \<leftarrow> store (GetIntegration i);
          case x of
            Inl e \<Rightarrow> ret (integrations_flash ''error'' ''integration not found'')
          | Inr row \<Rightarrow>
              if \<not> i_Enabled row then ret (integrations_flash ''error'' (''Integration '' @ i_Name row @ '' is disabled '' @
                [CHR 0xE2, CHR 0x80, CHR 0x94] @ '' enable it before syncing.''))
              else do {
                p \<leftarrow> lookupProvisioner (i_Name row);
                case p of
                  None \<Rightarrow> ret (integrations_flash ''error'' (''Provisioner for '' @ i_Name row @ '' not loaded '' @
                    [CHR 0xE2, CHR 0x80, CHR 0x94] @ '' try saving the integration to reload.''))
                | Some prov \<Rightarrow> do {
                    c \<leftarrow> SyncAll s prov;
                    ok \<leftarrow> logAudit s r ''admin.integration.synced'' (Some (u_ID admin)) None
                           [(''name'', JStr (i_Name row)), (''users_ok'', JInt (int (sy_userOK c))),
                            (''users_failed'', JInt (int (sy_userFail c))), (''groups_ok'', JInt (int (sy_groupOK c))),
                            (''groups_failed'', JInt (int (sy_groupFail c))), (''trigger'', JStr ''manual'')];
                    ret (if \<not> ok then auditFail
                         else integrations_flash (if sy_userFail c + sy_groupFail c > 0 then ''error'' else ''success'')
                           (sync_message (i_Name row) c)) } } })"

subsection \<open>Invariants\<close>

lemmas aws_admin_defs = handlePortalAdminAWSAccountNew_def handlePortalAdminAWSAccountDelete_def handlePortalAdminAWSRoleNew_def
  handlePortalAdminAWSRoleDelete_def handlePortalAdminAWSRoleRegions_def handlePortalAdminAWSAssignmentNew_def
  handlePortalAdminAWSAssignmentDelete_def
lemmas integration_defs = handlePortalAdminIntegrationNew_def handlePortalAdminIntegrationEdit_def edited_row_def
  EncryptEnvelope_def handlePortalAdminIntegrationDelete_def handlePortalAdminIntegrationSync_def

lemma wf_aws_admin:
  "keeps_wf (handlePortalAdminAWSAccountNew s r sess a)" "keeps_wf (handlePortalAdminAWSAccountDelete s r sess a)"
  "keeps_wf (handlePortalAdminAWSRoleNew s r sess a)" "keeps_wf (handlePortalAdminAWSRoleDelete s r sess a)"
  "keeps_wf (handlePortalAdminAWSRoleRegions s r sess a)" "keeps_wf (handlePortalAdminAWSAssignmentNew s r sess a)"
  "keeps_wf (handlePortalAdminAWSAssignmentDelete s r sess a)"
  unfolding aws_admin_defs by ((intro wf.db_rules)?; (simp_all add: store_wf)?)+

lemma wf_integration_handlers:
  "keeps_wf (handlePortalAdminIntegrationNew s r sess a)" "keeps_wf (handlePortalAdminIntegrationEdit s r sess a)"
  "keeps_wf (handlePortalAdminIntegrationDelete s r sess a)" "keeps_wf (handlePortalAdminIntegrationSync s r sess a)"
  unfolding integration_defs by ((intro wf.db_rules wf.provisioning_db)?; (simp_all add: store_wf)?)+

lemma cap_aws_admin:
  "keeps_cap (handlePortalAdminAWSAccountNew s r sess a)" "keeps_cap (handlePortalAdminAWSAccountDelete s r sess a)"
  "keeps_cap (handlePortalAdminAWSRoleNew s r sess a)" "keeps_cap (handlePortalAdminAWSRoleDelete s r sess a)"
  "keeps_cap (handlePortalAdminAWSRoleRegions s r sess a)" "keeps_cap (handlePortalAdminAWSAssignmentNew s r sess a)"
  "keeps_cap (handlePortalAdminAWSAssignmentDelete s r sess a)"
  unfolding aws_admin_defs by ((intro cap.db_rules)?; (simp_all add: cap_frames)?)+

lemma cap_integration_handlers:
  "keeps_cap (handlePortalAdminIntegrationNew s r sess a)" "keeps_cap (handlePortalAdminIntegrationEdit s r sess a)"
  "keeps_cap (handlePortalAdminIntegrationDelete s r sess a)" "keeps_cap (handlePortalAdminIntegrationSync s r sess a)"
  unfolding integration_defs by ((intro cap.db_rules cap.provisioning_db)?; (simp_all add: cap_frames)?)+

end
