(* ===== verification/System.thy ===== *)
theory System
  imports Device Aws_Admin
begin

text \<open>
  The whole server: the routes of \<open>Handler\<close> in \<open>src/internal/api/server.go\<close> with the
  middleware each runs behind, and the transition system of a running \<open>authd\<close>: requests,
  ticks of the background tasks and the passing of time, under every script of driver, journal and
  remote failures. The rate limiters and the pages without state are left out.
\<close>

subsection \<open>Routes\<close>

datatype open_route = AuthorizeGET | AuthorizePost | MFATOTPPost | SSOWebAuthnPage | SSOWebAuthnBegin
  | SSOWebAuthnFinish | Token | Revoke | DeviceAuthorization | RegisterPOST | WebAuthnLoginBegin | WebAuthnLoginFinish
  | PortalLoginGET | PortalLoginPOST | PortalLoginMFA | PortalChangePassword | PortalLoginMFAWebAuthnBegin
  | PortalLoginMFAWebAuthnFinish | PortalRegisterGET | PortalRegisterPOST

datatype bearer_route = UserInfo | AWSCredentials | TOTPEnroll | TOTPConfirm | TOTPVerify | TOTPDelete
  | WebAuthnRegisterBegin | WebAuthnRegisterFinish | WebAuthnDelete

datatype admin_route = AdminListUsers | AdminCreateUser | AdminGetUser | AdminUpdateUser | AdminDeleteUser
  | AdminListClients | AdminCreateClient | AdminGetClient | AdminDeleteClient | AdminRotateClientSecret

datatype portal_route = DevicePage | DeviceConfirm | PortalLogout | PortalAWSConsole | PortalAWSRefresh | PortalStepUp
  | PortalStepUpWebAuthnBegin | PortalStepUpWebAuthnFinish | PortalAccountProfile | PortalAccountPassword
  | PortalMFATOTPEnroll | PortalMFATOTPConfirm | PortalMFATOTPDelete | PortalMFAWebAuthnBegin | PortalMFAWebAuthnFinish
  | PortalMFAWebAuthnDelete

datatype portal_admin_route = UserNew | UserEdit | UserResetPassword | UserCompromisedReset | UserClearMFA | UserRevokeAWS
  | UserDelete | ClientNew | ClientEdit | ClientDelete | ClientRotate | GroupNew | GroupEdit | GroupDelete
  | AWSAccountNew | AWSAccountDelete | AWSRoleNew | AWSRoleDelete | AWSRoleRegions | AWSAssignmentNew | AWSAssignmentDelete
  | IntegrationNew | IntegrationEdit | IntegrationDelete | IntegrationSync

fun open_handler :: "open_route \<Rightarrow> server \<Rightarrow> request \<Rightarrow> response act" where
  "open_handler AuthorizeGET = handleAuthorizeGET"
| "open_handler AuthorizePost = handleAuthorizePost"
| "open_handler MFATOTPPost = handleMFATOTPPost"
| "open_handler SSOWebAuthnPage = (\<lambda>s. handleSSOWebAuthnPage)"
| "open_handler SSOWebAuthnBegin = handleSSOWebAuthnBegin"
| "open_handler SSOWebAuthnFinish = handleSSOWebAuthnFinish"
| "open_handler Token = handleToken"
| "open_handler Revoke = handleRevoke"
| "open_handler DeviceAuthorization = handleDeviceAuthorization"
| "open_handler RegisterPOST = handleRegisterPOST"
| "open_handler WebAuthnLoginBegin = handleWebAuthnLoginBegin"
| "open_handler WebAuthnLoginFinish = handleWebAuthnLoginFinish"
| "open_handler PortalLoginGET = handlePortalLoginGET"
| "open_handler PortalLoginPOST = handlePortalLoginPOST"
| "open_handler PortalLoginMFA = handlePortalLoginMFA"
| "open_handler PortalChangePassword = handlePortalChangePassword"
| "open_handler PortalLoginMFAWebAuthnBegin = handlePortalLoginMFAWebAuthnBegin"
| "open_handler PortalLoginMFAWebAuthnFinish = handlePortalLoginMFAWebAuthnFinish"
| "open_handler PortalRegisterGET = handlePortalRegisterGET"
| "open_handler PortalRegisterPOST = handlePortalRegisterPOST"

fun bearer_handler :: "bearer_route \<Rightarrow> server \<Rightarrow> request \<Rightarrow> Session \<Rightarrow> response act" where
  "bearer_handler UserInfo = (\<lambda>s r. handleUserInfo)"
| "bearer_handler AWSCredentials = handleAWSCredentials"
| "bearer_handler TOTPEnroll = handleTOTPEnroll"
| "bearer_handler TOTPConfirm = handleTOTPConfirm"
| "bearer_handler TOTPVerify = handleTOTPVerify"
| "bearer_handler TOTPDelete = handleTOTPDelete"
| "bearer_handler WebAuthnRegisterBegin = handleWebAuthnRegisterBegin"
| "bearer_handler WebAuthnRegisterFinish = handleWebAuthnRegisterFinish"
| "bearer_handler WebAuthnDelete = handleWebAuthnDelete"

fun admin_handler :: "admin_route \<Rightarrow> server \<Rightarrow> request \<Rightarrow> Session \<Rightarrow> response act" where
  "admin_handler AdminListUsers = handleAdminListUsers"
| "admin_handler AdminCreateUser = handleAdminCreateUser"
| "admin_handler AdminGetUser = handleAdminGetUser"
| "admin_handler AdminUpdateUser = handleAdminUpdateUser"
| "admin_handler AdminDeleteUser = handleAdminDeleteUser"
| "admin_handler AdminListClients = handleAdminListClients"
| "admin_handler AdminCreateClient = handleAdminCreateClient"
| "admin_handler AdminGetClient = handleAdminGetClient"
| "admin_handler AdminDeleteClient = handleAdminDeleteClient"
| "admin_handler AdminRotateClientSecret = handleAdminRotateClientSecret"

fun portal_handler :: "portal_route \<Rightarrow> server \<Rightarrow> request \<Rightarrow> Session \<Rightarrow> User \<Rightarrow> response act" where
  "portal_handler DevicePage = (\<lambda>s r sess u. handleDevice s r)"
| "portal_handler DeviceConfirm = handleDeviceConfirm"
| "portal_handler PortalLogout = handlePortalLogout"
| "portal_handler PortalAWSConsole = handlePortalAWSConsole"
| "portal_handler PortalAWSRefresh = handlePortalAWSRefresh"
| "portal_handler PortalStepUp = handlePortalStepUp"
| "portal_handler PortalStepUpWebAuthnBegin = handlePortalStepUpWebAuthnBegin"
| "portal_handler PortalStepUpWebAuthnFinish = handlePortalStepUpWebAuthnFinish"
| "portal_handler PortalAccountProfile = handlePortalAccountProfile"
| "portal_handler PortalAccountPassword = handlePortalAccountPassword"
| "portal_handler PortalMFATOTPEnroll = handlePortalMFATOTPEnroll"
| "portal_handler PortalMFATOTPConfirm = handlePortalMFATOTPConfirm"
| "portal_handler PortalMFATOTPDelete = handlePortalMFATOTPDelete"
| "portal_handler PortalMFAWebAuthnBegin = handlePortalMFAWebAuthnBegin"
| "portal_handler PortalMFAWebAuthnFinish = handlePortalMFAWebAuthnFinish"
| "portal_handler PortalMFAWebAuthnDelete = handlePortalMFAWebAuthnDelete"

fun portal_admin_handler :: "portal_admin_route \<Rightarrow> server \<Rightarrow> request \<Rightarrow> Session \<Rightarrow> User \<Rightarrow> response act" where
  "portal_admin_handler UserNew = handlePortalAdminUserNew"
| "portal_admin_handler UserEdit = handlePortalAdminUserEdit"
| "portal_admin_handler UserResetPassword = handlePortalAdminUserResetPassword"
| "portal_admin_handler UserCompromisedReset = handlePortalAdminUserCompromisedReset"
| "portal_admin_handler UserClearMFA = handlePortalAdminUserClearMFA"
| "portal_admin_handler UserRevokeAWS = handlePortalAdminUserRevokeAWS"
| "portal_admin_handler UserDelete = handlePortalAdminUserDelete"
| "portal_admin_handler ClientNew = handlePortalAdminClientNew"
| "portal_admin_handler ClientEdit = handlePortalAdminClientEdit"
| "portal_admin_handler ClientDelete = handlePortalAdminClientDelete"
| "portal_admin_handler ClientRotate = handlePortalAdminClientRotate"
| "portal_admin_handler GroupNew = handlePortalAdminGroupNew"
| "portal_admin_handler GroupEdit = handlePortalAdminGroupEdit"
| "portal_admin_handler GroupDelete = handlePortalAdminGroupDelete"
| "portal_admin_handler AWSAccountNew = handlePortalAdminAWSAccountNew"
| "portal_admin_handler AWSAccountDelete = handlePortalAdminAWSAccountDelete"
| "portal_admin_handler AWSRoleNew = handlePortalAdminAWSRoleNew"
| "portal_admin_handler AWSRoleDelete = handlePortalAdminAWSRoleDelete"
| "portal_admin_handler AWSRoleRegions = handlePortalAdminAWSRoleRegions"
| "portal_admin_handler AWSAssignmentNew = handlePortalAdminAWSAssignmentNew"
| "portal_admin_handler AWSAssignmentDelete = handlePortalAdminAWSAssignmentDelete"
| "portal_admin_handler IntegrationNew = handlePortalAdminIntegrationNew"
| "portal_admin_handler IntegrationEdit = handlePortalAdminIntegrationEdit"
| "portal_admin_handler IntegrationDelete = handlePortalAdminIntegrationDelete"
| "portal_admin_handler IntegrationSync = handlePortalAdminIntegrationSync"

datatype route = Open open_route | Bearer bearer_route | BearerAdmin admin_route | InPortal portal_route
  | InPortalAdmin portal_admin_route

fun serve :: "server \<Rightarrow> route \<Rightarrow> request \<Rightarrow> response act" where
  "serve s (Open e) r = open_handler e s r"
| "serve s (Bearer e) r = bearerAuth s (bearer_handler e s r) r"
| "serve s (BearerAdmin e) r = adminAuth s (admin_handler e s r) r"
| "serve s (InPortal e) r = portalAuth s (portal_handler e s r) r"
| "serve s (InPortalAdmin e) r = portalAdminAuth s (portal_admin_handler e s r) r"

datatype task = DeviceGrantReaper | AWSFedReaper | ProvisionSync

fun tick :: "server \<Rightarrow> task \<Rightarrow> unit act" where
  "tick s DeviceGrantReaper = runDeviceGrantReaper"
| "tick s AWSFedReaper = runAWSFedReaper"
| "tick s ProvisionSync = runPeriodicProvisionSync s"

subsection \<open>A running server\<close>

text \<open>Before a request or a tick, the environment chooses which calls will fail and what the other
  systems will answer.\<close>

definition scripted :: "bool list \<Rightarrow> bool list \<Rightarrow> remote_reply list \<Rightarrow> world \<Rightarrow> world" where
  "scripted fs afs rs w = w\<lparr>w_faults := fs, w_auditFaults := afs, w_replies := rs, w_cookies := []\<rparr>"

inductive step :: "server \<Rightarrow> world \<Rightarrow> world \<Rightarrow> bool" for s where
  request: "run_state (serve s e r) (scripted fs afs rs w) = (resp, w') \<Longrightarrow> step s w w'"
| tick: "run_state (tick s t) (scripted fs afs rs w) = (u, w') \<Longrightarrow> step s w w'"
| clock: "w_now w \<le> now \<Longrightarrow> step s w (w\<lparr>w_now := now\<rparr>)"

lemma wf_userinfo: "keeps_wf (handleUserInfo sess)"
  unfolding handleUserInfo_def by ((intro wf.db_rules wf.groups_claim_db)?; (simp_all add: store_wf)?)+

lemma cap_userinfo: "keeps_cap (handleUserInfo sess)"
  unfolding handleUserInfo_def by ((intro cap.db_rules cap.groups_claim_db)?; (simp_all)?)+

lemma wf_routes:
  "keeps_wf (open_handler o1 s r)" "keeps_wf (bearer_handler b s r sess)" "keeps_wf (admin_handler a s r sess)"
  "keeps_wf (portal_handler p s r sess u)" "keeps_wf (portal_admin_handler q s r sess u)"
  apply (cases o1; simp add: wf_authorize wf_handleToken wf_handleRevoke wf_device wf_mfa_api wf_portal_login)
  apply (cases b; simp add: wf_userinfo wf.aws_db wf_mfa_api)
  apply (cases a; simp add: wf_admin)
  apply (cases p; simp add: wf_device wf.aws_db wf_step_up wf_portal_account)
  by (cases q; simp add: wf_portal_users wf_portal_clients wf_portal_groups wf_aws_admin wf_integration_handlers)

lemma cap_routes:
  "keeps_cap (open_handler o1 s r)" "keeps_cap (bearer_handler b s r sess)" "keeps_cap (admin_handler a s r sess)"
  "keeps_cap (portal_handler p s r sess u)" "keeps_cap (portal_admin_handler q s r sess u)"
  apply (cases o1; simp add: cap_authorize cap_handleToken cap_handleRevoke cap_device cap_mfa_api cap_portal_login)
  apply (cases b; simp add: cap_userinfo cap.aws_db cap_mfa_api)
  apply (cases a; simp add: cap_admin)
  apply (cases p; simp add: cap_device cap.aws_db cap_step_up cap_portal_account)
  by (cases q; simp add: cap_portal_users cap_portal_clients cap_portal_groups cap_aws_admin cap_integration_handlers)

lemma wf_serve: "keeps_wf (serve s e r)"
  by (cases e) (simp_all add: wf_routes wf.bearerAuth_db wf.adminAuth_db wf_portalAuth wf_portalAdminAuth)

lemma cap_serve: "keeps_cap (serve s e r)"
  by (cases e) (simp_all add: cap_routes cap.bearerAuth_db cap.adminAuth_db cap_portalAuth cap_portalAdminAuth)

lemma wf_tick: "keeps_wf (tick s t)"
  by (cases t) (simp_all add: wf.provisioning_db runDeviceGrantReaper_def wf.bind wf.store_at_call store_wf wf.ret)

lemma cap_tick: "keeps_cap (tick s t)"
  by (cases t) (simp_all add: cap.provisioning_db runDeviceGrantReaper_def cap.bind cap.store_at_call cap_grant_ops cap.ret)

lemma step_invariants:
  assumes "step s w w'" "wf_db (w_db w)" "cap_inv (w_db w)"
  shows "wf_db (w_db w') \<and> cap_inv (w_db w')"
  using assms
proof cases
  case (request e r fs afs rs resp)
  then show ?thesis
    using alwaysD [OF wf_serve request] alwaysD [OF cap_serve request] assms by (simp add: on_db_def scripted_def)
next
  case (tick t fs afs rs u)
  then show ?thesis
    using alwaysD [OF wf_tick tick] alwaysD [OF cap_tick tick] assms by (simp add: on_db_def scripted_def)
qed auto

end
