(* ===== verification/Journal.thy ===== *)
theory Journal
  imports System Code_Provenance
begin

text \<open>
  The audit discipline of the administration handlers. The relation \<open>audited\<close> says that a
  run that left no journal entry changed nothing in the database and sent nothing; a handler keeps it
  when everything before its successful audit only reads. What comes after the audit only has
  to let the journal grow, which every program made of the primitives does.
\<close>

subsection \<open>Programs let the journal grow\<close>

lemmas grow_cases = grow.err_case grow.reply_case grow.op_case grow.prov_case grow.portal_case grow.cookie_case

lemma grows_scim:
  "always grows (scim_User s c op u)" "always grows (resolveVaultUserID s c u)" "always grows (createUser s c u)"
  unfolding scim_defs by (intro grow_rules grow_cases)+

lemma grows_scim_group: "always grows (scim_Group s c op g us)"
proof -
  have "always grows (resolveGroupMembers s c us)" for us
    by (induction us) (simp_all add: grow.ret, intro grow_rules grows_scim, simp_all)
  then show ?thesis
    unfolding scim_Group_def upsertGroup_def deleteGroup_def scim_do_def by (intro grow_rules grow_cases)
qed

lemma grows_RevokeUser: "always grows (RevokeUser sub)"
proof -
  have one: "always grows (revokeOneRole r sub)" for r
    unfolding awsfed_defs by (intro grow_rules grow_cases)
  have "always grows (revoke_roles sub rs)" for rs
    by (induction rs) (simp_all add: grow.ret, intro grow_rules one, simp_all)
  then show ?thesis
    unfolding RevokeUser_def revokeAcrossAllRoles_def by (intro grow_rules)
qed

lemma grows_prov_events:
  "always grows (prov_User s p op u)" "always grows (prov_Group s p op g us)" "always grows Snapshot"
  unfolding prov_User_def awsfed_User_def prov_Group_def Snapshot_def
  by (intro grow_rules grow_cases grows_scim grows_scim_group grows_RevokeUser)+

lemma grows_fan_out: "always grows (provisionUser s op u)" "always grows (provisionGroup s op g us)"
proof -
  have "always grows (set_User s ps op u)" for ps u
    by (induction ps) (simp_all add: grow.ret, intro grow_rules grows_prov_events, simp_all)
  moreover have "always grows (set_Group s ps op g us)" for ps
    by (induction ps) (simp_all add: grow.ret, intro grow_rules grows_prov_events, simp_all)
  ultimately show "always grows (provisionUser s op u)" "always grows (provisionGroup s op g us)"
    unfolding provisionUser_def provisionGroup_def by (intro grow_rules grows_prov_events; simp)+
qed

lemma grows_registry: "always grows (reloadProvisioners s)" "always grows (lookupProvisioner n)"
  unfolding reloadProvisioners_def buildProvSet_def lookupProvisioner_def
  by (intro grow_rules grows_prov_events)+

lemma grows_syncUserGroups: "always grows (syncUserGroups s uid sel)"
proof -
  have one: "always grows (sync_group s uid sel us g)" for us g
    unfolding sync_group_def by (intro grow_rules grows_fan_out)
  have "always grows (sync_user_groups s uid sel us gs)" for us gs
    by (induction gs) (simp_all add: grow.ret, intro grow_rules one, simp_all)
  then show ?thesis unfolding syncUserGroups_def by (intro grow_rules)
qed

lemma grows_loops:
  "always grows (delete_webauthns i cs)" "always grows (revoke_targets sub ps)" "always grows (with_row_ids s gs)"
  "always grows (clear_webauthns s r a i cs)"
proof -
  show "always grows (delete_webauthns i cs)"
    by (induction cs) (simp_all add: grow.ret, intro grow_rules, simp_all)
  show "always grows (revoke_targets sub ps)"
    by (induction ps) (simp_all add: grow.ret, intro conjI impI grow_rules grows_RevokeUser, simp_all)
  show "always grows (with_row_ids s gs)"
    by (induction gs) (simp_all add: grow.ret, intro grow_rules, simp_all)
  show "always grows (clear_webauthns s r a i cs)"
    by (induction cs) (simp_all add: grow.ret, intro grow_rules, simp_all)
qed

lemma grows_end_sessions: "always grows (end_sessions s i)"
  unfolding end_sessions_def by (intro grow_rules grows_broadcast)

lemmas grows_parts = grow_rules grow_cases grows_cookies grows_broadcast grows_fan_out grows_RevokeUser grows_prov_events(3)
  grows_registry grows_syncUserGroups grows_loops grows_end_sessions

subsection \<open>Nothing happens without an audit\<close>

definition audited :: "world \<Rightarrow> world \<Rightarrow> bool" where
  "audited w w' \<longleftrightarrow> grows w w' \<and>
     (w_journal w' = w_journal w \<longrightarrow> w_db w' = w_db w \<and> w_outbox w' = w_outbox w)"

interpretation aud: step_rel audited
proof
  show "audited w w" for w by (simp add: audited_def)
  show "audited w v" if wu: "audited w u" and uv: "audited u v" for w u v
  proof -
    have g: "grows w u" "grows u v" using wu uv by (simp_all add: audited_def)
    obtain es fs where es: "w_journal u = w_journal w @ es" "w_journal v = w_journal u @ fs"
      using g unfolding grows_def by blast
    have "w_journal u = w_journal w \<and> w_journal v = w_journal u" if "w_journal v = w_journal w"
      using that unfolding es by simp
    then show ?thesis using wu uv grow.trans [OF g] by (simp add: audited_def)
  qed
qed

lemma audited_reads:
  "(\<And>d. snd (op d) = d) \<Longrightarrow> always audited (store op)"
  "(\<And>now d. snd (op' now d) = d) \<Longrightarrow> always audited (store_at op')"
  "always audited get_now" "always audited draw" "always audited (set_cookie n v age)"
  "always audited (GenerateRawToken s)" "always audited (newUUID s)" "always audited (HashPassword s p)"
  "always audited get_registry" "always audited (first_violation s ctx)"
  by (auto intro!: alwaysI simp: audited_def grows_def run_simps split: if_splits)

lemma audited_logAudit: "always audited (logAudit s r a u c meta)"
proof (rule alwaysI)
  fix w ok w' assume run: "run_state (logAudit s r a u c meta) w = (ok, w')"
  show "audited w w'"
    using alwaysD [OF grows_logAudit run] logAudit_result [OF run] by (auto simp: audited_def)
qed

text \<open>Once the audit has succeeded, the rest of the handler may do anything.\<close>

lemma audited_guard:
  assumes "always audited m" "always grows n"
  shows "always audited (do { ok \<leftarrow> logAudit s r a u c meta; if \<not> ok then m else n })"
proof (rule alwaysI)
  fix w x w' assume "run_state (do { ok \<leftarrow> logAudit s r a u c meta; if \<not> ok then m else n }) w = (x, w')"
  then obtain ok w1 where l: "run_state (logAudit s r a u c meta) w = (ok, w1)"
    and k: "run_state (if \<not> ok then m else n) w1 = (x, w')" by (auto split: prod.splits)
  note res = logAudit_result [OF l]
  show "audited w w'"
  proof (cases ok)
    case True
    then have g: "grows w1 w'" using k alwaysD [OF assms(2)] by simp
    moreover have "w_journal w' \<noteq> w_journal w" using g res(2) True by (auto simp: grows_def)
    ultimately show ?thesis using alwaysD [OF grows_logAudit l] grow.trans by (auto simp: audited_def)
  next
    case False
    then show ?thesis using k alwaysD [OF audited_logAudit l] alwaysD [OF assms(1)] by (auto intro: aud.trans)
  qed
qed

lemmas audited_rules = audited_guard audited_reads audited_logAudit aud.rules aud.err_case

lemmas read_ops = GetUserByID_def GetClientByID_def ListGroups_def ListUsers_def GetGroupByID_def GetTOTPByUserID_def
  ListWebAuthnCredentials_def ListClientVisibility_def GetAWSRole_def GetAWSAccount_def GetIntegration_def ListAWSRoles_def
  ListAWSAccounts_def ListAWSRoleAssignments_def

lemma audited_portal_users:
  "always audited (handlePortalAdminUserEdit s r sess a)" "always audited (handlePortalAdminUserResetPassword s r sess a)"
  "always audited (handlePortalAdminUserCompromisedReset s r sess a)" "always audited (handlePortalAdminUserDelete s r sess a)"
  unfolding handlePortalAdminUserEdit_def currentMembershipFor_def renderUserForm_def edit_form_again_def Snapshot_def
    handlePortalAdminUserResetPassword_def set_temp_password_def handlePortalAdminUserCompromisedReset_def handlePortalAdminUserDelete_def
  by (intro audited_rules grows_parts; simp add: read_ops)+

lemma audited_portal_clients:
  "always audited (handlePortalAdminClientDelete s r sess a)" "always audited (handlePortalAdminClientRotate s r sess a)"
  unfolding portal_client_defs by (intro audited_rules grows_parts; simp add: read_ops)+

lemma audited_portal_groups: "always audited (handlePortalAdminGroupDelete s r sess a)"
  unfolding portal_group_defs by (intro audited_rules grows_parts; simp add: read_ops)+

lemma audited_aws_admin:
  "always audited (handlePortalAdminAWSRoleRegions s r sess a)" "always audited (handlePortalAdminAWSAssignmentDelete s r sess a)"
  unfolding aws_admin_defs by (intro audited_rules grows_parts; simp add: read_ops)+

lemma audited_integrations: "always audited (handlePortalAdminIntegrationDelete s r sess a)"
  unfolding integration_defs by (intro audited_rules grows_parts; simp add: read_ops)+

lemma audited_admin:
  "always audited (handleAdminUpdateUser s r sess)" "always audited (handleAdminDeleteUser s r sess)"
  "always audited (handleAdminDeleteClient s r sess)" "always audited (handleAdminRotateClientSecret s r sess)"
  unfolding admin_defs by (intro audited_rules grows_parts; simp add: read_ops)+

lemma audited_mfa_removal:
  "always audited (handlePortalMFATOTPDelete s r sess u)" "always audited (handlePortalMFAWebAuthnDelete s r sess u)"
  "always audited (handleTOTPDelete s r sess)" "always audited (handleWebAuthnDelete s r sess)"
  unfolding handlePortalMFATOTPDelete_def handlePortalMFAWebAuthnDelete_def handleTOTPDelete_def handleWebAuthnDelete_def
  by (intro audited_rules grows_parts; simp add: read_ops)+

end
