(* ===== verification/Rollback.thy ===== *)
theory Rollback
  imports Journal
begin

text \<open>
  Creations are rolled back when their audit record cannot be written. The locale
  \<open>undoable\<close> is the contract between a creating method of the store and the method that
  undoes it; \<open>undone\<close> is what a handler promises: when it answers that the audit journal is
  unreachable, the database is as before (as long as the driver does not fail).
\<close>

definition undone :: "response act \<Rightarrow> bool" where
  "undone m \<longleftrightarrow> (\<forall>w w'. w_faults w = [] \<longrightarrow> wf_db (w_db w) \<longrightarrow> run_state m w = (auditFail, w') \<longrightarrow> w_db w' = w_db w)"

text \<open>A step of a handler that leaves the database and the absence of failures as they are.\<close>

definition idle :: "world \<Rightarrow> world \<Rightarrow> bool" where
  "idle w w' \<longleftrightarrow> w_faults w = [] \<longrightarrow> w_db w' = w_db w \<and> w_faults w' = []"

interpretation idle: step_rel idle
  by unfold_locales (auto simp: idle_def)

lemma idle_steps:
  "always idle get_now" "always idle draw" "always idle (GenerateRawToken s)" "always idle (newUUID s)"
  "always idle (HashPassword s p)" "always idle (first_violation s ctx)" "(\<And>d. snd (op d) = d) \<Longrightarrow> always idle (store op)"
  "always idle (EncryptEnvelope s p)"
  by (auto intro!: alwaysI simp: idle_def run_simps EncryptEnvelope_def split: if_splits)

lemma idle_new_secret: "always idle (new_secret s b)"
  unfolding new_secret_def by (intro idle.rules idle_steps)

lemma idle_logAudit: "always idle (logAudit s r a u c meta)"
  unfolding logAudit_def
  by (intro idle.rules idle_steps)
     (auto intro!: alwaysI simp: GetUserByID_def GetClientByID_def idle_def run_simps split: if_splits)

lemma undone_other: "(\<And>w. fst (run_state m w) \<noteq> auditFail) \<Longrightarrow> undone m"
  by (auto simp: undone_def) (metis fst_conv)

lemma undone_bind:
  assumes "always idle m" "\<And>a. undone (f a)"
  shows "undone (do { a \<leftarrow> m; f a })"
  unfolding undone_def
proof (intro allI impI)
  fix w w' assume w: "w_faults w = []" "wf_db (w_db w)" and run: "run_state (do { a \<leftarrow> m; f a }) w = (auditFail, w')"
  obtain a w1 where m: "run_state m w = (a, w1)" by fastforce
  have 1: "w_db w1 = w_db w" "w_faults w1 = []" using alwaysD [OF assms(1) m] w by (simp_all add: idle_def)
  have "run_state (f a) w1 = (auditFail, w')" using run m by simp
  then show "w_db w' = w_db w" using assms(2) [of a] 1 w(2) unfolding undone_def by metis
qed

lemma undone_cases:
  "undone (ret x)"
  "(b \<Longrightarrow> undone m) \<Longrightarrow> (\<not> b \<Longrightarrow> undone n) \<Longrightarrow> undone (if b then m else n)"
  "undone m \<Longrightarrow> (\<And>a. undone (f a)) \<Longrightarrow> undone (case p of None \<Rightarrow> m | Some a \<Rightarrow> f a)"
  "(\<And>a b. undone (g a b)) \<Longrightarrow> undone (case y of (a, b) \<Rightarrow> g a b)"
  "(\<And>y. undone (h y)) \<Longrightarrow> undone (Let z h)"
  by (simp add: undone_def, simp, cases p, simp, simp, cases y, simp, simp)

locale undoable =
  fixes create :: "db \<Rightarrow> (store_error + 'a) \<times> db" and undo :: "'a \<Rightarrow> db \<Rightarrow> (store_error + unit) \<times> db"
  assumes undo_create: "wf_db d \<Longrightarrow> create d = (Inr a, d') \<Longrightarrow> snd (undo a d') = d"
    and create_fails: "create d = (Inl e, d') \<Longrightarrow> d' = d"
begin

lemma create_then_audit:
  assumes "\<And>e w. fst (run_state (m e) w) \<noteq> auditFail" "\<And>a w. fst (run_state (k a) w) \<noteq> auditFail"
  shows "undone (do {
     x \<leftarrow> store create;
     case x of
       Inl e \<Rightarrow> m e
     | Inr a \<Rightarrow> do {
         ok \<leftarrow> logAudit s r action (u a) (c a) (meta a);
         if \<not> ok then do { undoOnAuditFailure (undo a); ret auditFail } else k a } })"
  unfolding undone_def
proof (intro allI impI)
  fix w w' assume w: "w_faults w = []" "wf_db (w_db w)"
    and run: "run_state (do {
     x \<leftarrow> store create;
     case x of
       Inl e \<Rightarrow> m e
     | Inr a \<Rightarrow> do {
         ok \<leftarrow> logAudit s r action (u a) (c a) (meta a);
         if \<not> ok then do { undoOnAuditFailure (undo a); ret auditFail } else k a } }) w = (auditFail, w')"
  obtain x d' where c: "create (w_db w) = (x, d')" by fastforce
  let ?w1 = "w\<lparr>w_db := d', w_faults := tl (w_faults w)\<rparr>"
  have st: "run_state (store create) w = (x, ?w1)" using w c by (simp add: run_store)
  show "w_db w' = w_db w"
  proof (cases x)
    case (Inl e)
    then show ?thesis using run st assms(1) [of e ?w1] by simp
  next
    case (Inr a)
    obtain ok w2 where l: "run_state (logAudit s r action (u a) (c a) (meta a)) ?w1 = (ok, w2)" by fastforce
    have "\<not> ok" using run st l Inr assms(2) [of a w2] by auto
    moreover have "w_db w2 = d'" "w_faults w2 = []" using alwaysD [OF idle_logAudit l] w by (simp_all add: idle_def)
    ultimately show ?thesis
      using run st l Inr undo_create [OF w(2)] c by (auto simp: undoOnAuditFailure_def run_store)
  qed
qed

end


lemma undone_store_at:
  "(\<And>now. undone (do { x \<leftarrow> store (op now); f x })) \<Longrightarrow> undone (do { x \<leftarrow> store_at op; f x })"
  by (auto simp: undone_def run_store_at)

lemma insert_outcome_iff:
  "insert_outcome a b c x d d' = (Inr y, e) \<longleftrightarrow> a \<and> c \<and> y = x \<and> e = d'"
  "insert_outcome a b c x d d' = (Inl er, e) \<Longrightarrow> e = d"
  by (auto simp: insert_outcome_def split: if_splits)

text \<open>Nothing refers to a row that was just inserted, so the cascades of its deletion are empty.\<close>

lemma no_refs: "fk_col k ids t \<Longrightarrow> i \<notin> ids \<Longrightarrow> sql_delete (\<lambda>r. k r = i) t = t"
  by (rule sql_delete_none) (auto simp: fk_col_def)

lemma fk_cols:
  "fk_grants us cs t1 = (fk_col g_UserID us t1 \<and> fk_col g_ClientID cs t1)"
  "fk_members gs us t2 = (fk_col m_GroupID gs t2 \<and> fk_col m_UserID us t2)"
  "fk_assignments gs rs t3 = (fk_col as_GroupID gs t3 \<and> fk_col as_RoleID rs t3)"
  "fk_visibility cs gs t4 = (fk_col v_ClientID cs t4 \<and> fk_col v_GroupID gs t4)"
  "fk_sessions us cs t5 \<Longrightarrow> fk_col s_ClientID cs t5" "fk_device_grants cs us t6 \<Longrightarrow> fk_col d_ClientID cs t6"
  by (auto simp: fk_defs)

lemma delete_created_user:
  assumes "wf_db d" "uniq_users (users d @ [u])"
  shows "delete_user_row (u_ID u) (d\<lparr>users := users d @ [u]\<rparr>) = d"
proof -
  have new: "u_ID u \<notin> user_ids d" using assms(2) by (auto simp: uniq_users_def)
  have s: "\<not> user_session (u_ID u) x" if "x \<in> set (sessions d)" for x
    using assms(1) that new unfolding wf_db_def fk_db_def fk_sessions_def user_session_def by metis
  have d: "d_UserID g \<noteq> Some (u_ID u)" if "g \<in> set (device_grants d)" for g
    using assms(1) that new unfolding wf_db_def fk_db_def fk_device_grants_def by fastforce
  have "filter (user_session (u_ID u)) (sessions d) = []" using s by (simp add: filter_empty_conv)
  moreover have "sql_delete (\<lambda>x. u_ID x = u_ID u) (users d) = users d"
    by (rule sql_delete_none) (use new in \<open>auto simp: image_iff\<close>)
  ultimately show ?thesis
    using assms(1) new s d
    by (simp add: delete_user_row_def delete_sessions_def Let_def sql_delete_none sql_update_none no_refs [of _ "user_ids d"] wf_db_def fk_db_def fk_cols)
qed

lemma delete_created_client:
  assumes "wf_db d" "uniq_clients (clients d @ [c])"
  shows "delete_client_row (c_ID c) (d\<lparr>clients := clients d @ [c]\<rparr>) = d"
proof -
  have new: "c_ID c \<notin> client_ids d" using assms(2) by (auto simp: uniq_clients_def)
  have fk: "fk_col s_ClientID (client_ids d) (sessions d)" "fk_col d_ClientID (client_ids d) (device_grants d)"
    using assms(1) by (auto simp: wf_db_def fk_db_def intro: fk_cols)
  have "filter (\<lambda>s. s_ClientID s = c_ID c) (sessions d) = []" using fk(1) new unfolding filter_empty_conv fk_col_def by metis
  moreover have "sql_delete (\<lambda>x. c_ID x = c_ID c) (clients d) = clients d"
    by (rule sql_delete_none) (use new in \<open>auto simp: image_iff\<close>)
  ultimately show ?thesis
    using assms(1) new fk
    by (simp add: delete_client_row_def delete_sessions_def Let_def sql_delete_none no_refs [of _ "client_ids d"] wf_db_def fk_db_def fk_cols)
qed

lemma delete_created_role:
  assumes "wf_db d" "ar_ID r \<notin> role_ids d"
  shows "delete_roles (\<lambda>x. ar_ID x = ar_ID r) (d\<lparr>aws_roles := aws_roles d @ [r]\<rparr>) = d"
proof -
  have "filter (\<lambda>x. ar_ID x = ar_ID r) (aws_roles d) = []" using assms(2) by (auto simp: filter_empty_conv image_iff)
  moreover have "sql_delete (\<lambda>x. ar_ID x = ar_ID r) (aws_roles d) = aws_roles d"
    by (rule sql_delete_none) (use assms(2) in \<open>auto simp: image_iff\<close>)
  ultimately show ?thesis
    using assms by (simp add: delete_roles_def Let_def no_refs [of _ "role_ids d"] wf_db_def fk_db_def fk_cols)
qed

lemma delete_created_account:
  assumes "wf_db d" "aa_ID a \<notin> account_ids d"
  shows "delete_account_row (aa_ID a) (d\<lparr>aws_accounts := aws_accounts d @ [a]\<rparr>) = d"
proof -
  have fk: "fk_col ar_AccountID (account_ids d) (aws_roles d)" using assms(1) by (simp add: wf_db_def fk_db_def)
  have "filter (\<lambda>x. ar_AccountID x = aa_ID a) (aws_roles d) = []" using fk assms(2) unfolding filter_empty_conv fk_col_def by metis
  moreover have "sql_delete (\<lambda>x. aa_ID x = aa_ID a) (aws_accounts d) = aws_accounts d"
    by (rule sql_delete_none) (use assms(2) in \<open>auto simp: image_iff\<close>)
  ultimately show ?thesis
    using fk assms(2) by (simp add: delete_account_row_def delete_roles_def Let_def no_refs [of _ "account_ids d"] sql_delete_none)
qed

text \<open>The same with the identifier given separately, as the statements have it.\<close>

lemma delete_inserted:
  "wf_db d \<Longrightarrow> uniq_users (users d @ [u]) \<Longrightarrow> u_ID u = i \<Longrightarrow> delete_user_row i (d\<lparr>users := users d @ [u]\<rparr>) = d"
  "wf_db d \<Longrightarrow> uniq_clients (clients d @ [c]) \<Longrightarrow> c_ID c = i \<Longrightarrow> delete_client_row i (d\<lparr>clients := clients d @ [c]\<rparr>) = d"
  "wf_db d \<Longrightarrow> i \<notin> account_ids d \<Longrightarrow> aa_ID a = i \<Longrightarrow>
     delete_account_row i (d\<lparr>aws_accounts := aws_accounts d @ [a]\<rparr>) = d"
  "wf_db d \<Longrightarrow> i \<notin> role_ids d \<Longrightarrow> ar_ID r = i \<Longrightarrow> delete_roles (\<lambda>x. ar_ID x = i) (d\<lparr>aws_roles := aws_roles d @ [r]\<rparr>) = d"
  using delete_created_user delete_created_client delete_created_account delete_created_role by blast+

lemma delete_appended: "i \<notin> k ` set t \<Longrightarrow> k r = i \<Longrightarrow> sql_delete (\<lambda>x. k x = i) (t @ [r]) = t"
  by simp (rule sql_delete_none, blast)

interpretation user_row: undoable "CreateUser now uid email hash name" "\<lambda>u. DeleteUser (u_ID u)" for now uid email hash name
  by unfold_locales
     (auto simp: CreateUser_def DeleteUser_def Let_def insert_outcome_iff delete_inserted dest: insert_outcome_iff(2))

interpretation client_row: undoable "CreateClient now cid i h n ru sc p b" "\<lambda>c. DeleteClient (c_ID c)" for now cid i h n ru sc p b
  by unfold_locales
     (auto simp: CreateClient_def DeleteClient_def Let_def insert_outcome_iff delete_inserted dest: insert_outcome_iff(2))

interpretation account_row: undoable "CreateAWSAccount now fresh a" "\<lambda>a. DeleteAWSAccount (aa_ID a)" for now fresh a
  by unfold_locales
     (auto simp: CreateAWSAccount_def DeleteAWSAccount_def Let_def insert_outcome_iff delete_inserted dest: insert_outcome_iff(2))

interpretation role_row: undoable "CreateAWSRole now fresh a" "\<lambda>a. DeleteAWSRole (ar_ID a)" for now fresh a
  by unfold_locales
     (auto simp: CreateAWSRole_def DeleteAWSRole_def Let_def insert_outcome_iff delete_inserted dest: insert_outcome_iff(2))

interpretation assignment_row: undoable "CreateAWSRoleAssignment now fresh a" "\<lambda>a. DeleteAWSRoleAssignment (as_ID a)" for now fresh a
  by unfold_locales
     (auto simp: CreateAWSRoleAssignment_def DeleteAWSRoleAssignment_def Let_def insert_outcome_iff delete_appended
       simp del: sql_delete_append dest: insert_outcome_iff(2))

interpretation integration_row: undoable "CreateIntegration now fresh a" "\<lambda>a. DeleteIntegration (i_ID a)" for now fresh a
  by unfold_locales
     (auto simp: CreateIntegration_def DeleteIntegration_def Let_def insert_outcome_iff delete_appended
       simp del: sql_delete_append dest: insert_outcome_iff(2))

subsection \<open>The creating handlers\<close>

lemma not_auditFail [simp]:
  "writeError n c m \<noteq> auditFail" "RJSON n b \<noteq> auditFail" "RPage t e \<noteq> auditFail" "RRedirect u ps \<noteq> auditFail"
  "aws_admin_error m \<noteq> auditFail" "aws_admin_success m \<noteq> auditFail" "integration_page m \<noteq> auditFail"
  "integrations_flash k m \<noteq> auditFail"
  by (simp_all add: writeError_def auditFail_def aws_admin_error_def aws_admin_success_def integration_page_def integrations_flash_def)

lemma fst_run_bind [simp]: "fst (run_state (do { x \<leftarrow> m; ret y }) w) = y"
  by (simp split: prod.splits)

lemmas undone_prefix = idle_steps(1-6,8) [THEN undone_bind] idle_new_secret [THEN undone_bind]

lemmas undone_rules = undone_cases undone_store_at undone_prefix
  user_row.create_then_audit client_row.create_then_audit account_row.create_then_audit role_row.create_then_audit
  assignment_row.create_then_audit integration_row.create_then_audit

lemma undone_creations:
  "undone (handleAdminCreateUser s r sess)" "undone (handleAdminCreateClient s r sess)"
  "undone (handlePortalAdminAWSAccountNew s r sess a)" "undone (handlePortalAdminAWSRoleNew s r sess a)"
  "undone (handlePortalAdminAWSAssignmentNew s r sess a)"
  unfolding handleAdminCreateUser_def handleAdminCreateClient_def handlePortalAdminAWSAccountNew_def
    handlePortalAdminAWSRoleNew_def handlePortalAdminAWSAssignmentNew_def
  by (intro undone_rules; simp split: store_error.splits prod.splits)+

lemma undone_integration: "undone (handlePortalAdminIntegrationNew s r sess a)"
  unfolding handlePortalAdminIntegrationNew_def
  apply (intro undone_cases)
  apply (rule undone_bind)
   apply (intro idle.rules idle_steps)
  apply (intro undone_rules; simp split: store_error.splits prod.splits)
  done

end
