(* ===== verification/Admin_Properties.thy ===== *)
theory Admin_Properties
  imports Rollback Example
begin

text \<open>
  Properties of administration: the audit discipline of destructive actions and creations,
  who gets past the middlewares, and what deleting a user, synchronising groups and logging out
  everywhere do.
\<close>

subsection \<open>Audit first\<close>

lemma aws_deletes_audited:
  assumes "w_faults w = []"
    "m \<in> {handlePortalAdminAWSAccountDelete s r sess a, handlePortalAdminAWSRoleDelete s r sess a}"
    "run_state m w = (resp, w')"
  shows "audited w w'"
proof -
  have acc: "delete_account_row i d = d" if "select_row (\<lambda>a. aa_ID a = i) (aws_accounts d) = Inl e" for i d e
    using select_row_Inl [OF that] by (auto simp: delete_account_row_def)
  have rol: "delete_roles (\<lambda>a. ar_ID a = i) d = d" if "select_row (\<lambda>a. ar_ID a = i) (aws_roles d) = Inl e" for i d e
    using select_row_Inl [OF that] by (auto simp: delete_roles_def Let_def filter_empty_conv sql_delete_none)
  have g: "always audited (do { ok \<leftarrow> logAudit s r act u c meta; if \<not> ok then ret auditFail else do { y \<leftarrow> store op; ret (f y) } })"
    for act u c meta op and f :: "store_error + unit \<Rightarrow> response"
    by (intro audited_rules grows_parts)
  show ?thesis
    using assms acc rol alwaysD [OF g]
    unfolding handlePortalAdminAWSAccountDelete_def handlePortalAdminAWSRoleDelete_def
    by (auto simp: run_store_ok GetAWSAccount_def GetAWSRole_def DeleteAWSAccount_def DeleteAWSRole_def
        split: option.splits sum.splits)
qed

text \<open>The handlers \<open>docs/upgrade-checklist.md\<close> lists as auditing first, without the two that look
  an AWS row up before they audit.\<close>

definition destructive :: "server \<Rightarrow> request \<Rightarrow> Session \<Rightarrow> User \<Rightarrow> response act list" where
  "destructive s r sess a =
      [handleAdminUpdateUser s r sess, handleAdminDeleteUser s r sess, handleAdminDeleteClient s r sess,
       handleAdminRotateClientSecret s r sess, handlePortalAdminUserEdit s r sess a, handlePortalAdminUserResetPassword s r sess a,
       handlePortalAdminUserCompromisedReset s r sess a, handlePortalAdminUserDelete s r sess a,
       handlePortalAdminClientDelete s r sess a, handlePortalAdminClientRotate s r sess a, handlePortalAdminGroupDelete s r sess a,
       handlePortalAdminAWSRoleRegions s r sess a, handlePortalAdminAWSAssignmentDelete s r sess a,
       handlePortalAdminIntegrationDelete s r sess a, handlePortalMFATOTPDelete s r sess a, handlePortalMFAWebAuthnDelete s r sess a,
       handleTOTPDelete s r sess, handleWebAuthnDelete s r sess]"

lemma destructive_audited: "m \<in> set (destructive s r sess a) \<Longrightarrow> always audited m"
  by (auto simp: destructive_def audited_admin audited_portal_users audited_portal_clients audited_portal_groups audited_aws_admin
      audited_integrations audited_mfa_removal)


definition path_request :: request where "path_request = (demo_request [])\<lparr>rq_pathID := Some 10\<rparr>"

definition outage_world :: world where "outage_world = demo_world\<lparr>w_auditFaults := [True]\<rparr>"


definition account_world :: world where
  "account_world = demo_world\<lparr>w_db := demo_db\<lparr>aws_accounts := [\<lparr>aa_ID = 10, aa_AccountID = ''111122223333'', aa_Alias = [],
     aa_OIDCProviderARN = ''arn'', aa_CreatedAt = demo_now, aa_UpdatedAt = demo_now\<rparr>]\<rparr>, w_faults := [True]\<rparr>"



definition create_request :: request where
  "create_request = (demo_request [(''account_id'', ''444455556666''), (''oidc_provider_arn'', ''arn'')])"

lemma create_strings: "TrimSpace ''444455556666'' = ''444455556666''" "TrimSpace ''arn'' = ''arn''" "TrimSpace [] = []"
  by code_simp+


subsection \<open>Logging out everywhere\<close>

definition logout_pushes :: "db \<Rightarrow> uuid \<Rightarrow> string \<Rightarrow> uuid list \<Rightarrow> message list" where
  "logout_pushes d uid sid cids =
     List.map_filter (\<lambda>cid. if cid = portalClientUUID then None
       else case find (\<lambda>c. c_ID c = cid) (clients d) of
         None \<Rightarrow> None
       | Some c \<Rightarrow> (case c_BackchannelLogoutURI c of
           None \<Rightarrow> None
         | Some uri \<Rightarrow> if TrimSpace uri = [] then None else Some (LogoutPush cid uri (c_ClientID c) uid sid))) cids"

lemma logout_pushes_Cons:
  "logout_pushes d uid sid (c # cs) = logout_pushes d uid sid [c] @ logout_pushes d uid sid cs" "logout_pushes d uid sid [] = []"
  by (simp_all add: logout_pushes_def map_filter_simps split: option.splits)

lemma notify_clients_run:
  assumes "w_faults w = []"
  shows "run_state (notify_clients uid sid cids) w = ((), w\<lparr>w_outbox := w_outbox w @ logout_pushes (w_db w) uid sid cids\<rparr>)"
  using assms
proof (induction cids arbitrary: w)
  case (Cons c cs)
  show ?case
    by (subst logout_pushes_Cons)
      (auto simp: Cons logout_pushes_def map_filter_simps run_store_ok GetClientByID_def select_row_def dest!: find_SomeD
       split: option.splits)
qed (simp add: logout_pushes_Cons)

lemma broadcastLogout_run:
  assumes "w_faults w = []" "srv_hasSigner s" "u \<in> set (users (w_db w))" "u_ID u = uid" "distinct (map u_ID (users (w_db w)))"
  shows "run_state (broadcastLogout s uid sid) w =
    ((), w\<lparr>w_outbox := w_outbox w @ logout_pushes (w_db w) uid sid (case fst (ListSessionClientIDsByUser uid (w_db w)) of Inl e \<Rightarrow> [] | Inr ids \<Rightarrow> ids)\<rparr>)"
proof -
  have u: "select_row (\<lambda>x. u_ID x = uid) (users (w_db w)) = Inr u" using assms by (intro select_row_unique) auto
  show ?thesis
    using assms(1,2,4) u
    by (auto simp: broadcastLogout_def run_store_ok ListSessionClientIDsByUser_def GetUserByID_def notify_clients_run logout_pushes_Cons)
qed

lemma set_logout_pushes:
  assumes "distinct (map c_ID (clients d))"
  shows "set (logout_pushes d uid sid cids) = {LogoutPush (c_ID c) uri (c_ClientID c) uid sid | c uri.
    c \<in> set (clients d) \<and> c_ID c \<in> set cids \<and> c_ID c \<noteq> portalClientUUID \<and> c_BackchannelLogoutURI c = Some uri \<and> TrimSpace uri \<noteq> []}"
proof (induction cids)
  case (Cons i cids)
  have "set (logout_pushes d uid sid [i]) = {LogoutPush (c_ID c) uri (c_ClientID c) uid sid | c uri.
      c \<in> set (clients d) \<and> c_ID c = i \<and> c_ID c \<noteq> portalClientUUID \<and> c_BackchannelLogoutURI c = Some uri \<and> TrimSpace uri \<noteq> []}"
  proof (cases "find (\<lambda>c. c_ID c = i) (clients d)")
    case None
    moreover have "logout_pushes d uid sid [i] = []" by (simp add: logout_pushes_def map_filter_simps None)
    ultimately show ?thesis by (auto simp: find_None_all)
  next
    case (Some x)
    then have x: "x \<in> set (clients d)" "c_ID x = i" by (simp_all add: find_key_iff [OF assms])
    have only: "c \<in> set (clients d) \<and> c_ID c = i \<longleftrightarrow> c = x" for c
      using distinct_key_eq [OF assms _ x(1)] x by metis
    have "set (logout_pushes d uid sid [i]) = {LogoutPush i uri (c_ClientID x) uid sid | uri.
        i \<noteq> portalClientUUID \<and> c_BackchannelLogoutURI x = Some uri \<and> TrimSpace uri \<noteq> []}"
      by (simp add: logout_pushes_def map_filter_simps Some split: option.split)
    also have "\<dots> = {LogoutPush (c_ID c) uri (c_ClientID c) uid sid | c uri.
        (c \<in> set (clients d) \<and> c_ID c = i) \<and> c_ID c \<noteq> portalClientUUID \<and> c_BackchannelLogoutURI c = Some uri \<and> TrimSpace uri \<noteq> []}"
      unfolding only using x(2) by blast
    finally show ?thesis by (simp only: conj_assoc)
  qed
  then show ?case by (subst logout_pushes_Cons) (auto simp: Cons)
qed (simp add: logout_pushes_Cons)

text \<open>C22. A back-channel logout (no driver failure, a signer configured, an existing user) sends a logout token to
  exactly those clients other than the portal that hold a session of the user and have a logout URI that is not
  blank, and changes nothing else.\<close>

theorem logout_reaches_clients:
  assumes "w_faults w = []" "srv_hasSigner s" "wf_db (w_db w)" "u \<in> set (users (w_db w))" "u_ID u = uid"
  shows "\<exists>ms. run_state (broadcastLogout s uid sid) w = ((), w\<lparr>w_outbox := w_outbox w @ ms\<rparr>) \<and>
    set ms = {LogoutPush (c_ID c) uri (c_ClientID c) uid sid | c uri. c \<in> set (clients (w_db w)) \<and>
       (\<exists>sess\<in>set (sessions (w_db w)). user_session uid sess \<and> s_ClientID sess = c_ID c) \<and>
       c_ID c \<noteq> portalClientUUID \<and> c_BackchannelLogoutURI c = Some uri \<and> TrimSpace uri \<noteq> []}"
proof -
  have d: "distinct (map c_ID (clients (w_db w)))" "distinct (map u_ID (users (w_db w)))"
    using assms(3) by (simp_all add: wf_db_def uniq_db_def uniq_clients_def uniq_users_def)
  let ?ids = "remdups (map s_ClientID (filter (user_session uid) (sessions (w_db w))))"
  have "run_state (broadcastLogout s uid sid) w = ((), w\<lparr>w_outbox := w_outbox w @ logout_pushes (w_db w) uid sid ?ids\<rparr>)"
    using broadcastLogout_run [OF assms(1,2,4,5) d(2)] by (simp add: ListSessionClientIDsByUser_def)
  moreover have "i \<in> set ?ids \<longleftrightarrow> (\<exists>sess\<in>set (sessions (w_db w)). user_session uid sess \<and> s_ClientID sess = i)" for i by auto
  ultimately show ?thesis
    by (intro exI [of _ "logout_pushes (w_db w) uid sid ?ids"]) (simp only: set_logout_pushes [OF d(1)] simp_thms)
qed

theorem logout_reaches_clients_witness:
  "LogoutPush 20 ''https://rp/logout'' ''app'' 10 [] \<in> set (w_outbox (snd (run_state (broadcastLogout demo_server 10 []) demo_world)))"
proof -
  have a: "w_faults demo_world = []" "srv_hasSigner demo_server" "wf_db (w_db demo_world)" "demo_user \<in> set (users (w_db demo_world))"
    "u_ID demo_user = 10"
    using demo_wf by (simp_all add: demo_world_def demo_server_def demo_db_def demo_user_def)
  have "TrimSpace ''https://rp/logout'' \<noteq> []" by code_simp
  then have c: "demo_client \<in> set (clients (w_db demo_world))" "c_ID demo_client = 20" "c_ClientID demo_client = ''app''" "20 \<noteq> portalClientUUID"
    "c_BackchannelLogoutURI demo_client = Some ''https://rp/logout''" "TrimSpace ''https://rp/logout'' \<noteq> []"
    "demo_session \<in> set (sessions (w_db demo_world))" "user_session 10 demo_session" "s_ClientID demo_session = c_ID demo_client"
    by (simp_all add: demo_world_def demo_db_def demo_client_def demo_session_def user_session_def portalClientUUID_def)
  from logout_reaches_clients [OF a, of "[]"] obtain ms where
    run: "run_state (broadcastLogout demo_server 10 []) demo_world = ((), demo_world\<lparr>w_outbox := w_outbox demo_world @ ms\<rparr>)"
    and ms: "set ms = {LogoutPush (c_ID c) uri (c_ClientID c) 10 [] | c uri. c \<in> set (clients (w_db demo_world)) \<and>
       (\<exists>sess\<in>set (sessions (w_db demo_world)). user_session 10 sess \<and> s_ClientID sess = c_ID c) \<and>
       c_ID c \<noteq> portalClientUUID \<and> c_BackchannelLogoutURI c = Some uri \<and> TrimSpace uri \<noteq> []}" by blast
  have "LogoutPush 20 ''https://rp/logout'' ''app'' 10 [] \<in> set ms" unfolding ms using c by force
  then show ?thesis unfolding run by simp
qed

subsection \<open>Deleting a user\<close>

definition accounts_same :: "db \<Rightarrow> db \<Rightarrow> bool" where
  "accounts_same d d' \<longleftrightarrow> users d' = users d \<and> clients d' = clients d \<and> sessions d' = sessions d \<and> grants d' = grants d \<and>
     totps d' = totps d \<and> webauthns d' = webauthns d \<and> wa_sessions d' = wa_sessions d \<and> members d' = members d \<and>
     groups d' = groups d \<and> device_grants d' = device_grants d"

interpretation acs: prov_rel accounts_same
  by unfold_locales
     (auto simp: accounts_same_def SetExternalID_def DeleteExternalID_def AddAWSRevokedUser_def DeleteAWSRevokedUser_def Let_def
       split: if_splits)

lemma logAudit_ok:
  assumes "w_auditFaults w = []" "run_state (logAudit s r act u c meta) w = (ok, w')"
  shows ok "w_auditFaults w' = []"
  using assms unfolding logAudit_def by (auto simp: run_simps split: option.splits sum.splits if_splits)

lemma calm_broadcast: "always calm (broadcastLogout s uid sid)"
proof -
  have "always calm (notify_clients uid sid cs)" for uid cs
    by (induction cs) (simp_all add: calm.ret, intro conjI impI calm_rules, simp_all)
  then show ?thesis unfolding broadcastLogout_def by (intro calm_rules)
qed

lemma end_sessions_run:
  assumes "run_state (end_sessions s i) w = (x, w')" "w_faults w = []"
  shows "w_db w' = delete_sessions (user_session i) (w_db w) \<and> w_faults w' = []"
proof -
  obtain w1 where b: "run_state (broadcastLogout s i []) w = ((), w1)" by (metis old.unit.exhaust surj_pair)
  have "w_db w1 = w_db w" "w_faults w1 = []"
    using alwaysD [OF same_db.broadcastLogout_db b] alwaysD [OF calm_broadcast b] assms(2) by (simp_all add: on_db_def calm_def)
  then show ?thesis using assms(1) b by (auto simp: end_sessions_def run_store_ok DeleteSessionsByUserID_def)
qed


lemma user_gone:
  assumes "wf_db d" "d' = delete_user_row i (delete_sessions (user_session i) d)"
  shows "users d' = sql_delete (\<lambda>u. u_ID u = i) (users d)" "set (sessions d') = {x \<in> set (sessions d). \<not> user_session i x}"
    "\<forall>g\<in>set (grants d'). g_UserID g \<noteq> i" "\<forall>t\<in>set (totps d'). t_UserID t \<noteq> i" "\<forall>c\<in>set (webauthns d'). wc_UserID c \<noteq> i"
    "\<forall>m\<in>set (members d'). m_UserID m \<noteq> i" "\<forall>g\<in>set (device_grants d'). d_UserID g \<noteq> Some i"
proof -
  have none: "sql_delete (\<lambda>u. u_ID u = i) (users d) = users d" if "i \<notin> user_ids d"
    by (rule sql_delete_none) (use that in \<open>auto simp: image_iff\<close>)
  have fk: "fk_col g_UserID (user_ids d) (grants d)" "fk_col t_UserID (user_ids d) (totps d)" "fk_col wc_UserID (user_ids d) (webauthns d)"
    "fk_col m_UserID (user_ids d) (members d)" "\<forall>g\<in>set (device_grants d). set_option (d_UserID g) \<subseteq> user_ids d"
    using assms(1) by (simp_all add: wf_db_def fk_db_def fk_cols fk_device_grants_def)
  note defs = assms(2) delete_user_row_def delete_sessions_def Let_def
  show "users d' = sql_delete (\<lambda>u. u_ID u = i) (users d)" using none by (auto simp: defs)
  show "set (sessions d') = {x \<in> set (sessions d). \<not> user_session i x}" by (auto simp: defs table_sets)
  show "\<forall>g\<in>set (grants d'). g_UserID g \<noteq> i" "\<forall>t\<in>set (totps d'). t_UserID t \<noteq> i" "\<forall>c\<in>set (webauthns d'). wc_UserID c \<noteq> i"
    "\<forall>m\<in>set (members d'). m_UserID m \<noteq> i"
    using fk by (auto simp: defs table_sets fk_col_def split: if_splits)
  show "\<forall>g\<in>set (device_grants d'). d_UserID g \<noteq> Some i"
  proof (cases "i \<in> user_ids d")
    case True
    then have "device_grants d' = sql_update (\<lambda>g. d_UserID g = Some i) (\<lambda>g. g\<lparr>d_UserID := None\<rparr>) (device_grants d)" by (simp add: defs)
    then show ?thesis by (simp only:) (rule ball_sql_updateI, simp)
  next
    case False
    then have "device_grants d' = device_grants d" by (simp add: defs)
    then show ?thesis using fk(5) False by auto
  qed
qed

text \<open>C21. Deleting a user in the portal (no driver or journal failure) removes the user row and no other, every session,
  authorization code, TOTP secret, security key and group membership of the user, and the user's name from
  approved device grants; all other sessions stay; the deletion is in the journal.\<close>

theorem user_deletion_complete:
  assumes "w_faults w = []" "w_auditFaults w = []" "wf_db (w_db w)" "rq_pathID r = Some i"
    "run_state (handlePortalAdminUserDelete s r sess a) w = (resp, w')"
  shows "resp = RRedirect ''/portal/admin/users'' [(''success'', ''User deleted.'')] \<and>
    users (w_db w') = sql_delete (\<lambda>u. u_ID u = i) (users (w_db w)) \<and>
    set (sessions (w_db w')) = {x \<in> set (sessions (w_db w)). \<not> user_session i x} \<and>
    (\<forall>g\<in>set (grants (w_db w')). g_UserID g \<noteq> i) \<and> (\<forall>t\<in>set (totps (w_db w')). t_UserID t \<noteq> i) \<and>
    (\<forall>c\<in>set (webauthns (w_db w')). wc_UserID c \<noteq> i) \<and> (\<forall>m\<in>set (members (w_db w')). m_UserID m \<noteq> i) \<and>
    (\<forall>g\<in>set (device_grants (w_db w')). d_UserID g \<noteq> Some i) \<and>
    (\<exists>e\<in>set (w_journal w'). ae_Action e = ''admin.user.deleted'' \<and> ae_UserID e = Some i)"
proof -
  obtain ok w2 where l: "run_state (logAudit s r ''admin.user.deleted'' (Some i) None [(''by'', JStr (u_Email a))]) w = (ok, w2)"
    by fastforce
  have ok: ok "w_faults w2 = []" "w_db w2 = w_db w"
    using logAudit_ok [OF assms(2) l] logAudit_result [OF l] logAudit_calm [OF l assms(1)] by auto
  obtain x w3 where es: "run_state (end_sessions s i) w2 = (x, w3)" by (metis surj_pair)
  note es' = end_sessions_run [OF es ok(2)]
  let ?d = "delete_user_row i (delete_sessions (user_session i) (w_db w))"
  let ?w4 = "w3\<lparr>w_db := ?d\<rparr>" and ?u = "case fst (GetUserByID i (w_db w)) of Inl e \<Rightarrow> None | Inr v \<Rightarrow> Some v"
  obtain y w5 where p: "run_state (provisionUser s OpDelete ?u) ?w4 = (y, w5)" by (metis surj_pair)
  have run: "resp = RRedirect ''/portal/admin/users'' [(''success'', ''User deleted.'')]" "w' = w5"
    using assms(1,4,5) l es es' ok p by (auto simp: handlePortalAdminUserDelete_def run_store_ok GetUserByID_def DeleteUser_def)
  have same: "accounts_same ?d (w_db w')" using alwaysD [OF acs.fan_out_db(1) p] run(2) by (simp add: on_db_def)
  obtain e where e: "w_journal w2 = w_journal w @ [e]" "ae_Action e = ''admin.user.deleted''" "ae_UserID e = Some i"
    using logAudit_result(2) [OF l ok(1)] by blast
  have "grows w2 w'" using alwaysD [OF grows_end_sessions es] alwaysD [OF grows_fan_out(1) p] run(2) by (auto simp: grows_def)
  then have "e \<in> set (w_journal w')" using e(1) by (auto simp: grows_def)
  with e have "\<exists>e\<in>set (w_journal w'). ae_Action e = ''admin.user.deleted'' \<and> ae_UserID e = Some i" by blast
  with run(1) same user_gone [OF assms(3) refl, of i] show ?thesis by (simp add: accounts_same_def)
qed

theorem user_deletion_complete_witness:
  "users (w_db (snd (run_state (handlePortalAdminUserDelete demo_server path_request demo_session demo_user) demo_world))) = []"
proof -
  have w: "w_faults demo_world = []" "w_auditFaults demo_world = []" "wf_db (w_db demo_world)" "rq_pathID path_request = Some 10"
    "users (w_db demo_world) = [demo_user]" "u_ID demo_user = 10"
    using demo_wf by (simp_all add: demo_world_def path_request_def demo_db_def demo_user_def)
  from user_deletion_complete [OF w(1-4) surjective_pairing, of demo_server demo_session demo_user] w(5,6) show ?thesis
    by simp
qed

subsection \<open>Synchronising the groups of a user\<close>

definition memberships :: "db \<Rightarrow> (uuid \<times> uuid) set" where
  "memberships d = (\<lambda>m. (m_GroupID m, m_UserID m)) ` set (members d)"

lemma calm_prov:
  "always calm (remote_call m)" "always calm get_registry"
  by (auto intro!: alwaysI simp: run_simps calm_def)

lemma calm_provisionGroup: "always calm (provisionGroup s op g us)"
proof -
  note rules = calm_rules calm_prov calm.op_case calm.prov_case calm.err_case calm.reply_case
  have scim: "always calm (resolveVaultUserID s c u)" "always calm (createUser s c u)" for c u
    unfolding scim_defs by (intro rules)+
  have ms: "always calm (resolveGroupMembers s c us)" for c us
    by (induction us) (simp_all add: calm.ret, intro rules scim, simp_all)
  have one: "always calm (prov_Group s p op g us)" for p
    unfolding prov_Group_def scim_Group_def upsertGroup_def deleteGroup_def scim_do_def by (intro rules ms)
  have "always calm (set_Group s ps op g us)" for ps
    by (induction ps) (simp_all add: calm.ret, intro rules one, simp_all)
  then show ?thesis unfolding provisionGroup_def Snapshot_def by (intro rules)
qed

lemma AddGroupMember_effect:
  assumes "gid \<in> group_ids d" "uid \<in> user_ids d"
  shows "fst (AddGroupMember gid uid d) = Inr ()" "memberships (snd (AddGroupMember gid uid d)) = insert (gid, uid) (memberships d)"
    "groups (snd (AddGroupMember gid uid d)) = groups d" "users (snd (AddGroupMember gid uid d)) = users d"
  using assms by (auto simp: AddGroupMember_def insert_member_def memberships_def)

lemma RemoveGroupMember_effect:
  "fst (RemoveGroupMember gid uid d) = Inr ()" "memberships (snd (RemoveGroupMember gid uid d)) = memberships d - {(gid, uid)}"
  "groups (snd (RemoveGroupMember gid uid d)) = groups d" "users (snd (RemoveGroupMember gid uid d)) = users d"
  by (auto simp: RemoveGroupMember_def memberships_def table_sets)

lemma sync_group_effect:
  assumes "run_state (sync_group s uid sel us g) w = (x, w')" "w_faults w = []" "gr_ID g \<in> group_ids (w_db w)"
    "uid \<in> user_ids (w_db w)" "uid \<in> set (gr_Members g) \<longleftrightarrow> (gr_ID g, uid) \<in> memberships (w_db w)"
  shows "w_faults w' = []" "groups (w_db w') = groups (w_db w)" "users (w_db w') = users (w_db w)"
    "memberships (w_db w') = (if gr_ID g \<in> set sel then insert (gr_ID g, uid) (memberships (w_db w))
       else memberships (w_db w) - {(gr_ID g, uid)})"
proof -
  let ?op = "if gr_ID g \<in> set sel then AddGroupMember (gr_ID g) uid else RemoveGroupMember (gr_ID g) uid"
  let ?d = "snd (?op (w_db w))"
  have d: "fst (?op (w_db w)) = Inr ()" "groups ?d = groups (w_db w)" "users ?d = users (w_db w)"
    "memberships ?d = (if gr_ID g \<in> set sel then insert (gr_ID g, uid) (memberships (w_db w))
       else memberships (w_db w) - {(gr_ID g, uid)})"
    using AddGroupMember_effect [OF assms(3,4)] RemoveGroupMember_effect by auto
  have *: "w_faults w' = [] \<and> groups (w_db w') = groups (w_db w) \<and> users (w_db w') = users (w_db w) \<and>
    memberships (w_db w') = (if gr_ID g \<in> set sel then insert (gr_ID g, uid) (memberships (w_db w))
       else memberships (w_db w) - {(gr_ID g, uid)})"
  proof (cases "(uid \<in> set (gr_Members g)) = (gr_ID g \<in> set sel)")
    case True
    then show ?thesis using assms by (auto simp: sync_group_def)
  next
    case False
    let ?w1 = "w\<lparr>w_db := ?d\<rparr>"
    have st: "run_state (if gr_ID g \<in> set sel then store (AddGroupMember (gr_ID g) uid) else store (RemoveGroupMember (gr_ID g) uid)) w = (Inr (), ?w1)"
      using assms(2) d(1) by (auto simp: run_store_ok)
    show ?thesis
    proof (cases "fst (GetGroupByID (gr_ID g) ?d)")
      case (Inl e)
      then show ?thesis using assms(1,2) False st d by (auto simp: sync_group_def run_store_ok GetGroupByID_def)
    next
      case (Inr fresh)
      obtain y w2 where p: "run_state (provisionGroup s OpUpdate fresh (picked us (gr_Members fresh))) ?w1 = (y, w2)" by (metis surj_pair)
      have "w' = w2" using assms(1,2) False st Inr p by (auto simp: sync_group_def run_store_ok GetGroupByID_def)
      moreover have "accounts_same ?d (w_db w2)" using alwaysD [OF acs.fan_out_db(2) p] by (simp add: on_db_def)
      moreover have "w_faults w2 = []" using alwaysD [OF calm_provisionGroup p] assms(2) by (simp add: calm_def)
      ultimately show ?thesis using d by (simp add: accounts_same_def memberships_def)
    qed
  qed
  then show "w_faults w' = []" "groups (w_db w') = groups (w_db w)" "users (w_db w') = users (w_db w)"
    "memberships (w_db w') = (if gr_ID g \<in> set sel then insert (gr_ID g, uid) (memberships (w_db w))
       else memberships (w_db w) - {(gr_ID g, uid)})" by blast+
qed

lemma sync_user_groups_effect:
  assumes "run_state (sync_user_groups s uid sel us gs) w = (x, w')" "w_faults w = []" "gr_ID ` set gs \<subseteq> group_ids (w_db w)"
    "uid \<in> user_ids (w_db w)" "distinct (map gr_ID gs)"
    "\<forall>g\<in>set gs. uid \<in> set (gr_Members g) \<longleftrightarrow> (gr_ID g, uid) \<in> memberships (w_db w)"
  shows "memberships (w_db w') = memberships (w_db w) - (gr_ID ` set gs) \<times> {uid} \<union> (gr_ID ` set gs \<inter> set sel) \<times> {uid}"
  using assms
proof (induction gs arbitrary: w)
  case (Cons g gs)
  obtain y w1 where one: "run_state (sync_group s uid sel us g) w = (y, w1)" by (metis surj_pair)
  have rest: "run_state (sync_user_groups s uid sel us gs) w1 = (x, w')" using Cons.prems(1) one by simp
  have e: "w_faults w1 = []" "groups (w_db w1) = groups (w_db w)" "users (w_db w1) = users (w_db w)"
    "memberships (w_db w1) = (if gr_ID g \<in> set sel then insert (gr_ID g, uid) (memberships (w_db w))
       else memberships (w_db w) - {(gr_ID g, uid)})"
    using sync_group_effect [OF one Cons.prems(2)] Cons.prems(3,4,6) by auto
  have "\<forall>h\<in>set gs. uid \<in> set (gr_Members h) \<longleftrightarrow> (gr_ID h, uid) \<in> memberships (w_db w1)"
    using Cons.prems(5,6) e(4) by (auto simp: image_iff)
  then have "memberships (w_db w') = memberships (w_db w1) - (gr_ID ` set gs) \<times> {uid} \<union> (gr_ID ` set gs \<inter> set sel) \<times> {uid}"
    using Cons.IH [OF rest e(1)] Cons.prems(3,4,5) e(2,3) by simp
  then show ?case unfolding e(4) using Cons.prems(5) by auto
qed simp

lemma listed_groups:
  assumes "distinct (map gr_ID (groups d))"
  shows "\<exists>gs. fst (ListGroups d) = Inr gs \<and> gr_ID ` set gs = group_ids d \<and> distinct (map gr_ID gs) \<and>
    (\<forall>g\<in>set gs. uid \<in> set (gr_Members g) \<longleftrightarrow> (gr_ID g, uid) \<in> memberships d)"
proof -
  have "distinct (map gr_ID (sort_key gr_CreatedAt (groups d)))"
    using assms by (simp add: distinct_map)
  moreover have "uid \<in> set (groupMembers gid d) \<longleftrightarrow> (gid, uid) \<in> memberships d" for gid
    by (auto simp: groupMembers_def memberships_def)
  ultimately show ?thesis
    by (auto simp: ListGroups_def image_image comp_def)
qed

text \<open>C23. Saving the groups of a user (no driver failure) makes the user a member of exactly the selected groups that
  exist and changes no membership of anybody else.\<close>

theorem group_sync_exact:
  assumes "w_faults w = []" "wf_db (w_db w)" "uid \<in> user_ids (w_db w)" "run_state (syncUserGroups s uid sel) w = (x, w')"
  shows "memberships (w_db w') = {(g, u) \<in> memberships (w_db w). u \<noteq> uid} \<union> (group_ids (w_db w) \<inter> set sel) \<times> {uid}"
proof -
  have d: "distinct (map gr_ID (groups (w_db w)))" and sub: "fst ` memberships (w_db w) \<subseteq> group_ids (w_db w)"
    using assms(2) by (auto simp: wf_db_def uniq_db_def fk_db_def fk_members_def memberships_def)
  from listed_groups [OF d, of uid] obtain gs where gs: "fst (ListGroups (w_db w)) = Inr gs" "gr_ID ` set gs = group_ids (w_db w)"
    "distinct (map gr_ID gs)" "\<forall>g\<in>set gs. uid \<in> set (gr_Members g) \<longleftrightarrow> (gr_ID g, uid) \<in> memberships (w_db w)" by blast
  have "\<exists>us. run_state (sync_user_groups s uid sel us gs) w = (x, w')"
    using assms(1,4) gs(1) by (auto simp: syncUserGroups_def run_store_ok ListGroups_def ListUsers_def)
  then obtain us where "run_state (sync_user_groups s uid sel us gs) w = (x, w')" ..
  from sync_user_groups_effect [OF this assms(1) _ assms(3) gs(3,4)] gs(2) show ?thesis using sub by auto
qed

definition group_world :: world where
  "group_world = demo_world\<lparr>w_db := demo_db\<lparr>groups := [\<lparr>gr_ID = 81, gr_DisplayName = ''ops'', gr_Members = [], gr_CreatedAt = demo_now, gr_UpdatedAt = demo_now\<rparr>,
     \<lparr>gr_ID = 82, gr_DisplayName = ''dev'', gr_Members = [], gr_CreatedAt = demo_now, gr_UpdatedAt = demo_now\<rparr>],
     members := [\<lparr>m_GroupID = 81, m_UserID = 10\<rparr>]\<rparr>\<rparr>"

theorem group_sync_exact_witness:
  "memberships (w_db (snd (run_state (syncUserGroups demo_server 10 [82, 99]) group_world))) = {(82, 10)}"
proof -
  have w: "w_faults group_world = []" "wf_db (w_db group_world)" "10 \<in> user_ids (w_db group_world)"
    by (simp_all add: group_world_def demo_defs wf_defs uniq_defs fk_defs)
  have "{(g, u) \<in> memberships (w_db group_world). u \<noteq> 10} = {}" "group_ids (w_db group_world) \<inter> set [82, 99] = {82}"
    by (auto simp: group_world_def memberships_def)
  with group_sync_exact [OF w surjective_pairing, of demo_server "[82, 99]"] show ?thesis by simp
qed

end
