(* ===== verification/System_Properties.thy ===== *)
theory System_Properties
  imports Admin_Properties
begin

text \<open>
  Properties of the running server: the invariants of every reachable state and what gets past
  the middlewares of the administration routes.
\<close>

subsection \<open>Reachable states\<close>

text \<open>The database after the migrations: only the portal client.\<close>

definition portal_client :: "time \<Rightarrow> Client" where
  "portal_client now = \<lparr>c_ID = portalClientUUID, c_ClientID = ''portal'', c_ClientSecretHash = [], c_Name = ''tokyo3-auth Portal'',
     c_RedirectURIs = [], c_Scopes = [''portal'', ''admin''], c_Public = True, c_BackchannelLogoutURI = None, c_ShowInPortal = False,
     c_LaunchURL = [], c_BrandColor = [], c_IconURL = [], c_VisibleToAll = False, c_AllowDeviceGrant = False,
     c_SecretRotatedAt = current_timestamp now, c_CreatedAt = current_timestamp now\<rparr>"

definition migrated_db :: "time \<Rightarrow> db" where
  "migrated_db now = \<lparr>users = [], clients = [portal_client now], grants = [], sessions = [], retired = [], totps = [],
     webauthns = [], wa_sessions = [], groups = [], members = [], signing_keys = [], ext_ids = [], integrations = [], aws_accounts = [],
     aws_roles = [], aws_assignments = [], aws_revoked = [], device_grants = [], visibility = []\<rparr>"

definition fresh_world :: "time \<Rightarrow> world" where
  "fresh_world now = \<lparr>w_db = migrated_db now, w_now = now, w_faults = [], w_draws = 0, w_journal = [], w_auditFaults = [], w_cookies = [],
     w_outbox = [], w_replies = [], w_registry = None\<rparr>"

lemma reachable_invariants:
  assumes "(step s)\<^sup>*\<^sup>* w w'" "wf_db (w_db w)" "cap_inv (w_db w)"
  shows "wf_db (w_db w') \<and> cap_inv (w_db w')"
  using assms by (induction rule: rtranclp_induct) (auto dest: step_invariants)

text \<open>C2. Every state a server reaches from a fresh installation, by any sequence of requests, background ticks and
  passing time and under any driver, journal and remote failures, satisfies all uniqueness and foreign-key
  constraints of the schema, and no session outlives four hours after its creation.\<close>

theorem reachable_sound:
  assumes "(step s)\<^sup>*\<^sup>* (fresh_world now) w"
  shows "wf_db (w_db w) \<and> (\<forall>sess\<in>set (sessions (w_db w)). s_AccessExpiresAt sess \<le> s_CreatedAt sess + 4 * hour \<and>
     s_RefreshExpiresAt sess \<le> s_CreatedAt sess + 4 * hour)"
proof -
  have "wf_db (w_db (fresh_world now))" "cap_inv (w_db (fresh_world now))"
    by (simp_all add: fresh_world_def migrated_db_def wf_defs uniq_defs fk_defs cap_inv_def)
  from reachable_invariants [OF assms this] show ?thesis by (auto simp: cap_inv_def session_capped_def absoluteSessionTTL_def)
qed

lemma fresh_login_page: "(step demo_server)\<^sup>*\<^sup>* (fresh_world 0) (scripted [] [] [] (fresh_world 0))"
proof -
  have "run_state (serve demo_server (Open PortalLoginGET) (demo_request [])) (scripted [] [] [] (fresh_world 0)) =
      (RPage ''portal_login.html'' [], scripted [] [] [] (fresh_world 0))"
    by (simp add: handlePortalLoginGET_def readAuthPortalSession_def read_cookie_def demo_request_def QueryGet_def lookup_or_empty_def)
  from step.request [OF this] show ?thesis by blast
qed

theorem reachable_sound_witness: "wf_db (migrated_db 0)"
  using reachable_sound [OF fresh_login_page] by (simp add: scripted_def fresh_world_def)

subsection \<open>Who gets past the middlewares\<close>

text \<open>C11. A request to the administration API either is refused and leaves the database as it is, or was handed to its
  handler with a live session that carries the admin scope and belongs to no user or to an active administrator.\<close>

theorem admin_api_guarded:
  assumes "run_state (serve s (BearerAdmin e) r) w = (resp, w')"
  shows "(refusal resp \<and> w_db w' = w_db w) \<or>
    (\<exists>sess\<in>set (sessions (w_db w)). s_AccessTokenHash sess = HashToken s (TrimPrefix (rq_authorization r) ''Bearer '') \<and>
       containsStr (s_Scopes sess) ''admin'' \<and> sessionTokenLive (w_now w) sess \<and>
       (s_UserID sess = uuid_nil \<or> (\<exists>u\<in>set (users (w_db w)). u_ID u = s_UserID sess \<and> u_Active u \<and> u_IsAdmin u)) \<and>
       handed_to (admin_handler e s r sess) w resp w')"
  using adminAuth_run assms by simp

definition api_request :: request where "api_request = (demo_request [])\<lparr>rq_authorization := ''Bearer acc''\<rparr>"

theorem admin_api_guarded_witness:
  "refusal (fst (run_state (serve demo_server (BearerAdmin AdminListUsers) api_request) demo_world))"
proof -
  have no: "\<not> (\<exists>sess\<in>set (sessions (w_db demo_world)). containsStr (s_Scopes sess) ''admin'')"
    by (simp add: demo_world_def demo_db_def demo_session_def containsStr_def demo_scopes)
  from admin_api_guarded [OF surjective_pairing [of "run_state (serve demo_server (BearerAdmin AdminListUsers) api_request) demo_world"]] no
  show ?thesis by blast
qed

text \<open>Sliding a session touches only the table of sessions.\<close>

interpretation bs: db_rel "\<lambda>d d'. d'\<lparr>sessions := []\<rparr> = d\<lparr>sessions := []\<rparr>"
  by unfold_locales auto

lemma slide_frame:
  assumes "run_state (slidePortalSession s sess raw) w = (sess', w')"
  shows "(w_db w')\<lparr>sessions := []\<rparr> = (w_db w)\<lparr>sessions := []\<rparr>" "s_ID sess' = s_ID sess" "s_UserID sess' = s_UserID sess"
proof -
  have "always (on_db (\<lambda>d d'. d'\<lparr>sessions := []\<rparr> = d\<lparr>sessions := []\<rparr>)) (slidePortalSession s sess raw)"
    unfolding slidePortalSession_def
    by (intro bs.db_rules bs.cookie_db) (simp_all add: ExtendSessionExpiry_def UpdateSessionActivity_def update_session_def)
  from alwaysD [OF this assms] show "(w_db w')\<lparr>sessions := []\<rparr> = (w_db w)\<lparr>sessions := []\<rparr>" by (simp add: on_db_def)
  show "s_ID sess' = s_ID sess" "s_UserID sess' = s_UserID sess"
    using assms by (auto simp: slidePortalSession_def Let_def split: prod.splits sum.splits)
qed

lemma portal_cookie:
  assumes "run_state (readAuthPortalSession s r) w = (PortalSession sess u raw, w')"
  shows "\<exists>b. read_cookie r portalCookie = Opened b \<and> raw = box_token s b"
  using assms by (auto simp: readAuthPortalSession_def run_simps split: cookie_read.splits case_splits)



definition inactive_world :: world where
  "inactive_world = demo_world\<lparr>w_db := demo_db\<lparr>users := [demo_user\<lparr>u_Active := False\<rparr>]\<rparr>\<rparr>"

definition inactive_request :: request where
  "inactive_request = (demo_request [])\<lparr>rq_cookies := [(''auth_portal'', Some (BoxToken ''acc''))], rq_pathID := Some 20\<rparr>"


end
