(* ===== verification/Aws_Properties.thy ===== *)
theory Aws_Properties
  imports Admin_Properties Login_Properties
begin

text \<open>
  Properties of AWS federation and of outbound provisioning.
\<close>

subsection \<open>Regions and names\<close>

lemma collect_regions_Some:
  "collect_regions ok out rs = Some out' \<Longrightarrow> distinct out \<Longrightarrow>
   distinct out' \<and> set out' = set out \<union> set rs \<and> (\<forall>r\<in>set rs. ok r)"
  by (induction ok out rs rule: collect_regions.induct) (auto simp: append_new_def split: if_splits)

text \<open>A region configuration that parses has no duplicates, contains only names of one to twenty lower-case letters, digits
  and hyphens, and a default region that was given is one of them.\<close>

theorem configured_regions_valid:
  assumes "ParseAWSRegions l def0 = Some (regions, def)"
  shows "distinct regions \<and> (\<forall>r\<in>set regions. awsRegionPattern r) \<and> def = TrimSpace def0 \<and> (def = [] \<or> def \<in> set regions) \<and>
    set (splitRegions l) \<subseteq> set regions"
proof -
  obtain rs where rs: "collect_regions awsRegionPattern [] (splitRegions l) = Some rs"
    using assms by (auto simp: ParseAWSRegions_def split: option.splits)
  note c = collect_regions_Some [OF rs]
  have *: "def = TrimSpace def0" "(def = [] \<and> regions = rs) \<or> (awsRegionPattern def \<and> regions = append_new rs def)"
    using assms rs by (auto simp: ParseAWSRegions_def Let_def split: if_splits)
  show ?thesis using c * by (auto simp: append_new_def split: if_splits)
qed

theorem configured_regions_valid_witness:
  "distinct [''eu-west-1'', ''us-east-1'']"
proof -
  have "ParseAWSRegions ''eu-west-1, us-east-1,eu-west-1'' ''us-east-1'' = Some ([''eu-west-1'', ''us-east-1''], ''us-east-1'')"
    by code_simp
  from configured_regions_valid [OF this] show ?thesis by blast
qed

lemma find_opt: "map_option f (find P xs) = Some y \<Longrightarrow> \<exists>x\<in>set xs. P x \<and> y = f x"
  by (auto dest: find_SomeD)

text \<open>A federation request resolves to the region it asked for, and only to a configured region the role allows. The global
  door is used only when no regions are configured, or when the role is unrestricted and there is no default region.\<close>

theorem region_resolution_confined:
  assumes "resolveAWSRegion s role requested = Some region"
  shows "(requested \<noteq> [] \<longrightarrow> region = requested) \<and>
    (region \<noteq> [] \<longrightarrow> region \<in> set (srv_awsRegions s) \<and> (ar_AllowedRegions role = [] \<or> region \<in> set (ar_AllowedRegions role))) \<and>
    (region = [] \<and> [] \<notin> set (srv_awsRegions s) \<longrightarrow>
       srv_awsRegions s = [] \<or> (ar_AllowedRegions role = [] \<and> srv_awsDefaultRegion s = []))"
proof (cases "srv_awsRegions s = []")
  case True
  then show ?thesis using assms by (auto simp: resolveAWSRegion_def split: if_splits)
next
  case False
  then obtain opt where opt: "opt \<in> set (awsRegionOptions s role)" "(requested = [] \<and> ro_Selected opt) \<or> (requested \<noteq> [] \<and> ro_Value opt = requested)"
    "region = ro_Value opt"
    using assms by (auto simp: resolveAWSRegion_def dest!: find_SomeD)
  moreover have "hd (srv_awsRegions s) = [] \<Longrightarrow> [] \<in> set (srv_awsRegions s)" using False by (metis hd_in_set)
  ultimately show ?thesis
    by (auto simp: awsRegionOptions_def eligibleAWSRegions_def Let_def split: if_splits)
qed


definition demo_role :: AWSRole where
  "demo_role = \<lparr>ar_ID = 4, ar_AccountID = 90, ar_RoleARN = ''arn:aws:iam::1:role/dev'', ar_Slug = ''dev'', ar_DisplayName = ''Dev'',
     ar_RequireStepUpMFA = False, ar_MaxSessionDurationSec = 3600, ar_AllowedRegions = [''us-east-1''], ar_CreatedAt = demo_now, ar_UpdatedAt = demo_now\<rparr>"

theorem region_resolution_confined_witness: "''us-east-1'' \<in> set (srv_awsRegions demo_server)"
proof -
  have "resolveAWSRegion demo_server demo_role [] = Some ''us-east-1''"
    by (simp add: resolveAWSRegion_def awsRegionOptions_def eligibleAWSRegions_def demo_server_def demo_role_def)
  from region_resolution_confined [OF this] show ?thesis by simp
qed

lemma session_char_class: "is_lower (session_char c) \<or> is_upper (session_char c) \<or> is_digit (session_char c) \<or> session_char c \<in> set ''=,.@-''"
  by (simp add: session_char_def)

lemma list_all_take_map: "(\<And>x. P (f x)) \<Longrightarrow> list_all P (take n (map f xs))"
  by (auto simp: list_all_iff dest!: in_set_takeD)

text \<open>The role session name handed to STS has two to 64 characters, all of them letters, digits or one of \<open>=,.@-\<close>.\<close>

theorem role_session_name_valid:
  "2 \<le> length (buildRoleSessionName s now email uid) \<and> length (buildRoleSessionName s now email uid) \<le> 64 \<and>
   list_all (\<lambda>c. is_lower c \<or> is_upper c \<or> is_digit c \<or> c \<in> set ''=,.@-'') (buildRoleSessionName s now email uid)"
proof -
  have "list_all (\<lambda>c. is_lower c \<or> is_upper c \<or> is_digit c \<or> c \<in> set ''=,.@-'') (take 64 (map session_char xs))" for xs
    by (rule list_all_take_map) (rule session_char_class)
  moreover have "2 \<le> length (take 64 (map session_char (a @ ''-'' @ b @ ''-'' @ c)))" for a b c by simp
  ultimately show ?thesis by (simp only: buildRoleSessionName_def Let_def length_take) simp
qed

subsection \<open>Assuming a role\<close>

text \<open>Every message sent satisfies a predicate.\<close>

definition sends :: "(message \<Rightarrow> bool) \<Rightarrow> world \<Rightarrow> world \<Rightarrow> bool" where
  "sends P w w' \<longleftrightarrow> w_now w' = w_now w \<and> (\<exists>ms. w_outbox w' = w_outbox w @ ms \<and> (\<forall>m\<in>set ms. P m))"

interpretation snd: step_rel "sends P" for P
proof
  show "sends P w w" for w by (simp add: sends_def)
  show "sends P w v" if "sends P w u" "sends P u v" for w u v
    using that unfolding sends_def by (metis Un_iff append.assoc set_append)
qed

lemma sends_primitives:
  "always (sends P) (store op)" "always (sends P) (store_at op')" "always (sends P) get_now" "always (sends P) (newUUID s)"
  "P m \<Longrightarrow> always (sends P) (remote_call m)"
  by (auto intro!: alwaysI simp: run_simps sends_def split: if_splits)

lemma sends_logAudit: "always (sends P) (logAudit s r a u c meta)"
  by (rule alwaysI) (auto simp: sends_def dest: logAudit_result(5,6))

lemma sends_new: "sends P w w' \<Longrightarrow> m \<in> set (w_outbox w') \<Longrightarrow> m \<notin> set (w_outbox w) \<Longrightarrow> P m"
  by (auto simp: sends_def)

text \<open>The message to STS a role permits.\<close>

definition assumes_role :: "server \<Rightarrow> User \<Rightarrow> AWSRole \<Rightarrow> string \<Rightarrow> message \<Rightarrow> bool" where
  "assumes_role s user role region m \<longleftrightarrow> (case m of
     AssumeRoleWithWebIdentity reg arn name tok dur \<Rightarrow> reg = door_stsRegion (doorFor region) \<and> arn = ar_RoleARN role \<and>
       dur = int32 (ar_MaxSessionDurationSec role)
   | GetSigninToken url k t tok \<Rightarrow> url = door_signinFed (doorFor region)
   | _ \<Rightarrow> False)"

lemma sends_assumeRole: "always (sends (assumes_role s user role region)) (assumeRoleForUser s user sess role region)"
  unfolding assumeRoleForUser_def groupNamesForUser_def authorizingGroupsForRole_def
  by (intro snd.rules sends_primitives) (simp_all add: assumes_role_def)

lemma sends_signin: "always (sends (assumes_role s user role region)) (exchangeSigninToken out region)"
  unfolding exchangeSigninToken_def by (intro snd.rules sends_primitives) (simp_all add: assumes_role_def)

lemma sends_console:
  "always (sends (\<lambda>m. \<exists>region. resolveAWSRegion s role requested = Some region \<and> assumes_role s user role region m))
     (buildAWSConsoleURL s r sess user role requested)"
proof -
  have *: "always (sends (\<lambda>m. \<exists>region. resolveAWSRegion s role requested = Some region \<and> assumes_role s user role region m)) m"
    if "resolveAWSRegion s role requested = Some region" "always (sends (assumes_role s user role region)) m" for m :: "'a act" and region
    using that(2) by (rule always_mono) (use that(1) in \<open>auto simp: sends_def\<close>)
  show ?thesis
    unfolding buildAWSConsoleURL_def assume_failed_def
    by (intro snd.rules sends_primitives sends_logAudit * [OF _ sends_assumeRole] * [OF _ sends_signin]; assumption)
qed

lemma console_message:
  assumes "run_state (buildAWSConsoleURL s r sess user role requested) w = (x, w')" "m \<in> set (w_outbox w')" "m \<notin> set (w_outbox w)"
  shows "\<exists>region. resolveAWSRegion s role requested = Some region \<and> assumes_role s user role region m"
  using sends_new [OF alwaysD [OF sends_console assms(1)] assms(2,3)] .

lemma set_sort_by [simp]: "set (sort_by le xs) = set xs"
proof -
  have "set (insert_by le x ys) = insert x (set ys)" for x ys by (induction ys) auto
  then show ?thesis unfolding sort_by_def by (induction xs) auto
qed

lemma resolve_steps:
  assumes "run_state (resolveAuthorizedAWSRole uid rid) w = (x, w')" "wf_db (w_db w)"
  shows "w_db w' = w_db w \<and> w_now w' = w_now w \<and> w_outbox w' = w_outbox w \<and>
    (\<forall>role. x = Some (role, True) \<longrightarrow> role \<in> set (aws_roles (w_db w)) \<and> ar_ID role = rid \<and> role_assigned_to uid (w_db w) role)"
proof -
  have d: "distinct (map ar_ID (aws_roles (w_db w)))" using assms(2) by (simp add: wf_db_def uniq_db_def)
  show ?thesis
    using assms(1) distinct_key_eq [OF d]
    by (auto simp: resolveAuthorizedAWSRole_def run_simps GetAWSRole_def ListAWSRolesForUser_def list_ex_iff
        split: if_splits sum.splits dest!: select_row_Inr)
qed

lemma assume_failed_steps:
  "run_state (assume_failed s r u meta) w = (x, w') \<Longrightarrow> w_outbox w' = w_outbox w"
  by (auto simp: assume_failed_def split: prod.splits dest: logAudit_result(5))

text \<open>C24. A request for the AWS console sends a message to AWS only for a role that is assigned to a group of the user, with a
  step-up verification within its time limit when the role demands one, and in a region the role may use; the
  message carries the ARN and the session length of that role.\<close>

theorem console_request_sound:
  assumes "wf_db (w_db w)" "run_state (handlePortalAWSConsole s r sess user) w = (resp, w')"
    "m \<in> set (w_outbox w')" "m \<notin> set (w_outbox w)"
  shows "\<exists>role requested region. role \<in> set (aws_roles (w_db w)) \<and> role_assigned_to (u_ID user) (w_db w) role \<and>
    (ar_RequireStepUpMFA role \<longrightarrow> stepUpMFAFresh s (w_now w) sess) \<and>
    resolveAWSRegion s role requested = Some region \<and> assumes_role s user role region m"
  using assms(2)
  unfolding handlePortalAWSConsole_def
  apply (simp add: Let_def split: option.splits prod.splits if_splits)
  using assms(1,3,4)
  by (auto dest!: resolve_steps assume_failed_steps) (metis console_message)+


definition aws_world :: world where
  "aws_world = demo_world\<lparr>w_db := demo_db\<lparr>groups := [\<lparr>gr_ID = 81, gr_DisplayName = ''ops'', gr_Members = [], gr_CreatedAt = demo_now, gr_UpdatedAt = demo_now\<rparr>],
     members := [\<lparr>m_GroupID = 81, m_UserID = 10\<rparr>],
     aws_accounts := [\<lparr>aa_ID = 90, aa_AccountID = ''1'', aa_Alias = [], aa_OIDCProviderARN = ''arn'', aa_CreatedAt = demo_now, aa_UpdatedAt = demo_now\<rparr>],
     aws_roles := [demo_role], aws_assignments := [\<lparr>as_ID = 95, as_GroupID = 81, as_RoleID = 4, as_CreatedAt = demo_now\<rparr>]\<rparr>\<rparr>"

definition console_request :: request where "console_request = demo_request [(''role_id'', ''four'')]"

lemma aws_world_wf: "wf_db (w_db aws_world)"
  by (simp add: aws_world_def demo_role_def demo_defs wf_defs uniq_defs fk_defs)

lemmas aws_store_eval = GetAWSRole_def ListAWSRolesForUser_def ListAWSRoleAssignments_def ListGroups_def role_assigned_to_def sort_by_def
  groupMembers_def

lemma console_run:
  "\<exists>m. m \<in> set (w_outbox (snd (run_state (handlePortalAWSConsole demo_server console_request demo_session demo_user) aws_world)))"
  by (simp add: handlePortalAWSConsole_def form_or_query_def resolveAuthorizedAWSRole_def sanitizeAWSRegion_def resolveAWSRegion_def
      awsRegionOptions_def eligibleAWSRegions_def buildAWSConsoleURL_def assumeRoleForUser_def groupNamesForUser_def authorizingGroupsForRole_def
      exchangeSigninToken_def assume_failed_def logAudit_def aws_store_eval aws_world_def console_request_def demo_role_def demo_defs demo_eval)

theorem console_request_sound_witness:
  "\<exists>role m. role \<in> set (aws_roles (w_db aws_world)) \<and> role_assigned_to 10 (w_db aws_world) role \<and>
     m \<in> set (w_outbox (snd (run_state (handlePortalAWSConsole demo_server console_request demo_session demo_user) aws_world)))"
proof -
  obtain m where m: "m \<in> set (w_outbox (snd (run_state (handlePortalAWSConsole demo_server console_request demo_session demo_user) aws_world)))"
    using console_run by blast
  have "m \<notin> set (w_outbox aws_world)" "u_ID demo_user = 10" by (simp_all add: aws_world_def demo_world_def demo_user_def)
  with console_request_sound [OF aws_world_wf surjective_pairing m] m show ?thesis by metis
qed

lemma get_user_calm:
  "run_state (store (GetUserByID uid)) w = (x, w') \<Longrightarrow> w_db w' = w_db w \<and> w_journal w' = w_journal w \<and>
   (\<forall>u. x = Inr u \<longrightarrow> u \<in> set (users (w_db w)) \<and> u_ID u = uid)"
  by (auto simp: run_store GetUserByID_def split: if_splits dest!: select_row_Inr)

lemma slug_steps:
  "run_state (resolveAWSRoleBySlugForUser uid slug) w = (x, w') \<Longrightarrow> w_db w' = w_db w \<and> w_journal w' = w_journal w \<and>
   (\<forall>role. x = Some (Some role) \<longrightarrow> role \<in> set (aws_roles (w_db w)) \<and> ar_Slug role = slug \<and> role_assigned_to uid (w_db w) role)"
  by (auto simp: resolveAWSRoleBySlugForUser_def run_simps ListAWSRolesForUser_def split: if_splits dest!: find_SomeD)

lemma assumeRole_journal:
  "run_state (assumeRoleForUser s user sess role region) w = (x, w') \<Longrightarrow> w_journal w' = w_journal w"
  unfolding assumeRoleForUser_def groupNamesForUser_def authorizingGroupsForRole_def
  by (auto simp: run_simps Let_def split: if_splits sum.splits option.splits remote_reply.splits prod.splits)

lemma issue_credentials_success:
  assumes "run_state (issue_credentials s r sess user role slug) w = (RJSON 200 body, w')"
  shows "\<exists>e. w_journal w' = w_journal w @ [e] \<and> ae_Action e = ''aws.console.assumed'' \<and> ae_UserID e = Some (u_ID user)"
  using assms unfolding issue_credentials_def
  apply (simp split: prod.splits sum.splits option.splits fed_error.splits if_splits)
  by (drule logAudit_result(2), simp, drule assumeRole_journal, force)+

text \<open>C25. The credentials endpoint hands out temporary AWS credentials only to a session of an active user, for the role with the
  requested slug that is assigned to a group of the user, with an MFA-verified session when the role demands
  step-up, and only after the journal has recorded it.\<close>

theorem credentials_sound:
  assumes "run_state (handleAWSCredentials s r sess) w = (RJSON 200 body, w')"
  shows "\<exists>user role e. user \<in> set (users (w_db w)) \<and> u_ID user = s_UserID sess \<and> u_Active user \<and>
    role \<in> set (aws_roles (w_db w)) \<and> ar_Slug role = requested_slug r \<and> role_assigned_to (u_ID user) (w_db w) role \<and>
    (ar_RequireStepUpMFA role \<longrightarrow> s_MFAVerified sess) \<and>
    w_journal w' = w_journal w @ [e] \<and> ae_Action e = ''aws.console.assumed'' \<and> ae_UserID e = Some (u_ID user)"
  using assms unfolding handleAWSCredentials_def
  apply (simp add: Let_def split: prod.splits sum.splits option.splits if_splits)
  by (clarsimp dest!: get_user_calm slug_steps issue_credentials_success) metis

definition credentials_request :: request where "credentials_request = demo_request [(''role'', ''dev'')]"

lemma dev_trimmed: "TrimSpace ''dev'' = ''dev''" by code_simp

lemma credentials_run:
  "\<exists>body w'. run_state (handleAWSCredentials demo_server credentials_request demo_session)
     (aws_world\<lparr>w_replies := [RemoteCreds ''AKIA'' ''secret'' ''session'' (Some (demo_now + 3600))]\<rparr>) = (RJSON 200 body, w')"
  using dev_trimmed
  by (simp add: handleAWSCredentials_def requested_slug_def resolveAWSRoleBySlugForUser_def issue_credentials_def assumeRoleForUser_def
      groupNamesForUser_def authorizingGroupsForRole_def assume_failed_def logAudit_def aws_store_eval aws_world_def credentials_request_def
      demo_role_def demo_defs demo_eval)

theorem credentials_sound_witness:
  "\<exists>user role. user \<in> set (users (w_db aws_world)) \<and> u_Active user \<and> ar_Slug role = ''dev'' \<and> role_assigned_to 10 (w_db aws_world) role"
proof -
  obtain body w' where "run_state (handleAWSCredentials demo_server credentials_request demo_session)
     (aws_world\<lparr>w_replies := [RemoteCreds ''AKIA'' ''secret'' ''session'' (Some (demo_now + 3600))]\<rparr>) = (RJSON 200 body, w')"
    using credentials_run by blast
  from credentials_sound [OF this] have "\<exists>user role. user \<in> set (users (w_db aws_world)) \<and> u_Active user \<and>
      ar_Slug role = requested_slug credentials_request \<and> role_assigned_to 10 (w_db aws_world) role"
    by (clarsimp simp: demo_session_def) blast
  moreover have "requested_slug credentials_request = ''dev''"
    using dev_trimmed by (simp add: requested_slug_def credentials_request_def demo_request_def demo_eval)
  ultimately show ?thesis by metis
qed

end
