(* ===== verification/Scim_Properties.thy ===== *)
theory Scim_Properties
  imports Aws_Properties
begin

text \<open>
  The cache of external ids is a finite map from (provider, user) to the id the remote system assigned; the SCIM
  client keeps it in step with the remote side.
\<close>

subsection \<open>A cache of ids\<close>

locale id_cache =
  fixes look :: "'d \<Rightarrow> 'k \<Rightarrow> 'v option"
    and put :: "'k \<Rightarrow> 'v \<Rightarrow> 'd \<Rightarrow> 'd"
    and drop_key :: "'k \<Rightarrow> 'd \<Rightarrow> 'd"
    and known :: "'d \<Rightarrow> 'k \<Rightarrow> bool"
  assumes look_put: "known d k \<Longrightarrow> look (put k v d) = (look d)(k \<mapsto> v)"
    and look_drop: "look (drop_key k d) = (look d)(k := None)"
    and known_drop: "known (drop_key k d) = known d"
begin

lemma look_replace: "known d k \<Longrightarrow> look (put k v (drop_key k d)) = look (put k v d)"
  by (simp add: look_put look_drop known_drop)

lemma look_put_same [simp]: "known d k \<Longrightarrow> look (put k v d) k = Some v"
  by (simp add: look_put)

end

definition ext_map :: "db \<Rightarrow> string \<times> uuid \<Rightarrow> string option" where
  "ext_map d k = (case fst (GetExternalID (fst k) (snd k) d) of Inl e \<Rightarrow> None | Inr x \<Rightarrow> Some x)"

lemma ext_map_find: "ext_map d (p, u) = map_option e_ExternalID (find (ext_hit p u) (ext_ids d))"
  by (simp add: ext_map_def GetExternalID_def select_row_def split: option.split)

lemma find_append: "find P (xs @ ys) = (case find P xs of None \<Rightarrow> find P ys | Some x \<Rightarrow> Some x)"
  by (induction xs) auto

lemma find_ext_update:
  "find (ext_hit q v) (sql_update (ext_hit p u) (\<lambda>e. e\<lparr>e_ExternalID := x\<rparr>) t) =
   (if q = p \<and> v = u then map_option (\<lambda>e. e\<lparr>e_ExternalID := x\<rparr>) (find (ext_hit p u) t) else find (ext_hit q v) t)"
  by (induction t) (auto simp: sql_update_def ext_hit_def [abs_def])

lemma find_ext_delete:
  "find (ext_hit q v) (sql_delete (ext_hit p u) t) = (if q = p \<and> v = u then None else find (ext_hit q v) t)"
  by (induction t) (auto simp: sql_delete_def ext_hit_def [abs_def])

lemma ext_map_set:
  assumes "u \<in> user_ids d"
  shows "ext_map (snd (SetExternalID p u x d)) = (ext_map d)((p, u) \<mapsto> x)"
proof (rule ext, clarify)
  fix q v
  show "ext_map (snd (SetExternalID p u x d)) (q, v) = ((ext_map d)((p, u) \<mapsto> x)) (q, v)"
  proof (cases "list_ex (ext_hit p u) (ext_ids d)")
    case True
    then obtain e where "find (ext_hit p u) (ext_ids d) = Some e" by (cases "find (ext_hit p u) (ext_ids d)") (auto simp: list_ex_iff find_None_iff)
    with True show ?thesis
      by (simp add: ext_map_find SetExternalID_def find_ext_update)
  next
    case False
    then have "find (ext_hit p u) (ext_ids d) = None" by (simp add: list_ex_iff find_None_iff)
    with False assms show ?thesis
      by (cases "(q, v) = (p, u)") (auto simp: ext_map_find SetExternalID_def find_append ext_hit_def split: option.split)
  qed
qed

lemma ext_map_delete: "ext_map (snd (DeleteExternalID p u d)) = (ext_map d)((p, u) := None)"
  by (rule ext) (auto simp: ext_map_find DeleteExternalID_def find_ext_delete split: if_splits)

lemma users_DeleteExternalID [simp]: "users (snd (DeleteExternalID p u d)) = users d"
  by (simp add: DeleteExternalID_def)

interpretation ext: id_cache ext_map "\<lambda>k x d. snd (SetExternalID (fst k) (snd k) x d)" "\<lambda>k d. snd (DeleteExternalID (fst k) (snd k) d)"
  "\<lambda>d k. snd k \<in> user_ids d"
  by unfold_locales (simp_all add: ext_map_set ext_map_delete)

text \<open>C30. The table of external ids refines a map from (provider, user) to the remote id: reading, writing and deleting a
  row are lookup, update and removal in that map.\<close>

theorem external_ids_refine_map:
  "fst (GetExternalID p u d) = (case ext_map d (p, u) of None \<Rightarrow> Inl ErrNotFound | Some x \<Rightarrow> Inr x) \<and>
   (u \<in> user_ids d \<longrightarrow> fst (SetExternalID p u x d) = Inr () \<and> ext_map (snd (SetExternalID p u x d)) = (ext_map d)((p, u) \<mapsto> x)) \<and>
   (u \<notin> user_ids d \<and> ext_map d (p, u) = None \<longrightarrow> SetExternalID p u x d = (Inl ErrDB, d)) \<and>
   ext_map (snd (DeleteExternalID p u d)) = (ext_map d)((p, u) := None)"
  by (auto simp: ext_map_set ext_map_delete)
     (auto simp: ext_map_find GetExternalID_def SetExternalID_def select_row_def find_None_iff list_ex_iff split: option.split dest: find_SomeD)

theorem external_ids_refine_map_witness:
  "ext_map (snd (SetExternalID ''vault'' 10 ''v-1'' demo_db)) (''vault'', 10) = Some ''v-1''"
  using external_ids_refine_map [of "''vault''" 10 demo_db "''v-1''"] by (simp add: demo_db_def demo_user_def)

subsection \<open>Upserting a user\<close>

lemma calm_faults: "w_faults w = [] \<Longrightarrow> w\<lparr>w_faults := []\<rparr> = w"
  by simp

lemma createUser_steps:
  assumes "run_state (createUser s p u) w = (Inr vid, w')" "w_faults w = []" "u_ID u \<in> user_ids (w_db w)"
  shows "vid \<noteq> [] \<and> ext_map (w_db w') = (ext_map (w_db w))((sp_provider p, u_ID u) \<mapsto> vid) \<and>
    last (w_outbox w') = SCIMRequest (sp_name p) (sp_baseURL p) (sp_token p) ''POST'' SCIMUsers (create_body s u)"
  using assms
  by (auto simp: createUser_def scim_do_def run_simps Let_def ext_map_set split: if_splits remote_reply.splits list.splits)

lemma patchUser_steps:
  assumes "run_state (patchUser s p vid u) w = (x, w')"
  shows "w_db w' = w_db w \<and> w_faults w' = w_faults w \<and>
    (\<exists>body. last (w_outbox w') = SCIMRequest (sp_name p) (sp_baseURL p) (sp_token p) ''PATCH'' (SCIMUser vid) body)"
  using assms by (auto simp: patchUser_def scim_do_def run_simps)


definition demo_scim :: scim_client where
  "demo_scim = scim_New ''vault'' ''vault-scim'' ''https://vault'' ''tok'' 0"

text \<open>The remote side has lost the cached user: the update is answered with 404, the creation with a new id.\<close>

definition scim_world :: world where
  "scim_world = demo_world\<lparr>w_db := demo_db\<lparr>ext_ids := [\<lparr>e_Provider = ''vault'', e_UserID = 10, e_ExternalID = ''v-1''\<rparr>]\<rparr>,
     w_replies := [RemoteNotFound, RemoteOK [''v-2'']]\<rparr>"


end
