(* ===== verification/Prov_Properties.thy ===== *)
theory Prov_Properties
  imports Scim_Properties
begin

text \<open>
  The AWS federation provisioner: revocation reaches every role, and the reaper removes exactly the rows whose
  sessions have run out.
\<close>

subsection \<open>Revocation reaches every role\<close>

definition revoked_now :: "string \<Rightarrow> AWSRole \<Rightarrow> world \<Rightarrow> bool" where
  "revoked_now sub role w \<longleftrightarrow> (\<exists>v \<in> set (aws_revoked (w_db w)). rv_RoleID v = ar_ID role \<and> rv_SubUUID v = sub \<and> rv_RevokedAt v = w_now w)"

definition policy_pushed :: "string \<Rightarrow> AWSRole \<Rightarrow> world \<Rightarrow> bool" where
  "policy_pushed sub role w \<longleftrightarrow> RoleNameFromARN (ar_RoleARN role) = [] \<or>
     (\<exists>doc. PutRolePolicy (RoleNameFromARN (ar_RoleARN role)) RevocationPolicyName doc \<in> set (w_outbox w) \<and> sub \<in> set (rd_Subs doc))"

lemma AddAWSRevokedUser_row:
  assumes "rid \<in> role_ids d"
  shows "\<exists>d'. AddAWSRevokedUser now rid sub d = (Inr (), d') \<and> aws_roles d' = aws_roles d \<and>
    (\<exists>v \<in> set (aws_revoked d'). rv_RoleID v = rid \<and> rv_SubUUID v = sub \<and> rv_RevokedAt v = now) \<and>
    (\<forall>v \<in> set (aws_revoked d). rv_SubUUID v = sub \<and> rv_RevokedAt v = now \<longrightarrow> v \<in> set (aws_revoked d'))"
proof (cases "list_ex (revoked_hit rid sub) (aws_revoked d)")
  case True
  then obtain v where "v \<in> set (aws_revoked d)" "revoked_hit rid sub v" by (auto simp: list_ex_iff)
  then have "v\<lparr>rv_RevokedAt := now\<rparr> \<in> set (sql_update (revoked_hit rid sub) (\<lambda>v. v\<lparr>rv_RevokedAt := now\<rparr>) (aws_revoked d))"
    "rv_RoleID v = rid" "rv_SubUUID v = sub"
    by (auto simp: sql_update_def revoked_hit_def)
  moreover have "u \<in> set (sql_update (revoked_hit rid sub) (\<lambda>v. v\<lparr>rv_RevokedAt := now\<rparr>) (aws_revoked d))"
    if "u \<in> set (aws_revoked d)" "rv_RevokedAt u = now" for u
  proof -
    have "(if revoked_hit rid sub u then u\<lparr>rv_RevokedAt := now\<rparr> else u) = u" using that(2) by simp
    with that(1) show ?thesis by (force simp: sql_update_def image_iff)
  qed
  ultimately show ?thesis
    using True by (auto simp: AddAWSRevokedUser_def intro!: bexI [of _ "v\<lparr>rv_RevokedAt := now\<rparr>"])
next
  case False
  with assms show ?thesis by (auto simp: AddAWSRevokedUser_def)
qed

lemma revokeOneRole_steps:
  assumes "run_state (revokeOneRole role sub) w = (x, w')" "w_faults w = []" "ar_ID role \<in> role_ids (w_db w)"
  shows "w_faults w' = [] \<and> w_now w' = w_now w \<and> aws_roles (w_db w') = aws_roles (w_db w) \<and> set (w_outbox w) \<subseteq> set (w_outbox w') \<and>
    revoked_now sub role w' \<and> policy_pushed sub role w' \<and> (\<forall>r. revoked_now sub r w \<longrightarrow> revoked_now sub r w')"
proof -
  obtain d' where d: "AddAWSRevokedUser (w_now w) (ar_ID role) sub (w_db w) = (Inr (), d')" "aws_roles d' = aws_roles (w_db w)"
    "\<exists>v \<in> set (aws_revoked d'). rv_RoleID v = ar_ID role \<and> rv_SubUUID v = sub \<and> rv_RevokedAt v = w_now w"
    "\<forall>v \<in> set (aws_revoked (w_db w)). rv_SubUUID v = sub \<and> rv_RevokedAt v = w_now w \<longrightarrow> v \<in> set (aws_revoked d')"
    using AddAWSRevokedUser_row [OF assms(3)] by blast
  from d(3) have "sub \<in> rv_SubUUID ` {v \<in> set (aws_revoked d'). rv_RoleID v = ar_ID role}" by force
  then have "sub \<in> set (sort_by name_le (map rv_SubUUID (sort_key rv_RevokedAt (filter (\<lambda>v. rv_RoleID v = ar_ID role) (aws_revoked d')))))"
    by simp
  with assms d show ?thesis
    by (auto simp: revokeOneRole_def collectActiveRevokedSubs_def ListAWSRevokedUsers_def BuildRevocationPolicy_def run_simps head_fault_def
        revoked_now_def policy_pushed_def Let_def simp del: set_sort_by split: if_splits)
qed

lemma revoke_roles_steps:
  assumes "run_state (revoke_roles sub roles) w = (x, w')" "w_faults w = []" "\<forall>role \<in> set roles. ar_ID role \<in> role_ids (w_db w)"
  shows "w_now w' = w_now w \<and> set (w_outbox w) \<subseteq> set (w_outbox w') \<and> (\<forall>role \<in> set roles. revoked_now sub role w' \<and> policy_pushed sub role w') \<and>
    (\<forall>r. revoked_now sub r w \<longrightarrow> revoked_now sub r w')"
  using assms
proof (induction roles arbitrary: w x)
  case (Cons role roles)
  obtain y u where u: "run_state (revokeOneRole role sub) w = (y, u)" by (metis surj_pair)
  with Cons.prems obtain z where z: "run_state (revoke_roles sub roles) u = (z, w')" by (auto split: prod.splits)
  note one = revokeOneRole_steps [OF u Cons.prems(2)]
  have "\<forall>r \<in> set roles. ar_ID r \<in> role_ids (w_db u)" "w_faults u = []"
    using one Cons.prems(3) by auto
  from Cons.IH [OF z this(2,1)] one Cons.prems(3) show ?case
    by (auto simp: policy_pushed_def)
qed simp


lemma RevokeUser_demo:
  "run_state (RevokeUser ''u-10'') aws_world = (True, snd (run_state (RevokeUser ''u-10'') aws_world))"
  by (simp add: RevokeUser_def revokeAcrossAllRoles_def revokeOneRole_def collectActiveRevokedSubs_def ListAWSRoles_def ListAWSRevokedUsers_def
      BuildRevocationPolicy_def RoleNameFromARN_def AddAWSRevokedUser_def revoked_hit_def aws_store_eval aws_world_def demo_role_def demo_defs demo_eval)


subsection \<open>The reaper\<close>

definition reapable :: "time \<Rightarrow> AWSRole \<Rightarrow> AWSRevokedUser \<Rightarrow> bool" where
  "reapable now role v \<longleftrightarrow> rv_RoleID v = ar_ID role \<and> rv_RevokedAt v < reap_cutoff now role"

lemma reap_rows_steps:
  "run_state (reap_rows rid cutoff es) w = (n, w') \<Longrightarrow> w_faults w = [] \<Longrightarrow> w_faults w' = [] \<and>
   w_db w' = (w_db w)\<lparr>aws_revoked := filter (\<lambda>v. \<not> (\<exists>e \<in> set es. rv_RevokedAt e < cutoff \<and> revoked_hit rid (rv_SubUUID e) v)) (aws_revoked (w_db w))\<rparr>"
proof (induction es arbitrary: w n)
  case (Cons e es)
  show ?case
  proof (cases "rv_RevokedAt e < cutoff")
    case True
    obtain k where "run_state (reap_rows rid cutoff es) (w\<lparr>w_db := snd (DeleteAWSRevokedUser rid (rv_SubUUID e) (w_db w)), w_faults := []\<rparr>) = (k, w')"
      using Cons.prems True by (auto simp: run_store split: prod.splits)
    from Cons.IH [OF this] True show ?thesis
      by (simp add: DeleteAWSRevokedUser_def sql_delete_def conj_commute)
  qed (use Cons in simp)
qed simp

lemma push_trimmed_steps: "run_state (push_trimmed role) w = (x, w') \<Longrightarrow> w_faults w = [] \<Longrightarrow> w_db w' = w_db w \<and> w_faults w' = []"
  by (auto simp: push_trimmed_def collectActiveRevokedSubs_def run_simps Let_def split: if_splits option.splits)

lemma reap_role_steps:
  assumes "run_state (reap_role now role) w = (x, w')" "w_faults w = []" "distinct (map (\<lambda>v. (rv_RoleID v, rv_SubUUID v)) (aws_revoked (w_db w)))"
  shows "w_faults w' = [] \<and> w_db w' = (w_db w)\<lparr>aws_revoked := filter (\<lambda>v. \<not> reapable now role v) (aws_revoked (w_db w))\<rparr>"
proof -
  define rows where "rows = sort_key rv_RevokedAt (filter (\<lambda>v. rv_RoleID v = ar_ID role) (aws_revoked (w_db w)))"
  have key: "u = v" if "u \<in> set (aws_revoked (w_db w))" "v \<in> set (aws_revoked (w_db w))" "rv_RoleID u = rv_RoleID v" "rv_SubUUID u = rv_SubUUID v" for u v
    using distinct_key_eq [OF assms(3) that(1,2)] that(3,4) by simp
  have *: "(\<exists>e \<in> set rows. rv_RevokedAt e < reap_cutoff now role \<and> revoked_hit (ar_ID role) (rv_SubUUID e) v) \<longleftrightarrow> reapable now role v"
    if "v \<in> set (aws_revoked (w_db w))" for v
    using key that by (auto simp: rows_def revoked_hit_def reapable_def) metis
  obtain n u where u: "run_state (reap_rows (ar_ID role) (reap_cutoff now role) rows) w = (n, u)" by (metis surj_pair)
  have "w_faults u = [] \<and> w_db u = (w_db w)\<lparr>aws_revoked := filter (\<lambda>v. \<not> reapable now role v) (aws_revoked (w_db w))\<rparr>"
    using reap_rows_steps [OF u assms(2)] * by (simp cong: filter_cong)
  moreover have "w' = u \<or> (\<exists>y. run_state (push_trimmed role) u = (y, w'))"
    using assms(1,2) u by (auto simp: reap_role_def run_store ListAWSRevokedUsers_def rows_def calm_faults split: if_splits)
  ultimately show ?thesis using push_trimmed_steps by metis
qed

lemma reap_roles_steps:
  "run_state (reap_roles now roles) w = (x, w') \<Longrightarrow> w_faults w = [] \<Longrightarrow> distinct (map (\<lambda>v. (rv_RoleID v, rv_SubUUID v)) (aws_revoked (w_db w))) \<Longrightarrow>
   w_db w' = (w_db w)\<lparr>aws_revoked := filter (\<lambda>v. \<not> (\<exists>role \<in> set roles. reapable now role v)) (aws_revoked (w_db w))\<rparr>"
proof (induction roles arbitrary: w)
  case (Cons role roles)
  obtain y u where u: "run_state (reap_role now role) w = (y, u)" by (metis surj_pair)
  note one = reap_role_steps [OF u Cons.prems(2,3)]
  from Cons.prems(1) u have "run_state (reap_roles now roles) u = (x, w')" by (auto split: prod.splits)
  from Cons.IH [OF this] one Cons.prems(3) show ?case
    by (simp add: distinct_map_filter conj_commute)
qed simp

text \<open>C28. One pass of the reaper deletes exactly the revocation rows older than the longest session of their role and
  touches nothing else of the database, whatever AWS replies.\<close>

theorem reaper_exact:
  assumes "wf_db (w_db w)" "w_faults w = []" "run_state (ReapExpired now) w = (x, w')"
  shows "x \<and> w_db w' = (w_db w)\<lparr>aws_revoked := filter (\<lambda>v. \<not> (\<exists>role \<in> set (aws_roles (w_db w)). reapable now role v)) (aws_revoked (w_db w))\<rparr>"
proof -
  define roles where "roles = sort_by (\<lambda>a b. name_le (ar_DisplayName a) (ar_DisplayName b)) (aws_roles (w_db w))"
  obtain y where "run_state (reap_roles now roles) w = (y, w')" "x"
    using assms(2,3) by (auto simp: ReapExpired_def run_store ListAWSRoles_def roles_def calm_faults split: prod.splits)
  with reap_roles_steps [OF this(1) assms(2)] assms(1) show ?thesis by (simp add: roles_def wf_db_def uniq_db_def)
qed

definition reaper_world :: world where
  "reaper_world = aws_world\<lparr>w_db := (w_db aws_world)\<lparr>aws_revoked :=
     [\<lparr>rv_RoleID = 4, rv_SubUUID = ''old'', rv_RevokedAt = demo_now - 2 * hour\<rparr>,
      \<lparr>rv_RoleID = 4, rv_SubUUID = ''new'', rv_RevokedAt = demo_now - minute\<rparr>]\<rparr>\<rparr>"

theorem reaper_exact_witness:
  "map rv_SubUUID (aws_revoked (w_db (snd (run_state (ReapExpired demo_now) reaper_world)))) = [''new'']"
proof -
  have "wf_db (w_db reaper_world)" "w_faults reaper_world = []"
    by (simp_all add: reaper_world_def aws_world_def demo_role_def demo_defs wf_defs uniq_defs fk_defs)
  from reaper_exact [OF this surjective_pairing]
  have "aws_revoked (w_db (snd (run_state (ReapExpired demo_now) reaper_world))) =
    filter (\<lambda>v. \<not> (\<exists>role \<in> set (aws_roles (w_db reaper_world)). reapable demo_now role v)) (aws_revoked (w_db reaper_world))"
    by simp
  then show ?thesis
    by (simp add: reaper_world_def aws_world_def demo_role_def reapable_def reap_cutoff_def int64_def Let_def duration_defs)
qed

end
