(* ===== verification/Pg_Core.thy ===== *)
theory Pg_Core
  imports Store_MFA
begin

text \<open>
  The PostgreSQL backend, which the server runs on in production (\<open>src/internal/store/postgres\<close>): the user, grant and
  session stores (\<open>postgres_users.go\<close>, \<open>postgres_grants.go\<close>, \<open>postgres_sessions.go\<close>). Same form as the
  SQLite theories, over the same tables; what differs is time. \<open>TIMESTAMPTZ\<close> holds microseconds, so \<open>NOW()\<close> and
  every time a caller passes is cut to microseconds (\<open>micro\<close>), where SQLite's \<open>CURRENT_TIMESTAMP\<close> has whole seconds and
  its text columns keep nanoseconds. Identifiers generated by the database are the arguments \<open>uid\<close>, \<open>cid\<close>, \<open>wid\<close>.
\<close>

definition micro :: "time \<Rightarrow> time" where "micro t = t div 1000 * 1000"

subsection \<open>Users\<close>

definition pg_CreateUser :: "time \<Rightarrow> uuid \<Rightarrow> string \<Rightarrow> string \<Rightarrow> string \<Rightarrow> db \<Rightarrow> User store_result" where
  "pg_CreateUser now uid email passwordHash name d =
     (let u = \<lparr>u_ID = uid, u_Email = email, u_PasswordHash = passwordHash, u_Name = name,
               u_Active = True, u_SCIMExternalID = '''', u_MFAEnabled = False, u_IsAdmin = False,
               u_PasswordChangedAt = micro now, u_FailedAttempts = 0, u_LockedUntil = None,
               u_MustChangePassword = False, u_CreatedAt = micro now, u_UpdatedAt = micro now\<rparr> in
      insert_outcome (uniq_users (users d @ [u])) ErrConflict True u
        d (d\<lparr>users := users d @ [u]\<rparr>))"

definition pg_GetUserByID :: "uuid \<Rightarrow> db \<Rightarrow> User store_result" where
  "pg_GetUserByID uid d = (select_row (\<lambda>u. u_ID u = uid) (users d), d)"

definition pg_GetUserByEmail :: "string \<Rightarrow> db \<Rightarrow> User store_result" where
  "pg_GetUserByEmail email d = (select_row (\<lambda>u. u_Email u = email) (users d), d)"

definition pg_CountUsers :: "db \<Rightarrow> nat store_result" where
  "pg_CountUsers d = (Inr (length (users d)), d)"

definition pg_ListUsers :: "db \<Rightarrow> User list store_result" where
  "pg_ListUsers d = (Inr (sort_key u_CreatedAt (users d)), d)"

definition pg_UpdateUser :: "time \<Rightarrow> uuid \<Rightarrow> string \<Rightarrow> bool \<Rightarrow> db \<Rightarrow> unit store_result" where
  "pg_UpdateUser now uid name active =
     update_user uid (\<lambda>u. u\<lparr>u_Name := name, u_Active := active, u_UpdatedAt := micro now\<rparr>)"

definition pg_UpdateUserPassword :: "time \<Rightarrow> uuid \<Rightarrow> string \<Rightarrow> db \<Rightarrow> unit store_result" where
  "pg_UpdateUserPassword now uid passwordHash =
     update_user uid (\<lambda>u. u\<lparr>u_PasswordHash := passwordHash,
       u_PasswordChangedAt := micro now, u_MustChangePassword := False,
       u_UpdatedAt := micro now\<rparr>)"

definition pg_SetUserMustChangePassword :: "time \<Rightarrow> uuid \<Rightarrow> bool \<Rightarrow> db \<Rightarrow> unit store_result" where
  "pg_SetUserMustChangePassword now uid flag =
     update_user uid (\<lambda>u. u\<lparr>u_MustChangePassword := flag, u_UpdatedAt := micro now\<rparr>)"

definition pg_UpdateUserMFAEnabled :: "time \<Rightarrow> uuid \<Rightarrow> bool \<Rightarrow> db \<Rightarrow> unit store_result" where
  "pg_UpdateUserMFAEnabled now uid enabled =
     update_user uid (\<lambda>u. u\<lparr>u_MFAEnabled := enabled, u_UpdatedAt := micro now\<rparr>)"

definition pg_UpdateUserFailedAttempts ::
  "time \<Rightarrow> uuid \<Rightarrow> int \<Rightarrow> time option \<Rightarrow> db \<Rightarrow> unit store_result" where
  "pg_UpdateUserFailedAttempts now uid count lockedUntil =
     update_user uid (\<lambda>u. u\<lparr>u_FailedAttempts := count, u_LockedUntil := map_option micro lockedUntil,
       u_UpdatedAt := micro now\<rparr>)"

definition pg_SetUserActive :: "time \<Rightarrow> uuid \<Rightarrow> bool \<Rightarrow> db \<Rightarrow> unit store_result" where
  "pg_SetUserActive now uid active =
     update_user uid (\<lambda>u. u\<lparr>u_Active := active, u_UpdatedAt := micro now\<rparr>)"

definition pg_SetUserSCIMExternalID :: "time \<Rightarrow> uuid \<Rightarrow> string \<Rightarrow> db \<Rightarrow> unit store_result" where
  "pg_SetUserSCIMExternalID now uid externalID =
     update_user uid (\<lambda>u. u\<lparr>u_SCIMExternalID := externalID, u_UpdatedAt := micro now\<rparr>)"

definition pg_SetUserAdmin :: "time \<Rightarrow> uuid \<Rightarrow> bool \<Rightarrow> db \<Rightarrow> unit store_result" where
  "pg_SetUserAdmin now uid isAdmin =
     update_user uid (\<lambda>u. u\<lparr>u_IsAdmin := isAdmin, u_UpdatedAt := micro now\<rparr>)"

definition pg_DeleteUser :: "uuid \<Rightarrow> db \<Rightarrow> unit store_result" where
  "pg_DeleteUser uid d = (Inr (), delete_user_row uid d)"

subsection \<open>Authorization codes\<close>

definition pg_CreateGrant :: "Grant \<Rightarrow> db \<Rightarrow> unit store_result" where
  "pg_CreateGrant g d =
     (let row = g\<lparr>g_UsedAt := None, g_ExpiresAt := micro (g_ExpiresAt g),
            g_MFAVerifiedAt := map_option micro (g_MFAVerifiedAt g), g_AuthTime := micro (g_AuthTime g)\<rparr> in
      insert_outcome (uniq_grants (grants d @ [row])) ErrDB
        (g_UserID g \<in> user_ids d \<and> g_ClientID g \<in> client_ids d) ()
        d (d\<lparr>grants := grants d @ [row]\<rparr>))"

definition pg_GetGrantByCodeHash :: "string \<Rightarrow> db \<Rightarrow> Grant store_result" where
  "pg_GetGrantByCodeHash codeHash d = (select_row (\<lambda>g. g_CodeHash g = codeHash) (grants d), d)"

definition pg_MarkGrantUsed :: "time \<Rightarrow> uuid \<Rightarrow> db \<Rightarrow> unit store_result" where
  "pg_MarkGrantUsed now gid d =
     (let hit = (\<lambda>g. g_ID g = gid \<and> g_UsedAt g = None) in
      (requireOneRow (rows_affected hit (grants d)),
       d\<lparr>grants := sql_update hit (\<lambda>g. g\<lparr>g_UsedAt := Some (micro now)\<rparr>) (grants d)\<rparr>))"

definition pg_DeleteExpiredGrants :: "time \<Rightarrow> db \<Rightarrow> unit store_result" where
  "pg_DeleteExpiredGrants now d =
     (Inr (), d\<lparr>grants := sql_delete (\<lambda>g. g_ExpiresAt g < micro now) (grants d)\<rparr>)"

subsection \<open>Sessions\<close>

definition pg_CreateSession :: "time \<Rightarrow> Session \<Rightarrow> db \<Rightarrow> unit store_result" where
  "pg_CreateSession now sess d =
     (let row = sess\<lparr>s_LastActivityAt := micro now, s_CreatedAt := micro now,
            s_AccessExpiresAt := micro (s_AccessExpiresAt sess), s_RefreshExpiresAt := micro (s_RefreshExpiresAt sess),
            s_MFAVerifiedAt := map_option micro (s_MFAVerifiedAt sess), s_AuthTime := micro (s_AuthTime sess)\<rparr> in
      insert_outcome (uniq_sessions (sessions d @ [row])) ErrDB
        ((s_UserID sess = uuid_nil \<or> s_UserID sess \<in> user_ids d) \<and> s_ClientID sess \<in> client_ids d) ()
        d (d\<lparr>sessions := sessions d @ [row]\<rparr>))"

definition pg_MarkSessionMFA :: "uuid \<Rightarrow> time \<Rightarrow> db \<Rightarrow> unit store_result" where
  "pg_MarkSessionMFA sid when =
     update_session sid (\<lambda>s. s\<lparr>s_MFAVerified := True, s_MFAVerifiedAt := Some (micro when)\<rparr>)"

definition pg_GetSessionByAccessTokenHash :: "string \<Rightarrow> db \<Rightarrow> Session store_result" where
  "pg_GetSessionByAccessTokenHash hash d =
     (select_row (\<lambda>s. s_AccessTokenHash s = hash) (sessions d), d)"

definition pg_GetSessionByRefreshTokenHash :: "string \<Rightarrow> db \<Rightarrow> Session store_result" where
  "pg_GetSessionByRefreshTokenHash hash d =
     (select_row (\<lambda>s. s_RefreshTokenHash s = hash) (sessions d), d)"

definition pg_UpdateSessionActivity :: "uuid \<Rightarrow> time \<Rightarrow> db \<Rightarrow> unit store_result" where
  "pg_UpdateSessionActivity sid lastActivity =
     update_session sid (\<lambda>s. s\<lparr>s_LastActivityAt := micro lastActivity\<rparr>)"

definition pg_ExtendSessionExpiry :: "uuid \<Rightarrow> time \<Rightarrow> db \<Rightarrow> unit store_result" where
  "pg_ExtendSessionExpiry sid newExpiry =
     update_session sid (\<lambda>s. s\<lparr>s_AccessExpiresAt := micro newExpiry\<rparr>)"

definition pg_RotateRefreshToken ::
  "uuid \<Rightarrow> string \<Rightarrow> string \<Rightarrow> string \<Rightarrow> time \<Rightarrow> time \<Rightarrow> db \<Rightarrow> unit store_result" where
  "pg_RotateRefreshToken sid oldRefreshHash newAccessHash newRefreshHash newAccessExpiry newRefreshExpiry d =
     (let hit = (\<lambda>s. s_ID s = sid \<and> s_RefreshTokenHash s = oldRefreshHash);
          t = sql_update hit (\<lambda>s. s\<lparr>s_AccessTokenHash := newAccessHash,
                s_RefreshTokenHash := newRefreshHash, s_AccessExpiresAt := micro newAccessExpiry,
                s_RefreshExpiresAt := micro newRefreshExpiry\<rparr>) (sessions d) in
      if rows_affected hit (sessions d) = 0 then (Inl ErrNotFound, d)
      else if \<not> uniq_sessions t then (Inl ErrDB, d)
      else (Inr (), d\<lparr>sessions := t,
             retired := (if oldRefreshHash \<in> set (map rt_TokenHash (retired d)) then retired d
                         else retired d @ [\<lparr>rt_TokenHash = oldRefreshHash, rt_SessionID = sid\<rparr>])\<rparr>))"

definition pg_GetSessionByRetiredRefreshTokenHash :: "string \<Rightarrow> db \<Rightarrow> Session store_result" where
  "pg_GetSessionByRetiredRefreshTokenHash hash d =
     (case find (\<lambda>t. rt_TokenHash t = hash) (retired d) of
        None \<Rightarrow> Inl ErrNotFound
      | Some t \<Rightarrow> select_row (\<lambda>s. s_ID s = rt_SessionID t) (sessions d), d)"

definition pg_DeleteSession :: "uuid \<Rightarrow> db \<Rightarrow> unit store_result" where
  "pg_DeleteSession sid d = (Inr (), delete_sessions (\<lambda>s. s_ID s = sid) d)"

definition pg_DeleteSessionsByUserID :: "uuid \<Rightarrow> db \<Rightarrow> unit store_result" where
  "pg_DeleteSessionsByUserID userID d = (Inr (), delete_sessions (user_session userID) d)"

definition pg_ListSessionClientIDsByUser :: "uuid \<Rightarrow> db \<Rightarrow> uuid list store_result" where
  "pg_ListSessionClientIDsByUser userID d =
     (Inr (remdups (map s_ClientID (filter (user_session userID) (sessions d)))), d)"

definition pg_DeleteExpiredSessions :: "time \<Rightarrow> db \<Rightarrow> unit store_result" where
  "pg_DeleteExpiredSessions now d =
     (Inr (), delete_sessions (\<lambda>s. s_RefreshExpiresAt s < micro now) d)"

end
