(* ===== verification/Pg_Clients.thy ===== *)
theory Pg_Clients
  imports Pg_Core
begin

text \<open>
  The PostgreSQL client, group and device-grant stores (\<open>postgres_clients.go\<close>, \<open>postgres_groups.go\<close>,
  \<open>postgres_device_grants.go\<close>). \<open>ORDER BY name\<close> uses the collation of the database, the argument \<open>coll\<close>.
\<close>

subsection \<open>Clients\<close>

definition pg_CreateClient ::
  "time \<Rightarrow> uuid \<Rightarrow> string \<Rightarrow> string \<Rightarrow> string \<Rightarrow> string list \<Rightarrow> string list \<Rightarrow> bool \<Rightarrow> string option
   \<Rightarrow> db \<Rightarrow> Client store_result" where
  "pg_CreateClient now cid clientID clientSecretHash name redirectURIs scopes public backchannelLogoutURI d =
     (let c = \<lparr>c_ID = cid, c_ClientID = clientID, c_ClientSecretHash = clientSecretHash,
               c_Name = name, c_RedirectURIs = redirectURIs, c_Scopes = scopes, c_Public = public,
               c_BackchannelLogoutURI = backchannelLogoutURI, c_ShowInPortal = False,
               c_LaunchURL = '''', c_BrandColor = '''', c_IconURL = '''', c_VisibleToAll = False,
               c_AllowDeviceGrant = False, c_SecretRotatedAt = micro now, c_CreatedAt = micro now\<rparr> in
      insert_outcome (uniq_clients (clients d @ [c])) ErrConflict True c
        d (d\<lparr>clients := clients d @ [c]\<rparr>))"

definition pg_GetClientByID :: "uuid \<Rightarrow> db \<Rightarrow> Client store_result" where
  "pg_GetClientByID cid d = (select_row (\<lambda>c. c_ID c = cid) (clients d), d)"

definition pg_GetClientByClientID :: "string \<Rightarrow> db \<Rightarrow> Client store_result" where
  "pg_GetClientByClientID clientID d = (select_row (\<lambda>c. c_ClientID c = clientID) (clients d), d)"

definition pg_ListClients :: "db \<Rightarrow> Client list store_result" where
  "pg_ListClients d = (Inr (sort_key c_CreatedAt (clients d)), d)"

definition pg_UpdateClient ::
  "uuid \<Rightarrow> string \<Rightarrow> string list \<Rightarrow> string list \<Rightarrow> bool \<Rightarrow> string option \<Rightarrow> db \<Rightarrow> unit store_result" where
  "pg_UpdateClient cid name redirectURIs scopes public backchannelLogoutURI d =
     (Inr (), update_client cid (\<lambda>c. c\<lparr>c_Name := name, c_RedirectURIs := redirectURIs,
        c_Scopes := scopes, c_Public := public, c_BackchannelLogoutURI := backchannelLogoutURI\<rparr>) d)"

definition pg_UpdateClientDeviceGrant :: "uuid \<Rightarrow> bool \<Rightarrow> db \<Rightarrow> unit store_result" where
  "pg_UpdateClientDeviceGrant cid allow d =
     (requireOneRow (client_hits cid d), update_client cid (\<lambda>c. c\<lparr>c_AllowDeviceGrant := allow\<rparr>) d)"

definition pg_UpdateClientSecret :: "time \<Rightarrow> uuid \<Rightarrow> string \<Rightarrow> db \<Rightarrow> unit store_result" where
  "pg_UpdateClientSecret now cid secretHash d =
     (Inr (), update_client cid (\<lambda>c. c\<lparr>c_ClientSecretHash := secretHash,
        c_SecretRotatedAt := micro now\<rparr>) d)"

definition pg_DeleteClient :: "uuid \<Rightarrow> db \<Rightarrow> unit store_result" where
  "pg_DeleteClient cid d = (Inr (), delete_client_row cid d)"

definition pg_UpdateClientPortalConfig ::
  "uuid \<Rightarrow> bool \<Rightarrow> string \<Rightarrow> string \<Rightarrow> string \<Rightarrow> bool \<Rightarrow> db \<Rightarrow> unit store_result" where
  "pg_UpdateClientPortalConfig cid showInPortal launchURL brandColor iconURL visibleToAll d =
     (requireOneRow (client_hits cid d),
      update_client cid (\<lambda>c. c\<lparr>c_ShowInPortal := showInPortal, c_LaunchURL := launchURL,
        c_BrandColor := brandColor, c_IconURL := iconURL, c_VisibleToAll := visibleToAll\<rparr>) d)"

fun pg_insert_visibility :: "time \<Rightarrow> uuid \<Rightarrow> (uuid \<times> uuid) list \<Rightarrow> db \<Rightarrow> db option" where
  "pg_insert_visibility now cid [] d = Some d"
| "pg_insert_visibility now cid ((gid, vid) # gids) d =
     (let row = \<lparr>v_ID = vid, v_ClientID = cid, v_GroupID = gid,
                 v_CreatedAt = micro now\<rparr> in
      if (cid, gid) \<in> set (map (\<lambda>v. (v_ClientID v, v_GroupID v)) (visibility d))
      then pg_insert_visibility now cid gids d
      else if vid \<in> set (map v_ID (visibility d))
        \<or> cid \<notin> client_ids d \<or> gid \<notin> group_ids d then None
      else pg_insert_visibility now cid gids (d\<lparr>visibility := visibility d @ [row]\<rparr>))"

definition pg_ReplaceClientVisibility ::
  "time \<Rightarrow> uuid \<Rightarrow> (uuid \<times> uuid) list \<Rightarrow> db \<Rightarrow> unit store_result" where
  "pg_ReplaceClientVisibility now clientID groupIDs d =
     (case pg_insert_visibility now clientID groupIDs
             (d\<lparr>visibility := sql_delete (\<lambda>v. v_ClientID v = clientID) (visibility d)\<rparr>) of
        None \<Rightarrow> (Inl ErrDB, d)
      | Some d' \<Rightarrow> (Inr (), d'))"

definition pg_ListClientVisibility :: "uuid \<Rightarrow> db \<Rightarrow> uuid list store_result" where
  "pg_ListClientVisibility clientID d =
     (Inr (map v_GroupID (sort_key v_CreatedAt
        (filter (\<lambda>v. v_ClientID v = clientID) (visibility d)))), d)"

definition pg_ListPortalClientsForUser :: "(string \<Rightarrow> string \<Rightarrow> bool) \<Rightarrow> uuid \<Rightarrow> db \<Rightarrow> Client list store_result" where
  "pg_ListPortalClientsForUser coll userID d =
     (Inr (sort_by (\<lambda>a b. coll (c_Name a) (c_Name b)) (filter (portal_visible userID d) (clients d))), d)"

subsection \<open>Groups\<close>

definition pg_CreateGroup :: "time \<Rightarrow> uuid \<Rightarrow> string \<Rightarrow> db \<Rightarrow> SCIMGroup store_result" where
  "pg_CreateGroup now gid displayName d =
     (let g = \<lparr>gr_ID = gid, gr_DisplayName = displayName, gr_Members = [],
               gr_CreatedAt = now, gr_UpdatedAt = now\<rparr> in
      insert_outcome (distinct (map gr_ID (groups d @ [g]))) ErrDB True g
        d (d\<lparr>groups := groups d @ [g\<lparr>gr_CreatedAt := micro now, gr_UpdatedAt := micro now\<rparr>]\<rparr>))"

definition pg_groupMembers :: "uuid \<Rightarrow> db \<Rightarrow> uuid list" where
  "pg_groupMembers groupID d = sort (map m_UserID (filter (\<lambda>m. m_GroupID m = groupID) (members d)))"

definition pg_GetGroupByID :: "uuid \<Rightarrow> db \<Rightarrow> SCIMGroup store_result" where
  "pg_GetGroupByID gid d =
     (case select_row (\<lambda>g. gr_ID g = gid) (groups d) of
        Inl e \<Rightarrow> Inl e
      | Inr g \<Rightarrow> Inr (g\<lparr>gr_Members := pg_groupMembers gid d\<rparr>), d)"

definition pg_ListGroups :: "db \<Rightarrow> SCIMGroup list store_result" where
  "pg_ListGroups d =
     (Inr (map (\<lambda>g. g\<lparr>gr_Members := pg_groupMembers (gr_ID g) d\<rparr>) (sort_key gr_CreatedAt (groups d))), d)"

definition pg_UpdateGroup :: "time \<Rightarrow> uuid \<Rightarrow> string \<Rightarrow> db \<Rightarrow> unit store_result" where
  "pg_UpdateGroup now gid displayName d =
     (Inr (), d\<lparr>groups := sql_update (\<lambda>g. gr_ID g = gid)
        (\<lambda>g. g\<lparr>gr_DisplayName := displayName, gr_UpdatedAt := micro now\<rparr>) (groups d)\<rparr>)"

definition pg_ReplaceGroupMembers :: "uuid \<Rightarrow> uuid list \<Rightarrow> db \<Rightarrow> unit store_result" where
  "pg_ReplaceGroupMembers groupID memberIDs d =
     (case insert_members groupID memberIDs
             (d\<lparr>members := sql_delete (\<lambda>m. m_GroupID m = groupID) (members d)\<rparr>) of
        None \<Rightarrow> (Inl ErrDB, d)
      | Some d' \<Rightarrow> (Inr (), d'))"

definition pg_AddGroupMember :: "uuid \<Rightarrow> uuid \<Rightarrow> db \<Rightarrow> unit store_result" where
  "pg_AddGroupMember groupID userID d =
     (case insert_member groupID userID d of None \<Rightarrow> (Inl ErrDB, d) | Some d' \<Rightarrow> (Inr (), d'))"

definition pg_RemoveGroupMember :: "uuid \<Rightarrow> uuid \<Rightarrow> db \<Rightarrow> unit store_result" where
  "pg_RemoveGroupMember groupID userID d =
     (Inr (), d\<lparr>members := sql_delete (\<lambda>m. m_GroupID m = groupID \<and> m_UserID m = userID) (members d)\<rparr>)"

definition pg_DeleteGroup :: "uuid \<Rightarrow> db \<Rightarrow> unit store_result" where
  "pg_DeleteGroup gid d = (Inr (), delete_group_row gid d)"

subsection \<open>Device grants\<close>

definition pg_CreateDeviceGrant :: "time \<Rightarrow> uuid \<Rightarrow> DeviceGrant \<Rightarrow> db \<Rightarrow> uuid store_result" where
  "pg_CreateDeviceGrant now fresh g d =
     (let row = \<lparr>d_ID = (if d_ID g = uuid_nil then fresh else d_ID g),
                 d_DeviceCodeHash = d_DeviceCodeHash g, d_UserCodeHash = d_UserCodeHash g,
                 d_ClientID = d_ClientID g,
                 d_Scopes = Fields (Join CHR '' '' (d_Scopes g)),
                 d_Status = d_Status g, d_UserID = None, d_MFAVerified = False,
                 d_MFAVerifiedAt = None, d_ApproverIP = '''',
                 d_IntervalSec = (if d_IntervalSec g = 0 then 5 else d_IntervalSec g),
                 d_LastPolledAt = None, d_CreatedAt = micro now,
                 d_ExpiresAt = micro (d_ExpiresAt g)\<rparr> in
      insert_outcome (uniq_device_grants (device_grants d @ [row])) ErrConflict
        (d_ClientID g \<in> client_ids d) (d_ID row)
        d (d\<lparr>device_grants := device_grants d @ [row]\<rparr>))"

definition pg_GetDeviceGrantByDeviceCodeHash :: "string \<Rightarrow> db \<Rightarrow> DeviceGrant store_result" where
  "pg_GetDeviceGrantByDeviceCodeHash hash d =
     (select_row (\<lambda>g. d_DeviceCodeHash g = hash) (device_grants d), d)"

definition pg_GetDeviceGrantByUserCodeHash :: "string \<Rightarrow> db \<Rightarrow> DeviceGrant store_result" where
  "pg_GetDeviceGrantByUserCodeHash hash d =
     (select_row (\<lambda>g. d_UserCodeHash g = hash) (device_grants d), d)"

definition pg_MarkDeviceGrantApproved ::
  "uuid \<Rightarrow> uuid \<Rightarrow> bool \<Rightarrow> time option \<Rightarrow> string \<Rightarrow> db \<Rightarrow> unit store_result" where
  "pg_MarkDeviceGrantApproved gid userID mfaVerified mfaVerifiedAt approverIP d =
     (if list_ex (device_hit gid DeviceGrantStatusPending) (device_grants d) \<and> userID \<notin> user_ids d
      then (Inl ErrDB, d)
      else device_transition gid DeviceGrantStatusPending
        (\<lambda>g. g\<lparr>d_Status := DeviceGrantStatusApproved, d_UserID := Some userID,
               d_MFAVerified := mfaVerified, d_MFAVerifiedAt := map_option micro mfaVerifiedAt,
               d_ApproverIP := approverIP\<rparr>) d)"

definition pg_MarkDeviceGrantDenied :: "uuid \<Rightarrow> string \<Rightarrow> db \<Rightarrow> unit store_result" where
  "pg_MarkDeviceGrantDenied gid approverIP =
     device_transition gid DeviceGrantStatusPending
       (\<lambda>g. g\<lparr>d_Status := DeviceGrantStatusDenied, d_ApproverIP := approverIP\<rparr>)"

definition pg_MarkDeviceGrantRedeemed :: "uuid \<Rightarrow> db \<Rightarrow> unit store_result" where
  "pg_MarkDeviceGrantRedeemed gid =
     device_transition gid DeviceGrantStatusApproved
       (\<lambda>g. g\<lparr>d_Status := DeviceGrantStatusRedeemed\<rparr>)"

definition pg_UpdateDeviceGrantPoll :: "uuid \<Rightarrow> time \<Rightarrow> int \<Rightarrow> db \<Rightarrow> unit store_result" where
  "pg_UpdateDeviceGrantPoll gid now intervalSec d =
     (Inr (), d\<lparr>device_grants := sql_update (\<lambda>g. d_ID g = gid)
        (\<lambda>g. g\<lparr>d_LastPolledAt := Some (micro now), d_IntervalSec := intervalSec\<rparr>) (device_grants d)\<rparr>)"

definition pg_DeleteExpiredDeviceGrants :: "time \<Rightarrow> db \<Rightarrow> nat store_result" where
  "pg_DeleteExpiredDeviceGrants now d =
     (let old = (\<lambda>g. d_ExpiresAt g < micro now) in
      (Inr (rows_affected old (device_grants d)),
       d\<lparr>device_grants := sql_delete old (device_grants d)\<rparr>))"

end
