(* ===== verification/Pg_MFA.thy ===== *)
theory Pg_MFA
  imports Pg_Clients
begin

text \<open>
  The remaining PostgreSQL stores: MFA credentials (\<open>postgres_mfa.go\<close>), signing keys (\<open>postgres_signingkeys.go\<close>), external
  identifiers (\<open>postgres_external_ids.go\<close>), integrations (\<open>postgres_integrations.go\<close>) and the AWS federation
  catalogue (\<open>postgres_awsfed.go\<close>). The inserts of the last two return the row the database made, so a creation time the
  caller filled in is replaced.
\<close>

subsection \<open>TOTP and WebAuthn\<close>

definition pg_CreateTOTPCredential :: "time \<Rightarrow> TOTPCredential \<Rightarrow> db \<Rightarrow> unit store_result" where
  "pg_CreateTOTPCredential now c d =
     (let row = c\<lparr>t_CreatedAt := micro now\<rparr> in
      insert_outcome (uniq_totps (totps d @ [row])) ErrConflict (t_UserID c \<in> user_ids d) ()
        d (d\<lparr>totps := totps d @ [row]\<rparr>))"

definition pg_GetTOTPByUserID :: "uuid \<Rightarrow> db \<Rightarrow> TOTPCredential store_result" where
  "pg_GetTOTPByUserID userID d = (select_row (\<lambda>c. t_UserID c = userID) (totps d), d)"

definition pg_EnableTOTP :: "uuid \<Rightarrow> db \<Rightarrow> unit store_result" where
  "pg_EnableTOTP tid d =
     (Inr (), d\<lparr>totps := sql_update (\<lambda>c. t_ID c = tid) (\<lambda>c. c\<lparr>t_Enabled := True\<rparr>) (totps d)\<rparr>)"

definition pg_DeleteTOTP :: "uuid \<Rightarrow> db \<Rightarrow> unit store_result" where
  "pg_DeleteTOTP userID d = (Inr (), d\<lparr>totps := sql_delete (\<lambda>c. t_UserID c = userID) (totps d)\<rparr>)"

definition pg_CreateWebAuthnCredential :: "time \<Rightarrow> WebAuthnCredential \<Rightarrow> db \<Rightarrow> unit store_result" where
  "pg_CreateWebAuthnCredential now c d =
     (let row = c\<lparr>wc_CreatedAt := micro now, wc_LastUsedAt := micro now\<rparr> in
      insert_outcome (uniq_webauthns (webauthns d @ [row])) ErrConflict (wc_UserID c \<in> user_ids d) ()
        d (d\<lparr>webauthns := webauthns d @ [row]\<rparr>))"

definition pg_ListWebAuthnCredentials :: "uuid \<Rightarrow> db \<Rightarrow> WebAuthnCredential list store_result" where
  "pg_ListWebAuthnCredentials userID d =
     (Inr (sort_key wc_CreatedAt (filter (\<lambda>c. wc_UserID c = userID) (webauthns d))), d)"

definition pg_UpdateWebAuthnCredentialUse ::
  "uuid \<Rightarrow> nat \<Rightarrow> bool \<Rightarrow> bool \<Rightarrow> time \<Rightarrow> db \<Rightarrow> unit store_result" where
  "pg_UpdateWebAuthnCredentialUse wid signCount backupEligible backupState lastUsed d =
     (Inr (), d\<lparr>webauthns := sql_update (\<lambda>c. wc_ID c = wid)
        (\<lambda>c. c\<lparr>wc_SignCount := signCount, wc_BackupEligible := Some backupEligible,
               wc_BackupState := backupState, wc_LastUsedAt := micro lastUsed\<rparr>) (webauthns d)\<rparr>)"

definition pg_DeleteWebAuthnCredential :: "uuid \<Rightarrow> uuid \<Rightarrow> db \<Rightarrow> unit store_result" where
  "pg_DeleteWebAuthnCredential wid userID d =
     (Inr (), d\<lparr>webauthns := sql_delete (\<lambda>c. wc_ID c = wid \<and> wc_UserID c = userID) (webauthns d)\<rparr>)"

definition pg_CreateWebAuthnSession ::
  "time \<Rightarrow> uuid \<Rightarrow> uuid \<Rightarrow> bytes \<Rightarrow> string \<Rightarrow> db \<Rightarrow> uuid store_result" where
  "pg_CreateWebAuthnSession now wid userID data purpose d =
     (let row = \<lparr>ws_ID = wid, ws_UserID = userID, ws_Data = data, ws_Purpose = purpose,
                 ws_ExpiresAt = micro now + 5 * minute\<rparr> in
      insert_outcome (distinct (map ws_ID (wa_sessions d @ [row]))) ErrDB (userID \<in> user_ids d) wid
        d (d\<lparr>wa_sessions := wa_sessions d @ [row]\<rparr>))"

definition pg_GetWebAuthnSession :: "time \<Rightarrow> uuid \<Rightarrow> uuid \<Rightarrow> string \<Rightarrow> db \<Rightarrow> bytes store_result" where
  "pg_GetWebAuthnSession now wid userID purpose d =
     (case select_row (\<lambda>s. ws_ID s = wid \<and> ws_UserID s = userID \<and> ws_Purpose s = purpose
             \<and> ws_ExpiresAt s > micro now) (wa_sessions d) of
        Inl e \<Rightarrow> Inl e
      | Inr s \<Rightarrow> Inr (ws_Data s), d)"

definition pg_DeleteWebAuthnSession :: "uuid \<Rightarrow> db \<Rightarrow> unit store_result" where
  "pg_DeleteWebAuthnSession wid d =
     (Inr (), d\<lparr>wa_sessions := sql_delete (\<lambda>s. ws_ID s = wid) (wa_sessions d)\<rparr>)"

subsection \<open>Signing keys\<close>

definition pg_CreateSigningKey :: "time \<Rightarrow> SigningKey \<Rightarrow> db \<Rightarrow> unit store_result" where
  "pg_CreateSigningKey now k d =
     (let row = k\<lparr>k_CreatedAt := micro now\<rparr> in
      insert_outcome (distinct (map k_ID (signing_keys d @ [row])) \<and> distinct (map k_KID (signing_keys d @ [row])))
        ErrDB True () d (d\<lparr>signing_keys := signing_keys d @ [row]\<rparr>))"

definition pg_ListActiveSigningKeys :: "db \<Rightarrow> SigningKey list store_result" where
  "pg_ListActiveSigningKeys d =
     (Inr (sort_key (\<lambda>k. - k_CreatedAt k) (filter k_Active (signing_keys d))), d)"

definition pg_GetActiveSigningKey :: "db \<Rightarrow> SigningKey store_result" where
  "pg_GetActiveSigningKey d =
     (case sort_key (\<lambda>k. - k_CreatedAt k) (filter k_Active (signing_keys d)) of
        [] \<Rightarrow> Inl ErrNotFound
      | k # ks \<Rightarrow> Inr k, d)"

definition pg_DeactivateSigningKey :: "uuid \<Rightarrow> db \<Rightarrow> unit store_result" where
  "pg_DeactivateSigningKey kid d =
     (Inr (), d\<lparr>signing_keys := sql_update (\<lambda>k. k_ID k = kid) (\<lambda>k. k\<lparr>k_Active := False\<rparr>) (signing_keys d)\<rparr>)"

subsection \<open>External identifiers\<close>

definition pg_GetExternalID :: "string \<Rightarrow> uuid \<Rightarrow> db \<Rightarrow> string store_result" where
  "pg_GetExternalID provider userID d =
     (case select_row (ext_hit provider userID) (ext_ids d) of
        Inl e \<Rightarrow> Inl e
      | Inr x \<Rightarrow> Inr (e_ExternalID x), d)"

definition pg_SetExternalID :: "string \<Rightarrow> uuid \<Rightarrow> string \<Rightarrow> db \<Rightarrow> unit store_result" where
  "pg_SetExternalID provider userID externalID d =
     (if list_ex (ext_hit provider userID) (ext_ids d)
      then (Inr (), d\<lparr>ext_ids := sql_update (ext_hit provider userID)
             (\<lambda>e. e\<lparr>e_ExternalID := externalID\<rparr>) (ext_ids d)\<rparr>)
      else if userID \<in> user_ids d
      then (Inr (), d\<lparr>ext_ids := ext_ids d @
             [\<lparr>e_Provider = provider, e_UserID = userID, e_ExternalID = externalID\<rparr>]\<rparr>)
      else (Inl ErrDB, d))"

definition pg_DeleteExternalID :: "string \<Rightarrow> uuid \<Rightarrow> db \<Rightarrow> unit store_result" where
  "pg_DeleteExternalID provider userID d =
     (Inr (), d\<lparr>ext_ids := sql_delete (ext_hit provider userID) (ext_ids d)\<rparr>)"

subsection \<open>Integrations\<close>

definition pg_CreateIntegration :: "time \<Rightarrow> uuid \<Rightarrow> AppIntegration \<Rightarrow> db \<Rightarrow> AppIntegration store_result" where
  "pg_CreateIntegration now fresh i d =
     (let row = i\<lparr>i_ID := (if i_ID i = uuid_nil then fresh else i_ID i),
                  i_CreatedAt := micro now,
                  i_UpdatedAt := micro now\<rparr> in
      insert_outcome (distinct (map i_ID (integrations d @ [row])) \<and> distinct (map i_Name (integrations d @ [row])))
        ErrConflict True row d (d\<lparr>integrations := integrations d @ [row]\<rparr>))"

definition pg_GetIntegration :: "uuid \<Rightarrow> db \<Rightarrow> AppIntegration store_result" where
  "pg_GetIntegration iid d = (select_row (\<lambda>i. i_ID i = iid) (integrations d), d)"

definition pg_GetIntegrationByName :: "string \<Rightarrow> db \<Rightarrow> AppIntegration store_result" where
  "pg_GetIntegrationByName name d = (select_row (\<lambda>i. i_Name i = name) (integrations d), d)"

definition pg_ListIntegrations :: "db \<Rightarrow> AppIntegration list store_result" where
  "pg_ListIntegrations d = (Inr (sort_key i_CreatedAt (integrations d)), d)"

definition pg_ListEnabledIntegrations :: "db \<Rightarrow> AppIntegration list store_result" where
  "pg_ListEnabledIntegrations d = (Inr (sort_key i_CreatedAt (filter i_Enabled (integrations d))), d)"

definition pg_UpdateIntegration :: "time \<Rightarrow> AppIntegration \<Rightarrow> db \<Rightarrow> unit store_result" where
  "pg_UpdateIntegration now i d =
     (let hit = (\<lambda>r. i_ID r = i_ID i);
          t = sql_update hit (\<lambda>r. r\<lparr>i_Name := i_Name i, i_Provider := i_Provider i,
                i_Enabled := i_Enabled i, i_Config := i_Config i,
                i_EncryptedToken := i_EncryptedToken i, i_EncryptedDEK := i_EncryptedDEK i,
                i_UpdatedAt := micro now\<rparr>) (integrations d) in
      if \<not> distinct (map i_Name t) then (Inl ErrConflict, d)
      else (requireOneRow (rows_affected hit (integrations d)), d\<lparr>integrations := t\<rparr>))"

definition pg_DeleteIntegration :: "uuid \<Rightarrow> db \<Rightarrow> unit store_result" where
  "pg_DeleteIntegration iid d =
     (requireOneRow (rows_affected (\<lambda>i. i_ID i = iid) (integrations d)),
      d\<lparr>integrations := sql_delete (\<lambda>i. i_ID i = iid) (integrations d)\<rparr>)"

subsection \<open>The AWS federation catalogue\<close>

definition pg_CreateAWSAccount :: "time \<Rightarrow> uuid \<Rightarrow> AWSAccount \<Rightarrow> db \<Rightarrow> AWSAccount store_result" where
  "pg_CreateAWSAccount now fresh a d =
     (let row = a\<lparr>aa_ID := (if aa_ID a = uuid_nil then fresh else aa_ID a),
                  aa_CreatedAt := micro now,
                  aa_UpdatedAt := micro now\<rparr> in
      insert_outcome (distinct (map aa_ID (aws_accounts d @ [row]))
          \<and> distinct (map aa_AccountID (aws_accounts d @ [row])))
        ErrConflict True row d (d\<lparr>aws_accounts := aws_accounts d @ [row]\<rparr>))"

definition pg_GetAWSAccount :: "uuid \<Rightarrow> db \<Rightarrow> AWSAccount store_result" where
  "pg_GetAWSAccount aid d = (select_row (\<lambda>a. aa_ID a = aid) (aws_accounts d), d)"

definition pg_ListAWSAccounts :: "(string \<Rightarrow> string \<Rightarrow> bool) \<Rightarrow> db \<Rightarrow> AWSAccount list store_result" where
  "pg_ListAWSAccounts coll d =
     (Inr (sort_by (\<lambda>a b. coll (aa_AccountID a) (aa_AccountID b)) (aws_accounts d)), d)"

definition pg_UpdateAWSAccount :: "time \<Rightarrow> AWSAccount \<Rightarrow> db \<Rightarrow> unit store_result" where
  "pg_UpdateAWSAccount now a d =
     (let hit = (\<lambda>r. aa_ID r = aa_ID a);
          t = sql_update hit (\<lambda>r. r\<lparr>aa_AccountID := aa_AccountID a, aa_Alias := aa_Alias a,
                aa_OIDCProviderARN := aa_OIDCProviderARN a, aa_UpdatedAt := micro now\<rparr>) (aws_accounts d) in
      if \<not> distinct (map aa_AccountID t) then (Inl ErrConflict, d)
      else (requireOneRow (rows_affected hit (aws_accounts d)), d\<lparr>aws_accounts := t\<rparr>))"

definition pg_DeleteAWSAccount :: "uuid \<Rightarrow> db \<Rightarrow> unit store_result" where
  "pg_DeleteAWSAccount aid d =
     (requireOneRow (rows_affected (\<lambda>a. aa_ID a = aid) (aws_accounts d)), delete_account_row aid d)"

definition pg_CreateAWSRole :: "time \<Rightarrow> uuid \<Rightarrow> AWSRole \<Rightarrow> db \<Rightarrow> AWSRole store_result" where
  "pg_CreateAWSRole now fresh r d =
     (let row = r\<lparr>ar_ID := (if ar_ID r = uuid_nil then fresh else ar_ID r),
                  ar_MaxSessionDurationSec :=
                    (if ar_MaxSessionDurationSec r = 0 then 3600 else ar_MaxSessionDurationSec r),
                  ar_CreatedAt := micro now,
                  ar_UpdatedAt := micro now,
                  ar_AllowedRegions := DecodeRegions (EncodeRegions (ar_AllowedRegions r))\<rparr> in
      insert_outcome (distinct (map ar_ID (aws_roles d @ [row]))
          \<and> distinct (map ar_RoleARN (aws_roles d @ [row])))
        ErrConflict (ar_AccountID r \<in> account_ids d) row
        d (d\<lparr>aws_roles := aws_roles d @ [row]\<rparr>))"

definition pg_GetAWSRole :: "uuid \<Rightarrow> db \<Rightarrow> AWSRole store_result" where
  "pg_GetAWSRole rid d = (select_row (\<lambda>r. ar_ID r = rid) (aws_roles d), d)"

definition pg_ListAWSRoles :: "(string \<Rightarrow> string \<Rightarrow> bool) \<Rightarrow> db \<Rightarrow> AWSRole list store_result" where
  "pg_ListAWSRoles coll d =
     (Inr (sort_by (\<lambda>a b. coll (ar_DisplayName a) (ar_DisplayName b)) (aws_roles d)), d)"

definition pg_UpdateAWSRole :: "time \<Rightarrow> AWSRole \<Rightarrow> db \<Rightarrow> unit store_result" where
  "pg_UpdateAWSRole now r d =
     (let hit = (\<lambda>x. ar_ID x = ar_ID r);
          t = sql_update hit (\<lambda>x. x\<lparr>ar_RoleARN := ar_RoleARN r, ar_Slug := ar_Slug r,
                ar_DisplayName := ar_DisplayName r, ar_RequireStepUpMFA := ar_RequireStepUpMFA r,
                ar_MaxSessionDurationSec := ar_MaxSessionDurationSec r,
                ar_AllowedRegions := DecodeRegions (EncodeRegions (ar_AllowedRegions r)),
                ar_UpdatedAt := micro now\<rparr>) (aws_roles d) in
      if \<not> distinct (map ar_RoleARN t) then (Inl ErrConflict, d)
      else (requireOneRow (rows_affected hit (aws_roles d)), d\<lparr>aws_roles := t\<rparr>))"

definition pg_DeleteAWSRole :: "uuid \<Rightarrow> db \<Rightarrow> unit store_result" where
  "pg_DeleteAWSRole rid d =
     (requireOneRow (rows_affected (\<lambda>r. ar_ID r = rid) (aws_roles d)),
      delete_roles (\<lambda>r. ar_ID r = rid) d)"

definition pg_CreateAWSRoleAssignment ::
  "time \<Rightarrow> uuid \<Rightarrow> AWSRoleAssignment \<Rightarrow> db \<Rightarrow> AWSRoleAssignment store_result" where
  "pg_CreateAWSRoleAssignment now fresh a d =
     (let row = a\<lparr>as_ID := (if as_ID a = uuid_nil then fresh else as_ID a),
                  as_CreatedAt := micro now\<rparr> in
      insert_outcome (distinct (map as_ID (aws_assignments d @ [row]))
          \<and> distinct (map (\<lambda>x. (as_GroupID x, as_RoleID x)) (aws_assignments d @ [row])))
        ErrConflict (as_GroupID a \<in> group_ids d \<and> as_RoleID a \<in> role_ids d) row
        d (d\<lparr>aws_assignments := aws_assignments d @ [row]\<rparr>))"

definition pg_ListAWSRoleAssignments :: "db \<Rightarrow> AWSRoleAssignment list store_result" where
  "pg_ListAWSRoleAssignments d = (Inr (sort_key as_CreatedAt (aws_assignments d)), d)"

definition pg_ListAWSRolesForUser :: "(string \<Rightarrow> string \<Rightarrow> bool) \<Rightarrow> uuid \<Rightarrow> db \<Rightarrow> AWSRole list store_result" where
  "pg_ListAWSRolesForUser coll userID d =
     (Inr (sort_by (\<lambda>a b. coll (ar_DisplayName a) (ar_DisplayName b))
        (filter (role_assigned_to userID d) (aws_roles d))), d)"

definition pg_DeleteAWSRoleAssignment :: "uuid \<Rightarrow> db \<Rightarrow> unit store_result" where
  "pg_DeleteAWSRoleAssignment aid d =
     (requireOneRow (rows_affected (\<lambda>a. as_ID a = aid) (aws_assignments d)),
      d\<lparr>aws_assignments := sql_delete (\<lambda>a. as_ID a = aid) (aws_assignments d)\<rparr>)"

definition pg_AddAWSRevokedUser :: "time \<Rightarrow> uuid \<Rightarrow> string \<Rightarrow> db \<Rightarrow> unit store_result" where
  "pg_AddAWSRevokedUser now roleID subUUID d =
     (if list_ex (revoked_hit roleID subUUID) (aws_revoked d)
      then (Inr (), d\<lparr>aws_revoked := sql_update (revoked_hit roleID subUUID)
             (\<lambda>v. v\<lparr>rv_RevokedAt := micro now\<rparr>) (aws_revoked d)\<rparr>)
      else if roleID \<in> role_ids d
      then (Inr (), d\<lparr>aws_revoked := aws_revoked d @
             [\<lparr>rv_RoleID = roleID, rv_SubUUID = subUUID, rv_RevokedAt = micro now\<rparr>]\<rparr>)
      else (Inl ErrDB, d))"

definition pg_ListAWSRevokedUsers :: "uuid \<Rightarrow> db \<Rightarrow> AWSRevokedUser list store_result" where
  "pg_ListAWSRevokedUsers roleID d =
     (Inr (sort_key rv_RevokedAt (filter (\<lambda>v. rv_RoleID v = roleID) (aws_revoked d))), d)"

definition pg_ListAWSRevokedUsersOlderThan :: "time \<Rightarrow> db \<Rightarrow> AWSRevokedUser list store_result" where
  "pg_ListAWSRevokedUsersOlderThan cutoff d =
     (Inr (sort_key rv_RevokedAt (filter (\<lambda>v. rv_RevokedAt v < micro cutoff) (aws_revoked d))), d)"

definition pg_DeleteAWSRevokedUser :: "uuid \<Rightarrow> string \<Rightarrow> db \<Rightarrow> unit store_result" where
  "pg_DeleteAWSRevokedUser roleID subUUID d =
     (Inr (), d\<lparr>aws_revoked := sql_delete (revoked_hit roleID subUUID) (aws_revoked d)\<rparr>)"

end
