(* ===== verification/Backends.thy ===== *)
theory Backends
  imports Pg_MFA One_Shot Example
begin

text \<open>
  The two storage backends against each other and against the contract the server relies on: on whole seconds every
  PostgreSQL method is the SQLite method, and the single-use contract \<open>one_shot\<close> holds for both, so what is
  proved of the handlers over SQLite's methods carries over.
\<close>

subsection \<open>Agreement\<close>

definition whole :: "time \<Rightarrow> bool" where "whole t \<longleftrightarrow> t mod second = 0"

lemma whole_times [simp]: "whole t \<Longrightarrow> micro t = t" "whole t \<Longrightarrow> current_timestamp t = t"
proof -
  show "current_timestamp t = t" if "whole t"
    using that mult_div_mod_eq [of second t] by (simp add: whole_def current_timestamp_def mult.commute)
  show "micro t = t" if "whole t"
  proof -
    have "second dvd t" using that by (simp add: whole_def dvd_eq_mod_eq_0)
    then have "1000 dvd t" by (rule dvd_trans [rotated]) (simp add: second_def)
    then show ?thesis by (simp add: micro_def)
  qed
qed

lemma whole_option [simp]: "pred_option whole x \<Longrightarrow> map_option micro x = x"
  by (cases x) simp_all

text \<open>Methods that neither read the clock nor store a time are the same on both backends.\<close>

lemma timeless_users:
  "pg_GetUserByID = GetUserByID" "pg_GetUserByEmail = GetUserByEmail" "pg_CountUsers = CountUsers" "pg_ListUsers = ListUsers"
  "pg_DeleteUser = DeleteUser" "pg_GetGrantByCodeHash = GetGrantByCodeHash"
  "pg_GetSessionByAccessTokenHash = GetSessionByAccessTokenHash" "pg_GetSessionByRefreshTokenHash = GetSessionByRefreshTokenHash"
  "pg_GetSessionByRetiredRefreshTokenHash = GetSessionByRetiredRefreshTokenHash" "pg_DeleteSession = DeleteSession"
  "pg_DeleteSessionsByUserID = DeleteSessionsByUserID" "pg_ListSessionClientIDsByUser = ListSessionClientIDsByUser"
  by (simp_all add: fun_eq_iff pg_GetUserByID_def pg_GetUserByEmail_def pg_CountUsers_def pg_ListUsers_def pg_DeleteUser_def
      pg_GetGrantByCodeHash_def pg_GetSessionByAccessTokenHash_def pg_GetSessionByRefreshTokenHash_def
      pg_GetSessionByRetiredRefreshTokenHash_def pg_DeleteSession_def pg_DeleteSessionsByUserID_def pg_ListSessionClientIDsByUser_def store_defs)

lemma pg_groupMembers_eq: "pg_groupMembers = groupMembers"
  by (simp add: fun_eq_iff pg_groupMembers_def groupMembers_def)

lemma pg_GetGroupByID_eq: "pg_GetGroupByID = GetGroupByID"
  by (simp add: fun_eq_iff pg_GetGroupByID_def GetGroupByID_def pg_groupMembers_eq split: sum.splits)

lemma timeless_clients:
  "pg_GetClientByID = GetClientByID" "pg_GetClientByClientID = GetClientByClientID" "pg_ListClients = ListClients"
  "pg_UpdateClient = UpdateClient" "pg_UpdateClientDeviceGrant = UpdateClientDeviceGrant" "pg_DeleteClient = DeleteClient"
  "pg_UpdateClientPortalConfig = UpdateClientPortalConfig" "pg_ListClientVisibility = ListClientVisibility"
  "pg_ListGroups = ListGroups"
  "pg_ReplaceGroupMembers = ReplaceGroupMembers" "pg_AddGroupMember = AddGroupMember" "pg_RemoveGroupMember = RemoveGroupMember"
  "pg_DeleteGroup = DeleteGroup" "pg_GetDeviceGrantByDeviceCodeHash = GetDeviceGrantByDeviceCodeHash"
  "pg_GetDeviceGrantByUserCodeHash = GetDeviceGrantByUserCodeHash" "pg_MarkDeviceGrantDenied = MarkDeviceGrantDenied"
  "pg_MarkDeviceGrantRedeemed = MarkDeviceGrantRedeemed"
  by (simp_all add: fun_eq_iff pg_GetClientByID_def pg_GetClientByClientID_def pg_ListClients_def pg_UpdateClient_def
      pg_UpdateClientDeviceGrant_def pg_DeleteClient_def pg_UpdateClientPortalConfig_def pg_ListClientVisibility_def
      pg_groupMembers_eq pg_ListGroups_def pg_ReplaceGroupMembers_def pg_AddGroupMember_def
      pg_RemoveGroupMember_def pg_DeleteGroup_def pg_GetDeviceGrantByDeviceCodeHash_def pg_GetDeviceGrantByUserCodeHash_def
      pg_MarkDeviceGrantDenied_def pg_MarkDeviceGrantRedeemed_def store_defs)

lemma timeless_rest:
  "pg_GetTOTPByUserID = GetTOTPByUserID" "pg_EnableTOTP = EnableTOTP" "pg_DeleteTOTP = DeleteTOTP"
  "pg_ListWebAuthnCredentials = ListWebAuthnCredentials" "pg_DeleteWebAuthnCredential = DeleteWebAuthnCredential"
  "pg_DeleteWebAuthnSession = DeleteWebAuthnSession" "pg_ListActiveSigningKeys = ListActiveSigningKeys"
  "pg_GetActiveSigningKey = GetActiveSigningKey" "pg_DeactivateSigningKey = DeactivateSigningKey"
  "pg_GetExternalID = GetExternalID" "pg_SetExternalID = SetExternalID" "pg_DeleteExternalID = DeleteExternalID"
  "pg_GetIntegration = GetIntegration" "pg_GetIntegrationByName = GetIntegrationByName" "pg_ListIntegrations = ListIntegrations"
  "pg_ListEnabledIntegrations = ListEnabledIntegrations" "pg_DeleteIntegration = DeleteIntegration"
  "pg_GetAWSAccount = GetAWSAccount" "pg_DeleteAWSAccount = DeleteAWSAccount" "pg_GetAWSRole = GetAWSRole" "pg_DeleteAWSRole = DeleteAWSRole"
  "pg_ListAWSRoleAssignments = ListAWSRoleAssignments" "pg_DeleteAWSRoleAssignment = DeleteAWSRoleAssignment"
  "pg_ListAWSRevokedUsers = ListAWSRevokedUsers" "pg_DeleteAWSRevokedUser = DeleteAWSRevokedUser"
  by (simp_all add: fun_eq_iff pg_GetTOTPByUserID_def pg_EnableTOTP_def pg_DeleteTOTP_def pg_ListWebAuthnCredentials_def
      pg_DeleteWebAuthnCredential_def pg_DeleteWebAuthnSession_def pg_ListActiveSigningKeys_def pg_GetActiveSigningKey_def
      pg_DeactivateSigningKey_def pg_GetExternalID_def pg_SetExternalID_def pg_DeleteExternalID_def pg_GetIntegration_def
      pg_GetIntegrationByName_def pg_ListIntegrations_def pg_ListEnabledIntegrations_def pg_DeleteIntegration_def pg_GetAWSAccount_def
      pg_DeleteAWSAccount_def pg_GetAWSRole_def pg_DeleteAWSRole_def pg_ListAWSRoleAssignments_def pg_DeleteAWSRoleAssignment_def
      pg_ListAWSRevokedUsers_def pg_DeleteAWSRevokedUser_def
      GetTOTPByUserID_def EnableTOTP_def DeleteTOTP_def ListWebAuthnCredentials_def
      DeleteWebAuthnCredential_def DeleteWebAuthnSession_def ListActiveSigningKeys_def GetActiveSigningKey_def
      DeactivateSigningKey_def GetExternalID_def SetExternalID_def DeleteExternalID_def GetIntegration_def
      GetIntegrationByName_def ListIntegrations_def ListEnabledIntegrations_def DeleteIntegration_def GetAWSAccount_def
      DeleteAWSAccount_def GetAWSRole_def DeleteAWSRole_def ListAWSRoleAssignments_def DeleteAWSRoleAssignment_def
      ListAWSRevokedUsers_def DeleteAWSRevokedUser_def)

lemma agree_users:
  assumes "whole now"
  shows "pg_CreateUser now = CreateUser now" "pg_UpdateUser now = UpdateUser now" "pg_UpdateUserPassword now = UpdateUserPassword now"
    "pg_SetUserMustChangePassword now = SetUserMustChangePassword now" "pg_UpdateUserMFAEnabled now = UpdateUserMFAEnabled now"
    "pred_option whole lu \<Longrightarrow> pg_UpdateUserFailedAttempts now uid n lu = UpdateUserFailedAttempts now uid n lu"
    "pg_SetUserActive now = SetUserActive now" "pg_SetUserSCIMExternalID now = SetUserSCIMExternalID now" "pg_SetUserAdmin now = SetUserAdmin now"
    "pg_MarkGrantUsed now = MarkGrantUsed now" "pg_DeleteExpiredGrants now = DeleteExpiredGrants now" "pg_DeleteExpiredSessions now = DeleteExpiredSessions now"
  using assms
  by (simp_all add: fun_eq_iff pg_CreateUser_def pg_UpdateUser_def pg_UpdateUserPassword_def pg_SetUserMustChangePassword_def
      pg_UpdateUserMFAEnabled_def pg_UpdateUserFailedAttempts_def pg_SetUserActive_def pg_SetUserSCIMExternalID_def pg_SetUserAdmin_def
      pg_MarkGrantUsed_def pg_DeleteExpiredGrants_def pg_DeleteExpiredSessions_def store_defs)

definition grant_whole :: "Grant \<Rightarrow> bool" where
  "grant_whole g \<longleftrightarrow> whole (g_ExpiresAt g) \<and> pred_option whole (g_MFAVerifiedAt g) \<and> whole (g_AuthTime g)"

definition session_whole :: "Session \<Rightarrow> bool" where
  "session_whole s \<longleftrightarrow> whole (s_AccessExpiresAt s) \<and> whole (s_RefreshExpiresAt s) \<and> pred_option whole (s_MFAVerifiedAt s) \<and> whole (s_AuthTime s)"

lemma agree_sessions:
  assumes "whole now" "whole t" "whole t'"
  shows "grant_whole g \<Longrightarrow> pg_CreateGrant g = CreateGrant g" "session_whole s \<Longrightarrow> pg_CreateSession now s = CreateSession now s"
    "pg_MarkSessionMFA sid t = MarkSessionMFA sid t" "pg_UpdateSessionActivity sid t = UpdateSessionActivity sid t"
    "pg_ExtendSessionExpiry sid t = ExtendSessionExpiry sid t"
    "pg_RotateRefreshToken sid old na nr t t' = RotateRefreshToken sid old na nr t t'"
  using assms
  by (simp_all add: fun_eq_iff pg_CreateGrant_def pg_CreateSession_def pg_MarkSessionMFA_def pg_UpdateSessionActivity_def
      pg_ExtendSessionExpiry_def pg_RotateRefreshToken_def grant_whole_def session_whole_def store_defs)

lemma agree_visibility: "whole now \<Longrightarrow> pg_insert_visibility now cid rs d = insert_visibility now cid rs d"
  by (induction rs arbitrary: d) (auto simp: Let_def)

lemma agree_clients:
  assumes "whole now" "whole t"
  shows "pg_CreateClient now = CreateClient now" "pg_UpdateClientSecret now = UpdateClientSecret now"
    "pg_ReplaceClientVisibility now = ReplaceClientVisibility now" "pg_ListPortalClientsForUser name_le = ListPortalClientsForUser"
    "pg_CreateGroup now = CreateGroup now" "pg_UpdateGroup now = UpdateGroup now"
    "whole (d_ExpiresAt g) \<Longrightarrow> pg_CreateDeviceGrant now fresh g = CreateDeviceGrant now fresh g"
    "pred_option whole mfaAt \<Longrightarrow> pg_MarkDeviceGrantApproved gid uid b mfaAt ip = MarkDeviceGrantApproved gid uid b mfaAt ip"
    "pg_UpdateDeviceGrantPoll gid t = UpdateDeviceGrantPoll gid t" "pg_DeleteExpiredDeviceGrants now = DeleteExpiredDeviceGrants now"
  using assms
  by (simp_all add: fun_eq_iff pg_CreateClient_def pg_UpdateClientSecret_def pg_ReplaceClientVisibility_def agree_visibility
      pg_ListPortalClientsForUser_def pg_CreateGroup_def pg_UpdateGroup_def pg_CreateDeviceGrant_def pg_MarkDeviceGrantApproved_def
      pg_UpdateDeviceGrantPoll_def pg_DeleteExpiredDeviceGrants_def store_defs)

lemma agree_rest:
  assumes "whole now" "whole t"
  shows "pg_CreateTOTPCredential now = CreateTOTPCredential now" "pg_CreateWebAuthnCredential now = CreateWebAuthnCredential now"
    "pg_UpdateWebAuthnCredentialUse wid n be bs t = UpdateWebAuthnCredentialUse wid n be bs t"
    "pg_CreateWebAuthnSession now = CreateWebAuthnSession now" "pg_GetWebAuthnSession now = GetWebAuthnSession now"
    "pg_CreateSigningKey now = CreateSigningKey now"
    "IsZero (i_CreatedAt i) \<Longrightarrow> pg_CreateIntegration now fresh i = CreateIntegration now fresh i" "pg_UpdateIntegration now = UpdateIntegration now"
  using assms
  by (simp_all add: fun_eq_iff pg_CreateTOTPCredential_def pg_CreateWebAuthnCredential_def pg_UpdateWebAuthnCredentialUse_def
      pg_CreateWebAuthnSession_def pg_GetWebAuthnSession_def pg_CreateSigningKey_def pg_CreateIntegration_def pg_UpdateIntegration_def
      CreateTOTPCredential_def CreateWebAuthnCredential_def UpdateWebAuthnCredentialUse_def
      CreateWebAuthnSession_def GetWebAuthnSession_def CreateSigningKey_def CreateIntegration_def UpdateIntegration_def)

lemma agree_aws:
  assumes "whole now" "whole t"
  shows "IsZero (aa_CreatedAt a) \<Longrightarrow> pg_CreateAWSAccount now fresh a = CreateAWSAccount now fresh a"
    "pg_UpdateAWSAccount now = UpdateAWSAccount now" "pg_ListAWSAccounts name_le = ListAWSAccounts"
    "IsZero (ar_CreatedAt r) \<Longrightarrow> snd (pg_CreateAWSRole now fresh r d) = snd (CreateAWSRole now fresh r d)"
    "pg_UpdateAWSRole now = UpdateAWSRole now" "pg_ListAWSRoles name_le = ListAWSRoles" "pg_ListAWSRolesForUser name_le = ListAWSRolesForUser"
    "IsZero (as_CreatedAt x) \<Longrightarrow> pg_CreateAWSRoleAssignment now fresh x = CreateAWSRoleAssignment now fresh x"
    "pg_AddAWSRevokedUser now = AddAWSRevokedUser now" "pg_ListAWSRevokedUsersOlderThan t = ListAWSRevokedUsersOlderThan t"
  using assms
  by (simp_all add: fun_eq_iff pg_CreateAWSAccount_def pg_UpdateAWSAccount_def pg_ListAWSAccounts_def pg_CreateAWSRole_def pg_UpdateAWSRole_def
      pg_ListAWSRoles_def pg_ListAWSRolesForUser_def pg_CreateAWSRoleAssignment_def pg_AddAWSRevokedUser_def pg_ListAWSRevokedUsersOlderThan_def
      CreateAWSAccount_def UpdateAWSAccount_def ListAWSAccounts_def CreateAWSRole_def UpdateAWSRole_def insert_outcome_def
      ListAWSRoles_def ListAWSRolesForUser_def CreateAWSRoleAssignment_def AddAWSRevokedUser_def ListAWSRevokedUsersOlderThan_def Let_def)

lemmas timeless = timeless_users timeless_clients timeless_rest pg_groupMembers_eq pg_GetGroupByID_eq

subsection \<open>The single-use contract\<close>

interpretation pg_code: one_shot "\<lambda>gid now. pg_MarkGrantUsed now gid" code_spent "\<lambda>gid now. True"
proof
  fix gid now d j
  show "fst (pg_MarkGrantUsed now gid d) = Inr () \<Longrightarrow> \<not> code_spent gid d"
    by (simp add: pg_MarkGrantUsed_def requireOneRow_def rows_affected_0 code_spent_def Let_def split: if_splits)
  show "code_spent gid (snd (pg_MarkGrantUsed now gid d))"
    unfolding pg_MarkGrantUsed_def code_spent_def Let_def by simp (rule ball_sql_updateI, simp)
  show "code_spent gid d \<Longrightarrow> code_spent gid (snd (pg_MarkGrantUsed now j d))"
    unfolding pg_MarkGrantUsed_def code_spent_def Let_def by simp (rule ball_sql_updateI, simp)
qed

text \<open>Redeeming a device grant stores no time, so it is the same method; rotating a refresh token is SQLite's rotation
  with deadlines cut to microseconds.\<close>

lemma pg_rotate: "pg_RotateRefreshToken sid old na nr ea er = RotateRefreshToken sid old na nr (micro ea) (micro er)"
  by (simp add: fun_eq_iff pg_RotateRefreshToken_def RotateRefreshToken_def)

definition pg_rotate_token :: "uuid \<times> string \<Rightarrow> rotation \<Rightarrow> db \<Rightarrow> (store_error + unit) \<times> db" where
  "pg_rotate_token = (\<lambda>(sid, old) (na, nr, ea, er). pg_RotateRefreshToken sid old na nr ea er)"

lemma pg_rotate_token_eq: "pg_rotate_token k x = rotate_token k (case x of (na, nr, ea, er) \<Rightarrow> (na, nr, micro ea, micro er))"
  by (simp add: pg_rotate_token_def rotate_token_def pg_rotate split: prod.splits)

lemma new_hash_micro: "new_hash k (case x of (na, nr, ea, er) \<Rightarrow> (na, nr, micro ea, micro er)) = new_hash k x"
  by (simp add: new_hash_def split: prod.splits)

interpretation pg_refresh: one_shot pg_rotate_token refresh_spent new_hash
  by unfold_locales
    (simp_all add: pg_rotate_token_eq refresh.wins_unspent refresh.spends refresh.stays_spent new_hash_micro)

subsection \<open>Properties\<close>

text \<open>C3. One-time credentials are one-time on both backends. However the store calls of concurrent requests are ordered, an
  authorization code is claimed at most once, an approved device grant is redeemed at most once, and a refresh
  token is rotated at most once (as long as no rotation brings back the hash of the token in question), with
  SQLite's methods and with PostgreSQL's.\<close>

theorem credentials_single_use:
  assumes "\<forall>c\<in>set rotations. new_hash k (snd c)"
  shows "wins gid (fst (consume_all (\<lambda>i now. MarkGrantUsed now i) takes d)) \<le> 1
    \<and> wins gid (fst (consume_all (\<lambda>i now. pg_MarkGrantUsed now i) takes d)) \<le> 1
    \<and> wins did (fst (consume_all (\<lambda>i (x :: unit). MarkDeviceGrantRedeemed i) polls d)) \<le> 1
    \<and> wins did (fst (consume_all (\<lambda>i (x :: unit). pg_MarkDeviceGrantRedeemed i) polls d)) \<le> 1
    \<and> wins k (fst (consume_all rotate_token rotations d)) \<le> 1
    \<and> wins k (fst (consume_all pg_rotate_token rotations d)) \<le> 1"
  using code.at_most_once [of takes gid d] pg_code.at_most_once [of takes gid d] device.at_most_once [of polls did d]
    refresh.at_most_once [OF assms, of d] pg_refresh.at_most_once [OF assms, of d]
  by (simp add: timeless)

theorem credentials_single_use_witness:
  "wins (40, ''href'') (fst (consume_all pg_rotate_token [((40, ''href''), (''ha1'', ''hr1'', demo_now, demo_now)),
     ((40, ''href''), (''ha2'', ''hr2'', demo_now, demo_now))] demo_db)) \<le> 1"
  using credentials_single_use [of "[((40, ''href''), (''ha1'', ''hr1'', demo_now, demo_now)),
     ((40, ''href''), (''ha2'', ''hr2'', demo_now, demo_now))]" "(40, ''href'')" 0 "[]" demo_db 0 "[]"]
  by (simp add: new_hash_def)


text \<open>Catalogue rows as a handler passes them: the creation time left to the store.\<close>

definition blank_integration :: AppIntegration where
  "blank_integration = \<lparr>i_ID = 0, i_Name = ''app'', i_Provider = ''scim'', i_Enabled = True, i_Config = \<lparr>ic_BaseURL = [], ic_TimeoutMS = 0, ic_AuthMode = []\<rparr>,
     i_EncryptedToken = [], i_EncryptedDEK = [], i_CreatedAt = zero_time, i_UpdatedAt = zero_time\<rparr>"

definition blank_account :: AWSAccount where
  "blank_account = \<lparr>aa_ID = 0, aa_AccountID = ''1'', aa_Alias = [], aa_OIDCProviderARN = ''arn'', aa_CreatedAt = zero_time, aa_UpdatedAt = zero_time\<rparr>"

definition blank_role :: AWSRole where
  "blank_role = \<lparr>ar_ID = 0, ar_AccountID = 1, ar_RoleARN = ''arn'', ar_Slug = ''s'', ar_DisplayName = [], ar_RequireStepUpMFA = False,
     ar_MaxSessionDurationSec = 0, ar_AllowedRegions = [], ar_CreatedAt = zero_time, ar_UpdatedAt = zero_time\<rparr>"

definition blank_device :: DeviceGrant where
  "blank_device = \<lparr>d_ID = 0, d_DeviceCodeHash = ''d'', d_UserCodeHash = ''u'', d_ClientID = 20, d_Scopes = [], d_Status = DeviceGrantStatusPending,
     d_UserID = None, d_MFAVerified = False, d_MFAVerifiedAt = None, d_ApproverIP = [], d_IntervalSec = 5, d_LastPolledAt = None,
     d_CreatedAt = zero_time, d_ExpiresAt = demo_now\<rparr>"


end
