(* ===== verification/Pg_Array.thy ===== *)
theory Pg_Array
  imports Go_Strings
begin

text \<open>
  The \<open>TEXT[]\<close> codec of the PostgreSQL backend (\<open>stringArray\<close> of \<open>postgres.go\<close>): scopes, redirect
  URIs and every other list column goes through \<open>stringArray_Value\<close> on the way in and through
  \<open>stringArray_Scan\<close> on the way out. A string is its list of bytes, and Go's \<open>range\<close> loop
  over it is written out (\<open>rune_width\<close>): an ill-formed byte is read as U+FFFD.

  \<open>array_out\<close> is the form in which the server returns an array. Which elements it puts in quotes
  is a parameter; PostgreSQL documents that the empty string and a string with a
  brace, comma, quote, backslash or white space is always quoted.
\<close>

subsection \<open>Runes\<close>

text \<open>The width of the well-formed UTF-8 sequence a string starts with, \<open>0\<close> when there is none
  (the table of \<open>unicode/utf8\<close>: the second byte of E0, ED, F0, F4 has a narrower range).\<close>

definition cont :: "char \<Rightarrow> bool" where "cont = in_range 0x80 0xBF"

definition accept_second :: "nat \<Rightarrow> char \<Rightarrow> bool" where
  "accept_second n = (if n = 0xE0 then in_range 0xA0 0xBF else if n = 0xED then in_range 0x80 0x9F
     else if n = 0xF0 then in_range 0x90 0xBF else if n = 0xF4 then in_range 0x80 0x8F else cont)"

fun rune_width :: "string \<Rightarrow> nat" where
  "rune_width [] = 0"
| "rune_width (c # s) =
    (let n = char_code c in
     if n < 0x80 then 1
     else if 0xC2 \<le> n \<and> n \<le> 0xDF then (if length s \<ge> 1 \<and> cont (s ! 0) then 2 else 0)
     else if 0xE0 \<le> n \<and> n \<le> 0xEF then
       (if length s \<ge> 2 \<and> accept_second n (s ! 0) \<and> cont (s ! 1) then 3 else 0)
     else if 0xF0 \<le> n \<and> n \<le> 0xF4 then
       (if length s \<ge> 3 \<and> accept_second n (s ! 0) \<and> cont (s ! 1) \<and> cont (s ! 2) then 4 else 0)
     else 0)"

definition rune_error :: string where "rune_error = [CHR 0xEF, CHR 0xBF, CHR 0xBD]"

function utf8_ok :: "string \<Rightarrow> bool" where
  "utf8_ok s = (if s = [] then True else if rune_width s = 0 then False else utf8_ok (drop (rune_width s) s))"
  by pat_completeness auto
termination by (relation "measure length") auto

declare utf8_ok.simps [simp del]

subsection \<open>Encoding\<close>

definition special :: "char \<Rightarrow> bool" where
  "special c \<longleftrightarrow> c = CHR 0x5C \<or> c = CHR 0x22"

text \<open>The inner loop of \<open>Value\<close>: each rune, with a backslash before a backslash or a quote.\<close>

function value_runes :: "string \<Rightarrow> string" where
  "value_runes s =
    (if s = [] then []
     else let n = rune_width s in
       if n = 0 then rune_error @ value_runes (tl s)
       else (if special (hd s) then [CHR 0x5C] else []) @ take n s @ value_runes (drop n s))"
  by pat_completeness auto
termination by (relation "measure length") (auto simp: Let_def)

declare value_runes.simps [simp del]

definition stringArray_Value :: "string list option \<Rightarrow> string" where
  "stringArray_Value a =
     (case a of
        None \<Rightarrow> ''{}''
      | Some xs \<Rightarrow> CHR ''{'' # Join (CHR '','') (map (\<lambda>s. CHR 0x22 # value_runes s @ [CHR 0x22]) xs) @ [CHR ''}''])"

subsection \<open>Decoding\<close>

text \<open>The loop over \<open>inner\<close>, with its variables \<open>result\<close>, \<open>cur\<close> and \<open>quoted\<close>.\<close>

fun scan_array :: "string list \<Rightarrow> string \<Rightarrow> bool \<Rightarrow> string \<Rightarrow> string list" where
  "scan_array result cur quoted [] = result @ [cur]"
| "scan_array result cur True (c # s) =
    (if c = CHR 0x5C \<and> s \<noteq> [] then scan_array result (cur @ [hd s]) True (tl s)
     else if c = CHR 0x22 then scan_array result cur False s
     else scan_array result (cur @ [c]) True s)"
| "scan_array result cur False (c # s) =
    (if c = CHR 0x22 then scan_array result cur True s
     else if c = CHR '','' then scan_array (result @ [cur]) [] False s
     else scan_array result (cur @ [c]) False s)"

definition parsePostgresTextArray :: "string \<Rightarrow> string list option" where
  "parsePostgresTextArray s0 =
     (let s = TrimSpace s0 in
      if s = ''{}'' then Some []
      else if length s < 2 \<or> hd s \<noteq> CHR ''{'' \<or> last s \<noteq> CHR ''}'' then None
      else let inner = butlast (tl s) in
        if inner = [] then Some [] else Some (scan_array [] [] False inner))"

text \<open>What the driver hands to \<open>Scan\<close>; \<open>Inr None\<close> is the nil slice.\<close>

datatype src = SrcNil | SrcString string | SrcBytes string | SrcOther
datatype scan_error = UnsupportedType | InvalidArray

definition stringArray_Scan :: "src \<Rightarrow> scan_error + string list option" where
  "stringArray_Scan v =
     (case v of
        SrcNil \<Rightarrow> Inr None
      | SrcOther \<Rightarrow> Inl UnsupportedType
      | SrcString s \<Rightarrow> (case parsePostgresTextArray s of None \<Rightarrow> Inl InvalidArray | Some xs \<Rightarrow> Inr (Some xs))
      | SrcBytes s \<Rightarrow> (case parsePostgresTextArray s of None \<Rightarrow> Inl InvalidArray | Some xs \<Rightarrow> Inr (Some xs)))"

subsection \<open>The form the server returns\<close>

definition escape :: "string \<Rightarrow> string" where
  "escape s = concat (map (\<lambda>c. if special c then [CHR 0x5C, c] else [c]) s)"

definition array_elem :: "(string \<Rightarrow> bool) \<Rightarrow> string \<Rightarrow> string" where
  "array_elem q s = (if q s then CHR 0x22 # escape s @ [CHR 0x22] else s)"

definition array_out :: "(string \<Rightarrow> bool) \<Rightarrow> string list \<Rightarrow> string" where
  "array_out q xs = CHR ''{'' # Join (CHR '','') (map (array_elem q) xs) @ [CHR ''}'']"

definition plain_elem :: "string \<Rightarrow> bool" where
  "plain_elem s \<longleftrightarrow> s \<noteq> [] \<and> list_all (\<lambda>c. \<not> special c \<and> \<not> is_space c \<and> c \<noteq> CHR '','' \<and> c \<noteq> CHR ''{'' \<and> c \<noteq> CHR ''}'') s"

subsection \<open>Lemmas\<close>

lemma special_width: "special c \<Longrightarrow> rune_width (c # s) = 1"
  by (auto simp: special_def char_code_def)

lemma cont_plain: "cont c \<Longrightarrow> \<not> special c" "accept_second n c \<Longrightarrow> \<not> special c"
  by (auto simp: cont_def accept_second_def special_def in_range_def char_code_def split: if_splits)

lemma escape_simps [simp]: "escape [] = []" "escape (s @ t) = escape s @ escape t"
  "escape (c # s) = (if special c then [CHR 0x5C, c] else [c]) @ escape s"
  by (simp_all add: escape_def)

lemma escape_plain: "(\<And>c. c \<in> set s \<Longrightarrow> \<not> special c) \<Longrightarrow> escape s = s"
  by (induction s) auto

text \<open>A well-formed sequence of more than one byte holds no special byte, so the rune-wise
  escape of \<open>Value\<close> is the byte-wise one.\<close>

lemma rune_tail_plain:
  assumes "rune_width (c # s) > 0" "x \<in> set (take (rune_width (c # s) - 1) s)"
  shows "\<not> special x"
proof -
  obtain i where i: "i < rune_width (c # s) - 1" "i < length s" "x = s ! i"
    using assms(2) by (auto simp: in_set_conv_nth simp del: rune_width.simps)
  then have "i = 0 \<or> i = 1 \<or> i = 2" by (auto simp: Let_def split: if_splits)
  then show ?thesis using i cont_plain
    by (elim disjE) (auto simp: Let_def split: if_splits)
qed

lemma rune_escape:
  assumes "rune_width (c # s) > 0"
  shows "escape (take (rune_width (c # s)) (c # s)) =
    (if special c then [CHR 0x5C] else []) @ take (rune_width (c # s)) (c # s)"
proof -
  obtain n where n: "rune_width (c # s) = Suc n" using assms by (metis gr0_conv_Suc)
  have "escape (take n s) = take n s"
    by (rule escape_plain, rule rune_tail_plain [OF assms]) (simp add: n del: rune_width.simps)
  then show ?thesis by (simp add: n del: rune_width.simps)
qed

lemma value_runes_escape: "utf8_ok s \<Longrightarrow> value_runes s = escape s"
proof (induction s rule: value_runes.induct)
  case (1 s)
  show ?case
  proof (cases s)
    case Nil
    then show ?thesis by (simp add: value_runes.simps)
  next
    case (Cons c t)
    have w: "rune_width s > 0" "utf8_ok (drop (rune_width s) s)"
      using "1.prems" Cons utf8_ok.simps [of s] by (auto simp del: rune_width.simps split: if_splits)
    have "value_runes (drop (rune_width s) s) = escape (drop (rune_width s) s)"
      using "1.IH"(2) w Cons by (simp del: rune_width.simps)
    then have "value_runes s = escape (take (rune_width s) s) @ escape (drop (rune_width s) s)"
      using w Cons rune_escape [of c t] value_runes.simps [of s] by (simp add: Let_def del: rune_width.simps)
    then show ?thesis by (metis append_take_drop_id escape_simps(2))
  qed
qed

text \<open>The scanner reads one element and stops before the comma.\<close>

lemma scan_escaped: "scan_array r cur True (escape s @ CHR 0x22 # t) = scan_array r (cur @ s) False t"
  by (induction s arbitrary: cur) (auto simp: special_def)

lemma scan_plain: "list_all (\<lambda>c. \<not> special c \<and> c \<noteq> CHR '','') s \<Longrightarrow>
    scan_array r cur False (s @ t) = scan_array r (cur @ s) False t"
  by (induction s arbitrary: cur) (auto simp: special_def)

lemma scan_elem:
  assumes "\<not> q s \<Longrightarrow> plain_elem s"
  shows "scan_array r [] False (array_elem q s @ t) = scan_array r s False t"
proof (cases "q s")
  case True
  then show ?thesis using scan_escaped [of r "[]" s t] by (simp add: array_elem_def)
next
  case False
  then have "list_all (\<lambda>c. \<not> special c \<and> c \<noteq> CHR '','') s"
    using assms by (auto simp: plain_elem_def list_all_iff)
  then show ?thesis using False scan_plain [of s r "[]" t] by (simp add: array_elem_def)
qed

lemma scan_elems:
  assumes "\<And>s. \<not> q s \<Longrightarrow> plain_elem s" "xs \<noteq> []"
  shows "scan_array r [] False (Join (CHR '','') (map (array_elem q) xs)) = r @ xs"
  using assms(2)
proof (induction xs arbitrary: r rule: list_nonempty_induct)
  case (single x)
  then show ?case using scan_elem [of q x r "[]", OF assms(1)] by simp
next
  case (cons x xs)
  then obtain y ys where "xs = y # ys" by (cases xs) auto
  then show ?case using cons scan_elem [of q x r, OF assms(1)] by simp
qed

lemma join_Nil: "Join c ys = [] \<longleftrightarrow> ys = [] \<or> ys = [[]]"
  by (induction c ys rule: Join.induct) auto

lemma elem_not_Nil: "(\<And>s. \<not> q s \<Longrightarrow> plain_elem s) \<Longrightarrow> array_elem q s \<noteq> []"
  by (auto simp: array_elem_def plain_elem_def)

lemma trim_braces: "TrimSpace (CHR ''{'' # s @ [CHR ''}'']) = CHR ''{'' # s @ [CHR ''}'']"
  by (simp add: TrimSpace_def trim_by_def is_space_def in_range_def char_code_def)

lemma parse_array_out:
  assumes "\<And>s. \<not> q s \<Longrightarrow> plain_elem s"
  shows "parsePostgresTextArray (array_out q xs) = Some xs"
proof (cases xs)
  case Nil
  then show ?thesis using trim_braces [of "[]"] by (simp add: parsePostgresTextArray_def array_out_def)
next
  case (Cons x ys)
  then have "Join (CHR '','') (map (array_elem q) xs) \<noteq> []"
    using elem_not_Nil [of q, OF assms] by (auto simp: join_Nil)
  then show ?thesis using scan_elems [of q xs "[]", OF assms] Cons
    by (simp add: parsePostgresTextArray_def array_out_def trim_braces Let_def butlast_append)
qed

lemma value_is_array_out: "list_all utf8_ok xs \<Longrightarrow> stringArray_Value (Some xs) = array_out (\<lambda>_. True) xs"
  by (auto simp: stringArray_Value_def array_out_def array_elem_def value_runes_escape list_all_iff
      intro!: arg_cong [where f = "Join (CHR '','')"])

text \<open>Lists stored by the PostgreSQL backend come back unchanged: the literal \<open>Value\<close> writes for a
  list of well-formed UTF-8 strings is the array literal of exactly these elements, every one quoted,
  and whichever elements the server chooses to quote in its answer (subject to the documented
  rule that an empty element or one with a special character is quoted), \<open>Scan\<close> reads the
  same elements in the same order, both from text and from bytes.\<close>

theorem text_array_roundtrip:
  assumes "\<And>s. \<not> q s \<Longrightarrow> plain_elem s" and "list_all utf8_ok xs"
  shows "stringArray_Value (Some xs) = array_out (\<lambda>_. True) xs
    \<and> stringArray_Scan (SrcString (array_out q xs)) = Inr (Some xs)
    \<and> stringArray_Scan (SrcBytes (array_out q xs)) = Inr (Some xs)"
  using parse_array_out [of q xs, OF assms(1)] value_is_array_out [OF assms(2)]
  by (simp add: stringArray_Scan_def)

text \<open>A server that quotes every element that is not plain, and the scopes of a client with an
  element that needs both escapes.\<close>

theorem text_array_roundtrip_witness:
  "stringArray_Value (Some [''openid'', [CHR 0x22, CHR 0x5C, CHR 0xC3, CHR 0xA9], []]) =
     array_out (\<lambda>_. True) [''openid'', [CHR 0x22, CHR 0x5C, CHR 0xC3, CHR 0xA9], []]
   \<and> stringArray_Scan (SrcString (array_out (\<lambda>s. \<not> plain_elem s) [''openid'', [CHR 0x22, CHR 0x5C, CHR 0xC3, CHR 0xA9], []])) =
     Inr (Some [''openid'', [CHR 0x22, CHR 0x5C, CHR 0xC3, CHR 0xA9], []])"
proof -
  have "list_all utf8_ok [''openid'', [CHR 0x22, CHR 0x5C, CHR 0xC3, CHR 0xA9], []]" by code_simp
  then show ?thesis using text_array_roundtrip [of "\<lambda>s. \<not> plain_elem s"] by blast
qed

end
