(* ===== verification/Migrations.thy ===== *)
theory Migrations
  imports Go_Strings "HOL-Library.Sublist"
begin

text \<open>
  The schema migrations both backends run before they serve (\<open>migrate\<close> of \<open>postgres.go\<close>; the one of
  \<open>sqlite.go\<close> is the same text up to placeholders and column types).

  The tables are a parameter type, and what a migration script does to them is a function
  \<open>run\<close> that may fail. Every statement takes its outcome from a script of driver outcomes:
  \<open>Done\<close>, \<open>Refused\<close> (the server rejected it or was unreachable), or \<open>Unacked\<close>: the server did the work
  and the acknowledgement was lost, which is what makes a failed \<open>Commit\<close> ambiguous.
\<close>

datatype outcome = Done | Refused | Unacked

record 't mdb =
  m_tables :: 't
  m_versions :: "string list option"
  m_script :: "outcome list"

record entry =
  e_Name :: string
  e_IsDir :: bool
  e_Data :: string

datatype migrate_error = CreateFailed | ReadDirFailed | BeginFailed | ExecFailed string | RecordFailed string | CommitFailed string

subsection \<open>The loop\<close>

definition driver :: "'t mdb \<Rightarrow> outcome \<times> 't mdb" where
  "driver m = (case m_script m of [] \<Rightarrow> (Done, m) | x # xs \<Rightarrow> (x, m\<lparr>m_script := xs\<rparr>))"

definition create_table :: "'t mdb \<Rightarrow> migrate_error option \<times> 't mdb" where
  "create_table m =
     (case driver m of (x, m1) \<Rightarrow>
        (if x = Done then None else Some CreateFailed,
         if x = Refused \<or> m_versions m1 \<noteq> None then m1 else m1\<lparr>m_versions := Some []\<rparr>))"

text \<open>\<open>SELECT COUNT(*)\<close>: a failing query leaves \<open>already\<close> at zero, and its error is dropped.\<close>

definition already :: "string \<Rightarrow> 't mdb \<Rightarrow> nat \<times> 't mdb" where
  "already version m =
     (case driver m of (x, m1) \<Rightarrow>
        (if x = Done then (case m_versions m1 of None \<Rightarrow> 0 | Some vs \<Rightarrow> length (filter (\<lambda>v. v = version) vs)) else 0, m1))"

text \<open>One migration: \<open>Begin\<close>, the script, the \<open>INSERT\<close> into \<open>schema_migrations\<close> (whose primary key is
  the version) and \<open>Commit\<close>. Before the commit nothing of the transaction is visible, and a
  transaction that is rolled back or abandoned leaves nothing.\<close>

definition apply_entry :: "(string \<Rightarrow> 't \<Rightarrow> 't option) \<Rightarrow> entry \<Rightarrow> 't mdb \<Rightarrow> migrate_error option \<times> 't mdb" where
  "apply_entry run e m =
     (case driver m of (b, m1) \<Rightarrow>
        if b \<noteq> Done then (Some BeginFailed, m1)
        else case driver m1 of (x, m2) \<Rightarrow>
        (case (if x = Done then run (e_Data e) (m_tables m2) else None) of
           None \<Rightarrow> (Some (ExecFailed (e_Name e)), m2)
         | Some t \<Rightarrow>
           (case driver m2 of (i, m3) \<Rightarrow>
            (case m_versions m3 of
               None \<Rightarrow> (Some (RecordFailed (e_Name e)), m3)
             | Some vs \<Rightarrow>
               if i \<noteq> Done \<or> e_Name e \<in> set vs then (Some (RecordFailed (e_Name e)), m3)
               else case driver m3 of (c, m4) \<Rightarrow>
                 (if c = Done then None else Some (CommitFailed (e_Name e)),
                  if c = Refused then m4 else m4\<lparr>m_tables := t, m_versions := Some (vs @ [e_Name e])\<rparr>)))))"

definition sql_entry :: "entry \<Rightarrow> bool" where
  "sql_entry e \<longleftrightarrow> \<not> (e_IsDir e \<or> \<not> HasSuffix (e_Name e) ''.sql'')"

fun migrate_loop :: "(string \<Rightarrow> 't \<Rightarrow> 't option) \<Rightarrow> entry list \<Rightarrow> 't mdb \<Rightarrow> migrate_error option \<times> 't mdb" where
  "migrate_loop run [] m = (None, m)"
| "migrate_loop run (e # es) m =
    (if \<not> sql_entry e then migrate_loop run es m
     else case already (e_Name e) m of (n, m1) \<Rightarrow>
       if n > 0 then migrate_loop run es m1
       else case apply_entry run e m1 of
         (Some err, m2) \<Rightarrow> (Some err, m2)
       | (None, m2) \<Rightarrow> migrate_loop run es m2)"

text \<open>The directory is embedded in the binary: \<open>ReadFile\<close> of an entry \<open>ReadDir\<close> returned
  always succeeds, and \<open>ReadDir\<close> lists the entries by name.\<close>

definition migrate :: "(string \<Rightarrow> 't \<Rightarrow> 't option) \<Rightarrow> entry list option \<Rightarrow> 't mdb \<Rightarrow> migrate_error option \<times> 't mdb" where
  "migrate run dir m =
     (case create_table m of
        (Some err, m1) \<Rightarrow> (Some err, m1)
      | (None, m1) \<Rightarrow>
        (case dir of None \<Rightarrow> (Some ReadDirFailed, m1) | Some es \<Rightarrow> migrate_loop run es m1))"

subsection \<open>What the record promises\<close>

text \<open>The tables are exactly what the recorded scripts, each run once in the recorded order, make
  of the empty database \<open>t0\<close>.\<close>

definition script_of :: "entry list \<Rightarrow> string \<Rightarrow> string option" where
  "script_of es v = map_option e_Data (find (\<lambda>e. e_Name e = v) es)"

fun replay :: "(string \<Rightarrow> 't \<Rightarrow> 't option) \<Rightarrow> entry list \<Rightarrow> string list \<Rightarrow> 't \<Rightarrow> 't option" where
  "replay run es [] t = Some t"
| "replay run es (v # vs) t =
    (case script_of es v of None \<Rightarrow> None
     | Some s \<Rightarrow> (case run s t of None \<Rightarrow> None | Some t' \<Rightarrow> replay run es vs t'))"

definition recorded :: "'t mdb \<Rightarrow> string list" where
  "recorded m = (case m_versions m of None \<Rightarrow> [] | Some vs \<Rightarrow> vs)"

definition tracked :: "(string \<Rightarrow> 't \<Rightarrow> 't option) \<Rightarrow> entry list \<Rightarrow> 't \<Rightarrow> 't mdb \<Rightarrow> bool" where
  "tracked run es t0 m \<longleftrightarrow> distinct (recorded m) \<and> replay run es (recorded m) t0 = Some (m_tables m)"

definition versions :: "entry list \<Rightarrow> string list" where
  "versions es = map e_Name (filter sql_entry es)"

subsection \<open>Lemmas\<close>

lemma driver_same [simp]:
  "driver m = (x, m1) \<Longrightarrow> m_tables m1 = m_tables m"
  "driver m = (x, m1) \<Longrightarrow> m_versions m1 = m_versions m"
  by (auto simp: driver_def split: list.splits)

lemma replay_append:
  "replay run es (vs @ ws) t = (case replay run es vs t of None \<Rightarrow> None | Some u \<Rightarrow> replay run es ws u)"
  by (induction vs arbitrary: t) (auto split: option.splits)

lemma create_table_keeps:
  "create_table m = (r, m1) \<Longrightarrow> m_tables m1 = m_tables m \<and> recorded m1 = recorded m"
  by (auto simp: create_table_def recorded_def split: prod.splits if_splits option.splits)

lemma already_keeps:
  assumes "already v m = (n, m1)"
  shows "m_tables m1 = m_tables m \<and> m_versions m1 = m_versions m \<and> (n > 0 \<longrightarrow> v \<in> set (recorded m))"
  using assms driver_same [of m]
  by (auto simp: already_def recorded_def filter_empty_conv split: prod.splits if_splits option.splits)

text \<open>A migration either leaves database and record alone, with an error, or does both.\<close>

lemma apply_entry_steps:
  assumes "apply_entry run e m = (r, m1)"
  shows "(r \<noteq> None \<and> m_tables m1 = m_tables m \<and> m_versions m1 = m_versions m) \<or>
    (\<exists>t vs. run (e_Data e) (m_tables m) = Some t \<and> m_versions m = Some vs \<and> e_Name e \<notin> set vs
       \<and> m_tables m1 = t \<and> m_versions m1 = Some (vs @ [e_Name e]))"
  using assms
  by (auto simp: apply_entry_def split: prod.splits if_splits option.splits dest!: driver_same)

lemma apply_entry_recorded:
  assumes "apply_entry run e m = (r, m1)"
  shows "(r \<noteq> None \<and> m_tables m1 = m_tables m \<and> recorded m1 = recorded m) \<or>
    (run (e_Data e) (m_tables m) = Some (m_tables m1) \<and> e_Name e \<notin> set (recorded m)
       \<and> recorded m1 = recorded m @ [e_Name e])"
  using apply_entry_steps [OF assms] by (auto simp: recorded_def)

lemma script_of_entry: "distinct (map e_Name es) \<Longrightarrow> e \<in> set es \<Longrightarrow> script_of es (e_Name e) = Some (e_Data e)"
  by (induction es) (auto simp: script_of_def image_iff)

lemma tracked_apply:
  assumes "tracked run dir t0 m" "distinct (map e_Name dir)" "e \<in> set dir" "apply_entry run e m = (r, m1)"
  shows "tracked run dir t0 m1"
  using assms(1) apply_entry_recorded [OF assms(4)] script_of_entry [OF assms(2,3)]
  by (auto simp: tracked_def replay_append)

lemma tracked_keep: "m_tables m1 = m_tables m \<Longrightarrow> recorded m1 = recorded m \<Longrightarrow> tracked run es t0 m \<Longrightarrow> tracked run es t0 m1"
  by (simp add: tracked_def)

lemma migrate_loop_ok:
  assumes "distinct (map e_Name dir)" "set es \<subseteq> set dir" "tracked run dir t0 m" "migrate_loop run es m = (r, m1)"
  shows "tracked run dir t0 m1 \<and> (\<exists>new. recorded m1 = recorded m @ new \<and> subseq new (versions es))
    \<and> (r = None \<longrightarrow> set (versions es) \<subseteq> set (recorded m1))"
  using assms(2-)
proof (induction es arbitrary: m)
  case Nil
  then show ?case by (auto simp: versions_def)
next
  case (Cons e es)
  show ?case
  proof (cases "sql_entry e")
    case False
    then show ?thesis using Cons by (auto simp: versions_def)
  next
    case True
    obtain n m' where a: "already (e_Name e) m = (n, m')" by fastforce
    have k: "m_tables m' = m_tables m" "recorded m' = recorded m" "n > 0 \<Longrightarrow> e_Name e \<in> set (recorded m)"
      using already_keeps [OF a] by (auto simp: recorded_def)
    have t: "tracked run dir t0 m'" using k(1,2) Cons.prems(2) by (rule tracked_keep)
    have vs: "versions (e # es) = e_Name e # versions es" using True by (simp add: versions_def)
    show ?thesis
    proof (cases "n > 0")
      case True
      then have l: "migrate_loop run es m' = (r, m1)" using Cons.prems a \<open>sql_entry e\<close> by simp
      have "set es \<subseteq> set dir" using Cons.prems(1) by simp
      note ih = Cons.IH [OF this t l]
      then obtain new where new: "recorded m1 = recorded m @ new" "subseq new (versions es)" using k by auto
      then have "subseq new (versions (e # es))" using vs by (simp add: list_emb_Cons)
      moreover have "e_Name e \<in> set (recorded m1)" using k(3) True new by simp
      ultimately show ?thesis using ih new(1) vs by auto
    next
      case False
      obtain s m2 where ap: "apply_entry run e m' = (s, m2)" by fastforce
      have t2: "tracked run dir t0 m2"
        using tracked_apply [OF t assms(1) _ ap] Cons.prems(1) by simp
      show ?thesis
      proof (cases s)
        case None
        then have l: "migrate_loop run es m2 = (r, m1)" using Cons.prems a \<open>sql_entry e\<close> False ap by simp
        have "recorded m2 = recorded m @ [e_Name e]" using apply_entry_recorded [OF ap] None k by auto
        then show ?thesis using Cons.IH [OF _ t2 l] Cons.prems(1) vs by auto
      next
        case (Some err)
        then have "m1 = m2" "r = Some err" using Cons.prems a \<open>sql_entry e\<close> False ap by auto
        then show ?thesis using t2 apply_entry_recorded [OF ap] k vs
          by (auto intro: exI [of _ "[e_Name e]"] exI [of _ "[]"])
      qed
    qed
  qed
qed

text \<open>One run from the creation of the table on.\<close>

lemma migrate_keeps_record:
  assumes "distinct (map e_Name dir)" "tracked run dir t0 m" "migrate run (Some dir) m = (r, m1)"
  shows "tracked run dir t0 m1 \<and> (\<exists>new. recorded m1 = recorded m @ new \<and> subseq new (versions dir))
    \<and> (r = None \<longrightarrow> set (versions dir) \<subseteq> set (recorded m1))"
proof -
  obtain s m' where c: "create_table m = (s, m')" by fastforce
  have k: "tracked run dir t0 m'" "recorded m' = recorded m"
    using create_table_keeps [OF c] assms(2) by (simp_all add: tracked_def)
  show ?thesis
  proof (cases s)
    case None
    then have "migrate_loop run dir m' = (r, m1)" using assms(3) c by (simp add: migrate_def)
    from migrate_loop_ok [OF assms(1) subset_refl k(1) this] show ?thesis unfolding k(2) .
  next
    case (Some e)
    then show ?thesis using assms(3) c k by (auto simp: migrate_def)
  qed
qed

text \<open>C33. Every migration takes effect at most once, however a start-up fails. From a database whose
  tables are what its recorded migrations make of the empty database, and under every script of driver
  failures (a dropped count, a refused statement, a commit whose acknowledgement is lost), one
  run of \<open>migrate\<close> ends in a database of the same kind; it only appends to the
  record, in directory order; and when it reports success every migration of the directory is
  recorded. By induction over runs, restarting after any failure is safe.\<close>

theorem migrations_apply_once:
  assumes "distinct (map e_Name dir)" "tracked run dir t0 m" "migrate run (Some dir) m = (r, m1)"
  shows "tracked run dir t0 m1 \<and> (\<exists>new. recorded m1 = recorded m @ new \<and> subseq new (versions dir))
    \<and> (r = None \<longrightarrow> set (versions dir) \<subseteq> set (recorded m1))"
  using assms by (rule migrate_keeps_record)

text \<open>The commit of the first migration is not acknowledged: the run reports the error, the
  migration is in effect and recorded, and the next run goes on with the second one.\<close>

definition demo_dir :: "entry list" where
  "demo_dir = [\<lparr>e_Name = ''001_users.sql'', e_IsDir = False, e_Data = ''u''\<rparr>,
     \<lparr>e_Name = ''002_keys.sql'', e_IsDir = False, e_Data = ''k''\<rparr>,
     \<lparr>e_Name = ''notes.txt'', e_IsDir = False, e_Data = ''n''\<rparr>]"

definition demo_run :: "string \<Rightarrow> string list \<Rightarrow> string list option" where
  "demo_run s t = (if s \<in> set t then None else Some (t @ [s]))"

definition demo_mdb :: "string list mdb" where
  "demo_mdb = \<lparr>m_tables = [], m_versions = None, m_script = [Done, Done, Done, Done, Done, Unacked]\<rparr>"

lemma demo_migrate:
  "migrate demo_run (Some demo_dir) demo_mdb =
     (Some (CommitFailed ''001_users.sql''), \<lparr>m_tables = [''u''], m_versions = Some [''001_users.sql''], m_script = []\<rparr>)"
  "distinct (map e_Name demo_dir)" "tracked demo_run demo_dir [] demo_mdb" "versions demo_dir = [''001_users.sql'', ''002_keys.sql'']"
  by code_simp+

theorem migrations_apply_once_witness:
  "tracked demo_run demo_dir [] \<lparr>m_tables = [''u''], m_versions = Some [''001_users.sql''], m_script = []\<rparr>"
  using migrations_apply_once [OF demo_migrate(2,3,1)] by blast

subsection \<open>A healthy start\<close>

text \<open>With no driver failure a run goes through whenever the scripts still missing run, and a run on a
  migrated database changes nothing.\<close>

lemma driver_calm [simp]: "m_script m = [] \<Longrightarrow> driver m = (Done, m)"
  by (simp add: driver_def)

lemma already_calm: "m_script m = [] \<Longrightarrow> already v m = (length (filter (\<lambda>x. x = v) (recorded m)), m)"
  by (simp add: already_def recorded_def split: option.splits)

lemma apply_entry_calm:
  assumes "m_script m = []" "m_versions m = Some vs" "e_Name e \<notin> set vs" "run (e_Data e) (m_tables m) = Some t"
  shows "apply_entry run e m = (None, m\<lparr>m_tables := t, m_versions := Some (vs @ [e_Name e])\<rparr>)"
  using assms by (simp add: apply_entry_def)

lemma migrate_loop_idle:
  "m_script m = [] \<Longrightarrow> set (versions es) \<subseteq> set (recorded m) \<Longrightarrow> migrate_loop run es m = (None, m)"
  by (induction es) (auto simp: versions_def already_calm filter_empty_conv)

lemma migrate_loop_calm:
  assumes "distinct (map e_Name dir)" "set es \<subseteq> set dir" "distinct (map e_Name es)"
    "m_script m = []" "m_versions m = Some vs" "set vs \<inter> set (versions es) = {}"
    "replay run dir (versions es) (m_tables m) = Some t"
  shows "migrate_loop run es m = (None, m\<lparr>m_tables := t, m_versions := Some (vs @ versions es)\<rparr>)"
  using assms(2-)
proof (induction es arbitrary: m vs)
  case Nil
  then show ?case by (simp add: versions_def)
next
  case (Cons e es)
  show ?case
  proof (cases "sql_entry e")
    case False
    then show ?thesis using Cons by (simp add: versions_def)
  next
    case True
    then have v: "versions (e # es) = e_Name e # versions es" by (simp add: versions_def)
    have s: "script_of dir (e_Name e) = Some (e_Data e)" using script_of_entry [OF assms(1)] Cons.prems(1) by simp
    obtain u where u: "run (e_Data e) (m_tables m) = Some u" "replay run dir (versions es) u = Some t"
      using Cons.prems(6) v s by (auto split: option.splits)
    have n: "e_Name e \<notin> set vs" "e_Name e \<notin> set (versions es)"
      using Cons.prems(2,5) v by (auto simp: versions_def)
    define m' where "m' = m\<lparr>m_tables := u, m_versions := Some (vs @ [e_Name e])\<rparr>"
    have "migrate_loop run es m' = (None, m'\<lparr>m_tables := t, m_versions := Some ((vs @ [e_Name e]) @ versions es)\<rparr>)"
      by (rule Cons.IH) (use Cons.prems n u v in \<open>auto simp: m'_def\<close>)
    then show ?thesis
      using True n(1) v apply_entry_calm [where run = run and e = e, OF Cons.prems(3,4) n(1) u(1)] Cons.prems(3,4)
      by (simp add: already_calm recorded_def filter_empty_conv m'_def)
  qed
qed

text \<open>C34. A healthy start brings the schema up and stays there. On a fresh database, with no driver
  failure, and when the scripts of the directory run one after the other on the empty tables, \<open>migrate\<close>
  returns success with the tables they make and every version recorded in directory order; the
  next start's \<open>migrate\<close> returns success and changes nothing.\<close>

theorem migrate_live:
  assumes "distinct (map e_Name dir)" "m_script m = []" "m_versions m = None"
    "replay run dir (versions dir) (m_tables m) = Some t"
  shows "migrate run (Some dir) m = (None, m\<lparr>m_tables := t, m_versions := Some (versions dir)\<rparr>)
    \<and> migrate run (Some dir) (m\<lparr>m_tables := t, m_versions := Some (versions dir)\<rparr>) =
        (None, m\<lparr>m_tables := t, m_versions := Some (versions dir)\<rparr>)"
  using assms migrate_loop_calm [OF assms(1) subset_refl assms(1), of "m\<lparr>m_versions := Some []\<rparr>" "[]" run t]
    migrate_loop_idle [of "m\<lparr>m_tables := t, m_versions := Some (versions dir)\<rparr>" dir run]
  by (simp add: migrate_def create_table_def recorded_def)

theorem migrate_live_witness:
  "migrate demo_run (Some demo_dir) (demo_mdb\<lparr>m_script := []\<rparr>) =
     (None, \<lparr>m_tables = [''u'', ''k''], m_versions = Some [''001_users.sql'', ''002_keys.sql''], m_script = []\<rparr>)"
proof -
  have "replay demo_run demo_dir (versions demo_dir) [] = Some [''u'', ''k'']" by code_simp
  then show ?thesis
    using migrate_live [OF demo_migrate(2), of "demo_mdb\<lparr>m_script := []\<rparr>" demo_run "[''u'', ''k'']"] demo_migrate(4)
    by (simp add: demo_mdb_def)
qed

end
