(* ===== verification/Keys.thy ===== *)
theory Keys
  imports Example
begin

text \<open>
  The signing keys: \<open>internal/jwt/store.go\<close> and the discovery endpoints of \<open>discovery.go\<close>.

  RSA, X.509 and SHA-256 are the fields of \<open>keylib\<close> over a type of keys; envelope encryption is the
  field of \<open>ext\<close> the MFA secrets use. A \<open>Signer\<close> is the arguments of \<open>bjwt.New\<close>. \<open>ParsePKCS8PrivateKey\<close>
  answers an error, a key that is not RSA (\<open>Some None\<close>), or an RSA key.
\<close>

record 'k keylib =
  kl_GenerateKey :: "nat \<Rightarrow> 'k option"
  kl_MarshalPKCS8 :: "'k \<Rightarrow> bytes option"
  kl_ParsePKCS8 :: "bytes \<Rightarrow> 'k option option"
  kl_MarshalPKIX :: "'k \<Rightarrow> bytes option"
  kl_Sum256 :: "bytes \<Rightarrow> bytes"
  kl_PublicKeyToJWK :: "'k \<Rightarrow> string \<Rightarrow> json"

record 'k Signer =
  sg_Key :: 'k
  sg_KID :: string
  sg_Issuer :: string

datatype key_error = LoadKey store_error | DecryptKey | ParseKey | NotRSA | GenerateKey | MarshalKey | EncryptKey
  | MarshalPublic | StoreKey store_error | ListKeys store_error

subsection \<open>Loading and creating\<close>

definition hex_digit :: "nat \<Rightarrow> char" where
  "hex_digit n = ''0123456789abcdef'' ! n"

definition EncodeToString :: "bytes \<Rightarrow> string" where
  "EncodeToString b = concat (map (\<lambda>c. [hex_digit (char_code c div 16), hex_digit (char_code c mod 16)]) b)"

definition open_key :: "server \<Rightarrow> 'k keylib \<Rightarrow> SigningKey \<Rightarrow> key_error + 'k" where
  "open_key s lib k =
     (case x_DecryptEnvelope (srv_ext s) (k_EncryptedDEK k) (k_EncryptedPrivateKey k) of
        None \<Rightarrow> Inl DecryptKey
      | Some der \<Rightarrow>
        (case kl_ParsePKCS8 lib der of
           None \<Rightarrow> Inl ParseKey
         | Some None \<Rightarrow> Inl NotRSA
         | Some (Some key) \<Rightarrow> Inr key))"

definition decryptKey :: "server \<Rightarrow> 'k keylib \<Rightarrow> SigningKey \<Rightarrow> key_error + 'k Signer" where
  "decryptKey s lib k =
     (case open_key s lib k of
        Inl e \<Rightarrow> Inl e
      | Inr key \<Rightarrow> Inr \<lparr>sg_Key = key, sg_KID = k_KID k, sg_Issuer = srv_issuer s\<rparr>)"

definition generateAndStore :: "server \<Rightarrow> 'k keylib \<Rightarrow> (key_error + 'k Signer) act" where
  "generateAndStore s lib = do {
     g \<leftarrow> draw;
     case kl_GenerateKey lib g of
       None \<Rightarrow> ret (Inl GenerateKey)
     | Some priv \<Rightarrow>
     (case kl_MarshalPKCS8 lib priv of
        None \<Rightarrow> ret (Inl MarshalKey)
      | Some der \<Rightarrow> do {
     n \<leftarrow> draw;
     case x_EncryptEnvelope (srv_ext s) n der of
       None \<Rightarrow> ret (Inl EncryptKey)
     | Some (encVal, encDEK) \<Rightarrow>
     (case kl_MarshalPKIX lib priv of
        None \<Rightarrow> ret (Inl MarshalPublic)
      | Some pubDER \<Rightarrow> do {
     let kid = EncodeToString (take 8 (kl_Sum256 lib pubDER));
     i \<leftarrow> newUUID s;
     x \<leftarrow> store_at (\<lambda>now. CreateSigningKey now
            \<lparr>k_ID = i, k_EncryptedPrivateKey = encVal, k_EncryptedDEK = encDEK, k_Algorithm = ''RS256'',
             k_KID = kid, k_Active = True, k_CreatedAt = zero_time\<rparr>);
     case x of
       Inl e \<Rightarrow> ret (Inl (StoreKey e))
     | Inr u \<Rightarrow> ret (Inr \<lparr>sg_Key = priv, sg_KID = kid, sg_Issuer = srv_issuer s\<rparr>) }) }) }"

definition LoadOrCreate :: "server \<Rightarrow> 'k keylib \<Rightarrow> (key_error + 'k Signer) act" where
  "LoadOrCreate s lib = do {
     x \<leftarrow> store GetActiveSigningKey;
     case x of
       Inr k \<Rightarrow> ret (decryptKey s lib k)
     | Inl e \<Rightarrow> if e \<noteq> ErrNotFound then ret (Inl (LoadKey e)) else generateAndStore s lib }"

subsection \<open>Publishing\<close>

fun jwk_set :: "server \<Rightarrow> 'k keylib \<Rightarrow> SigningKey list \<Rightarrow> key_error + json list" where
  "jwk_set s lib [] = Inr []"
| "jwk_set s lib (k # ks) =
    (case open_key s lib k of
       Inl e \<Rightarrow> Inl e
     | Inr key \<Rightarrow>
       (case jwk_set s lib ks of Inl e \<Rightarrow> Inl e | Inr js \<Rightarrow> Inr (kl_PublicKeyToJWK lib key (k_KID k) # js)))"

definition BuildJWKS :: "server \<Rightarrow> 'k keylib \<Rightarrow> (key_error + json list) act" where
  "BuildJWKS s lib = do {
     x \<leftarrow> store ListActiveSigningKeys;
     case x of Inl e \<Rightarrow> ret (Inl (ListKeys e)) | Inr ks \<Rightarrow> ret (jwk_set s lib ks) }"

definition handleJWKS :: "server \<Rightarrow> 'k keylib \<Rightarrow> response act" where
  "handleJWKS s lib = do {
     x \<leftarrow> BuildJWKS s lib;
     case x of
       Inl e \<Rightarrow> ret (writeError 500 ''server_error'' ''failed to build JWKS'')
     | Inr js \<Rightarrow> ret (RJSON 200 [(''keys'', JList js)]) }"

definition handleDiscovery :: "server \<Rightarrow> response" where
  "handleDiscovery s = (let at = \<lambda>p. JStr (srv_issuer s @ p) in RJSON 200
     [(''issuer'', JStr (srv_issuer s)),
      (''authorization_endpoint'', at ''/authorize''),
      (''token_endpoint'', at ''/token''),
      (''userinfo_endpoint'', at ''/userinfo''),
      (''jwks_uri'', at ''/.well-known/jwks.json''),
      (''revocation_endpoint'', at ''/revoke''),
      (''device_authorization_endpoint'', at ''/device_authorization''),
      (''response_types_supported'', JStrs [''code'']),
      (''subject_types_supported'', JStrs [''public'']),
      (''id_token_signing_alg_values_supported'', JStrs [''RS256'']),
      (''scopes_supported'', JStrs [''openid'', ''profile'', ''email'', ''offline_access'', ''groups'']),
      (''token_endpoint_auth_methods_supported'', JStrs [''client_secret_post'', ''client_secret_basic'']),
      (''claims_supported'', JStrs [''sub'', ''iss'', ''aud'', ''exp'', ''iat'', ''email'', ''name'', ''preferred_username'', ''groups'']),
      (''grant_types_supported'', JStrs [''authorization_code'', ''refresh_token'', ''client_credentials'', ''urn:ietf:params:oauth:grant-type:device_code'']),
      (''code_challenge_methods_supported'', JStrs [''S256''])])"

subsection \<open>Lemmas\<close>

text \<open>Every active key opens: what a start-up keeps true of the table.\<close>

definition keys_open :: "server \<Rightarrow> 'k keylib \<Rightarrow> db \<Rightarrow> bool" where
  "keys_open s lib d \<longleftrightarrow> list_all (\<lambda>k. k_Active k \<longrightarrow> (\<exists>key. open_key s lib k = Inr key)) (signing_keys d)"

lemma jwk_set_ok:
  "list_all (\<lambda>k. \<exists>key. open_key s lib k = Inr key) ks \<Longrightarrow>
     \<exists>js. jwk_set s lib ks = Inr js \<and> set js = {kl_PublicKeyToJWK lib key (k_KID k) | k key. k \<in> set ks \<and> open_key s lib k = Inr key}"
proof (induction ks)
  case Nil
  then show ?case by simp
next
  case (Cons k ks)
  then obtain key js where "open_key s lib k = Inr key" "jwk_set s lib ks = Inr js"
    "set js = {kl_PublicKeyToJWK lib key (k_KID k) | k key. k \<in> set ks \<and> open_key s lib k = Inr key}" by auto
  then show ?case by auto
qed

lemma active_first:
  assumes "fst (GetActiveSigningKey d) = Inr k"
  shows "k \<in> set (signing_keys d)" "k_Active k"
proof -
  obtain ks where "sort_key (\<lambda>k. - k_CreatedAt k) (filter k_Active (signing_keys d)) = k # ks"
    using assms by (auto simp: GetActiveSigningKey_def split: list.splits)
  then have "k \<in> set (filter k_Active (signing_keys d))" by (metis list.set_intros(1) set_sort)
  then show "k \<in> set (signing_keys d)" "k_Active k" by auto
qed

lemma no_active: "fst (GetActiveSigningKey d) = Inl e \<Longrightarrow> filter k_Active (signing_keys d) = []"
  by (auto simp: GetActiveSigningKey_def split: list.splits dest: arg_cong [of _ _ set])

lemma CreateSigningKey_row:
  assumes "fst (CreateSigningKey now k d) = Inr u"
  shows "signing_keys (snd (CreateSigningKey now k d)) = signing_keys d @ [k\<lparr>k_CreatedAt := current_timestamp now\<rparr>]"
  using assms by (auto simp: CreateSigningKey_def insert_outcome_def Let_def split: if_splits)

lemma open_created [simp]: "open_key s lib (k\<lparr>k_CreatedAt := t\<rparr>) = open_key s lib k"
  by (simp add: open_key_def)

text \<open>The two ways \<open>LoadOrCreate\<close> succeeds: on the newest active key, or on a key it stored when there was none.\<close>

lemma LoadOrCreate_steps:
  assumes "run_state (LoadOrCreate s lib) w = (Inr sg, w')"
  shows "(\<exists>k. fst (GetActiveSigningKey (w_db w)) = Inr k \<and> decryptKey s lib k = Inr sg \<and> w_db w' = w_db w) \<or>
    (filter k_Active (signing_keys (w_db w)) = [] \<and> (\<exists>k n der. signing_keys (w_db w') = signing_keys (w_db w) @ [k] \<and> k_Active k \<and>
       kl_MarshalPKCS8 lib (sg_Key sg) = Some der \<and>
       x_EncryptEnvelope (srv_ext s) n der = Some (k_EncryptedPrivateKey k, k_EncryptedDEK k) \<and>
       k_KID k = sg_KID sg \<and> sg_Issuer sg = srv_issuer s))"
  using assms
  by (auto simp: LoadOrCreate_def generateAndStore_def run_simps store_at_def newUUID_def Let_def
      split: case_splits dest!: CreateSigningKey_row no_active)

lemma keys_open_member: "keys_open s lib d \<Longrightarrow> k \<in> set (signing_keys d) \<Longrightarrow> k_Active k \<Longrightarrow> \<exists>key. open_key s lib k = Inr key"
  by (simp add: keys_open_def list_all_iff)

lemma jwks_published:
  assumes "keys_open s lib (w_db w)" "w_faults w = []" "k \<in> set (signing_keys (w_db w))" "k_Active k" "open_key s lib k = Inr key"
  shows "\<exists>js. fst (run_state (handleJWKS s lib) w) = RJSON 200 [(''keys'', JList js)] \<and> kl_PublicKeyToJWK lib key (k_KID k) \<in> set js"
proof -
  let ?ks = "sort_key (\<lambda>k. - k_CreatedAt k) (filter k_Active (signing_keys (w_db w)))"
  have "list_all (\<lambda>k. \<exists>key. open_key s lib k = Inr key) ?ks"
    using keys_open_member [OF assms(1)] by (auto simp: list_all_iff)
  from jwk_set_ok [OF this] obtain js where js: "jwk_set s lib ?ks = Inr js"
    "set js = {kl_PublicKeyToJWK lib key (k_KID k) | k key. k \<in> set ?ks \<and> open_key s lib k = Inr key}" by blast
  then have "kl_PublicKeyToJWK lib key (k_KID k) \<in> set js" using assms by auto
  then show ?thesis using js(1) assms(2)
    by (simp add: handleJWKS_def BuildJWKS_def run_simps ListActiveSigningKeys_def)
qed

lemma LoadOrCreate_again:
  assumes "fst (GetActiveSigningKey (w_db w)) = Inr k" "decryptKey s lib k = Inr sg" "w_faults w = []"
  shows "fst (run_state (LoadOrCreate s lib) w) = Inr sg"
  using assms by (simp add: LoadOrCreate_def run_simps)

text \<open>Decrypting an envelope gives back what was encrypted, and parsing a marshalled private key gives back
  the RSA key: what the code relies on of the two packages.\<close>

definition envelope_inverse :: "server \<Rightarrow> bool" where
  "envelope_inverse s \<longleftrightarrow> (\<forall>n p v k. x_EncryptEnvelope (srv_ext s) n p = Some (v, k) \<longrightarrow> x_DecryptEnvelope (srv_ext s) k v = Some p)"

definition pkcs8_inverse :: "'k keylib \<Rightarrow> bool" where
  "pkcs8_inverse lib \<longleftrightarrow> (\<forall>key der. kl_MarshalPKCS8 lib key = Some der \<longrightarrow> kl_ParsePKCS8 lib der = Some (Some key))"

text \<open>Where a successful start-up leaves the table.\<close>

lemma LoadOrCreate_state:
  assumes "envelope_inverse s"
    and "pkcs8_inverse lib"
    and "keys_open s lib (w_db w)" "run_state (LoadOrCreate s lib) w = (Inr sg, w')"
  shows "keys_open s lib (w_db w') \<and> (\<exists>k. fst (GetActiveSigningKey (w_db w')) = Inr k \<and> decryptKey s lib k = Inr sg)"
  using LoadOrCreate_steps [OF assms(4)]
proof (elim disjE exE conjE)
  fix k assume "fst (GetActiveSigningKey (w_db w)) = Inr k" "decryptKey s lib k = Inr sg" "w_db w' = w_db w"
  then show ?thesis using assms(3) by auto
next
  fix k n der assume none: "filter k_Active (signing_keys (w_db w)) = []" and
    row: "signing_keys (w_db w') = signing_keys (w_db w) @ [k]" "k_Active k" and
    der: "kl_MarshalPKCS8 lib (sg_Key sg) = Some der" and
    enc: "x_EncryptEnvelope (srv_ext s) n der = Some (k_EncryptedPrivateKey k, k_EncryptedDEK k)" and
    kid: "k_KID k = sg_KID sg" "sg_Issuer sg = srv_issuer s"
  have "open_key s lib k = Inr (sg_Key sg)" using assms(1,2) enc der by (simp add: open_key_def envelope_inverse_def pkcs8_inverse_def)
  moreover have "fst (GetActiveSigningKey (w_db w')) = Inr k"
    using none row by (simp add: GetActiveSigningKey_def)
  ultimately show ?thesis using assms(3) row kid by (simp add: keys_open_def decryptKey_def)
qed

text \<open>C4. The key the server signs with is published and survives a restart. When envelope encryption and the
  PKCS8 codec are inverse pairs and every active key of the table opens, a successful \<open>LoadOrCreate\<close>
  (on an existing key, or on one it generated and stored) leaves a table of which the same holds; the JWKS
  endpoint then answers 200 with a document that holds the public half of exactly the signer's key under
  the signer's key id, so relying parties can verify its tokens; and the next
  process start gets the same signer instead of generating another key.\<close>

theorem signer_published_and_stable:
  assumes "envelope_inverse s"
    and "pkcs8_inverse lib"
    and "keys_open s lib (w_db w)" and "run_state (LoadOrCreate s lib) w = (Inr sg, w')" and "w_faults w' = []"
  shows "keys_open s lib (w_db w')
    \<and> (\<exists>js. fst (run_state (handleJWKS s lib) w') = RJSON 200 [(''keys'', JList js)] \<and> kl_PublicKeyToJWK lib (sg_Key sg) (sg_KID sg) \<in> set js)
    \<and> fst (run_state (LoadOrCreate s lib) w') = Inr sg"
proof -
  obtain k where k: "keys_open s lib (w_db w')" "fst (GetActiveSigningKey (w_db w')) = Inr k" "decryptKey s lib k = Inr sg"
    using LoadOrCreate_state [OF assms(1-4)] by blast
  then have "open_key s lib k = Inr (sg_Key sg)" "k_KID k = sg_KID sg"
    by (auto simp: decryptKey_def split: sum.splits)
  then show ?thesis
    using jwks_published [OF k(1) assms(5) active_first [OF k(2)]] k LoadOrCreate_again [OF k(2,3) assms(5)] by simp
qed

text \<open>A first start on an empty table, with keys that are numbers.\<close>

definition demo_keylib :: "nat keylib" where
  "demo_keylib = \<lparr>kl_GenerateKey = (\<lambda>n. Some n), kl_MarshalPKCS8 = (\<lambda>k. Some (replicate k CHR ''k'')),
     kl_ParsePKCS8 = (\<lambda>b. Some (Some (length b))), kl_MarshalPKIX = (\<lambda>k. Some (replicate k CHR ''p'')),
     kl_Sum256 = (\<lambda>b. ''abcdefghij''), kl_PublicKeyToJWK = (\<lambda>k kid. JObj [(''kid'', JStr kid), (''n'', JInt (int k))])\<rparr>"

definition demo_signer :: "nat Signer" where
  "demo_signer = \<lparr>sg_Key = 7, sg_KID = ''6162636465666768'', sg_Issuer = ''https://auth''\<rparr>"

lemma demo_kid: "EncodeToString ''abcdefgh'' = ''6162636465666768''"
  by code_simp

lemma demo_start:
  obtains w' where "run_state (LoadOrCreate demo_server demo_keylib) demo_world = (Inr demo_signer, w')" "w_faults w' = []"
  by (simp add: LoadOrCreate_def generateAndStore_def newUUID_def store_at_def CreateSigningKey_def GetActiveSigningKey_def
      demo_eval demo_defs demo_keylib_def demo_signer_def demo_kid)

theorem signer_published_and_stable_witness:
  "let w' = snd (run_state (LoadOrCreate demo_server demo_keylib) demo_world) in
     \<exists>js. fst (run_state (handleJWKS demo_server demo_keylib) w') = RJSON 200 [(''keys'', JList js)] \<and>
     JObj [(''kid'', JStr ''6162636465666768''), (''n'', JInt 7)] \<in> set js \<and>
     fst (run_state (LoadOrCreate demo_server demo_keylib) w') = Inr demo_signer"
proof -
  obtain w' where w': "run_state (LoadOrCreate demo_server demo_keylib) demo_world = (Inr demo_signer, w')" "w_faults w' = []"
    by (rule demo_start)
  have "envelope_inverse demo_server" "pkcs8_inverse demo_keylib" "keys_open demo_server demo_keylib (w_db demo_world)"
    by (auto simp: envelope_inverse_def pkcs8_inverse_def keys_open_def demo_defs demo_keylib_def)
  from signer_published_and_stable [OF this w'] show ?thesis
    using w'(1) by (auto simp: Let_def demo_keylib_def demo_signer_def)
qed

end
