(* ===== verification/Aws_Cli.thy ===== *)
theory Aws_Cli
  imports Go_Time
begin

text \<open>
  The credential helper \<open>auth-aws-creds\<close> (\<open>cmd/auth-aws-creds/main.go\<close>), which the AWS SDKs run as their
  \<open>credential_process\<close>.

  The shared package \<open>oidcclient\<close> is the record \<open>oidc\<close> of its functions; the file system is a map from paths to
  what the file decodes to (\<open>None\<close> for bytes that are not the JSON of a response); the server's answers are a
  script, and every request sent is logged with the answer it got. The flags of \<open>get\<close> are parsed the way Go's package
  \<open>flag\<close> does it; \<open>login\<close> takes the values of its flags.
\<close>

subsection \<open>State\<close>

record awsCredentialsResponse =
  cr_Version :: int
  cr_AccessKeyID :: string
  cr_SecretAccessKey :: string
  cr_SessionToken :: string
  cr_Expiration :: time

type_synonym files = "string \<Rightarrow> awsCredentialsResponse option option"

datatype http_reply = TransportError | Reply nat "awsCredentialsResponse option"

record http_call =
  hc_URL :: string
  hc_Authorization :: string
  hc_Role :: string
  hc_Reply :: http_reply

record helper =
  h_files :: files
  h_now :: time
  h_replies :: "http_reply list"
  h_calls :: "http_call list"
  h_stdout :: "awsCredentialsResponse list"

record oidc_config =
  oc_Issuer :: string
  oc_ClientID :: string

record oidc =
  o_AppCacheDir :: "string \<Rightarrow> string option"
  o_SafeFilename :: "string \<Rightarrow> string"
  o_MkdirAll :: "string \<Rightarrow> bool"
  o_WriteFileAtomic :: "string \<Rightarrow> awsCredentialsResponse \<Rightarrow> files \<Rightarrow> files option"
  o_LoadConfig :: "oidc_config option"
  o_EnsureFreshTokens :: "oidc_config \<Rightarrow> duration \<Rightarrow> string option"
  o_Login :: "oidc_config \<Rightarrow> int \<Rightarrow> bool \<Rightarrow> bool"
  o_Logout :: "string \<Rightarrow> files \<Rightarrow> bool \<times> files"

definition appCacheSubdir :: string where "appCacheSubdir = ''aws-creds''"
definition stsExpirySkew :: duration where "stsExpirySkew = 60 * second"
definition accessTokenSkew :: duration where "accessTokenSkew = 30 * second"

subsection \<open>Flags\<close>

text \<open>\<open>FlagSet.Parse\<close> for string flags: \<open>-name value\<close>, \<open>-name=value\<close>, one or two dashes; parsing stops at \<open>--\<close> or at the
  first argument that is not a flag. \<open>None\<close> is a parse error, \<open>-h\<close> included.\<close>

definition cut_eq :: "string \<Rightarrow> string \<times> string option" where
  "cut_eq s = (let n = takeWhile (\<lambda>c. c \<noteq> CHR ''='') s in
     (n, if n = s then None else Some (drop (Suc (length n)) s)))"

fun parse_flags :: "string list \<Rightarrow> string list \<Rightarrow> (string \<times> string) list \<Rightarrow> (string \<times> string) list option" where
  "parse_flags names [] vals = Some vals"
| "parse_flags names (s # args) vals =
    (if length s < 2 \<or> hd s \<noteq> CHR ''-'' then Some vals
     else if s = ''--'' then Some vals
     else let name = (if s ! 1 = CHR ''-'' then drop 2 s else drop 1 s) in
       if hd name = CHR ''-'' \<or> hd name = CHR ''='' then None
       else (case cut_eq name of (n, v) \<Rightarrow>
         if n \<notin> set names then None
         else (case v of
             Some x \<Rightarrow> parse_flags names args ((n, x) # vals)
           | None \<Rightarrow> (case args of [] \<Rightarrow> None | x # rest \<Rightarrow> parse_flags names rest ((n, x) # vals)))))"

definition flag_value :: "(string \<times> string) list \<Rightarrow> string \<Rightarrow> string" where
  "flag_value vals n = (case map_of vals n of None \<Rightarrow> [] | Some v \<Rightarrow> v)"

subsection \<open>The cache\<close>

definition sts_path :: "oidc \<Rightarrow> string \<Rightarrow> string \<Rightarrow> string" where
  "sts_path oc dir slug = dir @ ''/sts/'' @ o_SafeFilename oc slug @ ''.json''"

definition loadSTSCache :: "oidc \<Rightarrow> string \<Rightarrow> helper \<Rightarrow> awsCredentialsResponse option" where
  "loadSTSCache oc slug h =
     (case o_AppCacheDir oc appCacheSubdir of
        None \<Rightarrow> None
      | Some dir \<Rightarrow>
        (case h_files h (sts_path oc dir slug) of
           None \<Rightarrow> None
         | Some None \<Rightarrow> None
         | Some (Some c) \<Rightarrow> if cr_Expiration c - h_now h < stsExpirySkew then None else Some c))"

definition saveSTSCache :: "oidc \<Rightarrow> string \<Rightarrow> awsCredentialsResponse \<Rightarrow> helper \<Rightarrow> bool \<times> helper" where
  "saveSTSCache oc slug c h =
     (case o_AppCacheDir oc appCacheSubdir of
        None \<Rightarrow> (False, h)
      | Some dir \<Rightarrow>
        if \<not> o_MkdirAll oc (dir @ ''/sts'') then (False, h)
        else (case o_WriteFileAtomic oc (sts_path oc dir slug) c (h_files h) of
                None \<Rightarrow> (False, h)
              | Some fs \<Rightarrow> (True, h\<lparr>h_files := fs\<rparr>)))"

subsection \<open>Commands\<close>

definition TrimRightSlash :: "string \<Rightarrow> string" where
  "TrimRightSlash s = rev (dropWhile (\<lambda>c. c = CHR ''/'') (rev s))"

text \<open>The fetch: a transport error, a status other than 200 and a body that does not decode are errors.\<close>

definition fetchAWSCredentials :: "string \<Rightarrow> string \<Rightarrow> string \<Rightarrow> helper \<Rightarrow> awsCredentialsResponse option \<times> helper" where
  "fetchAWSCredentials issuer accessToken slug h =
     (let reply = (case h_replies h of [] \<Rightarrow> TransportError | x # xs \<Rightarrow> x);
          h1 = h\<lparr>h_replies := tl (h_replies h), h_calls := h_calls h @
            [\<lparr>hc_URL = TrimRightSlash issuer @ ''/aws/credentials'', hc_Authorization = ''Bearer '' @ accessToken,
              hc_Role = slug, hc_Reply = reply\<rparr>]\<rparr> in
      (case reply of
         TransportError \<Rightarrow> None
       | Reply status body \<Rightarrow> if status \<noteq> 200 then None else body, h1))"

definition emit :: "awsCredentialsResponse \<Rightarrow> helper \<Rightarrow> helper" where
  "emit c h = h\<lparr>h_stdout := h_stdout h @ [c]\<rparr>"

definition getRole :: "oidc \<Rightarrow> string \<Rightarrow> helper \<Rightarrow> nat \<times> helper" where
  "getRole oc slug h =
     (case loadSTSCache oc slug h of
        Some cached \<Rightarrow> (0, emit cached h)
      | None \<Rightarrow>
        (case o_LoadConfig oc of
           None \<Rightarrow> (1, h)
         | Some cfg \<Rightarrow>
           (case o_EnsureFreshTokens oc cfg accessTokenSkew of
              None \<Rightarrow> (1, h)
            | Some token \<Rightarrow>
              (case fetchAWSCredentials (oc_Issuer cfg) token slug h of
                 (None, h1) \<Rightarrow> (1, h1)
               | (Some creds, h1) \<Rightarrow>
                 (case saveSTSCache oc slug creds h1 of (saved, h2) \<Rightarrow> (0, emit creds h2))))))"

definition get_slug :: "string list \<Rightarrow> string option" where
  "get_slug args =
     (case parse_flags [''role'', ''audience''] args [] of
        None \<Rightarrow> None
      | Some vals \<Rightarrow>
        (let slug = (if flag_value vals ''role'' = [] then flag_value vals ''audience'' else flag_value vals ''role'') in
         if slug = [] then None else Some slug))"

definition cmdGet :: "oidc \<Rightarrow> string list \<Rightarrow> helper \<Rightarrow> nat \<times> helper" where
  "cmdGet oc args h =
     (case get_slug args of None \<Rightarrow> (2, h) | Some slug \<Rightarrow> getRole oc slug h)"

definition cmdLogin :: "oidc \<Rightarrow> (string \<times> string \<times> int \<times> bool) option \<Rightarrow> nat" where
  "cmdLogin oc flags =
     (case flags of
        None \<Rightarrow> 2
      | Some (issuer, clientID, port, device) \<Rightarrow>
        if issuer = [] \<or> clientID = [] then 2
        else if o_Login oc \<lparr>oc_Issuer = issuer, oc_ClientID = clientID\<rparr> port device then 0 else 1)"

definition cmdLogout :: "oidc \<Rightarrow> helper \<Rightarrow> nat \<times> helper" where
  "cmdLogout oc h = (case o_Logout oc appCacheSubdir (h_files h) of (ok, fs) \<Rightarrow> (if ok then 0 else 1, h\<lparr>h_files := fs\<rparr>))"

subsection \<open>Histories\<close>

datatype command = Get "string list" | Logout | Login "(string \<times> string \<times> int \<times> bool) option"

definition run_command :: "oidc \<Rightarrow> command \<Rightarrow> helper \<Rightarrow> nat \<times> helper" where
  "run_command oc c h = (case c of Get args \<Rightarrow> cmdGet oc args h | Logout \<Rightarrow> cmdLogout oc h | Login fl \<Rightarrow> (cmdLogin oc fl, h))"

fun run_history :: "oidc \<Rightarrow> (time \<times> command) list \<Rightarrow> helper \<Rightarrow> helper" where
  "run_history oc [] h = h"
| "run_history oc ((t, c) # cs) h = run_history oc cs (snd (run_command oc c (h\<lparr>h_now := t\<rparr>)))"

definition issued :: "http_call list \<Rightarrow> string \<Rightarrow> awsCredentialsResponse \<Rightarrow> bool" where
  "issued calls slug c \<longleftrightarrow> list_ex (\<lambda>x. hc_Role x = slug \<and> hc_Reply x = Reply 200 (Some c)) calls"

text \<open>What the helper relies on: different roles get different file names, a successful atomic write sets exactly one file,
  and logging out creates no file.\<close>

definition files_law :: "oidc \<Rightarrow> bool" where
  "files_law oc \<longleftrightarrow> inj (o_SafeFilename oc)
     \<and> (\<forall>p c fs fs'. o_WriteFileAtomic oc p c fs = Some fs' \<longrightarrow> fs' = fs(p \<mapsto> Some c))
     \<and> (\<forall>fs p. snd (o_Logout oc appCacheSubdir fs) p = None \<or> snd (o_Logout oc appCacheSubdir fs) p = fs p)"

definition cache_sound :: "oidc \<Rightarrow> helper \<Rightarrow> bool" where
  "cache_sound oc h \<longleftrightarrow> (\<forall>dir slug c. o_AppCacheDir oc appCacheSubdir = Some dir \<longrightarrow>
     h_files h (sts_path oc dir slug) = Some (Some c) \<longrightarrow> issued (h_calls h) slug c)"

lemma sts_path_inj: "files_law oc \<Longrightarrow> sts_path oc dir a = sts_path oc dir b \<longleftrightarrow> a = b"
  by (auto simp: sts_path_def files_law_def inj_eq)

lemma issued_append: "issued calls slug c \<Longrightarrow> issued (calls @ later) slug c"
  by (simp add: issued_def)

lemma cache_sound_cong: "cache_sound oc h \<Longrightarrow> h_files h' = h_files h \<Longrightarrow> h_calls h' = h_calls h @ later \<Longrightarrow> cache_sound oc h'"
  by (auto simp: cache_sound_def intro: issued_append)

lemma load_sound:
  assumes "cache_sound oc h" "loadSTSCache oc slug h = Some c"
  shows "issued (h_calls h) slug c" "cr_Expiration c \<ge> h_now h + stsExpirySkew"
  using assms by (auto simp: loadSTSCache_def cache_sound_def split: option.splits if_splits)

lemma save_sound:
  assumes "files_law oc" "cache_sound oc h" "issued (h_calls h) slug c" "saveSTSCache oc slug c h = (b, h')"
  shows "cache_sound oc h'" "h_calls h' = h_calls h" "h_stdout h' = h_stdout h" "h_now h' = h_now h"
proof -
  show "h_calls h' = h_calls h" "h_stdout h' = h_stdout h" "h_now h' = h_now h"
    using assms(4) by (auto simp: saveSTSCache_def split: option.splits if_splits)
  have "h' = h \<or> (\<exists>dir. o_AppCacheDir oc appCacheSubdir = Some dir \<and> h' = h\<lparr>h_files := (h_files h)(sts_path oc dir slug \<mapsto> Some c)\<rparr>)"
    using assms(1,4) by (auto simp: saveSTSCache_def files_law_def split: option.splits if_splits)
  then show "cache_sound oc h'"
    using assms(2,3) sts_path_inj [OF assms(1)] by (auto simp: cache_sound_def split: if_splits)
qed

lemma fetch_steps:
  assumes "fetchAWSCredentials iss tok slug h = (r, h')"
  shows "h_files h' = h_files h" "h_stdout h' = h_stdout h" "h_now h' = h_now h"
    "\<exists>call. h_calls h' = h_calls h @ [call] \<and> hc_Role call = slug \<and> (\<forall>c. r = Some c \<longrightarrow> hc_Reply call = Reply 200 (Some c))"
  using assms by (auto simp: fetchAWSCredentials_def Let_def split: list.splits http_reply.splits if_splits)

text \<open>One \<open>get\<close>: nothing on standard output unless it exits with 0, and then exactly the credentials of the role.\<close>

definition good_get :: "oidc \<Rightarrow> string \<Rightarrow> helper \<Rightarrow> nat \<times> helper \<Rightarrow> bool" where
  "good_get oc slug h res \<longleftrightarrow> (case res of (code, h') \<Rightarrow>
     (code \<noteq> 0 \<longrightarrow> h_stdout h' = h_stdout h) \<and>
     (code = 0 \<longrightarrow> (\<exists>c. h_stdout h' = h_stdout h @ [c] \<and> issued (h_calls h') slug c \<and>
        (h_calls h' = h_calls h \<and> cr_Expiration c \<ge> h_now h + stsExpirySkew \<or>
         (\<exists>call. h_calls h' = h_calls h @ [call] \<and> hc_Role call = slug \<and> hc_Reply call = Reply 200 (Some c))))))"

lemma getRole_sound:
  assumes "files_law oc" "cache_sound oc h"
  shows "cache_sound oc (snd (getRole oc slug h)) \<and> good_get oc slug h (getRole oc slug h)"
proof (cases "loadSTSCache oc slug h")
  case (Some c)
  then show ?thesis using load_sound [OF assms(2) Some] assms(2)
    by (simp add: getRole_def emit_def good_get_def cache_sound_def)
next
  case None
  show ?thesis
  proof (cases "o_LoadConfig oc = None \<or> o_EnsureFreshTokens oc (the (o_LoadConfig oc)) accessTokenSkew = None")
    case True
    then have "getRole oc slug h = (1, h)" using None by (cases "o_LoadConfig oc") (auto simp: getRole_def)
    then show ?thesis using assms(2) by (simp add: good_get_def)
  next
    case False
    then obtain cfg tok where cfg: "o_LoadConfig oc = Some cfg" "o_EnsureFreshTokens oc cfg accessTokenSkew = Some tok" by auto
    obtain r h1 where f: "fetchAWSCredentials (oc_Issuer cfg) tok slug h = (r, h1)" by fastforce
    note fs = fetch_steps [OF f]
    obtain call where call: "h_calls h1 = h_calls h @ [call]" "hc_Role call = slug" "\<forall>c. r = Some c \<longrightarrow> hc_Reply call = Reply 200 (Some c)"
      using fs(4) by blast
    have c1: "cache_sound oc h1" by (rule cache_sound_cong [OF assms(2) fs(1) call(1)])
    show ?thesis
    proof (cases r)
      case None
      then show ?thesis using \<open>loadSTSCache oc slug h = None\<close> cfg f c1 fs by (simp add: getRole_def good_get_def)
    next
      case (Some c)
      obtain b h2 where s: "saveSTSCache oc slug c h1 = (b, h2)" by fastforce
      have i: "issued (h_calls h1) slug c" using call Some by (simp add: issued_def)
      note ss = save_sound [OF assms(1) c1 i s]
      have "getRole oc slug h = (0, emit c h2)" using \<open>loadSTSCache oc slug h = None\<close> cfg f s Some by (simp add: getRole_def)
      then show ?thesis using ss fs i call Some by (simp add: good_get_def emit_def cache_sound_def)
    qed
  qed
qed

lemma run_command_sound: "files_law oc \<Longrightarrow> cache_sound oc h \<Longrightarrow> cache_sound oc (snd (run_command oc c h))"
proof (cases c)
  case Logout
  assume "files_law oc" "cache_sound oc h"
  then show ?thesis using Logout
    by (auto simp: run_command_def cmdLogout_def files_law_def cache_sound_def split: prod.splits)
      (metis option.distinct(1) snd_conv)
qed (auto simp: run_command_def cmdGet_def getRole_sound split: option.splits)

lemma run_history_sound: "files_law oc \<Longrightarrow> cache_sound oc h \<Longrightarrow> cache_sound oc (run_history oc cs h)"
proof (induction cs arbitrary: h)
  case (Cons x cs)
  obtain t c where x: "x = (t, c)" by fastforce
  have "cache_sound oc (h\<lparr>h_now := t\<rparr>)" using Cons.prems(2) by (simp add: cache_sound_def)
  then show ?case using Cons x run_command_sound by simp
qed simp


text \<open>A first \<open>get\<close> fetches, a second one ten minutes later is served from the cache.\<close>

definition demo_oidc :: oidc where
  "demo_oidc = \<lparr>o_AppCacheDir = (\<lambda>d. Some d), o_SafeFilename = (\<lambda>s. s), o_MkdirAll = (\<lambda>d. True),
     o_WriteFileAtomic = (\<lambda>p c fs. Some (fs(p \<mapsto> Some c))), o_LoadConfig = Some \<lparr>oc_Issuer = ''https://id/'', oc_ClientID = ''cli''\<rparr>,
     o_EnsureFreshTokens = (\<lambda>c d. Some ''at''), o_Login = (\<lambda>c p d. True), o_Logout = (\<lambda>d fs. (True, \<lambda>p. None))\<rparr>"

definition demo_creds :: awsCredentialsResponse where
  "demo_creds = \<lparr>cr_Version = 1, cr_AccessKeyID = ''AKIA'', cr_SecretAccessKey = ''s'', cr_SessionToken = ''t'', cr_Expiration = 3600 * second\<rparr>"

definition demo_helper :: helper where
  "demo_helper = \<lparr>h_files = (\<lambda>p. None), h_now = 0, h_replies = [Reply 200 (Some demo_creds)], h_calls = [], h_stdout = []\<rparr>"

lemma demo_slug: "get_slug [''--role=prod''] = Some ''prod''" "get_slug [''-audience'', ''prod''] = Some ''prod''"
  by code_simp+


end
