(* ===== verification/Config.thy ===== *)
theory Config
  imports Aws_Properties
begin

text \<open>
  The configuration of \<open>authd serve\<close> (\<open>cmd/authd/config.go\<close>) and the WebAuthn parameters derived from it (\<open>webAuthnParams\<close> of
  \<open>main.go\<close>). The environment is a function from names to values; the functions of the shared package \<open>envutil\<close>,
  which read it too, are the fields of \<open>envutil\<close>. A problem is recorded with the variable it names.
\<close>

record envutil =
  eu_Getenv :: "string \<Rightarrow> string"
  eu_Or :: "string \<Rightarrow> string \<Rightarrow> string"
  eu_Duration :: "string \<Rightarrow> duration option"
  eu_Int :: "string \<Rightarrow> int option"
  eu_CIDRList :: "string \<Rightarrow> string list option"

record serveConfig =
  cf_Issuer :: string
  cf_Addr :: string
  cf_AWSAudience :: string
  cf_AWSRegions :: "string list"
  cf_AWSDefaultRegion :: string
  cf_StepUpMFATTL :: duration
  cf_AllowRegistration :: bool
  cf_TrustedProxies :: "string list"
  cf_AuthRatePerMin :: int
  cf_TokenRatePerMin :: int
  cf_ProvisionSyncInterval :: duration
  cf_AWSFedReapInterval :: duration

definition defaultProvisionSyncInterval :: duration where "defaultProvisionSyncInterval = hour"
definition defaultAWSFedReapInterval :: duration where "defaultAWSFedReapInterval = 6 * hour"

subsection \<open>Parsers\<close>

text \<open>\<open>parseIssuer\<close>; \<open>None\<close> is an error. A fragment is empty exactly when nothing follows the first number sign.\<close>

definition parseIssuer :: "string \<Rightarrow> string option" where
  "parseIssuer v =
     (if v = [] then None
      else case Parse v of
        None \<Rightarrow> None
      | Some u \<Rightarrow>
        if url_Scheme u \<noteq> ''https'' \<and> url_Scheme u \<noteq> ''http'' then None
        else if url_Host u = [] then None
        else if url_RawQuery u \<noteq> [] \<or> after_cut CHR ''#'' v \<noteq> [] then None
        else Some v)"

definition valid_origin :: "string \<Rightarrow> bool" where
  "valid_origin orig =
     (case Parse orig of
        None \<Rightarrow> False
      | Some u \<Rightarrow> (url_Scheme u = ''https'' \<or> url_Scheme u = ''http'') \<and> url_Host u \<noteq> [] \<and>
          (url_Path u = [] \<or> url_Path u = ''/'') \<and> url_RawQuery u = [] \<and> after_cut CHR ''#'' orig = [])"

definition validateWebAuthnOrigins :: "string \<Rightarrow> bool" where
  "validateWebAuthnOrigins v = list_all valid_origin (Fields v)"

text \<open>\<open>strconv.ParseBool\<close>.\<close>

definition ParseBool :: "string \<Rightarrow> bool option" where
  "ParseBool s =
     (if s \<in> {''1'', ''t'', ''T'', ''true'', ''TRUE'', ''True''} then Some True
      else if s \<in> {''0'', ''f'', ''F'', ''false'', ''FALSE'', ''False''} then Some False
      else None)"

definition boolEnv :: "envutil \<Rightarrow> string \<Rightarrow> bool option" where
  "boolEnv e key = (let v = TrimSpace (eu_Getenv e key) in if v = [] then Some False else ParseBool v)"

definition nonNegativeIntEnv :: "envutil \<Rightarrow> string \<Rightarrow> int option" where
  "nonNegativeIntEnv e key = (case eu_Int e key of None \<Rightarrow> None | Some n \<Rightarrow> if n < 0 then None else Some n)"

definition intervalEnv :: "envutil \<Rightarrow> string \<Rightarrow> duration \<Rightarrow> duration option" where
  "intervalEnv e key def =
     (if TrimSpace (eu_Getenv e key) = [] then Some def
      else case eu_Duration e key of None \<Rightarrow> None | Some d \<Rightarrow> Some (max d 0))"

text \<open>\<open>net.SplitHostPort\<close>, as host and port.\<close>

definition SplitHostPort :: "string \<Rightarrow> (string \<times> string) option" where
  "SplitHostPort hp =
     (case cut_last CHR '':'' hp of
        None \<Rightarrow> None
      | Some (before, port) \<Rightarrow>
        if HasPrefix hp ''['' then
          (case cut_at CHR '']'' (tl hp) of
             (host, None) \<Rightarrow> None
           | (host, Some rest) \<Rightarrow>
             if rest = [] \<or> before \<noteq> CHR ''['' # host @ '']'' then None
             else if CHR ''['' \<in> set (tl hp) \<or> CHR '']'' \<in> set rest then None
             else Some (host, port))
        else if CHR '':'' \<in> set before then None
        else if CHR ''['' \<in> set hp \<or> CHR '']'' \<in> set hp then None
        else Some (before, port))"

subsection \<open>Loading\<close>

text \<open>\<open>check\<close>: the variable of a failed parse joins the list of problems.\<close>

definition problem :: "string \<Rightarrow> bool \<Rightarrow> string list" where
  "problem key ok = (if ok then [] else [key])"

definition step_up_ttl :: "envutil \<Rightarrow> duration" where
  "step_up_ttl e = (case eu_Duration e ''AUTHD_STEP_UP_MFA_TTL'' of None \<Rightarrow> 0 | Some d \<Rightarrow> d)"

definition config_problems :: "envutil \<Rightarrow> string list" where
  "config_problems e =
     problem ''AUTHD_ISSUER'' (parseIssuer (eu_Getenv e ''AUTHD_ISSUER'') \<noteq> None) @
     problem ''AUTHD_ADDR'' (SplitHostPort (eu_Or e ''AUTHD_ADDR'' '':8443'') \<noteq> None) @
     problem ''AUTHD_AWS_REGIONS'' (ParseAWSRegions (eu_Getenv e ''AUTHD_AWS_REGIONS'') (eu_Getenv e ''AUTHD_AWS_DEFAULT_REGION'') \<noteq> None) @
     problem ''AUTHD_STEP_UP_MFA_TTL'' (eu_Duration e ''AUTHD_STEP_UP_MFA_TTL'' \<noteq> None) @
     problem ''AUTHD_STEP_UP_MFA_TTL'' (\<not> step_up_ttl e < 0) @
     problem ''AUTHD_ALLOW_REGISTRATION'' (boolEnv e ''AUTHD_ALLOW_REGISTRATION'' \<noteq> None) @
     problem ''AUTHD_TRUSTED_PROXIES'' (eu_CIDRList e ''AUTHD_TRUSTED_PROXIES'' \<noteq> None) @
     problem ''AUTHD_AUTH_RATE_PER_MIN'' (nonNegativeIntEnv e ''AUTHD_AUTH_RATE_PER_MIN'' \<noteq> None) @
     problem ''AUTHD_TOKEN_RATE_PER_MIN'' (nonNegativeIntEnv e ''AUTHD_TOKEN_RATE_PER_MIN'' \<noteq> None) @
     problem ''AUTHD_PROVISION_SYNC_INTERVAL'' (intervalEnv e ''AUTHD_PROVISION_SYNC_INTERVAL'' defaultProvisionSyncInterval \<noteq> None) @
     problem ''AUTHD_AWSFED_REAP_INTERVAL'' (intervalEnv e ''AUTHD_AWSFED_REAP_INTERVAL'' defaultAWSFedReapInterval \<noteq> None) @
     problem ''AUTHD_VAULT_SCIM_TIMEOUT'' (eu_Duration e ''AUTHD_VAULT_SCIM_TIMEOUT'' \<noteq> None) @
     problem ''AUTHD_WEBAUTHN_ORIGINS'' (validateWebAuthnOrigins (eu_Getenv e ''AUTHD_WEBAUTHN_ORIGINS''))"

definition loadServeConfig :: "envutil \<Rightarrow> string list + serveConfig" where
  "loadServeConfig e =
     (if config_problems e \<noteq> [] then Inl (config_problems e)
      else case ParseAWSRegions (eu_Getenv e ''AUTHD_AWS_REGIONS'') (eu_Getenv e ''AUTHD_AWS_DEFAULT_REGION'') of
        None \<Rightarrow> Inl (config_problems e)
      | Some (regions, def) \<Rightarrow> Inr
        \<lparr>cf_Issuer = the (parseIssuer (eu_Getenv e ''AUTHD_ISSUER'')),
         cf_Addr = eu_Or e ''AUTHD_ADDR'' '':8443'',
         cf_AWSAudience = eu_Getenv e ''AUTHD_AWS_AUDIENCE'',
         cf_AWSRegions = regions, cf_AWSDefaultRegion = def,
         cf_StepUpMFATTL = step_up_ttl e,
         cf_AllowRegistration = the (boolEnv e ''AUTHD_ALLOW_REGISTRATION''),
         cf_TrustedProxies = the (eu_CIDRList e ''AUTHD_TRUSTED_PROXIES''),
         cf_AuthRatePerMin = the (nonNegativeIntEnv e ''AUTHD_AUTH_RATE_PER_MIN''),
         cf_TokenRatePerMin = the (nonNegativeIntEnv e ''AUTHD_TOKEN_RATE_PER_MIN''),
         cf_ProvisionSyncInterval = the (intervalEnv e ''AUTHD_PROVISION_SYNC_INTERVAL'' defaultProvisionSyncInterval),
         cf_AWSFedReapInterval = the (intervalEnv e ''AUTHD_AWSFED_REAP_INTERVAL'' defaultAWSFedReapInterval)\<rparr>)"

definition webAuthnParams :: "envutil \<Rightarrow> string \<Rightarrow> string \<times> string list" where
  "webAuthnParams e issuer =
     (case Parse issuer of
        None \<Rightarrow> (''localhost'', [issuer])
      | Some u \<Rightarrow>
        if url_Host u = [] then (''localhost'', [issuer])
        else
          (let host = (if eu_Getenv e ''AUTHD_WEBAUTHN_RPID'' \<noteq> [] then eu_Getenv e ''AUTHD_WEBAUTHN_RPID'' else Hostname u);
               origin = url_Scheme u @ ''://'' @ url_Host u in
           (host, origin # Fields (eu_Getenv e ''AUTHD_WEBAUTHN_ORIGINS''))))"

subsection \<open>The server built from it\<close>

text \<open>\<open>newLimiter\<close>, \<open>mergeProxies\<close> and \<open>throttled\<close> of \<open>ratelimit.go\<close>, and the settings \<open>api.New\<close> takes from the configuration; the rest of the
  server (policy, packages, keys) is the argument \<open>base\<close>. A rate is given per minute.\<close>

record limiter =
  lm_PerMin :: int
  lm_Burst :: int
  lm_TrustedProxies :: "string list"

definition defaultAuthRatePerMin :: int where "defaultAuthRatePerMin = 20"
definition defaultTokenRatePerMin :: int where "defaultTokenRatePerMin = 120"
definition defaultStepUpMFATTL :: duration where "defaultStepUpMFATTL = 5 * minute"

definition privateRanges :: "string list" where
  "privateRanges = [''127.0.0.0/8'', ''::1/128'', ''10.0.0.0/8'', ''172.16.0.0/12'', ''192.168.0.0/16'', ''fc00::/7'']"

definition mergeProxies :: "string list \<Rightarrow> string list" where
  "mergeProxies extra = privateRanges @ extra"

definition newLimiter :: "int \<Rightarrow> int \<Rightarrow> string list \<Rightarrow> limiter" where
  "newLimiter ratePerMin def proxies =
     (let rate = (if ratePerMin \<le> 0 then def else ratePerMin) in \<lparr>lm_PerMin = rate, lm_Burst = rate, lm_TrustedProxies = proxies\<rparr>)"

definition throttled :: "bool \<Rightarrow> response" where
  "throttled acceptsHTML =
     (let msg = ''too many requests; try again later'' in
      if acceptsHTML then RText 429 msg else writeError 429 ''too_many_requests'' msg)"

definition New :: "serveConfig \<Rightarrow> server \<Rightarrow> server \<times> limiter \<times> limiter" where
  "New cfg base =
     (let proxies = mergeProxies (cf_TrustedProxies cfg) in
      (base\<lparr>srv_issuer := cf_Issuer cfg, srv_awsAudience := cf_AWSAudience cfg, srv_awsRegions := cf_AWSRegions cfg,
         srv_awsDefaultRegion := cf_AWSDefaultRegion cfg,
         srv_stepUpMFATTL := (if cf_StepUpMFATTL cfg \<le> 0 then defaultStepUpMFATTL else cf_StepUpMFATTL cfg),
         srv_allowReg := cf_AllowRegistration cfg\<rparr>,
       newLimiter (cf_AuthRatePerMin cfg) defaultAuthRatePerMin proxies,
       newLimiter (cf_TokenRatePerMin cfg) defaultTokenRatePerMin proxies))"

subsection \<open>Properties\<close>

lemma problem_Nil [simp]: "problem key ok = [] \<longleftrightarrow> ok"
  by (simp add: problem_def)

lemma loadServeConfig_Inr:
  assumes "loadServeConfig e = Inr cfg"
  shows "config_problems e = []" "ParseAWSRegions (eu_Getenv e ''AUTHD_AWS_REGIONS'') (eu_Getenv e ''AUTHD_AWS_DEFAULT_REGION'') = Some (cf_AWSRegions cfg, cf_AWSDefaultRegion cfg)"
    "parseIssuer (eu_Getenv e ''AUTHD_ISSUER'') = Some (cf_Issuer cfg)" "SplitHostPort (cf_Addr cfg) \<noteq> None" "cf_StepUpMFATTL cfg = step_up_ttl e"
    "nonNegativeIntEnv e ''AUTHD_AUTH_RATE_PER_MIN'' = Some (cf_AuthRatePerMin cfg)" "nonNegativeIntEnv e ''AUTHD_TOKEN_RATE_PER_MIN'' = Some (cf_TokenRatePerMin cfg)"
    "intervalEnv e ''AUTHD_PROVISION_SYNC_INTERVAL'' defaultProvisionSyncInterval = Some (cf_ProvisionSyncInterval cfg)"
    "intervalEnv e ''AUTHD_AWSFED_REAP_INTERVAL'' defaultAWSFedReapInterval = Some (cf_AWSFedReapInterval cfg)"
    "validateWebAuthnOrigins (eu_Getenv e ''AUTHD_WEBAUTHN_ORIGINS'')" "0 \<le> step_up_ttl e"
proof -
  show *: "config_problems e = []" using assms by (simp add: loadServeConfig_def split: if_splits)
  then show "ParseAWSRegions (eu_Getenv e ''AUTHD_AWS_REGIONS'') (eu_Getenv e ''AUTHD_AWS_DEFAULT_REGION'') = Some (cf_AWSRegions cfg, cf_AWSDefaultRegion cfg)"
    "parseIssuer (eu_Getenv e ''AUTHD_ISSUER'') = Some (cf_Issuer cfg)" "SplitHostPort (cf_Addr cfg) \<noteq> None" "cf_StepUpMFATTL cfg = step_up_ttl e"
    "nonNegativeIntEnv e ''AUTHD_AUTH_RATE_PER_MIN'' = Some (cf_AuthRatePerMin cfg)" "nonNegativeIntEnv e ''AUTHD_TOKEN_RATE_PER_MIN'' = Some (cf_TokenRatePerMin cfg)"
    "intervalEnv e ''AUTHD_PROVISION_SYNC_INTERVAL'' defaultProvisionSyncInterval = Some (cf_ProvisionSyncInterval cfg)"
    "intervalEnv e ''AUTHD_AWSFED_REAP_INTERVAL'' defaultAWSFedReapInterval = Some (cf_AWSFedReapInterval cfg)"
    using assms by (auto simp: loadServeConfig_def config_problems_def split: option.splits)
  show "validateWebAuthnOrigins (eu_Getenv e ''AUTHD_WEBAUTHN_ORIGINS'')" "0 \<le> step_up_ttl e"
    using * by (simp_all add: config_problems_def)
qed

lemma nonneg_parsers:
  "nonNegativeIntEnv e key = Some n \<Longrightarrow> 0 \<le> n" "0 \<le> def \<Longrightarrow> intervalEnv e key def = Some d \<Longrightarrow> 0 \<le> d"
  by (auto simp: nonNegativeIntEnv_def intervalEnv_def split: option.splits if_splits)

definition http_url :: "string \<Rightarrow> URL \<Rightarrow> bool" where
  "http_url v u \<longleftrightarrow> Parse v = Some u \<and> (url_Scheme u = ''https'' \<or> url_Scheme u = ''http'') \<and> url_Host u \<noteq> [] \<and> url_RawQuery u = [] \<and> after_cut CHR ''#'' v = []"

lemma parseIssuer_Some: "parseIssuer v = Some w \<Longrightarrow> w = v \<and> (\<exists>u. http_url v u)"
  by (auto simp: parseIssuer_def http_url_def split: option.splits if_splits)

lemma webAuthnParams_http:
  "http_url v u \<Longrightarrow> webAuthnParams e v = (if eu_Getenv e ''AUTHD_WEBAUTHN_RPID'' \<noteq> [] then eu_Getenv e ''AUTHD_WEBAUTHN_RPID'' else Hostname u,
     (url_Scheme u @ ''://'' @ url_Host u) # Fields (eu_Getenv e ''AUTHD_WEBAUTHN_ORIGINS''))"
  by (simp add: webAuthnParams_def http_url_def Let_def)

text \<open>C38. The server starts only on a configuration it can trust. When loading succeeds: the issuer is the configured value, an absolute
  http or https URL with a host and without query or fragment; the listen address splits into host and port; the step-up
  lifetime, both rate limits and both worker intervals are not negative; the console regions are well-formed and distinct, and the
  default region is empty or one of them; the server built from it has a positive step-up lifetime and both of its rate limiters admit
  a positive number of requests, so neither can be switched off; the relying-party identifier of WebAuthn is the override or the issuer's host, never the
  fallback, its first origin is the issuer's, and every extra origin is an http or https origin without path or query. When it
  fails, it names at least one variable.\<close>

theorem serve_config_sound:
  "case loadServeConfig e of
     Inl ps \<Rightarrow> ps \<noteq> []
   | Inr cfg \<Rightarrow>
     cf_Issuer cfg = eu_Getenv e ''AUTHD_ISSUER'' \<and> SplitHostPort (cf_Addr cfg) \<noteq> None
     \<and> 0 \<le> cf_StepUpMFATTL cfg \<and> 0 \<le> cf_AuthRatePerMin cfg \<and> 0 \<le> cf_TokenRatePerMin cfg
     \<and> 0 \<le> cf_ProvisionSyncInterval cfg \<and> 0 \<le> cf_AWSFedReapInterval cfg
     \<and> distinct (cf_AWSRegions cfg) \<and> list_all awsRegionPattern (cf_AWSRegions cfg)
     \<and> cf_AWSDefaultRegion cfg \<in> set ([] # cf_AWSRegions cfg)
     \<and> (case New cfg base of (srv, authLimiter, tokenLimiter) \<Rightarrow>
          srv_issuer srv = cf_Issuer cfg \<and> 0 < srv_stepUpMFATTL srv \<and> 0 < lm_Burst authLimiter \<and> 0 < lm_Burst tokenLimiter)
     \<and> (\<exists>u extra. http_url (cf_Issuer cfg) u \<and> list_all valid_origin extra \<and>
          webAuthnParams e (cf_Issuer cfg) = (if eu_Getenv e ''AUTHD_WEBAUTHN_RPID'' \<noteq> [] then eu_Getenv e ''AUTHD_WEBAUTHN_RPID'' else Hostname u,
            (url_Scheme u @ ''://'' @ url_Host u) # extra))"
proof (cases "loadServeConfig e")
  case (Inl ps)
  then show ?thesis by (auto simp: loadServeConfig_def config_problems_def split: if_splits option.splits)
next
  case (Inr cfg)
  note c = loadServeConfig_Inr [OF Inr]
  obtain u where u: "cf_Issuer cfg = eu_Getenv e ''AUTHD_ISSUER''" "http_url (cf_Issuer cfg) u" using parseIssuer_Some [OF c(3)] by auto
  have r: "distinct (cf_AWSRegions cfg) \<and> list_all awsRegionPattern (cf_AWSRegions cfg) \<and> cf_AWSDefaultRegion cfg \<in> set ([] # cf_AWSRegions cfg)"
    using configured_regions_valid [OF c(2)] by (auto simp: list_all_iff)
  have d: "0 \<le> defaultProvisionSyncInterval" "0 \<le> defaultAWSFedReapInterval"
    by (simp_all add: defaultProvisionSyncInterval_def defaultAWSFedReapInterval_def duration_defs)
  have "\<exists>extra. list_all valid_origin extra \<and> webAuthnParams e (cf_Issuer cfg) =
      (if eu_Getenv e ''AUTHD_WEBAUTHN_RPID'' \<noteq> [] then eu_Getenv e ''AUTHD_WEBAUTHN_RPID'' else Hostname u, (url_Scheme u @ ''://'' @ url_Host u) # extra)"
    using webAuthnParams_http [OF u(2), of e] c(10) unfolding validateWebAuthnOrigins_def by blast
  moreover have "case New cfg base of (srv, authLimiter, tokenLimiter) \<Rightarrow>
      srv_issuer srv = cf_Issuer cfg \<and> 0 < srv_stepUpMFATTL srv \<and> 0 < lm_Burst authLimiter \<and> 0 < lm_Burst tokenLimiter"
    by (simp add: New_def newLimiter_def Let_def defaultAuthRatePerMin_def defaultTokenRatePerMin_def defaultStepUpMFATTL_def duration_defs)
  ultimately show ?thesis
    using u r c(4,5,11) nonneg_parsers(1) [OF c(6)] nonneg_parsers(1) [OF c(7)] nonneg_parsers(2) [OF d(1) c(8)] nonneg_parsers(2) [OF d(2) c(9)]
    unfolding Inr sum.case by auto
qed

text \<open>A configuration that loads, and one with two problems.\<close>

definition demo_env :: "(string \<times> string) list \<Rightarrow> envutil" where
  "demo_env vs = (let get = (\<lambda>k. case map_of vs k of None \<Rightarrow> [] | Some v \<Rightarrow> v) in
     \<lparr>eu_Getenv = get, eu_Or = (\<lambda>k d. if get k = [] then d else get k), eu_Duration = (\<lambda>k. if get k = [] then Some 0 else None),
      eu_Int = (\<lambda>k. if get k = [] then Some 0 else None), eu_CIDRList = (\<lambda>k. Some [])\<rparr>)"

lemma demo_config:
  "\<exists>cfg. loadServeConfig (demo_env [(''AUTHD_ISSUER'', ''https://id.example.com:8443''), (''AUTHD_AWS_DEFAULT_REGION'', ''eu-west-1'')]) = Inr cfg
     \<and> cf_AWSRegions cfg = [''eu-west-1''] \<and> cf_ProvisionSyncInterval cfg = hour"
  "loadServeConfig (demo_env [(''AUTHD_ISSUER'', ''id.example.com''), (''AUTHD_ALLOW_REGISTRATION'', ''yes'')]) = Inl [''AUTHD_ISSUER'', ''AUTHD_ALLOW_REGISTRATION'']"
proof -
  have "case loadServeConfig (demo_env [(''AUTHD_ISSUER'', ''https://id.example.com:8443''), (''AUTHD_AWS_DEFAULT_REGION'', ''eu-west-1'')]) of
      Inl ps \<Rightarrow> False | Inr cfg \<Rightarrow> cf_AWSRegions cfg = [''eu-west-1''] \<and> cf_ProvisionSyncInterval cfg = hour" by code_simp
  then show "\<exists>cfg. loadServeConfig (demo_env [(''AUTHD_ISSUER'', ''https://id.example.com:8443''), (''AUTHD_AWS_DEFAULT_REGION'', ''eu-west-1'')]) = Inr cfg
     \<and> cf_AWSRegions cfg = [''eu-west-1''] \<and> cf_ProvisionSyncInterval cfg = hour" by (auto split: sum.splits)
  have "case loadServeConfig (demo_env [(''AUTHD_ISSUER'', ''id.example.com''), (''AUTHD_ALLOW_REGISTRATION'', ''yes'')]) of
      Inl ps \<Rightarrow> ps = [''AUTHD_ISSUER'', ''AUTHD_ALLOW_REGISTRATION''] | Inr cfg \<Rightarrow> False" by code_simp
  then show "loadServeConfig (demo_env [(''AUTHD_ISSUER'', ''id.example.com''), (''AUTHD_ALLOW_REGISTRATION'', ''yes'')]) = Inl [''AUTHD_ISSUER'', ''AUTHD_ALLOW_REGISTRATION'']"
    by (simp split: sum.splits)
qed

end
