(* ===== verification/Bootstrap.thy ===== *)
theory Bootstrap
  imports Lockout Keys Backends Config "HOL-Library.Signed_Division"
begin

text \<open>
  Process start and the operator's commands of \<open>cmd/authd/main.go\<close>: creating a user, the import of the legacy
  SCIM settings, the order in which \<open>serve\<close> loads the signing key and the provisioners, and the back-fill of a provisioning target.
  They run on the PostgreSQL methods. What comes before them (environment, TLS files, migrations, opening the
  database) is in \<open>Serve\<close>; here it is one argument, the error it ended with, if any.
\<close>

datatype admin_error = PasswordRejected string | SetupFailed string | HashFailed | StoreFailed store_error | AdminFailed store_error
  | EncryptFailed | WebAuthnFailed | NoTarget | NothingEnabled | KeyFailed key_error | ProvisionersFailed

subsection \<open>Creating a user\<close>

definition password_context :: "string \<Rightarrow> PolicyContext" where
  "password_context pw = \<lparr>pc_User = None, pc_Client = None, pc_Scopes = [], pc_Password = pw, pc_MFAVerified = False,
     pc_SessionAge = 0, pc_LastActivity = 0\<rparr>"

definition validateNewUserPassword :: "unicode_tables \<Rightarrow> time \<Rightarrow> string \<Rightarrow> bool \<Rightarrow> string option" where
  "validateNewUserPassword ut now pw allowWeak =
     (if allowWeak then None
      else if pw = [] then Some ''password cannot be empty''
      else map_option pv_Message (policy_First ut now DefaultPCIRules (password_context pw)))"

definition store_new_user :: "server \<Rightarrow> string \<Rightarrow> string \<Rightarrow> string \<Rightarrow> (admin_error + User) act" where
  "store_new_user s email password name = do {
     h \<leftarrow> HashPassword s password;
     case h of
       None \<Rightarrow> ret (Inl HashFailed)
     | Some hash \<Rightarrow> do {
         let name' = (if name = [] then fst (cut_at CHR ''@'' email) else name);
         uid \<leftarrow> newUUID s;
         x \<leftarrow> store_at (\<lambda>now. pg_CreateUser now uid (ToLower email) hash name');
         ret (case x of Inl e \<Rightarrow> Inl (StoreFailed e) | Inr user \<Rightarrow> Inr user) } }"

definition promote_new_user :: "bool \<Rightarrow> User \<Rightarrow> (admin_error + User) act" where
  "promote_new_user isAdmin user =
     (if isAdmin then do {
        y \<leftarrow> store_at (\<lambda>now. pg_SetUserAdmin now (u_ID user) True);
        ret (case y of Inl e \<Rightarrow> Inl (AdminFailed e) | Inr u \<Rightarrow> Inr user) }
      else ret (Inr user))"

definition runAdminUserCreate ::
  "server \<Rightarrow> string option \<Rightarrow> string \<Rightarrow> string \<Rightarrow> string \<Rightarrow> bool \<Rightarrow> bool \<Rightarrow> (admin_error + User) act" where
  "runAdminUserCreate s setup email password name isAdmin allowWeak = do {
     now \<leftarrow> get_now;
     case validateNewUserPassword (srv_unicode s) now password allowWeak of
       Some msg \<Rightarrow> ret (Inl (PasswordRejected msg))
     | None \<Rightarrow>
       (case setup of
          Some e \<Rightarrow> ret (Inl (SetupFailed e))
        | None \<Rightarrow> do {
            x \<leftarrow> store_new_user s email password name;
            case x of Inl e \<Rightarrow> ret (Inl e) | Inr user \<Rightarrow> promote_new_user isAdmin user }) }"

subsection \<open>The legacy import\<close>

definition autoImportLegacyVaultEnv :: "server \<Rightarrow> envutil \<Rightarrow> admin_error option act" where
  "autoImportLegacyVaultEnv s e =
     (if \<not> EqualFold (eu_Getenv e ''AUTHD_VAULT_SCIM_ENABLED'') ''true'' then ret None
      else do {
        x \<leftarrow> store pg_ListIntegrations;
        case x of
          Inl err \<Rightarrow> ret (Some (StoreFailed err))
        | Inr existing \<Rightarrow>
          if existing \<noteq> [] then ret None
          else
            (let baseURL = eu_Getenv e ''AUTHD_VAULT_SCIM_URL''; token = eu_Getenv e ''AUTHD_VAULT_SCIM_TOKEN'' in
             if baseURL = [] \<or> token = [] then ret None
             else do {
               n \<leftarrow> draw;
               case x_EncryptEnvelope (srv_ext s) n token of
                 None \<Rightarrow> ret (Some EncryptFailed)
               | Some (encToken, encDEK) \<Rightarrow> do {
                   let timeout = (case ParseDuration (eu_Getenv e ''AUTHD_VAULT_SCIM_TIMEOUT'') of None \<Rightarrow> 0 | Some d \<Rightarrow> d);
                   iid \<leftarrow> newUUID s;
                   y \<leftarrow> store_at (\<lambda>now. pg_CreateIntegration now iid
                      \<lparr>i_ID = uuid_nil, i_Name = ''vault'', i_Provider = AppIntegrationProviderSCIM, i_Enabled = True,
                       i_Config = \<lparr>ic_BaseURL = baseURL, ic_TimeoutMS = timeout sdiv millisecond, ic_AuthMode = AppIntegrationAuthBearer\<rparr>,
                       i_EncryptedToken = encToken, i_EncryptedDEK = encDEK, i_CreatedAt = zero_time, i_UpdatedAt = zero_time\<rparr>);
                   ret (case y of Inl err \<Rightarrow> Some (StoreFailed err) | Inr row \<Rightarrow> None) } }) })"

subsection \<open>The start of the server\<close>

text \<open>From the signing key to the first load of the provisioners. Whether the WebAuthn library accepts the relying-party parameters
  is the argument \<open>waOK\<close>; a failed import is logged and ignored.\<close>

definition pg_buildProvSet :: "server \<Rightarrow> provisioner list option act" where
  "pg_buildProvSet s = do {
     x \<leftarrow> store pg_ListEnabledIntegrations;
     ret (case x of Inl e \<Rightarrow> None | Inr rows \<Rightarrow> Some (List.map_filter (buildProvisioner s) rows)) }"

definition startup :: "server \<Rightarrow> 'k keylib \<Rightarrow> envutil \<Rightarrow> (string \<times> string list \<Rightarrow> bool) \<Rightarrow> (admin_error + 'k Signer) act" where
  "startup s lib e waOK = do {
     k \<leftarrow> LoadOrCreate s lib;
     case k of
       Inl err \<Rightarrow> ret (Inl (KeyFailed err))
     | Inr signer \<Rightarrow>
       if \<not> waOK (webAuthnParams e (srv_issuer s)) then ret (Inl WebAuthnFailed)
       else do {
         ignored \<leftarrow> autoImportLegacyVaultEnv s e;
         ps \<leftarrow> pg_buildProvSet s;
         case ps of
           None \<Rightarrow> ret (Inl ProvisionersFailed)
         | Some live \<Rightarrow> do { set_registry live; ret (Inr signer) } } }"

subsection \<open>Back-filling a target\<close>

fun sync_integrations :: "server \<Rightarrow> AppIntegration list \<Rightarrow> (string \<times> sync_counts) list act" where
  "sync_integrations s [] = ret []"
| "sync_integrations s (i # is) =
    (case buildProvisioner s i of
       None \<Rightarrow> sync_integrations s is
     | Some p \<Rightarrow> do {
         c \<leftarrow> SyncAll s p;
         cs \<leftarrow> sync_integrations s is;
         ret ((i_Name i, c) # cs) })"

definition runAdminSync :: "server \<Rightarrow> envutil \<Rightarrow> string option \<Rightarrow> string \<Rightarrow> (admin_error + (string \<times> sync_counts) list) act" where
  "runAdminSync s e setup target =
     (case setup of
        Some err \<Rightarrow> ret (Inl (SetupFailed err))
      | None \<Rightarrow> do {
          ignored \<leftarrow> autoImportLegacyVaultEnv s e;
          if target = [] then ret (Inl NoTarget)
          else if target = ''all'' then do {
            x \<leftarrow> store pg_ListEnabledIntegrations;
            case x of
              Inl err \<Rightarrow> ret (Inl (StoreFailed err))
            | Inr is \<Rightarrow> if is = [] then ret (Inl NothingEnabled) else do { cs \<leftarrow> sync_integrations s is; ret (Inr cs) } }
          else do {
            x \<leftarrow> store (pg_GetIntegrationByName target);
            case x of
              Inl err \<Rightarrow> ret (Inl (StoreFailed err))
            | Inr i \<Rightarrow> do { cs \<leftarrow> sync_integrations s [i]; ret (Inr cs) } } })"

subsection \<open>Properties of a created user\<close>

lemma default_rules_on_password:
  "policy_First ut now DefaultPCIRules (password_context pw) = None \<longleftrightarrow> pw = [] \<or> strong_password ut pw"
  unfolding policy_First_None_iff DefaultPCIRules_def
  by (simp add: password_context_def password_rule_exact eval_PasswordAge_def eval_AccountLockout_def eval_MFARequired_def
      eval_SessionIdle_def eval_ClientSecretAge_def containsScope_def)

lemma new_password_rule: "validateNewUserPassword ut now pw allowWeak = None \<longleftrightarrow> allowWeak \<or> strong_password ut pw"
proof -
  have "\<not> strong_password ut []" by (simp add: strong_password_def)
  then show ?thesis by (auto simp: validateNewUserPassword_def default_rules_on_password)
qed

lemma pg_CreateUser_Inr:
  assumes "fst (pg_CreateUser now uid em h nm d) = Inr u"
  shows "snd (pg_CreateUser now uid em h nm d) = d\<lparr>users := users d @ [u]\<rparr> \<and> u_Email u = em \<and> u_PasswordHash u = h \<and> u_Name u = nm
    \<and> u_Active u \<and> \<not> u_IsAdmin u \<and> uniq_users (users d @ [u])"
  using assms by (auto simp: pg_CreateUser_def insert_outcome_def Let_def split: if_splits)

definition admin_row :: "time \<Rightarrow> bool \<Rightarrow> User \<Rightarrow> User" where
  "admin_row now isAdmin u = (if isAdmin then u\<lparr>u_IsAdmin := True, u_UpdatedAt := micro now\<rparr> else u)"

lemma promote_new_row:
  assumes "uniq_users (us @ [u])"
  shows "sql_update (\<lambda>x. u_ID x = u_ID u) f (us @ [u]) = us @ [f u]"
proof -
  have "u_ID x \<noteq> u_ID u" if "x \<in> set us" for x using assms that by (auto simp: uniq_users_def image_iff)
  then show ?thesis by (simp add: sql_update_def map_idI)
qed

definition new_user_row :: "server \<Rightarrow> string \<Rightarrow> string \<Rightarrow> string \<Rightarrow> db \<Rightarrow> User \<Rightarrow> bool" where
  "new_user_row s email password name d u \<longleftrightarrow> u_Email u = ToLower email \<and> u_Name u = (if name = [] then fst (cut_at CHR ''@'' email) else name)
     \<and> (\<exists>n. x_HashPassword (srv_ext s) n password = Some (u_PasswordHash u)) \<and> u_Active u \<and> \<not> u_IsAdmin u \<and> uniq_users (users d @ [u])"

lemma store_new_user_steps:
  assumes "run_state (store_new_user s email password name) w = (res, w')"
  shows "w_now w' = w_now w \<and> (case res of Inl e \<Rightarrow> w_db w' = w_db w | Inr u \<Rightarrow> w_db w' = (w_db w)\<lparr>users := users (w_db w) @ [u]\<rparr> \<and> new_user_row s email password name (w_db w) u)"
proof -
  have fails: "snd (pg_CreateUser now uid em h nm d) = d" if "fst (pg_CreateUser now uid em h nm d) = Inl e" for now uid em h nm d e
    using that by (auto simp: pg_CreateUser_def insert_outcome_def Let_def split: if_splits)
  show ?thesis using assms
    by (auto simp: store_new_user_def run_simps store_at_def newUUID_def HashPassword_def Let_def new_user_row_def
        dest!: pg_CreateUser_Inr fails split: case_splits)
qed

lemma promote_new_user_steps:
  assumes "run_state (promote_new_user isAdmin u) w = (res, w')" "uniq_users (us @ [u])" "users (w_db w) = us @ [u]"
  shows "(\<exists>e. isAdmin \<and> res = Inl (AdminFailed e)) \<and> w_db w' = w_db w \<or>
    res = Inr u \<and> w_db w' = (w_db w)\<lparr>users := us @ [admin_row (w_now w) isAdmin u]\<rparr>"
  using assms(1) promote_new_row [OF assms(2)] assms(3)
  by (auto simp: promote_new_user_def run_simps store_at_def pg_SetUserAdmin_def update_user_def admin_row_def split: case_splits)

text \<open>C20. An operator's new account is the one asked for, or there is none. When \<open>authd admin user create\<close> reports success, the
  password is strong (at least twelve bytes and all four character classes) unless the check was waived, and the users table is the
  old one plus one active user with the lower-cased e-mail, the given name or the local part of the e-mail, a hash of that
  password and the requested administrator flag. When it fails the tables are unchanged, except that a failure to promote an
  administrator leaves the new account without the flag.\<close>

theorem admin_user_create_exact:
  assumes "run_state (runAdminUserCreate s setup email password name isAdmin allowWeak) w = (res, w')"
  shows "case res of
      Inr u \<Rightarrow> (allowWeak \<or> strong_password (srv_unicode s) password) \<and> new_user_row s email password name (w_db w) u
        \<and> w_db w' = (w_db w)\<lparr>users := users (w_db w) @ [admin_row (w_now w) isAdmin u]\<rparr>
    | Inl e \<Rightarrow> w_db w' = w_db w \<or> (\<exists>u x. isAdmin \<and> e = AdminFailed x \<and> new_user_row s email password name (w_db w) u
        \<and> w_db w' = (w_db w)\<lparr>users := users (w_db w) @ [u]\<rparr>)"
proof (cases "(\<not> allowWeak \<and> \<not> strong_password (srv_unicode s) password) \<or> setup \<noteq> None")
  case True
  then show ?thesis using assms
    by (cases "validateNewUserPassword (srv_unicode s) (w_now w) password allowWeak")
      (auto simp: runAdminUserCreate_def run_simps new_password_rule)
next
  case False
  then have v: "validateNewUserPassword (srv_unicode s) (w_now w) password allowWeak = None" "setup = None" by (auto simp: new_password_rule)
  obtain x w1 where x: "run_state (store_new_user s email password name) w = (x, w1)" by fastforce
  note st = store_new_user_steps [OF x]
  show ?thesis
  proof (cases x)
    case (Inl e)
    then show ?thesis using assms v x st by (auto simp: runAdminUserCreate_def run_simps)
  next
    case (Inr u)
    then have r: "run_state (promote_new_user isAdmin u) w1 = (res, w')" using assms v x by (simp add: runAdminUserCreate_def run_simps)
    have u: "new_user_row s email password name (w_db w) u" "w_db w1 = (w_db w)\<lparr>users := users (w_db w) @ [u]\<rparr>" "w_now w1 = w_now w"
      using st Inr by auto
    then have "uniq_users (users (w_db w) @ [u])" "users (w_db w1) = users (w_db w) @ [u]" by (simp_all add: new_user_row_def)
    from promote_new_user_steps [OF r this] show ?thesis using u False by auto
  qed
qed

text \<open>An administrator created on the example database.\<close>

lemma demo_strong: "strong_password demo_unicode ''Correct-Horse-1''"
  unfolding strong_password_def demo_unicode_def by code_simp

theorem admin_user_create_exact_witness:
  "case run_state (runAdminUserCreate demo_server None ''New@b.c'' ''Correct-Horse-1'' [] True False) demo_world of
     (Inr u, w') \<Rightarrow> new_user_row demo_server ''New@b.c'' ''Correct-Horse-1'' [] demo_db u
       \<and> users (w_db w') = users demo_db @ [admin_row demo_now True u]
   | (Inl e, w') \<Rightarrow> False"
proof -
  obtain res w' where run: "run_state (runAdminUserCreate demo_server None ''New@b.c'' ''Correct-Horse-1'' [] True False) demo_world = (res, w')"
    by fastforce
  have "validateNewUserPassword (srv_unicode demo_server) (w_now demo_world) ''Correct-Horse-1'' False = None"
    using demo_strong by (simp add: new_password_rule demo_server_def)
  moreover have "ToLower ''New@b.c'' = ''new@b.c''" by code_simp
  ultimately have "\<exists>u. res = Inr u" using run
    by (auto simp: runAdminUserCreate_def store_new_user_def promote_new_user_def pg_CreateUser_def pg_SetUserAdmin_def
        newUUID_def HashPassword_def store_at_def demo_eval demo_defs split: prod.splits)
  then show ?thesis using admin_user_create_exact [OF run] run by (auto simp: demo_world_def)
qed

subsection \<open>Starting the server\<close>

lemma pg_CreateIntegration_row:
  "fst (pg_CreateIntegration now f i d) = Inr row \<Longrightarrow> snd (pg_CreateIntegration now f i d) = d\<lparr>integrations := integrations d @ [row]\<rparr> \<and> i_Name row = i_Name i"
  "fst (pg_CreateIntegration now f i d) = Inl e \<Longrightarrow> snd (pg_CreateIntegration now f i d) = d"
  by (auto simp: pg_CreateIntegration_def insert_outcome_def Let_def split: if_splits)

text \<open>The import touches an empty integrations table only, and then adds at most the one row \<open>vault\<close>; so it happens at most once.\<close>

lemma sort_key_Nil: "sort_key f xs = [] \<longleftrightarrow> xs = []"
  by (metis length_0_conv length_sort)

lemma legacy_import_once:
  assumes "run_state (autoImportLegacyVaultEnv s e) w = (res, w')"
  shows "w_db w' = w_db w \<or> (integrations (w_db w) = [] \<and> (\<exists>row. i_Name row = ''vault'' \<and> w_db w' = (w_db w)\<lparr>integrations := [row]\<rparr>))"
  using assms
  by (auto simp: autoImportLegacyVaultEnv_def run_simps store_at_def newUUID_def Let_def timeless ListIntegrations_def sort_key_Nil
      dest!: pg_CreateIntegration_row split: case_splits)

lemma legacy_import_keys:
  "run_state (autoImportLegacyVaultEnv s e) w = (res, w') \<Longrightarrow> signing_keys (w_db w') = signing_keys (w_db w)"
  using legacy_import_once [of s e w res w'] by auto

text \<open>A server that starts has exactly the provisioners of the enabled integrations, in the order of their creation.\<close>

lemma startup_steps:
  assumes "run_state (startup s lib e waOK) w = (Inr sg, w')"
  obtains w1 r w2 where "run_state (LoadOrCreate s lib) w = (Inr sg, w1)" "run_state (autoImportLegacyVaultEnv s e) w1 = (r, w2)" "w_db w' = w_db w2"
    "w_registry w' = Some (List.map_filter (buildProvisioner s) (sort_key i_CreatedAt (filter i_Enabled (integrations (w_db w')))))"
proof -
  obtain w1 where k: "run_state (LoadOrCreate s lib) w = (Inr sg, w1)"
    using assms by (auto simp: startup_def run_simps split: case_splits)
  obtain r w2 where i: "run_state (autoImportLegacyVaultEnv s e) w1 = (r, w2)" by fastforce
  have "w_registry w' = Some (List.map_filter (buildProvisioner s) (sort_key i_CreatedAt (filter i_Enabled (integrations (w_db w2))))) \<and> w_db w' = w_db w2"
    using assms k i by (auto simp: startup_def run_simps pg_buildProvSet_def timeless ListEnabledIntegrations_def split: case_splits)
  then show ?thesis using that [OF k i] by simp
qed

text \<open>When the stored keys open, it signs with the key the database has as the active one.\<close>

lemma startup_sound:
  assumes "run_state (startup s lib e waOK) w = (Inr sg, w')" "envelope_inverse s" "pkcs8_inverse lib" "keys_open s lib (w_db w)"
  shows "\<exists>k. fst (GetActiveSigningKey (w_db w')) = Inr k \<and> decryptKey s lib k = Inr sg"
proof -
  obtain w1 r w2 where k: "run_state (LoadOrCreate s lib) w = (Inr sg, w1)" "run_state (autoImportLegacyVaultEnv s e) w1 = (r, w2)" "w_db w' = w_db w2"
    using startup_steps [OF assms(1)] by metis
  have "fst (GetActiveSigningKey (w_db w2)) = fst (GetActiveSigningKey (w_db w1))"
    using legacy_import_keys [OF k(2)] by (simp add: GetActiveSigningKey_def)
  then show ?thesis using k(3) LoadOrCreate_state [OF assms(2-4) k(1)] by simp
qed

end
