(* ===== verification/Outbound.thy ===== *)
theory Outbound
  imports Admin_Properties
begin

text \<open>
  Two requests the server makes to other systems that no table depends on: the push of a logout token to one relying party
  (\<open>pushLogoutToken\<close> of \<open>backchannel_logout.go\<close>, the body of the goroutine \<open>broadcastLogout\<close> starts) and the connection test
  of an integration (\<open>web_portal_integrations.go\<close>). Minting the token and the HTTP exchange are arguments.
\<close>

subsection \<open>Logout tokens\<close>

datatype push_outcome = BuildFailed string | DialFailed string | PushStatus int

definition logoutScope :: "string \<Rightarrow> string" where
  "logoutScope sid = (if sid = [] then ''user'' else ''session'')"

definition backchannelLogoutTimeout :: duration where "backchannelLogoutTimeout = 5 * second"

definition push_meta :: "string \<Rightarrow> string \<Rightarrow> string \<Rightarrow> push_outcome \<Rightarrow> (string \<times> json) list" where
  "push_meta jti logoutURI sid res =
     (case res of
        BuildFailed e \<Rightarrow> [(''status'', JStr ''build_failed''), (''err'', JStr e), (''jti'', JStr jti), (''uri'', JStr logoutURI)]
      | DialFailed e \<Rightarrow> [(''status'', JStr ''dial_failed''), (''err'', JStr e), (''jti'', JStr jti), (''uri'', JStr logoutURI)]
      | PushStatus n \<Rightarrow>
        if n < 200 \<or> n \<ge> 300
        then [(''status'', JStr ''http_error''), (''http_status'', JInt n), (''jti'', JStr jti), (''uri'', JStr logoutURI)]
        else [(''status'', JStr ''ok''), (''http_status'', JInt n), (''jti'', JStr jti), (''uri'', JStr logoutURI), (''scope'', JStr (logoutScope sid))])"

definition pushLogoutToken ::
  "server \<Rightarrow> (string \<Rightarrow> string \<Rightarrow> string \<Rightarrow> string \<Rightarrow> time \<Rightarrow> string + string) \<Rightarrow> (string \<Rightarrow> string \<Rightarrow> push_outcome)
   \<Rightarrow> request \<Rightarrow> uuid \<Rightarrow> string \<Rightarrow> string \<Rightarrow> string \<Rightarrow> string \<Rightarrow> unit act" where
  "pushLogoutToken s mint post r clientDBID logoutURI clientID sub sid = do {
     n \<leftarrow> newUUID s;
     let jti = x_UUIDString (srv_ext s) n;
     now \<leftarrow> get_now;
     ok \<leftarrow> logAudit s r ''auth.logout.backchannel'' None (Some clientDBID)
       (case mint clientID sub sid jti now of
          Inl e \<Rightarrow> [(''status'', JStr ''mint_failed''), (''err'', JStr e), (''jti'', JStr jti)]
        | Inr token \<Rightarrow> push_meta jti logoutURI sid (post logoutURI token));
     ret () }"

subsection \<open>Testing an integration\<close>

text \<open>What \<open>GET ServiceProviderConfig\<close> came to: no response, or its status, the trimmed excerpt and the documentation URI read from it.
  The text of an error of the key provider is its package's; the model writes \<open>decrypt\<close> for it.\<close>

datatype probe = ProbeError string | ProbeReply nat string string

definition scimServiceProviderConfig ::
  "server \<Rightarrow> (string \<Rightarrow> string option \<Rightarrow> duration \<Rightarrow> probe) \<Rightarrow> AppIntegration \<Rightarrow> string + (nat \<times> string)" where
  "scimServiceProviderConfig s get row =
     (let cfg = i_Config row;
          authMode = (if ic_AuthMode cfg = [] then AppIntegrationAuthBearer else ic_AuthMode cfg);
          t = int64 (ic_TimeoutMS cfg * millisecond);
          timeout = (if t \<le> 0 then 10 * second else t);
          endpoint = TrimRight_slash (ic_BaseURL cfg) @ ''/ServiceProviderConfig'';
          finish = (\<lambda>auth. case get endpoint auth timeout of
             ProbeError e \<Rightarrow> Inl e
           | ProbeReply status excerpt doc \<Rightarrow> if status \<ge> 400 then Inl excerpt else Inr (status, doc)) in
      if ic_BaseURL cfg = [] then Inl ''missing base URL''
      else if authMode = AppIntegrationAuthBearer then
        (case x_DecryptEnvelope (srv_ext s) (i_EncryptedDEK row) (i_EncryptedToken row) of
           None \<Rightarrow> Inl ''decrypt''
         | Some token \<Rightarrow> finish (Some (''Bearer '' @ token)))
      else if authMode = AppIntegrationAuthMTLS then
        (if \<not> srv_hasSCIMTLS s then Inl ''mtls auth_mode but AUTHD_SCIM_MTLS_CERT/KEY are unset'' else finish None)
      else Inl (''unsupported auth_mode: '' @ authMode))"

definition handlePortalAdminIntegrationTest ::
  "server \<Rightarrow> (string \<Rightarrow> string option \<Rightarrow> duration \<Rightarrow> probe) \<Rightarrow> request \<Rightarrow> Session \<Rightarrow> User \<Rightarrow> response act" where
  "handlePortalAdminIntegrationTest s get r sess admin =
     (case rq_pathID r of
        None \<Rightarrow> ret (integrations_flash ''error'' ''invalid id'')
      | Some i \<Rightarrow> do {
          x \<leftarrow> store (GetIntegration i);
          case x of
            Inl e \<Rightarrow> ret (integrations_flash ''error'' ''integration not found'')
          | Inr row \<Rightarrow>
            if i_Provider row \<noteq> AppIntegrationProviderSCIM
            then ret (integrations_flash ''notice'' ''Test only supported for SCIM integrations.'')
            else (case scimServiceProviderConfig s get row of
                Inl err \<Rightarrow> do {
                  ok \<leftarrow> logAudit s r ''admin.integration.tested'' (Some (u_ID admin)) None
                    [(''name'', JStr (i_Name row)), (''ok'', JBool False), (''err'', JStr err)];
                  ret (if \<not> ok then auditFail else integrations_flash ''error'' (''Test failed: '' @ err)) }
              | Inr (status, doc) \<Rightarrow> do {
                  ok \<leftarrow> logAudit s r ''admin.integration.tested'' (Some (u_ID admin)) None
                    [(''name'', JStr (i_Name row)), (''ok'', JBool True), (''status'', JInt (int status))];
                  ret (if \<not> ok then auditFail
                       else integrations_flash ''success'' (''Connection OK (HTTP '' @ decimal status @ '')'' @ (if doc = [] then [] else '' '' @ doc))) }) })"

subsection \<open>Lemmas\<close>

lemma logAudit_entry:
  assumes "run_state (logAudit s r a u c meta) w = (ok, w')"
  shows "w_db w' = w_db w \<and> (if ok then \<exists>e. w_journal w' = w_journal w @ [e] \<and> ae_Action e = a \<and> ae_ClientID e = c \<and> ae_UserID e = u \<and> ae_Metadata e = meta
    else w_journal w' = w_journal w)"
  using logAudit_result [OF assms] by auto

text \<open>With the journal up, every push leaves exactly one entry for the client it concerns, whatever the relying party does, and touches
  no table.\<close>

lemma push_audited_once:
  assumes "run_state (pushLogoutToken s mint post r cid uri clientID sub sid) w = (u, w')" "w_auditFaults w = []"
  shows "w_db w' = w_db w \<and> (\<exists>e. w_journal w' = w_journal w @ [e] \<and> ae_Action e = ''auth.logout.backchannel'' \<and> ae_ClientID e = Some cid)"
proof -
  obtain meta w1 ok where run: "run_state (logAudit s r ''auth.logout.backchannel'' None (Some cid) meta) w1 = (ok, w')"
    and w1: "w_db w1 = w_db w" "w_journal w1 = w_journal w" "w_auditFaults w1 = []"
    using assms by (auto simp: pushLogoutToken_def newUUID_def run_simps Let_def split: prod.splits)
  then show ?thesis using logAudit_entry [OF run] logAudit_ok(1) [OF w1(3) run] by auto
qed

text \<open>The connection test changes no table and, once the probe was made, reports only after the journal recorded it.\<close>

lemma integration_test_harmless:
  assumes "run_state (handlePortalAdminIntegrationTest s get r sess admin) w = (resp, w')"
  shows "w_db w' = w_db w \<and> (resp = auditFail \<longrightarrow> w_journal w' = w_journal w)
    \<and> (\<forall>msg. resp = integrations_flash ''success'' msg \<longrightarrow> (\<exists>e. w_journal w' = w_journal w @ [e] \<and> ae_Action e = ''admin.integration.tested''))"
  using assms
  by (auto simp: handlePortalAdminIntegrationTest_def run_simps GetIntegration_def integrations_flash_def auditFail_def
      split: case_splits dest!: logAudit_entry)

end
