(* ===== verification/Store_Interface.thy ===== *)
theory Store_Interface
  imports Backends
begin

text \<open>
  The persistence interface of \<open>src/internal/store/store.go\<close>: one \<open>record\<close> of methods per Go interface over a
  state type \<open>'st\<close>, the record \<open>Store\<close> that embeds them, and the SQLite and PostgreSQL models as its two
  values. A method that reads the clock or draws an identifier (\<open>time.Now\<close>, \<open>CURRENT_TIMESTAMP\<close>, \<open>uuid.New\<close>)
  takes them as its first arguments; a \<open>Create\<close> method that fills in the struct behind the caller's pointer returns
  the filled struct.
\<close>

subsection \<open>The interfaces\<close>

record 'st UserStore =
  st_CreateUser :: "time \<Rightarrow> uuid \<Rightarrow> string \<Rightarrow> string \<Rightarrow> string \<Rightarrow> 'st \<Rightarrow> (store_error + User) \<times> 'st"
  st_GetUserByID :: "uuid \<Rightarrow> 'st \<Rightarrow> (store_error + User) \<times> 'st"
  st_GetUserByEmail :: "string \<Rightarrow> 'st \<Rightarrow> (store_error + User) \<times> 'st"
  st_ListUsers :: "'st \<Rightarrow> (store_error + User list) \<times> 'st"
  st_CountUsers :: "'st \<Rightarrow> (store_error + nat) \<times> 'st"
  st_UpdateUser :: "time \<Rightarrow> uuid \<Rightarrow> string \<Rightarrow> bool \<Rightarrow> 'st \<Rightarrow> (store_error + unit) \<times> 'st"
  st_UpdateUserPassword :: "time \<Rightarrow> uuid \<Rightarrow> string \<Rightarrow> 'st \<Rightarrow> (store_error + unit) \<times> 'st"
  st_UpdateUserMFAEnabled :: "time \<Rightarrow> uuid \<Rightarrow> bool \<Rightarrow> 'st \<Rightarrow> (store_error + unit) \<times> 'st"
  st_UpdateUserFailedAttempts :: "time \<Rightarrow> uuid \<Rightarrow> int \<Rightarrow> time option \<Rightarrow> 'st \<Rightarrow> (store_error + unit) \<times> 'st"
  st_SetUserActive :: "time \<Rightarrow> uuid \<Rightarrow> bool \<Rightarrow> 'st \<Rightarrow> (store_error + unit) \<times> 'st"
  st_SetUserSCIMExternalID :: "time \<Rightarrow> uuid \<Rightarrow> string \<Rightarrow> 'st \<Rightarrow> (store_error + unit) \<times> 'st"
  st_SetUserAdmin :: "time \<Rightarrow> uuid \<Rightarrow> bool \<Rightarrow> 'st \<Rightarrow> (store_error + unit) \<times> 'st"
  st_SetUserMustChangePassword :: "time \<Rightarrow> uuid \<Rightarrow> bool \<Rightarrow> 'st \<Rightarrow> (store_error + unit) \<times> 'st"
  st_DeleteUser :: "uuid \<Rightarrow> 'st \<Rightarrow> (store_error + unit) \<times> 'st"

record 'st ClientStore =
  st_CreateClient ::
    "time \<Rightarrow> uuid \<Rightarrow> string \<Rightarrow> string \<Rightarrow> string \<Rightarrow> string list \<Rightarrow> string list \<Rightarrow> bool \<Rightarrow> string option \<Rightarrow> 'st \<Rightarrow> (store_error + Client) \<times> 'st"
  st_GetClientByID :: "uuid \<Rightarrow> 'st \<Rightarrow> (store_error + Client) \<times> 'st"
  st_GetClientByClientID :: "string \<Rightarrow> 'st \<Rightarrow> (store_error + Client) \<times> 'st"
  st_ListClients :: "'st \<Rightarrow> (store_error + Client list) \<times> 'st"
  st_UpdateClient ::
    "uuid \<Rightarrow> string \<Rightarrow> string list \<Rightarrow> string list \<Rightarrow> bool \<Rightarrow> string option \<Rightarrow> 'st \<Rightarrow> (store_error + unit) \<times> 'st"
  st_UpdateClientSecret :: "time \<Rightarrow> uuid \<Rightarrow> string \<Rightarrow> 'st \<Rightarrow> (store_error + unit) \<times> 'st"
  st_DeleteClient :: "uuid \<Rightarrow> 'st \<Rightarrow> (store_error + unit) \<times> 'st"
  st_UpdateClientPortalConfig ::
    "uuid \<Rightarrow> bool \<Rightarrow> string \<Rightarrow> string \<Rightarrow> string \<Rightarrow> bool \<Rightarrow> 'st \<Rightarrow> (store_error + unit) \<times> 'st"
  st_UpdateClientDeviceGrant :: "uuid \<Rightarrow> bool \<Rightarrow> 'st \<Rightarrow> (store_error + unit) \<times> 'st"
  st_ReplaceClientVisibility :: "time \<Rightarrow> uuid \<Rightarrow> (uuid \<times> uuid) list \<Rightarrow> 'st \<Rightarrow> (store_error + unit) \<times> 'st"
  st_ListClientVisibility :: "uuid \<Rightarrow> 'st \<Rightarrow> (store_error + uuid list) \<times> 'st"
  st_ListPortalClientsForUser :: "uuid \<Rightarrow> 'st \<Rightarrow> (store_error + Client list) \<times> 'st"

record 'st GrantStore =
  st_CreateGrant :: "Grant \<Rightarrow> 'st \<Rightarrow> (store_error + unit) \<times> 'st"
  st_GetGrantByCodeHash :: "string \<Rightarrow> 'st \<Rightarrow> (store_error + Grant) \<times> 'st"
  st_MarkGrantUsed :: "time \<Rightarrow> uuid \<Rightarrow> 'st \<Rightarrow> (store_error + unit) \<times> 'st"
  st_DeleteExpiredGrants :: "time \<Rightarrow> 'st \<Rightarrow> (store_error + unit) \<times> 'st"

record 'st SessionStore =
  st_CreateSession :: "time \<Rightarrow> Session \<Rightarrow> 'st \<Rightarrow> (store_error + unit) \<times> 'st"
  st_GetSessionByAccessTokenHash :: "string \<Rightarrow> 'st \<Rightarrow> (store_error + Session) \<times> 'st"
  st_GetSessionByRefreshTokenHash :: "string \<Rightarrow> 'st \<Rightarrow> (store_error + Session) \<times> 'st"
  st_UpdateSessionActivity :: "uuid \<Rightarrow> time \<Rightarrow> 'st \<Rightarrow> (store_error + unit) \<times> 'st"
  st_ExtendSessionExpiry :: "uuid \<Rightarrow> time \<Rightarrow> 'st \<Rightarrow> (store_error + unit) \<times> 'st"
  st_RotateRefreshToken ::
    "uuid \<Rightarrow> string \<Rightarrow> string \<Rightarrow> string \<Rightarrow> time \<Rightarrow> time \<Rightarrow> 'st \<Rightarrow> (store_error + unit) \<times> 'st"
  st_GetSessionByRetiredRefreshTokenHash :: "string \<Rightarrow> 'st \<Rightarrow> (store_error + Session) \<times> 'st"
  st_MarkSessionMFA :: "uuid \<Rightarrow> time \<Rightarrow> 'st \<Rightarrow> (store_error + unit) \<times> 'st"
  st_DeleteSession :: "uuid \<Rightarrow> 'st \<Rightarrow> (store_error + unit) \<times> 'st"
  st_DeleteSessionsByUserID :: "uuid \<Rightarrow> 'st \<Rightarrow> (store_error + unit) \<times> 'st"
  st_ListSessionClientIDsByUser :: "uuid \<Rightarrow> 'st \<Rightarrow> (store_error + uuid list) \<times> 'st"
  st_DeleteExpiredSessions :: "time \<Rightarrow> 'st \<Rightarrow> (store_error + unit) \<times> 'st"

record 'st MFAStore =
  st_CreateTOTPCredential :: "time \<Rightarrow> TOTPCredential \<Rightarrow> 'st \<Rightarrow> (store_error + unit) \<times> 'st"
  st_GetTOTPByUserID :: "uuid \<Rightarrow> 'st \<Rightarrow> (store_error + TOTPCredential) \<times> 'st"
  st_EnableTOTP :: "uuid \<Rightarrow> 'st \<Rightarrow> (store_error + unit) \<times> 'st"
  st_DeleteTOTP :: "uuid \<Rightarrow> 'st \<Rightarrow> (store_error + unit) \<times> 'st"
  st_CreateWebAuthnCredential :: "time \<Rightarrow> WebAuthnCredential \<Rightarrow> 'st \<Rightarrow> (store_error + unit) \<times> 'st"
  st_ListWebAuthnCredentials :: "uuid \<Rightarrow> 'st \<Rightarrow> (store_error + WebAuthnCredential list) \<times> 'st"
  st_UpdateWebAuthnCredentialUse :: "uuid \<Rightarrow> nat \<Rightarrow> bool \<Rightarrow> bool \<Rightarrow> time \<Rightarrow> 'st \<Rightarrow> (store_error + unit) \<times> 'st"
  st_DeleteWebAuthnCredential :: "uuid \<Rightarrow> uuid \<Rightarrow> 'st \<Rightarrow> (store_error + unit) \<times> 'st"
  st_CreateWebAuthnSession :: "time \<Rightarrow> uuid \<Rightarrow> uuid \<Rightarrow> bytes \<Rightarrow> string \<Rightarrow> 'st \<Rightarrow> (store_error + uuid) \<times> 'st"
  st_GetWebAuthnSession :: "time \<Rightarrow> uuid \<Rightarrow> uuid \<Rightarrow> string \<Rightarrow> 'st \<Rightarrow> (store_error + bytes) \<times> 'st"
  st_DeleteWebAuthnSession :: "uuid \<Rightarrow> 'st \<Rightarrow> (store_error + unit) \<times> 'st"

record 'st GroupStore =
  st_CreateGroup :: "time \<Rightarrow> uuid \<Rightarrow> string \<Rightarrow> 'st \<Rightarrow> (store_error + SCIMGroup) \<times> 'st"
  st_GetGroupByID :: "uuid \<Rightarrow> 'st \<Rightarrow> (store_error + SCIMGroup) \<times> 'st"
  st_ListGroups :: "'st \<Rightarrow> (store_error + SCIMGroup list) \<times> 'st"
  st_UpdateGroup :: "time \<Rightarrow> uuid \<Rightarrow> string \<Rightarrow> 'st \<Rightarrow> (store_error + unit) \<times> 'st"
  st_ReplaceGroupMembers :: "uuid \<Rightarrow> uuid list \<Rightarrow> 'st \<Rightarrow> (store_error + unit) \<times> 'st"
  st_AddGroupMember :: "uuid \<Rightarrow> uuid \<Rightarrow> 'st \<Rightarrow> (store_error + unit) \<times> 'st"
  st_RemoveGroupMember :: "uuid \<Rightarrow> uuid \<Rightarrow> 'st \<Rightarrow> (store_error + unit) \<times> 'st"
  st_DeleteGroup :: "uuid \<Rightarrow> 'st \<Rightarrow> (store_error + unit) \<times> 'st"

record 'st SigningKeyStore =
  st_CreateSigningKey :: "time \<Rightarrow> SigningKey \<Rightarrow> 'st \<Rightarrow> (store_error + unit) \<times> 'st"
  st_GetActiveSigningKey :: "'st \<Rightarrow> (store_error + SigningKey) \<times> 'st"
  st_ListActiveSigningKeys :: "'st \<Rightarrow> (store_error + SigningKey list) \<times> 'st"
  st_DeactivateSigningKey :: "uuid \<Rightarrow> 'st \<Rightarrow> (store_error + unit) \<times> 'st"

record 'st ExternalIDStore =
  st_GetExternalID :: "string \<Rightarrow> uuid \<Rightarrow> 'st \<Rightarrow> (store_error + string) \<times> 'st"
  st_SetExternalID :: "string \<Rightarrow> uuid \<Rightarrow> string \<Rightarrow> 'st \<Rightarrow> (store_error + unit) \<times> 'st"
  st_DeleteExternalID :: "string \<Rightarrow> uuid \<Rightarrow> 'st \<Rightarrow> (store_error + unit) \<times> 'st"

record 'st IntegrationStore =
  st_CreateIntegration :: "time \<Rightarrow> uuid \<Rightarrow> AppIntegration \<Rightarrow> 'st \<Rightarrow> (store_error + AppIntegration) \<times> 'st"
  st_GetIntegration :: "uuid \<Rightarrow> 'st \<Rightarrow> (store_error + AppIntegration) \<times> 'st"
  st_GetIntegrationByName :: "string \<Rightarrow> 'st \<Rightarrow> (store_error + AppIntegration) \<times> 'st"
  st_ListIntegrations :: "'st \<Rightarrow> (store_error + AppIntegration list) \<times> 'st"
  st_ListEnabledIntegrations :: "'st \<Rightarrow> (store_error + AppIntegration list) \<times> 'st"
  st_UpdateIntegration :: "time \<Rightarrow> AppIntegration \<Rightarrow> 'st \<Rightarrow> (store_error + unit) \<times> 'st"
  st_DeleteIntegration :: "uuid \<Rightarrow> 'st \<Rightarrow> (store_error + unit) \<times> 'st"

record 'st AWSFederationStore =
  st_CreateAWSAccount :: "time \<Rightarrow> uuid \<Rightarrow> AWSAccount \<Rightarrow> 'st \<Rightarrow> (store_error + AWSAccount) \<times> 'st"
  st_GetAWSAccount :: "uuid \<Rightarrow> 'st \<Rightarrow> (store_error + AWSAccount) \<times> 'st"
  st_ListAWSAccounts :: "'st \<Rightarrow> (store_error + AWSAccount list) \<times> 'st"
  st_UpdateAWSAccount :: "time \<Rightarrow> AWSAccount \<Rightarrow> 'st \<Rightarrow> (store_error + unit) \<times> 'st"
  st_DeleteAWSAccount :: "uuid \<Rightarrow> 'st \<Rightarrow> (store_error + unit) \<times> 'st"
  st_CreateAWSRole :: "time \<Rightarrow> uuid \<Rightarrow> AWSRole \<Rightarrow> 'st \<Rightarrow> (store_error + AWSRole) \<times> 'st"
  st_GetAWSRole :: "uuid \<Rightarrow> 'st \<Rightarrow> (store_error + AWSRole) \<times> 'st"
  st_ListAWSRoles :: "'st \<Rightarrow> (store_error + AWSRole list) \<times> 'st"
  st_UpdateAWSRole :: "time \<Rightarrow> AWSRole \<Rightarrow> 'st \<Rightarrow> (store_error + unit) \<times> 'st"
  st_DeleteAWSRole :: "uuid \<Rightarrow> 'st \<Rightarrow> (store_error + unit) \<times> 'st"
  st_CreateAWSRoleAssignment ::
    "time \<Rightarrow> uuid \<Rightarrow> AWSRoleAssignment \<Rightarrow> 'st \<Rightarrow> (store_error + AWSRoleAssignment) \<times> 'st"
  st_ListAWSRoleAssignments :: "'st \<Rightarrow> (store_error + AWSRoleAssignment list) \<times> 'st"
  st_ListAWSRolesForUser :: "uuid \<Rightarrow> 'st \<Rightarrow> (store_error + AWSRole list) \<times> 'st"
  st_DeleteAWSRoleAssignment :: "uuid \<Rightarrow> 'st \<Rightarrow> (store_error + unit) \<times> 'st"
  st_AddAWSRevokedUser :: "time \<Rightarrow> uuid \<Rightarrow> string \<Rightarrow> 'st \<Rightarrow> (store_error + unit) \<times> 'st"
  st_ListAWSRevokedUsers :: "uuid \<Rightarrow> 'st \<Rightarrow> (store_error + AWSRevokedUser list) \<times> 'st"
  st_ListAWSRevokedUsersOlderThan :: "time \<Rightarrow> 'st \<Rightarrow> (store_error + AWSRevokedUser list) \<times> 'st"
  st_DeleteAWSRevokedUser :: "uuid \<Rightarrow> string \<Rightarrow> 'st \<Rightarrow> (store_error + unit) \<times> 'st"

record 'st DeviceGrantStore =
  st_CreateDeviceGrant :: "time \<Rightarrow> uuid \<Rightarrow> DeviceGrant \<Rightarrow> 'st \<Rightarrow> (store_error + uuid) \<times> 'st"
  st_GetDeviceGrantByDeviceCodeHash :: "string \<Rightarrow> 'st \<Rightarrow> (store_error + DeviceGrant) \<times> 'st"
  st_GetDeviceGrantByUserCodeHash :: "string \<Rightarrow> 'st \<Rightarrow> (store_error + DeviceGrant) \<times> 'st"
  st_MarkDeviceGrantApproved ::
    "uuid \<Rightarrow> uuid \<Rightarrow> bool \<Rightarrow> time option \<Rightarrow> string \<Rightarrow> 'st \<Rightarrow> (store_error + unit) \<times> 'st"
  st_MarkDeviceGrantDenied :: "uuid \<Rightarrow> string \<Rightarrow> 'st \<Rightarrow> (store_error + unit) \<times> 'st"
  st_MarkDeviceGrantRedeemed :: "uuid \<Rightarrow> 'st \<Rightarrow> (store_error + unit) \<times> 'st"
  st_UpdateDeviceGrantPoll :: "uuid \<Rightarrow> time \<Rightarrow> int \<Rightarrow> 'st \<Rightarrow> (store_error + unit) \<times> 'st"
  st_DeleteExpiredDeviceGrants :: "time \<Rightarrow> 'st \<Rightarrow> (store_error + nat) \<times> 'st"

record 'st Store =
  sUser :: "'st UserStore"
  sClient :: "'st ClientStore"
  sGrant :: "'st GrantStore"
  sSession :: "'st SessionStore"
  sMFA :: "'st MFAStore"
  sGroup :: "'st GroupStore"
  sSigningKey :: "'st SigningKeyStore"
  sExternalID :: "'st ExternalIDStore"
  sIntegration :: "'st IntegrationStore"
  sAWS :: "'st AWSFederationStore"
  sDevice :: "'st DeviceGrantStore"

subsection \<open>The two implementations\<close>

text \<open>\<open>sqlite.DB\<close> and \<open>postgres.DB\<close> as values of the interface; PostgreSQL orders names by the collation of
  the database, \<open>coll\<close>.\<close>

definition sqlite_store :: "db Store" where
  "sqlite_store = \<lparr>
     sUser = \<lparr>st_CreateUser = CreateUser, st_GetUserByID = GetUserByID, st_GetUserByEmail = GetUserByEmail,
       st_ListUsers = ListUsers, st_CountUsers = CountUsers, st_UpdateUser = UpdateUser,
       st_UpdateUserPassword = UpdateUserPassword, st_UpdateUserMFAEnabled = UpdateUserMFAEnabled,
       st_UpdateUserFailedAttempts = UpdateUserFailedAttempts, st_SetUserActive = SetUserActive,
       st_SetUserSCIMExternalID = SetUserSCIMExternalID, st_SetUserAdmin = SetUserAdmin,
       st_SetUserMustChangePassword = SetUserMustChangePassword, st_DeleteUser = DeleteUser\<rparr>,
     sClient = \<lparr>st_CreateClient = CreateClient, st_GetClientByID = GetClientByID,
       st_GetClientByClientID = GetClientByClientID, st_ListClients = ListClients, st_UpdateClient = UpdateClient,
       st_UpdateClientSecret = UpdateClientSecret, st_DeleteClient = DeleteClient,
       st_UpdateClientPortalConfig = UpdateClientPortalConfig, st_UpdateClientDeviceGrant = UpdateClientDeviceGrant,
       st_ReplaceClientVisibility = ReplaceClientVisibility, st_ListClientVisibility = ListClientVisibility,
       st_ListPortalClientsForUser = ListPortalClientsForUser\<rparr>,
     sGrant = \<lparr>st_CreateGrant = CreateGrant, st_GetGrantByCodeHash = GetGrantByCodeHash,
       st_MarkGrantUsed = MarkGrantUsed, st_DeleteExpiredGrants = DeleteExpiredGrants\<rparr>,
     sSession = \<lparr>st_CreateSession = CreateSession, st_GetSessionByAccessTokenHash = GetSessionByAccessTokenHash,
       st_GetSessionByRefreshTokenHash = GetSessionByRefreshTokenHash, st_UpdateSessionActivity = UpdateSessionActivity,
       st_ExtendSessionExpiry = ExtendSessionExpiry, st_RotateRefreshToken = RotateRefreshToken,
       st_GetSessionByRetiredRefreshTokenHash = GetSessionByRetiredRefreshTokenHash, st_MarkSessionMFA = MarkSessionMFA,
       st_DeleteSession = DeleteSession, st_DeleteSessionsByUserID = DeleteSessionsByUserID,
       st_ListSessionClientIDsByUser = ListSessionClientIDsByUser, st_DeleteExpiredSessions = DeleteExpiredSessions\<rparr>,
     sMFA = \<lparr>st_CreateTOTPCredential = CreateTOTPCredential, st_GetTOTPByUserID = GetTOTPByUserID,
       st_EnableTOTP = EnableTOTP, st_DeleteTOTP = DeleteTOTP, st_CreateWebAuthnCredential = CreateWebAuthnCredential,
       st_ListWebAuthnCredentials = ListWebAuthnCredentials, st_UpdateWebAuthnCredentialUse = UpdateWebAuthnCredentialUse,
       st_DeleteWebAuthnCredential = DeleteWebAuthnCredential, st_CreateWebAuthnSession = CreateWebAuthnSession,
       st_GetWebAuthnSession = GetWebAuthnSession, st_DeleteWebAuthnSession = DeleteWebAuthnSession\<rparr>,
     sGroup = \<lparr>st_CreateGroup = CreateGroup, st_GetGroupByID = GetGroupByID, st_ListGroups = ListGroups,
       st_UpdateGroup = UpdateGroup, st_ReplaceGroupMembers = ReplaceGroupMembers, st_AddGroupMember = AddGroupMember,
       st_RemoveGroupMember = RemoveGroupMember, st_DeleteGroup = DeleteGroup\<rparr>,
     sSigningKey = \<lparr>st_CreateSigningKey = CreateSigningKey, st_GetActiveSigningKey = GetActiveSigningKey,
       st_ListActiveSigningKeys = ListActiveSigningKeys, st_DeactivateSigningKey = DeactivateSigningKey\<rparr>,
     sExternalID = \<lparr>st_GetExternalID = GetExternalID, st_SetExternalID = SetExternalID,
       st_DeleteExternalID = DeleteExternalID\<rparr>,
     sIntegration = \<lparr>st_CreateIntegration = CreateIntegration, st_GetIntegration = GetIntegration,
       st_GetIntegrationByName = GetIntegrationByName, st_ListIntegrations = ListIntegrations,
       st_ListEnabledIntegrations = ListEnabledIntegrations, st_UpdateIntegration = UpdateIntegration,
       st_DeleteIntegration = DeleteIntegration\<rparr>,
     sAWS = \<lparr>st_CreateAWSAccount = CreateAWSAccount, st_GetAWSAccount = GetAWSAccount,
       st_ListAWSAccounts = ListAWSAccounts, st_UpdateAWSAccount = UpdateAWSAccount, st_DeleteAWSAccount = DeleteAWSAccount,
       st_CreateAWSRole = CreateAWSRole, st_GetAWSRole = GetAWSRole, st_ListAWSRoles = ListAWSRoles,
       st_UpdateAWSRole = UpdateAWSRole, st_DeleteAWSRole = DeleteAWSRole,
       st_CreateAWSRoleAssignment = CreateAWSRoleAssignment, st_ListAWSRoleAssignments = ListAWSRoleAssignments,
       st_ListAWSRolesForUser = ListAWSRolesForUser, st_DeleteAWSRoleAssignment = DeleteAWSRoleAssignment,
       st_AddAWSRevokedUser = AddAWSRevokedUser, st_ListAWSRevokedUsers = ListAWSRevokedUsers,
       st_ListAWSRevokedUsersOlderThan = ListAWSRevokedUsersOlderThan, st_DeleteAWSRevokedUser = DeleteAWSRevokedUser\<rparr>,
     sDevice = \<lparr>st_CreateDeviceGrant = CreateDeviceGrant,
       st_GetDeviceGrantByDeviceCodeHash = GetDeviceGrantByDeviceCodeHash,
       st_GetDeviceGrantByUserCodeHash = GetDeviceGrantByUserCodeHash, st_MarkDeviceGrantApproved = MarkDeviceGrantApproved,
       st_MarkDeviceGrantDenied = MarkDeviceGrantDenied, st_MarkDeviceGrantRedeemed = MarkDeviceGrantRedeemed,
       st_UpdateDeviceGrantPoll = UpdateDeviceGrantPoll, st_DeleteExpiredDeviceGrants = DeleteExpiredDeviceGrants\<rparr>\<rparr>"

definition pg_store :: "(string \<Rightarrow> string \<Rightarrow> bool) \<Rightarrow> db Store" where
  "pg_store coll = \<lparr>
     sUser = \<lparr>st_CreateUser = pg_CreateUser, st_GetUserByID = pg_GetUserByID, st_GetUserByEmail = pg_GetUserByEmail,
       st_ListUsers = pg_ListUsers, st_CountUsers = pg_CountUsers, st_UpdateUser = pg_UpdateUser,
       st_UpdateUserPassword = pg_UpdateUserPassword, st_UpdateUserMFAEnabled = pg_UpdateUserMFAEnabled,
       st_UpdateUserFailedAttempts = pg_UpdateUserFailedAttempts, st_SetUserActive = pg_SetUserActive,
       st_SetUserSCIMExternalID = pg_SetUserSCIMExternalID, st_SetUserAdmin = pg_SetUserAdmin,
       st_SetUserMustChangePassword = pg_SetUserMustChangePassword, st_DeleteUser = pg_DeleteUser\<rparr>,
     sClient = \<lparr>st_CreateClient = pg_CreateClient, st_GetClientByID = pg_GetClientByID,
       st_GetClientByClientID = pg_GetClientByClientID, st_ListClients = pg_ListClients, st_UpdateClient = pg_UpdateClient,
       st_UpdateClientSecret = pg_UpdateClientSecret, st_DeleteClient = pg_DeleteClient,
       st_UpdateClientPortalConfig = pg_UpdateClientPortalConfig, st_UpdateClientDeviceGrant = pg_UpdateClientDeviceGrant,
       st_ReplaceClientVisibility = pg_ReplaceClientVisibility, st_ListClientVisibility = pg_ListClientVisibility,
       st_ListPortalClientsForUser = pg_ListPortalClientsForUser coll\<rparr>,
     sGrant = \<lparr>st_CreateGrant = pg_CreateGrant, st_GetGrantByCodeHash = pg_GetGrantByCodeHash,
       st_MarkGrantUsed = pg_MarkGrantUsed, st_DeleteExpiredGrants = pg_DeleteExpiredGrants\<rparr>,
     sSession = \<lparr>st_CreateSession = pg_CreateSession, st_GetSessionByAccessTokenHash = pg_GetSessionByAccessTokenHash,
       st_GetSessionByRefreshTokenHash = pg_GetSessionByRefreshTokenHash,
       st_UpdateSessionActivity = pg_UpdateSessionActivity, st_ExtendSessionExpiry = pg_ExtendSessionExpiry,
       st_RotateRefreshToken = pg_RotateRefreshToken,
       st_GetSessionByRetiredRefreshTokenHash = pg_GetSessionByRetiredRefreshTokenHash,
       st_MarkSessionMFA = pg_MarkSessionMFA, st_DeleteSession = pg_DeleteSession,
       st_DeleteSessionsByUserID = pg_DeleteSessionsByUserID, st_ListSessionClientIDsByUser = pg_ListSessionClientIDsByUser,
       st_DeleteExpiredSessions = pg_DeleteExpiredSessions\<rparr>,
     sMFA = \<lparr>st_CreateTOTPCredential = pg_CreateTOTPCredential, st_GetTOTPByUserID = pg_GetTOTPByUserID,
       st_EnableTOTP = pg_EnableTOTP, st_DeleteTOTP = pg_DeleteTOTP,
       st_CreateWebAuthnCredential = pg_CreateWebAuthnCredential, st_ListWebAuthnCredentials = pg_ListWebAuthnCredentials,
       st_UpdateWebAuthnCredentialUse = pg_UpdateWebAuthnCredentialUse,
       st_DeleteWebAuthnCredential = pg_DeleteWebAuthnCredential, st_CreateWebAuthnSession = pg_CreateWebAuthnSession,
       st_GetWebAuthnSession = pg_GetWebAuthnSession, st_DeleteWebAuthnSession = pg_DeleteWebAuthnSession\<rparr>,
     sGroup = \<lparr>st_CreateGroup = pg_CreateGroup, st_GetGroupByID = pg_GetGroupByID, st_ListGroups = pg_ListGroups,
       st_UpdateGroup = pg_UpdateGroup, st_ReplaceGroupMembers = pg_ReplaceGroupMembers,
       st_AddGroupMember = pg_AddGroupMember, st_RemoveGroupMember = pg_RemoveGroupMember,
       st_DeleteGroup = pg_DeleteGroup\<rparr>,
     sSigningKey = \<lparr>st_CreateSigningKey = pg_CreateSigningKey, st_GetActiveSigningKey = pg_GetActiveSigningKey,
       st_ListActiveSigningKeys = pg_ListActiveSigningKeys, st_DeactivateSigningKey = pg_DeactivateSigningKey\<rparr>,
     sExternalID = \<lparr>st_GetExternalID = pg_GetExternalID, st_SetExternalID = pg_SetExternalID,
       st_DeleteExternalID = pg_DeleteExternalID\<rparr>,
     sIntegration = \<lparr>st_CreateIntegration = pg_CreateIntegration, st_GetIntegration = pg_GetIntegration,
       st_GetIntegrationByName = pg_GetIntegrationByName, st_ListIntegrations = pg_ListIntegrations,
       st_ListEnabledIntegrations = pg_ListEnabledIntegrations, st_UpdateIntegration = pg_UpdateIntegration,
       st_DeleteIntegration = pg_DeleteIntegration\<rparr>,
     sAWS = \<lparr>st_CreateAWSAccount = pg_CreateAWSAccount, st_GetAWSAccount = pg_GetAWSAccount,
       st_ListAWSAccounts = pg_ListAWSAccounts coll, st_UpdateAWSAccount = pg_UpdateAWSAccount,
       st_DeleteAWSAccount = pg_DeleteAWSAccount, st_CreateAWSRole = pg_CreateAWSRole, st_GetAWSRole = pg_GetAWSRole,
       st_ListAWSRoles = pg_ListAWSRoles coll, st_UpdateAWSRole = pg_UpdateAWSRole, st_DeleteAWSRole = pg_DeleteAWSRole,
       st_CreateAWSRoleAssignment = pg_CreateAWSRoleAssignment, st_ListAWSRoleAssignments = pg_ListAWSRoleAssignments,
       st_ListAWSRolesForUser = pg_ListAWSRolesForUser coll, st_DeleteAWSRoleAssignment = pg_DeleteAWSRoleAssignment,
       st_AddAWSRevokedUser = pg_AddAWSRevokedUser, st_ListAWSRevokedUsers = pg_ListAWSRevokedUsers,
       st_ListAWSRevokedUsersOlderThan = pg_ListAWSRevokedUsersOlderThan,
       st_DeleteAWSRevokedUser = pg_DeleteAWSRevokedUser\<rparr>,
     sDevice = \<lparr>st_CreateDeviceGrant = pg_CreateDeviceGrant,
       st_GetDeviceGrantByDeviceCodeHash = pg_GetDeviceGrantByDeviceCodeHash,
       st_GetDeviceGrantByUserCodeHash = pg_GetDeviceGrantByUserCodeHash,
       st_MarkDeviceGrantApproved = pg_MarkDeviceGrantApproved, st_MarkDeviceGrantDenied = pg_MarkDeviceGrantDenied,
       st_MarkDeviceGrantRedeemed = pg_MarkDeviceGrantRedeemed, st_UpdateDeviceGrantPoll = pg_UpdateDeviceGrantPoll,
       st_DeleteExpiredDeviceGrants = pg_DeleteExpiredDeviceGrants\<rparr>\<rparr>"

end
