(* ===== verification/Contract_Core.thy ===== *)
theory Contract_Core
  imports Store_Interface
begin

text \<open>
  The store contract of \<open>src/internal/store/storetest\<close>, first part: \<open>contract_core.go\<close>, \<open>contract_tokens.go\<close>,
  \<open>contract_portal.go\<close> and \<open>contract_awsfed.go\<close>. Every test function is a definition of the same name over an
  arbitrary \<open>Store\<close>: it threads the state of the store through its calls in the option monad, \<open>None\<close> being a failed
  test. The arguments are the store \<open>db\<close>, the clock \<open>now\<close>, the values \<open>new 0\<close>, \<open>new 1\<close>, \<dots> that the calls of
  \<open>uuid.New\<close> return in their order, the test's name where the test uses it, and the state \<open>s\<close> of the fresh store.

  A test goes on after \<open>t.Errorf\<close> and stops at \<open>t.Fatalf\<close>; both fail it, so the model stops at either. Where the Go
  code discards the error of a call (\<open>_ =\<close>, \<open>got, _ =\<close>) the model asks for success, which only makes the test
  harder to pass. Times are instants, so \<open>UTC\<close> and \<open>In\<close> do not appear.
\<close>

subsection \<open>The vocabulary of a test\<close>

definition ok :: "(store_error + 'a) \<times> 'st \<Rightarrow> ('a \<times> 'st) option" where
  "ok r = (case r of (Inl e, s) \<Rightarrow> None | (Inr a, s) \<Rightarrow> Some (a, s))"

definition succeeds :: "(store_error + 'a) \<times> 'st \<Rightarrow> 'st option" where
  "succeeds r = map_option snd (ok r)"

definition fails :: "store_error \<Rightarrow> (store_error + 'a) \<times> 'st \<Rightarrow> 'st option" where
  "fails e r = (case r of (Inl e', s) \<Rightarrow> (if e' = e then Some s else None) | (Inr a, s) \<Rightarrow> None)"

definition fails_any :: "(store_error + 'a) \<times> 'st \<Rightarrow> 'st option" where
  "fails_any r = (case r of (Inl e, s) \<Rightarrow> Some s | (Inr a, s) \<Rightarrow> None)"

definition want :: "bool \<Rightarrow> unit option" where
  "want b = (if b then Some () else None)"

definition trunc_sec :: "time \<Rightarrow> time" where
  "trunc_sec t = t div second * second"

fun sliceEq :: "string list \<Rightarrow> string list \<Rightarrow> bool" where
  "sliceEq [] [] = True"
| "sliceEq (a # as) (b # bs) = (a = b \<and> sliceEq as bs)"
| "sliceEq _ _ = False"

definition tileIDs :: "Client list \<Rightarrow> uuid list" where "tileIDs cs = map c_ID cs"

definition contains :: "uuid list \<Rightarrow> uuid \<Rightarrow> bool" where "contains ids target = list_ex (\<lambda>i. i = target) ids"

text \<open>A composite literal leaves the fields it does not name at their zero values.\<close>

definition zGrant :: Grant where
  "zGrant = \<lparr>g_ID = uuid_nil, g_UserID = uuid_nil, g_ClientID = uuid_nil, g_CodeHash = [], g_CodeChallenge = [],
     g_Nonce = [], g_Scopes = [], g_RedirectURI = [], g_ExpiresAt = zero_time, g_UsedAt = None, g_MFAVerifiedAt = None,
     g_AuthTime = zero_time\<rparr>"

definition zSession :: Session where
  "zSession = \<lparr>s_ID = uuid_nil, s_UserID = uuid_nil, s_ClientID = uuid_nil, s_AccessTokenHash = [],
     s_RefreshTokenHash = [], s_Scopes = [], s_AccessExpiresAt = zero_time, s_RefreshExpiresAt = zero_time,
     s_LastActivityAt = zero_time, s_MFAVerified = False, s_MFAVerifiedAt = None, s_AuthTime = zero_time,
     s_CreatedAt = zero_time\<rparr>"

definition zAWSAccount :: AWSAccount where
  "zAWSAccount = \<lparr>aa_ID = uuid_nil, aa_AccountID = [], aa_Alias = [], aa_OIDCProviderARN = [],
     aa_CreatedAt = zero_time, aa_UpdatedAt = zero_time\<rparr>"

definition zAWSRole :: AWSRole where
  "zAWSRole = \<lparr>ar_ID = uuid_nil, ar_AccountID = uuid_nil, ar_RoleARN = [], ar_Slug = [], ar_DisplayName = [],
     ar_RequireStepUpMFA = False, ar_MaxSessionDurationSec = 0, ar_AllowedRegions = [], ar_CreatedAt = zero_time,
     ar_UpdatedAt = zero_time\<rparr>"

definition zAWSRoleAssignment :: AWSRoleAssignment where
  "zAWSRoleAssignment = \<lparr>as_ID = uuid_nil, as_GroupID = uuid_nil, as_RoleID = uuid_nil, as_CreatedAt = zero_time\<rparr>"

definition newUserAndClient ::
  "'st Store \<Rightarrow> time \<Rightarrow> (nat \<Rightarrow> uuid) \<Rightarrow> string \<Rightarrow> 'st \<Rightarrow> ((User \<times> Client) \<times> 'st) option" where
  "newUserAndClient db now new name s = do {
     (u, s) \<leftarrow> ok (st_CreateUser (sUser db) now (new 0) (name @ ''@example.com'') ''hash'' name s);
     (c, s) \<leftarrow> ok (st_CreateClient (sClient db) now (new 1) (name @ ''-client'') ''sec'' (name @ '' app'')
       [''https://app.example/cb''] [''openid''] False None s);
     Some ((u, c), s)
   }"

subsection \<open>\<open>contract_core.go\<close>\<close>

definition testUserRoundTrip :: "'st Store \<Rightarrow> time \<Rightarrow> (nat \<Rightarrow> uuid) \<Rightarrow> 'st \<Rightarrow> unit option" where
  "testUserRoundTrip db now new s = do {
     (u, s) \<leftarrow> ok (st_CreateUser (sUser db) now (new 0) ''alice@example.com'' ''hash'' ''Alice'' s);
     want (u_ID u \<noteq> uuid_nil);
     want (u_Active u);
     want (u_LockedUntil u = None);
     let until = trunc_sec (now + 15 * minute);
     s \<leftarrow> succeeds (st_UpdateUserFailedAttempts (sUser db) now (u_ID u) 3 (Some until) s);
     (got, s) \<leftarrow> ok (st_GetUserByID (sUser db) (u_ID u) s);
     want (u_FailedAttempts got = 3);
     want (u_LockedUntil got = Some until);
     s \<leftarrow> succeeds (st_UpdateUserFailedAttempts (sUser db) now (u_ID u) 0 None s);
     (got, s) \<leftarrow> ok (st_GetUserByID (sUser db) (u_ID u) s);
     want (u_LockedUntil got = None);
     s \<leftarrow> fails ErrConflict (st_CreateUser (sUser db) now (new 1) ''alice@example.com'' ''h'' ''A2'' s);
     s \<leftarrow> fails ErrNotFound (st_GetUserByID (sUser db) (new 2) s);
     Some ()
   }"

definition testClientArrayRoundTrip :: "'st Store \<Rightarrow> time \<Rightarrow> (nat \<Rightarrow> uuid) \<Rightarrow> 'st \<Rightarrow> unit option" where
  "testClientArrayRoundTrip db now new s = do {
     let uris = [''https://app.example/callback'', ''https://alt.example/cb''];
     let scopes = [''openid'', ''email'', ''profile''];
     (c, s) \<leftarrow> ok (st_CreateClient (sClient db) now (new 0) ''my-app'' ''secrethash'' ''My App'' uris scopes False None s);
     (got, s) \<leftarrow> ok (st_GetClientByID (sClient db) (c_ID c) s);
     want (sliceEq (c_RedirectURIs got) uris);
     want (sliceEq (c_Scopes got) scopes);
     s \<leftarrow> succeeds (st_UpdateClient (sClient db) (c_ID c) ''Renamed'' [] [] True None s);
     (got, s) \<leftarrow> ok (st_GetClientByID (sClient db) (c_ID c) s);
     want (length (c_RedirectURIs got) = 0);
     want (length (c_Scopes got) = 0);
     want (c_Public got)
   }"

definition testPortalClientSeed :: "'st Store \<Rightarrow> 'st \<Rightarrow> unit option" where
  "testPortalClientSeed db s = do {
     (c, s) \<leftarrow> ok (st_GetClientByClientID (sClient db) ''portal'' s);
     want (c_ID c = portalClientUUID);
     want (c_Public c);
     want (sliceEq (c_Scopes c) [''portal'', ''admin''])
   }"

definition testExternalIDsUpsert :: "'st Store \<Rightarrow> time \<Rightarrow> (nat \<Rightarrow> uuid) \<Rightarrow> 'st \<Rightarrow> unit option" where
  "testExternalIDsUpsert db now new s = do {
     (user, s) \<leftarrow> ok (st_CreateUser (sUser db) now (new 0) ''carol@example.com'' ''h'' ''Carol'' s);
     s \<leftarrow> succeeds (st_SetExternalID (sExternalID db) ''vault'' (u_ID user) ''ext-1'' s);
     (got, s) \<leftarrow> ok (st_GetExternalID (sExternalID db) ''vault'' (u_ID user) s);
     want (got = ''ext-1'');
     s \<leftarrow> succeeds (st_SetExternalID (sExternalID db) ''vault'' (u_ID user) ''ext-2'' s);
     (got, s) \<leftarrow> ok (st_GetExternalID (sExternalID db) ''vault'' (u_ID user) s);
     want (got = ''ext-2'')
   }"

definition testGroupMembersIdempotent :: "'st Store \<Rightarrow> time \<Rightarrow> (nat \<Rightarrow> uuid) \<Rightarrow> 'st \<Rightarrow> unit option" where
  "testGroupMembersIdempotent db now new s = do {
     (u1, s) \<leftarrow> ok (st_CreateUser (sUser db) now (new 0) ''u1@example.com'' ''h'' ''U1'' s);
     (u2, s) \<leftarrow> ok (st_CreateUser (sUser db) now (new 1) ''u2@example.com'' ''h'' ''U2'' s);
     (g, s) \<leftarrow> ok (st_CreateGroup (sGroup db) now (new 2) ''engineers'' s);
     s \<leftarrow> succeeds (st_AddGroupMember (sGroup db) (gr_ID g) (u_ID u1) s);
     s \<leftarrow> succeeds (st_AddGroupMember (sGroup db) (gr_ID g) (u_ID u1) s);
     s \<leftarrow> succeeds (st_ReplaceGroupMembers (sGroup db) (gr_ID g) [u_ID u1, u_ID u2, u_ID u1] s);
     (got, s) \<leftarrow> ok (st_GetGroupByID (sGroup db) (gr_ID g) s);
     want (length (gr_Members got) = 2)
   }"

subsection \<open>\<open>contract_tokens.go\<close>\<close>

definition testRetiredRefreshTokens :: "'st Store \<Rightarrow> time \<Rightarrow> (nat \<Rightarrow> uuid) \<Rightarrow> string \<Rightarrow> 'st \<Rightarrow> unit option" where
  "testRetiredRefreshTokens db now new name s = do {
     ((u, c), s) \<leftarrow> newUserAndClient db now new name s;
     let sess = zSession\<lparr>s_ID := new 2, s_UserID := u_ID u, s_ClientID := c_ID c, s_AccessTokenHash := ''ah-0'',
       s_RefreshTokenHash := ''rh-0'', s_Scopes := [''openid''], s_AccessExpiresAt := now + hour,
       s_RefreshExpiresAt := now + 2 * hour\<rparr>;
     s \<leftarrow> succeeds (st_CreateSession (sSession db) now sess s);
     s \<leftarrow> fails ErrNotFound (st_GetSessionByRetiredRefreshTokenHash (sSession db) ''rh-0'' s);
     s \<leftarrow> succeeds (st_RotateRefreshToken (sSession db) (s_ID sess) ''rh-0'' ''ah-1'' ''rh-1'' (now + hour) (now + 2 * hour) s);
     s \<leftarrow> succeeds (st_RotateRefreshToken (sSession db) (s_ID sess) ''rh-1'' ''ah-2'' ''rh-2'' (now + hour) (now + 2 * hour) s);
     (got, s) \<leftarrow> ok (st_GetSessionByRetiredRefreshTokenHash (sSession db) ''rh-0'' s);
     want (s_ID got = s_ID sess);
     (got, s) \<leftarrow> ok (st_GetSessionByRetiredRefreshTokenHash (sSession db) ''rh-1'' s);
     want (s_ID got = s_ID sess);
     s \<leftarrow> fails ErrNotFound (st_GetSessionByRetiredRefreshTokenHash (sSession db) ''rh-2'' s);
     s \<leftarrow> fails ErrNotFound (st_GetSessionByRetiredRefreshTokenHash (sSession db) ''never-issued'' s);
     s \<leftarrow> fails ErrNotFound
       (st_RotateRefreshToken (sSession db) (s_ID sess) ''rh-0'' ''ah-x'' ''rh-x'' (now + hour) (now + 2 * hour) s);
     s \<leftarrow> fails ErrNotFound (st_GetSessionByRetiredRefreshTokenHash (sSession db) ''rh-x'' s);
     s \<leftarrow> succeeds (st_DeleteSession (sSession db) (s_ID sess) s);
     s \<leftarrow> fails ErrNotFound (st_GetSessionByRetiredRefreshTokenHash (sSession db) ''rh-0'' s);
     Some ()
   }"

text \<open>One round of the loop of \<open>testAuthTimeRoundTrip\<close>, for the case \<open>(tc, at)\<close>.\<close>

definition auth_time_case ::
  "'st Store \<Rightarrow> time \<Rightarrow> User \<Rightarrow> Client \<Rightarrow> uuid \<Rightarrow> uuid \<Rightarrow> string \<Rightarrow> time \<Rightarrow> 'st \<Rightarrow> 'st option" where
  "auth_time_case db now u c gid sid tc at s = do {
     s \<leftarrow> succeeds (st_CreateGrant (sGrant db) (zGrant\<lparr>g_ID := gid, g_UserID := u_ID u, g_ClientID := c_ID c,
       g_CodeHash := ''code-'' @ tc, g_RedirectURI := ''https://app.example/cb'', g_ExpiresAt := now + minute,
       g_AuthTime := at\<rparr>) s);
     (gg, s) \<leftarrow> ok (st_GetGrantByCodeHash (sGrant db) (''code-'' @ tc) s);
     want (g_AuthTime gg = at);
     s \<leftarrow> succeeds (st_CreateSession (sSession db) now (zSession\<lparr>s_ID := sid, s_UserID := u_ID u, s_ClientID := c_ID c,
       s_AccessTokenHash := ''ah-'' @ tc, s_RefreshTokenHash := ''rh-'' @ tc, s_AccessExpiresAt := now + hour,
       s_RefreshExpiresAt := now + 2 * hour, s_AuthTime := at\<rparr>) s);
     (ss, s) \<leftarrow> ok (st_GetSessionByAccessTokenHash (sSession db) (''ah-'' @ tc) s);
     want (s_AuthTime ss = at);
     Some s
   }"

definition testAuthTimeRoundTrip :: "'st Store \<Rightarrow> time \<Rightarrow> (nat \<Rightarrow> uuid) \<Rightarrow> string \<Rightarrow> 'st \<Rightarrow> unit option" where
  "testAuthTimeRoundTrip db now new name s = do {
     ((u, c), s) \<leftarrow> newUserAndClient db now new name s;
     s \<leftarrow> auth_time_case db now u c (new 2) (new 3) ''known'' (trunc_sec (now - 30 * minute)) s;
     s \<leftarrow> auth_time_case db now u c (new 4) (new 5) ''unknown'' zero_time s;
     Some ()
   }"

subsection \<open>\<open>contract_portal.go\<close>\<close>

text \<open>The closure \<open>mkClient\<close>; \<open>creds.HashPassword\<close> and \<open>creds.HashToken\<close> are arguments.\<close>

definition mkClient ::
  "'st Store \<Rightarrow> time \<Rightarrow> (string \<Rightarrow> string) \<Rightarrow> uuid \<Rightarrow> string \<Rightarrow> bool \<Rightarrow> bool \<Rightarrow> string \<Rightarrow> 'st \<Rightarrow> (uuid \<times> 'st) option" where
  "mkClient db now hashToken cid name showInPortal visibleToAll launchURL s = do {
     (c, s) \<leftarrow> ok (st_CreateClient (sClient db) now cid (name @ ''-cid'') (hashToken ''sec'') name
       [''http://localhost/cb''] [''openid''] False None s);
     s \<leftarrow> succeeds (st_UpdateClientPortalConfig (sClient db) (c_ID c) showInPortal launchURL [] [] visibleToAll s);
     Some (c_ID c, s)
   }"

definition testListPortalClientsForUser ::
  "'st Store \<Rightarrow> time \<Rightarrow> (nat \<Rightarrow> uuid) \<Rightarrow> (string \<Rightarrow> string) \<Rightarrow> (string \<Rightarrow> string) \<Rightarrow> 'st \<Rightarrow> unit option" where
  "testListPortalClientsForUser db now new hashPassword hashToken s = do {
     let hash = hashPassword ''pw0rd-very-strong-123!'';
     (alice, s) \<leftarrow> ok (st_CreateUser (sUser db) now (new 0) ''alice@example.com'' hash ''Alice'' s);
     (bob, s) \<leftarrow> ok (st_CreateUser (sUser db) now (new 1) ''bob@example.com'' hash ''Bob'' s);
     (engGroup, s) \<leftarrow> ok (st_CreateGroup (sGroup db) now (new 2) ''engineering'' s);
     s \<leftarrow> succeeds (st_AddGroupMember (sGroup db) (gr_ID engGroup) (u_ID alice) s);
     (hiddenID, s) \<leftarrow> mkClient db now hashToken (new 3) ''hidden-client'' False False ''https://hidden.example/login'' s;
     (engOnlyID, s) \<leftarrow> mkClient db now hashToken (new 4) ''eng-only-client'' True False ''https://eng.example/login'' s;
     (everyoneID, s) \<leftarrow>
       mkClient db now hashToken (new 5) ''everyone-client'' True True ''https://everyone.example/login'' s;
     s \<leftarrow> succeeds (st_ReplaceClientVisibility (sClient db) now engOnlyID [(gr_ID engGroup, new 6)] s);
     (aliceTiles, s) \<leftarrow> ok (st_ListPortalClientsForUser (sClient db) (u_ID alice) s);
     let aliceIDs = tileIDs aliceTiles;
     want (contains aliceIDs engOnlyID);
     want (contains aliceIDs everyoneID);
     want (\<not> contains aliceIDs hiddenID);
     (bobTiles, s) \<leftarrow> ok (st_ListPortalClientsForUser (sClient db) (u_ID bob) s);
     let bobIDs = tileIDs bobTiles;
     want (\<not> contains bobIDs engOnlyID);
     want (contains bobIDs everyoneID);
     want (\<not> contains bobIDs hiddenID);
     (vis, s) \<leftarrow> ok (st_ListClientVisibility (sClient db) engOnlyID s);
     want (vis = [gr_ID engGroup])
   }"

definition testListPortalClientsForUserNoDuplicatesOnMultipleGroupMatch ::
  "'st Store \<Rightarrow> time \<Rightarrow> (nat \<Rightarrow> uuid) \<Rightarrow> (string \<Rightarrow> string) \<Rightarrow> (string \<Rightarrow> string) \<Rightarrow> 'st \<Rightarrow> unit option" where
  "testListPortalClientsForUserNoDuplicatesOnMultipleGroupMatch db now new hashPassword hashToken s = do {
     let hash = hashPassword ''pw0rd-very-strong-123!'';
     (u, s) \<leftarrow> ok (st_CreateUser (sUser db) now (new 0) ''alice@example.com'' hash ''Alice'' s);
     (g1, s) \<leftarrow> ok (st_CreateGroup (sGroup db) now (new 1) ''g1'' s);
     (g2, s) \<leftarrow> ok (st_CreateGroup (sGroup db) now (new 2) ''g2'' s);
     s \<leftarrow> succeeds (st_AddGroupMember (sGroup db) (gr_ID g1) (u_ID u) s);
     s \<leftarrow> succeeds (st_AddGroupMember (sGroup db) (gr_ID g2) (u_ID u) s);
     (c, s) \<leftarrow> ok (st_CreateClient (sClient db) now (new 3) ''shared-cid'' (hashToken ''sec'') ''shared''
       [''http://localhost/cb''] [''openid''] False None s);
     s \<leftarrow> succeeds (st_UpdateClientPortalConfig (sClient db) (c_ID c) True ''https://shared.example/login'' [] [] False s);
     s \<leftarrow> succeeds (st_ReplaceClientVisibility (sClient db) now (c_ID c) [(gr_ID g1, new 4), (gr_ID g2, new 5)] s);
     (tiles, s) \<leftarrow> ok (st_ListPortalClientsForUser (sClient db) (u_ID u) s);
     want (length (filter (\<lambda>t. c_ID t = c_ID c) tiles) = 1)
   }"

definition testReplaceClientVisibilityRemovesPriorRows ::
  "'st Store \<Rightarrow> time \<Rightarrow> (nat \<Rightarrow> uuid) \<Rightarrow> (string \<Rightarrow> string) \<Rightarrow> 'st \<Rightarrow> unit option" where
  "testReplaceClientVisibilityRemovesPriorRows db now new hashToken s = do {
     (c, s) \<leftarrow> ok (st_CreateClient (sClient db) now (new 0) ''test-cid'' (hashToken ''sec'') ''test''
       [''http://localhost/cb''] [''openid''] False None s);
     (g1, s) \<leftarrow> ok (st_CreateGroup (sGroup db) now (new 1) ''g1'' s);
     (g2, s) \<leftarrow> ok (st_CreateGroup (sGroup db) now (new 2) ''g2'' s);
     s \<leftarrow> succeeds (st_ReplaceClientVisibility (sClient db) now (c_ID c) [(gr_ID g1, new 3), (gr_ID g2, new 4)] s);
     (got, s) \<leftarrow> ok (st_ListClientVisibility (sClient db) (c_ID c) s);
     want (length got = 2);
     s \<leftarrow> succeeds (st_ReplaceClientVisibility (sClient db) now (c_ID c) [(gr_ID g1, new 5)] s);
     (got, s) \<leftarrow> ok (st_ListClientVisibility (sClient db) (c_ID c) s);
     want (got = [gr_ID g1])
   }"

subsection \<open>\<open>contract_awsfed.go\<close>\<close>

definition testAWSAccountCRUD :: "'st Store \<Rightarrow> time \<Rightarrow> (nat \<Rightarrow> uuid) \<Rightarrow> 'st \<Rightarrow> unit option" where
  "testAWSAccountCRUD db now new s = do {
     (a, s) \<leftarrow> ok (st_CreateAWSAccount (sAWS db) now (new 0) (zAWSAccount\<lparr>aa_AccountID := ''111111111111'',
       aa_Alias := ''prod'', aa_OIDCProviderARN := ''arn:aws:iam::111:oidc-provider/id.example.com''\<rparr>) s);
     want (aa_ID a \<noteq> uuid_nil);
     (got, s) \<leftarrow> ok (st_GetAWSAccount (sAWS db) (aa_ID a) s);
     want (aa_AccountID got = ''111111111111'' \<and> aa_Alias got = ''prod'');
     let a = a\<lparr>aa_Alias := ''production''\<rparr>;
     s \<leftarrow> succeeds (st_UpdateAWSAccount (sAWS db) now a s);
     (got, s) \<leftarrow> ok (st_GetAWSAccount (sAWS db) (aa_ID a) s);
     want (aa_Alias got = ''production'');
     s \<leftarrow> succeeds (st_DeleteAWSAccount (sAWS db) (aa_ID a) s);
     Some ()
   }"

definition testAWSRoleCRUDAndCascadeOnAccount :: "'st Store \<Rightarrow> time \<Rightarrow> (nat \<Rightarrow> uuid) \<Rightarrow> 'st \<Rightarrow> unit option" where
  "testAWSRoleCRUDAndCascadeOnAccount db now new s = do {
     (acct, s) \<leftarrow> ok (st_CreateAWSAccount (sAWS db) now (new 0) (zAWSAccount\<lparr>aa_AccountID := ''222222222222'',
       aa_OIDCProviderARN := ''arn:aws:iam::222:oidc-provider/id.example.com''\<rparr>) s);
     (role, s) \<leftarrow> ok (st_CreateAWSRole (sAWS db) now (new 1) (zAWSRole\<lparr>ar_AccountID := aa_ID acct,
       ar_RoleARN := ''arn:aws:iam::222:role/BackendDev'', ar_Slug := ''backend-dev'',
       ar_DisplayName := ''Backend: dev''\<rparr>) s);
     want (ar_MaxSessionDurationSec role = 3600);
     s \<leftarrow> succeeds (st_DeleteAWSAccount (sAWS db) (aa_ID acct) s);
     s \<leftarrow> fails_any (st_GetAWSRole (sAWS db) (ar_ID role) s);
     Some ()
   }"

definition testAWSRoleAllowedRegions :: "'st Store \<Rightarrow> time \<Rightarrow> (nat \<Rightarrow> uuid) \<Rightarrow> 'st \<Rightarrow> unit option" where
  "testAWSRoleAllowedRegions db now new s = do {
     (acct, s) \<leftarrow> ok (st_CreateAWSAccount (sAWS db) now (new 0) (zAWSAccount\<lparr>aa_AccountID := ''555555555555'',
       aa_OIDCProviderARN := ''arn:aws:iam::555:oidc-provider/id.example.com''\<rparr>) s);
     (role, s) \<leftarrow> ok (st_CreateAWSRole (sAWS db) now (new 1) (zAWSRole\<lparr>ar_AccountID := aa_ID acct,
       ar_RoleARN := ''arn:aws:iam::555:role/R'', ar_Slug := ''regions'', ar_DisplayName := ''R'',
       ar_AllowedRegions := [''ap-east-2'', ''eu-west-1'']\<rparr>) s);
     (got, s) \<leftarrow> ok (st_GetAWSRole (sAWS db) (ar_ID role) s);
     want (ar_AllowedRegions got = [''ap-east-2'', ''eu-west-1'']);
     s \<leftarrow> succeeds (st_UpdateAWSRole (sAWS db) now (got\<lparr>ar_AllowedRegions := [''eu-west-1'']\<rparr>) s);
     (roles, s) \<leftarrow> ok (st_ListAWSRoles (sAWS db) s);
     want (map ar_AllowedRegions roles = [[''eu-west-1'']]);
     s \<leftarrow> succeeds (st_UpdateAWSRole (sAWS db) now (got\<lparr>ar_AllowedRegions := []\<rparr>) s);
     (cleared, s) \<leftarrow> ok (st_GetAWSRole (sAWS db) (ar_ID role) s);
     want (length (ar_AllowedRegions cleared) = 0)
   }"

definition testListAWSRolesForUser ::
  "'st Store \<Rightarrow> time \<Rightarrow> (nat \<Rightarrow> uuid) \<Rightarrow> (string \<Rightarrow> string) \<Rightarrow> 'st \<Rightarrow> unit option" where
  "testListAWSRolesForUser db now new hashPassword s = do {
     let hash = hashPassword ''pw0rd-very-strong-123!'';
     (user, s) \<leftarrow> ok (st_CreateUser (sUser db) now (new 0) ''alice@example.com'' hash ''Alice'' s);
     (group, s) \<leftarrow> ok (st_CreateGroup (sGroup db) now (new 1) ''platform'' s);
     s \<leftarrow> succeeds (st_AddGroupMember (sGroup db) (gr_ID group) (u_ID user) s);
     (acct, s) \<leftarrow> ok (st_CreateAWSAccount (sAWS db) now (new 2) (zAWSAccount\<lparr>aa_AccountID := ''333333333333'',
       aa_OIDCProviderARN := ''arn:aws:iam::333:oidc-provider/id.example.com''\<rparr>) s);
     (role1, s) \<leftarrow> ok (st_CreateAWSRole (sAWS db) now (new 3) (zAWSRole\<lparr>ar_AccountID := aa_ID acct,
       ar_RoleARN := ''arn:aws:iam::333:role/A'', ar_Slug := ''role-a'', ar_DisplayName := ''A''\<rparr>) s);
     (role2, s) \<leftarrow> ok (st_CreateAWSRole (sAWS db) now (new 4) (zAWSRole\<lparr>ar_AccountID := aa_ID acct,
       ar_RoleARN := ''arn:aws:iam::333:role/B'', ar_Slug := ''role-b'', ar_DisplayName := ''B''\<rparr>) s);
     (asg, s) \<leftarrow> ok (st_CreateAWSRoleAssignment (sAWS db) now (new 5)
       (zAWSRoleAssignment\<lparr>as_GroupID := gr_ID group, as_RoleID := ar_ID role1\<rparr>) s);
     (roles, s) \<leftarrow> ok (st_ListAWSRolesForUser (sAWS db) (u_ID user) s);
     want (map ar_ID roles = [ar_ID role1])
   }"

definition testAWSRevokedUsersAddIsIdempotentListAndReap ::
  "'st Store \<Rightarrow> time \<Rightarrow> (nat \<Rightarrow> uuid) \<Rightarrow> 'st \<Rightarrow> unit option" where
  "testAWSRevokedUsersAddIsIdempotentListAndReap db now new s = do {
     (acct, s) \<leftarrow> ok (st_CreateAWSAccount (sAWS db) now (new 0) (zAWSAccount\<lparr>aa_AccountID := ''444444444444'',
       aa_OIDCProviderARN := ''arn:aws:iam::444:oidc-provider/id.example.com''\<rparr>) s);
     (role, s) \<leftarrow> ok (st_CreateAWSRole (sAWS db) now (new 1) (zAWSRole\<lparr>ar_AccountID := aa_ID acct,
       ar_RoleARN := ''arn:aws:iam::444:role/R'', ar_Slug := ''role-r'', ar_DisplayName := ''R''\<rparr>) s);
     s \<leftarrow> succeeds (st_AddAWSRevokedUser (sAWS db) now (ar_ID role) ''alice-uuid'' s);
     s \<leftarrow> succeeds (st_AddAWSRevokedUser (sAWS db) now (ar_ID role) ''alice-uuid'' s);
     (rows, s) \<leftarrow> ok (st_ListAWSRevokedUsers (sAWS db) (ar_ID role) s);
     want (length rows = 1);
     s \<leftarrow> succeeds (st_AddAWSRevokedUser (sAWS db) now (ar_ID role) ''bob-uuid'' s);
     (past, s) \<leftarrow> ok (st_ListAWSRevokedUsersOlderThan (sAWS db) (now - hour) s);
     want (length past = 0);
     (future, s) \<leftarrow> ok (st_ListAWSRevokedUsersOlderThan (sAWS db) (now + hour) s);
     let subs = map rv_SubUUID future;
     want (length future = 2 \<and> ''alice-uuid'' \<in> set subs \<and> ''bob-uuid'' \<in> set subs);
     s \<leftarrow> succeeds (st_DeleteAWSRevokedUser (sAWS db) (ar_ID role) ''bob-uuid'' s);
     Some ()
   }"

end
