(* ===== verification/Contract_Ops.thy ===== *)
theory Contract_Ops
  imports Contract_Core
begin

text \<open>
  The store contract of \<open>src/internal/store/storetest\<close>, second part: \<open>contract_ops.go\<close> and \<open>contract_extra.go\<close>, in
  the style of \<open>Contract_Core\<close>.
\<close>

definition zTOTP :: TOTPCredential where
  "zTOTP = \<lparr>t_ID = uuid_nil, t_UserID = uuid_nil, t_EncryptedSecret = [], t_EncryptedDEK = [], t_Enabled = False,
     t_CreatedAt = zero_time\<rparr>"

definition zWebAuthn :: WebAuthnCredential where
  "zWebAuthn = \<lparr>wc_ID = uuid_nil, wc_UserID = uuid_nil, wc_CredentialID = [], wc_PublicKey = [], wc_AAGUID = [],
     wc_SignCount = 0, wc_BackupEligible = None, wc_BackupState = False, wc_DeviceName = [], wc_CreatedAt = zero_time,
     wc_LastUsedAt = zero_time\<rparr>"

definition zIntegration :: AppIntegration where
  "zIntegration = \<lparr>i_ID = uuid_nil, i_Name = [], i_Provider = [], i_Enabled = False,
     i_Config = \<lparr>ic_BaseURL = [], ic_TimeoutMS = 0, ic_AuthMode = []\<rparr>, i_EncryptedToken = [], i_EncryptedDEK = [],
     i_CreatedAt = zero_time, i_UpdatedAt = zero_time\<rparr>"

text \<open>The empty status of a new device grant is stored as pending.\<close>

definition zDeviceGrant :: DeviceGrant where
  "zDeviceGrant = \<lparr>d_ID = uuid_nil, d_DeviceCodeHash = [], d_UserCodeHash = [], d_ClientID = uuid_nil, d_Scopes = [],
     d_Status = DeviceGrantStatusPending, d_UserID = None, d_MFAVerified = False, d_MFAVerifiedAt = None,
     d_ApproverIP = [], d_IntervalSec = 0, d_LastPolledAt = None, d_CreatedAt = zero_time, d_ExpiresAt = zero_time\<rparr>"

subsection \<open>\<open>contract_ops.go\<close>: grants and sessions\<close>

definition testGrantRoundTrip :: "'st Store \<Rightarrow> time \<Rightarrow> (nat \<Rightarrow> uuid) \<Rightarrow> string \<Rightarrow> 'st \<Rightarrow> unit option" where
  "testGrantRoundTrip db now new name s = do {
     ((u, c), s) \<leftarrow> newUserAndClient db now new name s;
     let mfaAt = trunc_sec now;
     let g = zGrant\<lparr>g_ID := new 2, g_UserID := u_ID u, g_ClientID := c_ID c, g_CodeHash := ''code-hash-1'',
       g_CodeChallenge := ''S256-challenge'', g_Nonce := ''nonce-1'', g_Scopes := [''openid'', ''email''],
       g_RedirectURI := ''https://app.example/cb'', g_ExpiresAt := trunc_sec (now + minute),
       g_MFAVerifiedAt := Some mfaAt\<rparr>;
     s \<leftarrow> succeeds (st_CreateGrant (sGrant db) g s);
     (got, s) \<leftarrow> ok (st_GetGrantByCodeHash (sGrant db) ''code-hash-1'' s);
     want (g_MFAVerifiedAt got = Some mfaAt);
     want (g_UsedAt got = None);
     want (sliceEq (g_Scopes got) [''openid'', ''email'']);
     s \<leftarrow> succeeds (st_MarkGrantUsed (sGrant db) now (g_ID g) s);
     (got, s) \<leftarrow> ok (st_GetGrantByCodeHash (sGrant db) ''code-hash-1'' s);
     want (g_UsedAt got \<noteq> None);
     s \<leftarrow> fails ErrNotFound (st_MarkGrantUsed (sGrant db) now (g_ID g) s);
     s \<leftarrow> fails ErrNotFound (st_GetGrantByCodeHash (sGrant db) ''missing'' s);
     Some ()
   }"

definition testGrantDeleteExpired :: "'st Store \<Rightarrow> time \<Rightarrow> (nat \<Rightarrow> uuid) \<Rightarrow> string \<Rightarrow> 'st \<Rightarrow> unit option" where
  "testGrantDeleteExpired db now new name s = do {
     ((u, c), s) \<leftarrow> newUserAndClient db now new name s;
     s \<leftarrow> succeeds (st_CreateGrant (sGrant db) (zGrant\<lparr>g_ID := new 2, g_UserID := u_ID u, g_ClientID := c_ID c,
       g_CodeHash := ''fresh'', g_ExpiresAt := trunc_sec (now + 24 * hour)\<rparr>) s);
     s \<leftarrow> succeeds (st_CreateGrant (sGrant db) (zGrant\<lparr>g_ID := new 3, g_UserID := u_ID u, g_ClientID := c_ID c,
       g_CodeHash := ''stale'', g_ExpiresAt := trunc_sec (now - 24 * hour)\<rparr>) s);
     s \<leftarrow> succeeds (st_DeleteExpiredGrants (sGrant db) now s);
     (_, s) \<leftarrow> ok (st_GetGrantByCodeHash (sGrant db) ''fresh'' s);
     s \<leftarrow> fails ErrNotFound (st_GetGrantByCodeHash (sGrant db) ''stale'' s);
     Some ()
   }"

definition testSessionLifecycle :: "'st Store \<Rightarrow> time \<Rightarrow> (nat \<Rightarrow> uuid) \<Rightarrow> string \<Rightarrow> 'st \<Rightarrow> unit option" where
  "testSessionLifecycle db now new name s = do {
     ((u, c), s) \<leftarrow> newUserAndClient db now new name s;
     let sess = zSession\<lparr>s_ID := new 2, s_UserID := u_ID u, s_ClientID := c_ID c, s_AccessTokenHash := ''ah-1'',
       s_RefreshTokenHash := ''rh-1'', s_Scopes := [''openid''], s_AccessExpiresAt := trunc_sec (now + hour),
       s_RefreshExpiresAt := trunc_sec (now + 24 * hour), s_MFAVerified := True\<rparr>;
     s \<leftarrow> succeeds (st_CreateSession (sSession db) now sess s);
     (got, s) \<leftarrow> ok (st_GetSessionByAccessTokenHash (sSession db) ''ah-1'' s);
     want (s_ID got = s_ID sess);
     want (s_MFAVerified got);
     (got, s) \<leftarrow> ok (st_GetSessionByRefreshTokenHash (sSession db) ''rh-1'' s);
     want (s_ID got = s_ID sess);
     let la = trunc_sec (now + 5 * minute);
     s \<leftarrow> succeeds (st_UpdateSessionActivity (sSession db) (s_ID sess) la s);
     (got, s) \<leftarrow> ok (st_GetSessionByAccessTokenHash (sSession db) ''ah-1'' s);
     want (s_LastActivityAt got = la);
     let newExp = trunc_sec (now + 2 * hour);
     s \<leftarrow> succeeds (st_ExtendSessionExpiry (sSession db) (s_ID sess) newExp s);
     (got, s) \<leftarrow> ok (st_GetSessionByAccessTokenHash (sSession db) ''ah-1'' s);
     want (s_AccessExpiresAt got = newExp);
     let newAcc = trunc_sec (now + hour);
     let newRef = trunc_sec (now + 48 * hour);
     s \<leftarrow> succeeds (st_RotateRefreshToken (sSession db) (s_ID sess) ''rh-1'' ''ah-2'' ''rh-2'' newAcc newRef s);
     s \<leftarrow> fails ErrNotFound
       (st_RotateRefreshToken (sSession db) (s_ID sess) ''rh-1'' ''ah-3'' ''rh-3'' newAcc newRef s);
     (_, s) \<leftarrow> ok (st_GetSessionByAccessTokenHash (sSession db) ''ah-2'' s);
     s \<leftarrow> fails ErrNotFound (st_GetSessionByAccessTokenHash (sSession db) ''ah-1'' s);
     s \<leftarrow> fails ErrNotFound (st_GetSessionByRefreshTokenHash (sSession db) ''rh-1'' s);
     (_, s) \<leftarrow> ok (st_GetSessionByRefreshTokenHash (sSession db) ''rh-2'' s);
     (ids, s) \<leftarrow> ok (st_ListSessionClientIDsByUser (sSession db) (u_ID u) s);
     want (ids = [c_ID c]);
     s \<leftarrow> succeeds (st_DeleteSession (sSession db) (s_ID sess) s);
     s \<leftarrow> fails ErrNotFound (st_GetSessionByAccessTokenHash (sSession db) ''ah-1'' s);
     Some ()
   }"

text \<open>The creating and the checking loop of \<open>testSessionsByUserBulkDelete\<close>.\<close>

fun create_sessions ::
  "'st Store \<Rightarrow> time \<Rightarrow> User \<Rightarrow> Client \<Rightarrow> (uuid \<times> string \<times> string) list \<Rightarrow> 'st \<Rightarrow> 'st option" where
  "create_sessions db now u c [] s = Some s"
| "create_sessions db now u c ((sid, ah, rh) # rest) s = do {
     s \<leftarrow> succeeds (st_CreateSession (sSession db) now (zSession\<lparr>s_ID := sid, s_UserID := u_ID u, s_ClientID := c_ID c,
       s_AccessTokenHash := ah, s_RefreshTokenHash := rh, s_AccessExpiresAt := now + hour,
       s_RefreshExpiresAt := now + 24 * hour\<rparr>) s);
     create_sessions db now u c rest s
   }"

fun sessions_gone :: "'st Store \<Rightarrow> string list \<Rightarrow> 'st \<Rightarrow> unit option" where
  "sessions_gone db [] s = Some ()"
| "sessions_gone db (ah # rest) s = do {
     s \<leftarrow> fails ErrNotFound (st_GetSessionByAccessTokenHash (sSession db) ah s);
     sessions_gone db rest s
   }"

definition testSessionsByUserBulkDelete :: "'st Store \<Rightarrow> time \<Rightarrow> (nat \<Rightarrow> uuid) \<Rightarrow> string \<Rightarrow> 'st \<Rightarrow> unit option" where
  "testSessionsByUserBulkDelete db now new name s = do {
     ((u, c), s) \<leftarrow> newUserAndClient db now new name s;
     s \<leftarrow> create_sessions db now u c [(new 2, ''a1'', ''r1''), (new 3, ''a2'', ''r2''), (new 4, ''a3'', ''r3'')] s;
     s \<leftarrow> succeeds (st_DeleteSessionsByUserID (sSession db) (u_ID u) s);
     sessions_gone db [''a1'', ''a2'', ''a3''] s
   }"

definition testSessionDeleteExpired :: "'st Store \<Rightarrow> time \<Rightarrow> (nat \<Rightarrow> uuid) \<Rightarrow> string \<Rightarrow> 'st \<Rightarrow> unit option" where
  "testSessionDeleteExpired db now new name s = do {
     ((u, c), s) \<leftarrow> newUserAndClient db now new name s;
     let future = trunc_sec (now + 24 * hour);
     let past = trunc_sec (now - 24 * hour);
     s \<leftarrow> succeeds (st_CreateSession (sSession db) now (zSession\<lparr>s_ID := new 2, s_UserID := u_ID u, s_ClientID := c_ID c,
       s_AccessTokenHash := ''fresh-a'', s_RefreshTokenHash := ''fresh-r'', s_AccessExpiresAt := future,
       s_RefreshExpiresAt := future\<rparr>) s);
     s \<leftarrow> succeeds (st_CreateSession (sSession db) now (zSession\<lparr>s_ID := new 3, s_UserID := u_ID u, s_ClientID := c_ID c,
       s_AccessTokenHash := ''stale-a'', s_RefreshTokenHash := ''stale-r'', s_AccessExpiresAt := past,
       s_RefreshExpiresAt := past\<rparr>) s);
     s \<leftarrow> succeeds (st_DeleteExpiredSessions (sSession db) now s);
     (_, s) \<leftarrow> ok (st_GetSessionByAccessTokenHash (sSession db) ''fresh-a'' s);
     s \<leftarrow> fails ErrNotFound (st_GetSessionByAccessTokenHash (sSession db) ''stale-a'' s);
     Some ()
   }"

subsection \<open>\<open>contract_ops.go\<close>: second factors, keys and integrations\<close>

definition testTOTPLifecycle :: "'st Store \<Rightarrow> time \<Rightarrow> (nat \<Rightarrow> uuid) \<Rightarrow> string \<Rightarrow> 'st \<Rightarrow> unit option" where
  "testTOTPLifecycle db now new name s = do {
     ((u, _), s) \<leftarrow> newUserAndClient db now new name s;
     let c = zTOTP\<lparr>t_ID := new 2, t_UserID := u_ID u, t_EncryptedSecret := ''encrypted'', t_EncryptedDEK := ''dek''\<rparr>;
     s \<leftarrow> succeeds (st_CreateTOTPCredential (sMFA db) now c s);
     (got, s) \<leftarrow> ok (st_GetTOTPByUserID (sMFA db) (u_ID u) s);
     want (\<not> t_Enabled got);
     s \<leftarrow> fails ErrConflict (st_CreateTOTPCredential (sMFA db) now
       (zTOTP\<lparr>t_ID := new 3, t_UserID := u_ID u, t_EncryptedSecret := ''x'', t_EncryptedDEK := ''y''\<rparr>) s);
     s \<leftarrow> succeeds (st_EnableTOTP (sMFA db) (t_ID c) s);
     (got, s) \<leftarrow> ok (st_GetTOTPByUserID (sMFA db) (u_ID u) s);
     want (t_Enabled got);
     s \<leftarrow> succeeds (st_DeleteTOTP (sMFA db) (u_ID u) s);
     s \<leftarrow> fails ErrNotFound (st_GetTOTPByUserID (sMFA db) (u_ID u) s);
     Some ()
   }"

definition testWebAuthnCredentialLifecycle :: "'st Store \<Rightarrow> time \<Rightarrow> (nat \<Rightarrow> uuid) \<Rightarrow> string \<Rightarrow> 'st \<Rightarrow> unit option" where
  "testWebAuthnCredentialLifecycle db now new name s = do {
     ((u, _), s) \<leftarrow> newUserAndClient db now new name s;
     let cred = zWebAuthn\<lparr>wc_ID := new 2, wc_UserID := u_ID u, wc_CredentialID := [CHR 0x01, CHR 0x02, CHR 0x03, CHR 0x04],
       wc_PublicKey := [CHR 0xAA, CHR 0xBB], wc_AAGUID := [CHR 0xCC], wc_SignCount := 7, wc_DeviceName := ''yubikey''\<rparr>;
     s \<leftarrow> succeeds (st_CreateWebAuthnCredential (sMFA db) now cred s);
     (list, s) \<leftarrow> ok (st_ListWebAuthnCredentials (sMFA db) (u_ID u) s);
     want (map wc_DeviceName list = [''yubikey'']);
     let got = hd list;
     want (wc_SignCount got = 7);
     want (wc_BackupEligible got = None \<and> \<not> wc_BackupState got);
     s \<leftarrow> fails ErrConflict (st_CreateWebAuthnCredential (sMFA db) now (zWebAuthn\<lparr>wc_ID := new 3, wc_UserID := u_ID u,
       wc_CredentialID := [CHR 0x01, CHR 0x02, CHR 0x03, CHR 0x04], wc_PublicKey := [CHR 0x01], wc_AAGUID := [CHR 0x02]\<rparr>) s);
     let last = trunc_sec now;
     s \<leftarrow> succeeds (st_UpdateWebAuthnCredentialUse (sMFA db) (wc_ID cred) 42 True True last s);
     (list, s) \<leftarrow> ok (st_ListWebAuthnCredentials (sMFA db) (u_ID u) s);
     want (list \<noteq> []);
     let got = hd list;
     want (wc_SignCount got = 42 \<and> wc_LastUsedAt got = last);
     want (wc_BackupEligible got = Some True \<and> wc_BackupState got);
     let key = zWebAuthn\<lparr>wc_ID := new 4, wc_UserID := u_ID u, wc_CredentialID := [CHR 0x05, CHR 0x06, CHR 0x07, CHR 0x08],
       wc_PublicKey := [CHR 0x01], wc_AAGUID := [CHR 0x02], wc_BackupEligible := Some False\<rparr>;
     s \<leftarrow> succeeds (st_CreateWebAuthnCredential (sMFA db) now key s);
     (list, s) \<leftarrow> ok (st_ListWebAuthnCredentials (sMFA db) (u_ID u) s);
     want (list_all (\<lambda>c. wc_ID c = wc_ID key \<longrightarrow> wc_BackupEligible c = Some False) list);
     want (list_ex (\<lambda>c. wc_ID c = wc_ID key) list);
     s \<leftarrow> succeeds (st_DeleteWebAuthnCredential (sMFA db) (wc_ID key) (u_ID u) s);
     s \<leftarrow> succeeds (st_DeleteWebAuthnCredential (sMFA db) (wc_ID cred) (new 5) s);
     (list, s) \<leftarrow> ok (st_ListWebAuthnCredentials (sMFA db) (u_ID u) s);
     want (length list = 1);
     s \<leftarrow> succeeds (st_DeleteWebAuthnCredential (sMFA db) (wc_ID cred) (u_ID u) s);
     (list, s) \<leftarrow> ok (st_ListWebAuthnCredentials (sMFA db) (u_ID u) s);
     want (length list = 0)
   }"

definition testWebAuthnSessionLifecycle :: "'st Store \<Rightarrow> time \<Rightarrow> (nat \<Rightarrow> uuid) \<Rightarrow> string \<Rightarrow> 'st \<Rightarrow> unit option" where
  "testWebAuthnSessionLifecycle db now new name s = do {
     ((u, _), s) \<leftarrow> newUserAndClient db now new name s;
     (sid, s) \<leftarrow>
       ok (st_CreateWebAuthnSession (sMFA db) now (new 2) (u_ID u) ''{\"some\":\"data\"}'' ''register'' s);
     (data, s) \<leftarrow> ok (st_GetWebAuthnSession (sMFA db) now sid (u_ID u) ''register'' s);
     want (data = ''{\"some\":\"data\"}'');
     s \<leftarrow> fails ErrNotFound (st_GetWebAuthnSession (sMFA db) now sid (u_ID u) ''login'' s);
     s \<leftarrow> fails ErrNotFound (st_GetWebAuthnSession (sMFA db) now sid (new 3) ''register'' s);
     s \<leftarrow> succeeds (st_DeleteWebAuthnSession (sMFA db) sid s);
     s \<leftarrow> fails ErrNotFound (st_GetWebAuthnSession (sMFA db) now sid (u_ID u) ''register'' s);
     Some ()
   }"

definition testSigningKeyLifecycle :: "'st Store \<Rightarrow> time \<Rightarrow> (nat \<Rightarrow> uuid) \<Rightarrow> 'st \<Rightarrow> unit option" where
  "testSigningKeyLifecycle db now new s = do {
     s \<leftarrow> fails ErrNotFound (st_GetActiveSigningKey (sSigningKey db) s);
     let k1 = \<lparr>k_ID = new 0, k_EncryptedPrivateKey = ''p1'', k_EncryptedDEK = ''d1'', k_Algorithm = ''RS256'',
       k_KID = ''kid-1'', k_Active = True, k_CreatedAt = zero_time\<rparr>;
     s \<leftarrow> succeeds (st_CreateSigningKey (sSigningKey db) now k1 s);
     (got, s) \<leftarrow> ok (st_GetActiveSigningKey (sSigningKey db) s);
     want (k_KID got = ''kid-1'');
     let k2 = \<lparr>k_ID = new 1, k_EncryptedPrivateKey = ''p2'', k_EncryptedDEK = ''d2'', k_Algorithm = ''RS256'',
       k_KID = ''kid-2'', k_Active = True, k_CreatedAt = zero_time\<rparr>;
     s \<leftarrow> succeeds (st_CreateSigningKey (sSigningKey db) now k2 s);
     (keys, s) \<leftarrow> ok (st_ListActiveSigningKeys (sSigningKey db) s);
     want (length keys = 2);
     s \<leftarrow> succeeds (st_DeactivateSigningKey (sSigningKey db) (k_ID k1) s);
     (keys, s) \<leftarrow> ok (st_ListActiveSigningKeys (sSigningKey db) s);
     want (map k_KID keys = [''kid-2'']);
     (got, s) \<leftarrow> ok (st_GetActiveSigningKey (sSigningKey db) s);
     want (k_KID got = ''kid-2'')
   }"

definition testIntegrationLifecycle :: "'st Store \<Rightarrow> time \<Rightarrow> (nat \<Rightarrow> uuid) \<Rightarrow> 'st \<Rightarrow> unit option" where
  "testIntegrationLifecycle db now new s = do {
     (i, s) \<leftarrow> ok (st_CreateIntegration (sIntegration db) now (new 0) (zIntegration\<lparr>i_Name := ''scim-vault'',
       i_Provider := AppIntegrationProviderSCIM, i_Enabled := True,
       i_Config := \<lparr>ic_BaseURL = ''https://vault.example/scim/v2'', ic_TimeoutMS = 5000,
         ic_AuthMode = AppIntegrationAuthBearer\<rparr>,
       i_EncryptedToken := ''etok'', i_EncryptedDEK := ''edek''\<rparr>) s);
     want (i_ID i \<noteq> uuid_nil);
     want (\<not> IsZero (i_CreatedAt i) \<and> \<not> IsZero (i_UpdatedAt i));
     (got, s) \<leftarrow> ok (st_GetIntegration (sIntegration db) (i_ID i) s);
     want (ic_BaseURL (i_Config got) = ''https://vault.example/scim/v2'');
     want (ic_AuthMode (i_Config got) = AppIntegrationAuthBearer);
     (byName, s) \<leftarrow> ok (st_GetIntegrationByName (sIntegration db) ''scim-vault'' s);
     want (i_ID byName = i_ID i);
     s \<leftarrow> fails ErrConflict (st_CreateIntegration (sIntegration db) now (new 1)
       (zIntegration\<lparr>i_Name := ''scim-vault'', i_Provider := ''scim'', i_Enabled := True\<rparr>) s);
     let i = i\<lparr>i_Enabled := False, i_Config := (i_Config i)\<lparr>ic_TimeoutMS := 9000\<rparr>\<rparr>;
     s \<leftarrow> succeeds (st_UpdateIntegration (sIntegration db) now i s);
     (got, s) \<leftarrow> ok (st_GetIntegration (sIntegration db) (i_ID i) s);
     want (\<not> i_Enabled got);
     want (ic_TimeoutMS (i_Config got) = 9000);
     (all, s) \<leftarrow> ok (st_ListIntegrations (sIntegration db) s);
     want (length all = 1);
     (enabled, s) \<leftarrow> ok (st_ListEnabledIntegrations (sIntegration db) s);
     want (length enabled = 0);
     s \<leftarrow> succeeds (st_DeleteIntegration (sIntegration db) (i_ID i) s);
     s \<leftarrow> fails ErrNotFound (st_DeleteIntegration (sIntegration db) (i_ID i) s);
     s \<leftarrow> fails ErrNotFound (st_UpdateIntegration (sIntegration db) now i s);
     s \<leftarrow> fails ErrNotFound (st_GetIntegrationByName (sIntegration db) ''scim-vault'' s);
     Some ()
   }"

definition testExternalIDDelete :: "'st Store \<Rightarrow> time \<Rightarrow> (nat \<Rightarrow> uuid) \<Rightarrow> string \<Rightarrow> 'st \<Rightarrow> unit option" where
  "testExternalIDDelete db now new name s = do {
     ((u, _), s) \<leftarrow> newUserAndClient db now new name s;
     s \<leftarrow> succeeds (st_SetExternalID (sExternalID db) ''iam'' (u_ID u) ''AIDABC123'' s);
     s \<leftarrow> succeeds (st_DeleteExternalID (sExternalID db) ''iam'' (u_ID u) s);
     s \<leftarrow> fails ErrNotFound (st_GetExternalID (sExternalID db) ''iam'' (u_ID u) s);
     Some ()
   }"

subsection \<open>\<open>contract_ops.go\<close>: users, clients and groups\<close>

definition testUserUpdatePaths :: "'st Store \<Rightarrow> time \<Rightarrow> (nat \<Rightarrow> uuid) \<Rightarrow> string \<Rightarrow> 'st \<Rightarrow> unit option" where
  "testUserUpdatePaths db now new name s = do {
     ((u, _), s) \<leftarrow> newUserAndClient db now new name s;
     s \<leftarrow> succeeds (st_UpdateUser (sUser db) now (u_ID u) ''Renamed'' False s);
     s \<leftarrow> succeeds (st_UpdateUserPassword (sUser db) now (u_ID u) ''new-hash'' s);
     s \<leftarrow> succeeds (st_UpdateUserMFAEnabled (sUser db) now (u_ID u) True s);
     s \<leftarrow> succeeds (st_SetUserActive (sUser db) now (u_ID u) False s);
     s \<leftarrow> succeeds (st_SetUserSCIMExternalID (sUser db) now (u_ID u) ''scim-1'' s);
     s \<leftarrow> succeeds (st_SetUserAdmin (sUser db) now (u_ID u) True s);
     (got, s) \<leftarrow> ok (st_GetUserByID (sUser db) (u_ID u) s);
     want (u_Name got = ''Renamed'' \<and> \<not> u_Active got \<and> u_MFAEnabled got \<and> u_IsAdmin got
       \<and> u_SCIMExternalID got = ''scim-1'' \<and> u_PasswordHash got = ''new-hash'');
     (got2, s) \<leftarrow> ok (st_GetUserByEmail (sUser db) (u_Email got) s);
     want (u_ID got2 = u_ID u);
     (n, s) \<leftarrow> ok (st_CountUsers (sUser db) s);
     want (n = 1);
     (list, s) \<leftarrow> ok (st_ListUsers (sUser db) s);
     want (length list = 1);
     s \<leftarrow> succeeds (st_DeleteUser (sUser db) (u_ID u) s);
     s \<leftarrow> fails ErrNotFound (st_GetUserByID (sUser db) (u_ID u) s);
     Some ()
   }"

definition testClientUpdateSecretAndDelete :: "'st Store \<Rightarrow> time \<Rightarrow> (nat \<Rightarrow> uuid) \<Rightarrow> string \<Rightarrow> 'st \<Rightarrow> unit option" where
  "testClientUpdateSecretAndDelete db now new name s = do {
     ((_, c), s) \<leftarrow> newUserAndClient db now new name s;
     s \<leftarrow> succeeds (st_UpdateClientSecret (sClient db) now (c_ID c) ''new-sec-hash'' s);
     (got, s) \<leftarrow> ok (st_GetClientByID (sClient db) (c_ID c) s);
     want (c_ClientSecretHash got = ''new-sec-hash'');
     (list, s) \<leftarrow> ok (st_ListClients (sClient db) s);
     want (length list \<ge> 2);
     s \<leftarrow> succeeds (st_DeleteClient (sClient db) (c_ID c) s);
     s \<leftarrow> fails ErrNotFound (st_GetClientByID (sClient db) (c_ID c) s);
     Some ()
   }"

definition testGroupUpdateAndRemove :: "'st Store \<Rightarrow> time \<Rightarrow> (nat \<Rightarrow> uuid) \<Rightarrow> string \<Rightarrow> 'st \<Rightarrow> unit option" where
  "testGroupUpdateAndRemove db now new name s = do {
     ((u, _), s) \<leftarrow> newUserAndClient db now new name s;
     (g, s) \<leftarrow> ok (st_CreateGroup (sGroup db) now (new 2) ''eng'' s);
     s \<leftarrow> succeeds (st_AddGroupMember (sGroup db) (gr_ID g) (u_ID u) s);
     s \<leftarrow> succeeds (st_UpdateGroup (sGroup db) now (gr_ID g) ''engineering'' s);
     (got, s) \<leftarrow> ok (st_GetGroupByID (sGroup db) (gr_ID g) s);
     want (gr_DisplayName got = ''engineering'');
     (list, s) \<leftarrow> ok (st_ListGroups (sGroup db) s);
     want (length list = 1);
     s \<leftarrow> succeeds (st_RemoveGroupMember (sGroup db) (gr_ID g) (u_ID u) s);
     (got, s) \<leftarrow> ok (st_GetGroupByID (sGroup db) (gr_ID g) s);
     want (length (gr_Members got) = 0);
     s \<leftarrow> succeeds (st_DeleteGroup (sGroup db) (gr_ID g) s);
     s \<leftarrow> fails ErrNotFound (st_GetGroupByID (sGroup db) (gr_ID g) s);
     Some ()
   }"

subsection \<open>\<open>contract_extra.go\<close>\<close>

text \<open>\<open>raceN\<close>: every call of the store is one statement or one transaction, so concurrent calls take effect in some
  order; the list holds the calls in that order, the result their errors (\<open>None\<close> for a nil error).\<close>

fun raceN :: "('st \<Rightarrow> (store_error + unit) \<times> 'st) list \<Rightarrow> 'st \<Rightarrow> store_error option list \<times> 'st" where
  "raceN [] s = ([], s)"
| "raceN (f # fs) s =
     (case f s of (r, s1) \<Rightarrow> (case raceN fs s1 of (es, s2) \<Rightarrow>
        ((case r of Inl e \<Rightarrow> Some e | Inr _ \<Rightarrow> None) # es, s2)))"

definition race_wins :: "store_error option list \<Rightarrow> nat" where
  "race_wins es = length (filter (\<lambda>e. e = None) es)"

definition race_losses :: "store_error option list \<Rightarrow> nat" where
  "race_losses es = length (filter (\<lambda>e. e = Some ErrNotFound) es)"

definition expected :: "store_error option list \<Rightarrow> bool" where
  "expected es = list_all (\<lambda>e. e = None \<or> e = Some ErrNotFound) es"

definition testGrantSingleUseUnderConcurrency ::
  "'st Store \<Rightarrow> time \<Rightarrow> (nat \<Rightarrow> uuid) \<Rightarrow> string \<Rightarrow> 'st \<Rightarrow> unit option" where
  "testGrantSingleUseUnderConcurrency db now new name s = do {
     ((u, c), s) \<leftarrow> newUserAndClient db now new name s;
     let g = zGrant\<lparr>g_ID := new 2, g_UserID := u_ID u, g_ClientID := c_ID c, g_CodeHash := ''race-code'',
       g_Scopes := [''openid''], g_RedirectURI := ''https://app.example/cb'', g_ExpiresAt := now + minute\<rparr>;
     s \<leftarrow> succeeds (st_CreateGrant (sGrant db) g s);
     let (errs, s) = raceN (replicate 16 (st_MarkGrantUsed (sGrant db) now (g_ID g))) s;
     want (expected errs);
     want (race_wins errs = 1 \<and> race_losses errs = 15)
   }"

text \<open>\<open>string(rune('a'+n))\<close> for the counter values \<open>n\<close> of the race.\<close>

definition rune_a :: "nat \<Rightarrow> string" where "rune_a n = [char_of (97 + n)]"

text \<open>The counter \<open>seq\<close> hands each goroutine a number; \<open>order\<close> lists the numbers in the order in which the
  database executes the rotations. The channel \<open>winner\<close> holds the numbers of the calls that returned nil.\<close>

definition testRefreshRotationUnderConcurrency ::
  "'st Store \<Rightarrow> time \<Rightarrow> (nat \<Rightarrow> uuid) \<Rightarrow> string \<Rightarrow> nat list \<Rightarrow> 'st \<Rightarrow> unit option" where
  "testRefreshRotationUnderConcurrency db now new name order s = do {
     ((u, c), s) \<leftarrow> newUserAndClient db now new name s;
     let sess = zSession\<lparr>s_ID := new 2, s_UserID := u_ID u, s_ClientID := c_ID c, s_AccessTokenHash := ''ah-0'',
       s_RefreshTokenHash := ''rh-0'', s_Scopes := [''openid''], s_AccessExpiresAt := now + hour,
       s_RefreshExpiresAt := now + 2 * hour\<rparr>;
     s \<leftarrow> succeeds (st_CreateSession (sSession db) now sess s);
     let (errs, s) = raceN (map (\<lambda>n. st_RotateRefreshToken (sSession db) (s_ID sess) ''rh-0''
       (''ah-'' @ rune_a n) (''rh-'' @ rune_a n) (now + hour) (now + 2 * hour)) order) s;
     let winner = map fst (filter (\<lambda>(n, e). e = None) (zip order errs));
     want (expected errs);
     want (race_wins errs = 1);
     (_, s) \<leftarrow> ok (st_GetSessionByAccessTokenHash (sSession db) (''ah-'' @ rune_a (hd winner)) s);
     s \<leftarrow> fails ErrNotFound (st_GetSessionByRefreshTokenHash (sSession db) ''rh-0'' s);
     s \<leftarrow> fails ErrNotFound (st_GetSessionByAccessTokenHash (sSession db) ''ah-0'' s);
     Some ()
   }"

definition testUserConflictsAndNotFound :: "'st Store \<Rightarrow> time \<Rightarrow> (nat \<Rightarrow> uuid) \<Rightarrow> 'st \<Rightarrow> unit option" where
  "testUserConflictsAndNotFound db now new s = do {
     (_, s) \<leftarrow> ok (st_CreateUser (sUser db) now (new 0) ''dup@example.com'' ''h'' ''Dup'' s);
     s \<leftarrow> fails ErrConflict (st_CreateUser (sUser db) now (new 1) ''dup@example.com'' ''h'' ''Dup2'' s);
     s \<leftarrow> fails ErrNotFound (st_GetUserByID (sUser db) (new 2) s);
     s \<leftarrow> fails ErrNotFound (st_GetUserByEmail (sUser db) ''nobody@example.com'' s);
     s \<leftarrow> fails ErrNotFound (st_GetClientByClientID (sClient db) ''nope'' s);
     (_, s) \<leftarrow> ok (st_CreateClient (sClient db) now (new 3) ''cid-dup'' [] ''A'' [] [] True None s);
     s \<leftarrow> fails ErrConflict (st_CreateClient (sClient db) now (new 4) ''cid-dup'' [] ''B'' [] [] True None s);
     Some ()
   }"

text \<open>The closure \<open>mk\<close> of \<open>testDeviceGrantLifecycle\<close>.\<close>

definition mk :: "'st Store \<Rightarrow> time \<Rightarrow> Client \<Rightarrow> uuid \<Rightarrow> string \<Rightarrow> string \<Rightarrow> time \<Rightarrow> 'st \<Rightarrow> (uuid \<times> 'st) option" where
  "mk db now c fresh dev usr expiry s =
     ok (st_CreateDeviceGrant (sDevice db) now fresh (zDeviceGrant\<lparr>d_DeviceCodeHash := dev, d_UserCodeHash := usr,
       d_ClientID := c_ID c, d_Scopes := [''openid'', ''profile''], d_ExpiresAt := expiry\<rparr>) s)"

definition testDeviceGrantLifecycle :: "'st Store \<Rightarrow> time \<Rightarrow> (nat \<Rightarrow> uuid) \<Rightarrow> string \<Rightarrow> 'st \<Rightarrow> unit option" where
  "testDeviceGrantLifecycle db now new name s = do {
     ((u, c), s) \<leftarrow> newUserAndClient db now new name s;
     (gid, s) \<leftarrow> mk db now c (new 2) ''dev-1'' ''usr-1'' (now + 10 * minute) s;
     s \<leftarrow> fails ErrConflict (st_CreateDeviceGrant (sDevice db) now (new 3) (zDeviceGrant\<lparr>d_DeviceCodeHash := ''dev-1'',
       d_UserCodeHash := ''usr-x'', d_ClientID := c_ID c, d_ExpiresAt := now + minute\<rparr>) s);
     (got, s) \<leftarrow> ok (st_GetDeviceGrantByDeviceCodeHash (sDevice db) ''dev-1'' s);
     want (d_Status got = DeviceGrantStatusPending \<and> d_IntervalSec got = 5 \<and> d_UserID got = None
       \<and> sliceEq (d_Scopes got) [''openid'', ''profile'']);
     (byUser, s) \<leftarrow> ok (st_GetDeviceGrantByUserCodeHash (sDevice db) ''usr-1'' s);
     want (d_ID byUser = gid);
     s \<leftarrow> fails ErrNotFound (st_MarkDeviceGrantRedeemed (sDevice db) gid s);
     let polled = trunc_sec now;
     s \<leftarrow> succeeds (st_UpdateDeviceGrantPoll (sDevice db) gid polled 10 s);
     let mfaAt = trunc_sec now;
     s \<leftarrow> succeeds (st_MarkDeviceGrantApproved (sDevice db) gid (u_ID u) True (Some mfaAt) ''203.0.113.9'' s);
     s \<leftarrow> fails ErrNotFound (st_MarkDeviceGrantApproved (sDevice db) gid (u_ID u) False None ''x'' s);
     s \<leftarrow> fails ErrNotFound (st_MarkDeviceGrantDenied (sDevice db) gid ''x'' s);
     (got, s) \<leftarrow> ok (st_GetDeviceGrantByDeviceCodeHash (sDevice db) ''dev-1'' s);
     want (d_Status got = DeviceGrantStatusApproved \<and> d_UserID got = Some (u_ID u) \<and> d_MFAVerified got
       \<and> d_MFAVerifiedAt got = Some mfaAt \<and> d_ApproverIP got = ''203.0.113.9'' \<and> d_IntervalSec got = 10
       \<and> d_LastPolledAt got = Some polled);
     let (errs, s) = raceN (replicate 8 (st_MarkDeviceGrantRedeemed (sDevice db) gid)) s;
     want (expected errs);
     want (race_wins errs = 1);
     (did, s) \<leftarrow> mk db now c (new 4) ''dev-2'' ''usr-2'' (now + 10 * minute) s;
     s \<leftarrow> succeeds (st_MarkDeviceGrantDenied (sDevice db) did ''198.51.100.1'' s);
     s \<leftarrow> fails ErrNotFound (st_MarkDeviceGrantApproved (sDevice db) did (u_ID u) False None ''x'' s);
     (_, s) \<leftarrow> mk db now c (new 5) ''dev-3'' ''usr-3'' (now - minute) s;
     (n, s) \<leftarrow> ok (st_DeleteExpiredDeviceGrants (sDevice db) now s);
     want (n = 1);
     s \<leftarrow> fails ErrNotFound (st_GetDeviceGrantByDeviceCodeHash (sDevice db) ''dev-3'' s);
     (_, s) \<leftarrow> ok (st_GetDeviceGrantByDeviceCodeHash (sDevice db) ''dev-2'' s);
     Some ()
   }"

definition testEmptyScopesRoundTrip :: "'st Store \<Rightarrow> time \<Rightarrow> (nat \<Rightarrow> uuid) \<Rightarrow> string \<Rightarrow> 'st \<Rightarrow> unit option" where
  "testEmptyScopesRoundTrip db now new name s = do {
     ((u, c), s) \<leftarrow> newUserAndClient db now new name s;
     s \<leftarrow> succeeds (st_CreateSession (sSession db) now (zSession\<lparr>s_ID := new 2, s_UserID := u_ID u, s_ClientID := c_ID c,
       s_AccessTokenHash := ''ah-empty'', s_RefreshTokenHash := ''rh-empty'', s_AccessExpiresAt := now + hour,
       s_RefreshExpiresAt := now + 2 * hour\<rparr>) s);
     (got, s) \<leftarrow> ok (st_GetSessionByAccessTokenHash (sSession db) ''ah-empty'' s);
     want (length (s_Scopes got) = 0);
     s \<leftarrow> succeeds (st_CreateGrant (sGrant db) (zGrant\<lparr>g_ID := new 3, g_UserID := u_ID u, g_ClientID := c_ID c,
       g_CodeHash := ''code-empty'', g_RedirectURI := ''https://app.example/cb'', g_ExpiresAt := now + minute\<rparr>) s);
     (got, s) \<leftarrow> ok (st_GetGrantByCodeHash (sGrant db) ''code-empty'' s);
     want (length (g_Scopes got) = 0);
     (noScopes, s) \<leftarrow>
       ok (st_CreateClient (sClient db) now (new 4) ''no-scope-client'' [] ''No scopes'' [] [] True None s);
     (got, s) \<leftarrow> ok (st_GetClientByID (sClient db) (c_ID noScopes) s);
     want (length (c_Scopes got) = 0 \<and> length (c_RedirectURIs got) = 0)
   }"

text \<open>The loop of \<open>testExpiryIgnoresLocalZone\<close> over a Go map, whose order is not fixed: the entries come in the
  order of the list, each with the three identifiers its rows draw.\<close>

fun expiry_rows ::
  "'st Store \<Rightarrow> time \<Rightarrow> User \<Rightarrow> Client \<Rightarrow> (string \<times> time \<times> uuid \<times> uuid \<times> uuid) list \<Rightarrow> 'st \<Rightarrow> 'st option" where
  "expiry_rows db now u c [] s = Some s"
| "expiry_rows db now u c ((tag, expiry, i, j, k) # rest) s = do {
     s \<leftarrow> succeeds (st_CreateGrant (sGrant db) (zGrant\<lparr>g_ID := i, g_UserID := u_ID u, g_ClientID := c_ID c,
       g_CodeHash := ''g-'' @ tag, g_RedirectURI := ''https://app.example/cb'', g_ExpiresAt := expiry\<rparr>) s);
     s \<leftarrow> succeeds (st_CreateSession (sSession db) now (zSession\<lparr>s_ID := j, s_UserID := u_ID u, s_ClientID := c_ID c,
       s_AccessTokenHash := ''a-'' @ tag, s_RefreshTokenHash := ''r-'' @ tag, s_AccessExpiresAt := expiry,
       s_RefreshExpiresAt := expiry\<rparr>) s);
     (_, s) \<leftarrow> ok (st_CreateDeviceGrant (sDevice db) now k (zDeviceGrant\<lparr>d_DeviceCodeHash := ''d-'' @ tag,
       d_UserCodeHash := ''u-'' @ tag, d_ClientID := c_ID c, d_ExpiresAt := expiry\<rparr>) s);
     expiry_rows db now u c rest s
   }"

text \<open>The body of the loop over the zones; the zone of a time changes nothing but its display.\<close>

definition expiry_in_zone ::
  "'st Store \<Rightarrow> time \<Rightarrow> (nat \<Rightarrow> uuid) \<Rightarrow> string \<Rightarrow> bool \<Rightarrow> 'st \<Rightarrow> unit option" where
  "expiry_in_zone db now new name swap s = do {
     ((u, c), s) \<leftarrow> newUserAndClient db now new name s;
     let stale = (''stale'', now - hour, new 2, new 3, new 4);
     let fresh = (''fresh'', now + hour, new 5, new 6, new 7);
     s \<leftarrow> expiry_rows db now u c (if swap then [fresh, stale] else [stale, fresh]) s;
     s \<leftarrow> succeeds (st_DeleteExpiredGrants (sGrant db) now s);
     s \<leftarrow> succeeds (st_DeleteExpiredSessions (sSession db) now s);
     (n, s) \<leftarrow> ok (st_DeleteExpiredDeviceGrants (sDevice db) now s);
     want (n = 1);
     s \<leftarrow> fails ErrNotFound (st_GetGrantByCodeHash (sGrant db) ''g-stale'' s);
     (_, s) \<leftarrow> ok (st_GetGrantByCodeHash (sGrant db) ''g-fresh'' s);
     s \<leftarrow> fails ErrNotFound (st_GetSessionByRefreshTokenHash (sSession db) ''r-stale'' s);
     (_, s) \<leftarrow> ok (st_GetSessionByRefreshTokenHash (sSession db) ''r-fresh'' s);
     s \<leftarrow> fails ErrNotFound (st_GetDeviceGrantByDeviceCodeHash (sDevice db) ''d-stale'' s);
     (_, s) \<leftarrow> ok (st_GetDeviceGrantByDeviceCodeHash (sDevice db) ''d-fresh'' s);
     Some ()
   }"

definition testExpiryIgnoresLocalZone ::
  "'st Store \<Rightarrow> time \<Rightarrow> (nat \<Rightarrow> uuid) \<Rightarrow> string \<Rightarrow> bool \<Rightarrow> 'st \<Rightarrow> unit option" where
  "testExpiryIgnoresLocalZone db now new name swap s = do {
     expiry_in_zone db now new (name @ ''/UTC+14'') swap s;
     expiry_in_zone db now new (name @ ''/UTC-12'') swap s
   }"

end
