(* ===== verification/Contract.thy ===== *)
theory Contract
  imports Contract_Ops Aws_Properties "HOL-Library.Multiset"
begin

text \<open>
  The store contract holds of both backends: \<open>storetest.Run\<close> over the tests of \<open>Contract_Core\<close> and
  \<open>Contract_Ops\<close>, the state of a freshly migrated store, and the proof that every test passes on the SQLite and on
  the PostgreSQL model, for every clock and every choice of identifiers.
\<close>

named_theorems contract_eval "evaluation of the store contract"
named_theorems contract_passes "tests of the contract that pass on both backends"

subsection \<open>A freshly migrated store\<close>

text \<open>The row that migration 005 inserts, with the column defaults of the later migrations.\<close>

definition portal_seed :: "time \<Rightarrow> Client" where
  "portal_seed t = \<lparr>c_ID = portalClientUUID, c_ClientID = ''portal'', c_ClientSecretHash = [], c_Name = ''tokyo3-auth Portal'',
     c_RedirectURIs = [], c_Scopes = [''portal'', ''admin''], c_Public = True, c_BackchannelLogoutURI = None,
     c_ShowInPortal = False, c_LaunchURL = [], c_BrandColor = [], c_IconURL = [], c_VisibleToAll = False,
     c_AllowDeviceGrant = False, c_SecretRotatedAt = t, c_CreatedAt = t\<rparr>"

definition fresh_db :: "time \<Rightarrow> db" where
  "fresh_db t = \<lparr>users = [], clients = [portal_seed t], grants = [], sessions = [], retired = [], totps = [], webauthns = [],
     wa_sessions = [], groups = [], members = [], signing_keys = [], ext_ids = [], integrations = [], aws_accounts = [],
     aws_roles = [], aws_assignments = [], aws_revoked = [], device_grants = [], visibility = []\<rparr>"

text \<open>What \<open>uuid.New\<close> returns: pairwise different values, none nil and none the fixed identifier of the portal.\<close>

definition fresh_uuids :: "(nat \<Rightarrow> uuid) \<Rightarrow> bool" where
  "fresh_uuids new \<longleftrightarrow> inj new \<and> uuid_nil \<notin> range new \<and> portalClientUUID \<notin> range new"

lemma fresh_uuidsD [simp]:
  assumes "fresh_uuids new"
  shows "new i = new j \<longleftrightarrow> i = j" "new i \<noteq> 0" "new i \<noteq> Suc 0" "0 \<noteq> new i" "Suc 0 \<noteq> new i" "0 < new i"
  using assms by (auto simp: fresh_uuids_def portalClientUUID_def inj_eq image_iff) (metis gr0I | metis)+

subsection \<open>Evaluation\<close>

lemma micro_current_timestamp [contract_eval]: "micro (current_timestamp t) = current_timestamp t"
proof -
  have "(1000::int) dvd second" by (simp add: second_def)
  then have "1000 dvd current_timestamp t" by (simp add: current_timestamp_def)
  then show ?thesis by (simp add: micro_def)
qed

lemma trunc_sec_eq [contract_eval]: "trunc_sec t = current_timestamp t"
  by (simp add: trunc_sec_def current_timestamp_def)

lemma micro_zero_time [contract_eval]: "micro zero_time = zero_time"
  by (simp add: micro_def zero_time_def second_def)

lemma not_client_suffix [contract_eval]: "name @ ''-client'' \<noteq> ''portal''" "''portal'' \<noteq> name @ ''-client''"
  by (auto dest: arg_cong [where f = last])

lemma no_scope_suffix [contract_eval]:
  "name @ ''-client'' = ''no-scope-client'' \<longleftrightarrow> name = ''no-scope''" "''no-scope-client'' = name @ ''-client'' \<longleftrightarrow> name = ''no-scope''"
  using append_same_eq [of name "''-client''" "''no-scope''"] by auto

lemma clock_order:
  "current_timestamp t \<le> t" "t - second < current_timestamp t" "micro t \<le> t" "t - second < micro t"
proof -
  show "current_timestamp t \<le> t" "t - second < current_timestamp t" by (rule current_timestamp_le current_timestamp_gt)+
  have "t mod 1000 = t - micro t" unfolding micro_def by (simp add: minus_div_mult_eq_mod)
  then show "micro t \<le> t" "t - second < micro t"
    using pos_mod_bound [of 1000 t] pos_mod_sign [of 1000 t] by (simp_all add: second_def)
qed

text \<open>Times at least one second before and after the clock, as the two backends store and compare them.\<close>

lemma expired [contract_eval]:
  assumes "second \<le> k"
  shows "t - k < current_timestamp t" "current_timestamp (t - k) < current_timestamp t"
    "micro (t - k) < micro t" "current_timestamp (t - k) < micro t"
  using assms clock_order [of t] clock_order [of "t - k"] by simp_all

lemma unexpired [contract_eval]:
  assumes "second \<le> k"
  shows "\<not> t + k < current_timestamp t" "\<not> current_timestamp (t + k) < current_timestamp t"
    "micro t < micro (t + k)" "\<not> micro (t + k) < micro t" "\<not> current_timestamp (t + k) < micro t"
    "\<not> micro t < micro (t - k)"
  using assms clock_order [of t] clock_order [of "t + k"] clock_order [of "t - k"] by (simp_all add: second_def)

lemma durations [contract_eval]:
  "second \<le> hour" "second \<le> minute" "second \<le> numeral w * hour" "second \<le> numeral w * minute" "0 < hour" "0 < minute" "\<not> hour < 0"
proof -
  show *: "second \<le> hour" "second \<le> minute" "0 < hour" "0 < minute" "\<not> hour < 0" by (simp_all add: duration_defs)
  have "1 * d \<le> numeral w * d" if "0 < d" for d :: int using that by (intro mult_right_mono) simp_all
  from this [OF *(3)] this [OF *(4)] show "second \<le> numeral w * hour" "second \<le> numeral w * minute"
    using *(1,2) by linarith+
qed

lemma micro_not_zero [contract_eval]: "0 \<le> t \<Longrightarrow> \<not> IsZero (micro t)" "0 \<le> t \<Longrightarrow> \<not> IsZero t"
  by (auto simp: IsZero_def zero_time_def micro_def second_def dest: arg_cong [where f = "\<lambda>x. 0 \<le> x"])

text \<open>Evaluate a test call by call: the continuation is simplified only when its argument is known.\<close>

lemma bind_weak_cong: "m = m' \<Longrightarrow> Option.bind m f = Option.bind m' f"
  by simp

lemma contains_iff [contract_eval]: "contains ids x \<longleftrightarrow> x \<in> set ids"
  by (auto simp: contains_def list_ex_iff)

lemma sort_by_single [contract_eval]: "sort_by le [x] = [x]"
  by (simp add: sort_by_def)

lemma scope_strings [contract_eval]:
  "Fields ''openid profile'' = [''openid'', ''profile'']" "Fields [] = []"
  by code_simp+

lemma region_strings [contract_eval]:
  "DecodeRegions (EncodeRegions [''ap-east-2'', ''eu-west-1'']) = [''ap-east-2'', ''eu-west-1'']"
  "DecodeRegions (EncodeRegions [''eu-west-1'']) = [''eu-west-1'']" "DecodeRegions (EncodeRegions []) = []"
  by code_simp+

lemmas mfa_defs [contract_eval] =
  CreateTOTPCredential_def GetTOTPByUserID_def EnableTOTP_def DeleteTOTP_def CreateWebAuthnCredential_def
  ListWebAuthnCredentials_def UpdateWebAuthnCredentialUse_def DeleteWebAuthnCredential_def CreateWebAuthnSession_def
  GetWebAuthnSession_def DeleteWebAuthnSession_def CreateSigningKey_def ListActiveSigningKeys_def GetActiveSigningKey_def
  DeactivateSigningKey_def ext_hit_def GetExternalID_def SetExternalID_def DeleteExternalID_def CreateIntegration_def
  GetIntegration_def GetIntegrationByName_def ListIntegrations_def ListEnabledIntegrations_def UpdateIntegration_def
  DeleteIntegration_def CreateAWSAccount_def GetAWSAccount_def ListAWSAccounts_def UpdateAWSAccount_def
  DeleteAWSAccount_def CreateAWSRole_def GetAWSRole_def ListAWSRoles_def UpdateAWSRole_def DeleteAWSRole_def
  CreateAWSRoleAssignment_def ListAWSRoleAssignments_def role_assigned_to_def ListAWSRolesForUser_def
  DeleteAWSRoleAssignment_def revoked_hit_def AddAWSRevokedUser_def ListAWSRevokedUsers_def
  ListAWSRevokedUsersOlderThan_def DeleteAWSRevokedUser_def core_same_def

lemmas pg_method_defs [contract_eval] =
  pg_CreateUser_def pg_GetUserByID_def pg_GetUserByEmail_def pg_CountUsers_def pg_ListUsers_def pg_UpdateUser_def
  pg_UpdateUserPassword_def pg_SetUserMustChangePassword_def pg_UpdateUserMFAEnabled_def pg_UpdateUserFailedAttempts_def
  pg_SetUserActive_def pg_SetUserSCIMExternalID_def pg_SetUserAdmin_def pg_DeleteUser_def pg_CreateGrant_def
  pg_GetGrantByCodeHash_def pg_MarkGrantUsed_def pg_DeleteExpiredGrants_def pg_CreateSession_def pg_MarkSessionMFA_def
  pg_GetSessionByAccessTokenHash_def pg_GetSessionByRefreshTokenHash_def pg_UpdateSessionActivity_def
  pg_ExtendSessionExpiry_def pg_RotateRefreshToken_def pg_GetSessionByRetiredRefreshTokenHash_def pg_DeleteSession_def
  pg_DeleteSessionsByUserID_def pg_ListSessionClientIDsByUser_def pg_DeleteExpiredSessions_def pg_CreateClient_def
  pg_GetClientByID_def pg_GetClientByClientID_def pg_ListClients_def pg_UpdateClient_def pg_UpdateClientDeviceGrant_def
  pg_UpdateClientSecret_def pg_DeleteClient_def pg_UpdateClientPortalConfig_def pg_ReplaceClientVisibility_def
  pg_ListClientVisibility_def pg_ListPortalClientsForUser_def pg_CreateGroup_def pg_groupMembers_def pg_GetGroupByID_def
  pg_ListGroups_def pg_UpdateGroup_def pg_ReplaceGroupMembers_def pg_AddGroupMember_def pg_RemoveGroupMember_def
  pg_DeleteGroup_def pg_CreateDeviceGrant_def pg_GetDeviceGrantByDeviceCodeHash_def pg_GetDeviceGrantByUserCodeHash_def
  pg_MarkDeviceGrantApproved_def pg_MarkDeviceGrantDenied_def pg_MarkDeviceGrantRedeemed_def pg_UpdateDeviceGrantPoll_def
  pg_DeleteExpiredDeviceGrants_def pg_CreateTOTPCredential_def pg_GetTOTPByUserID_def pg_EnableTOTP_def pg_DeleteTOTP_def
  pg_CreateWebAuthnCredential_def pg_ListWebAuthnCredentials_def pg_UpdateWebAuthnCredentialUse_def
  pg_DeleteWebAuthnCredential_def pg_CreateWebAuthnSession_def pg_GetWebAuthnSession_def pg_DeleteWebAuthnSession_def
  pg_CreateSigningKey_def pg_ListActiveSigningKeys_def pg_GetActiveSigningKey_def pg_DeactivateSigningKey_def
  pg_GetExternalID_def pg_SetExternalID_def pg_DeleteExternalID_def pg_CreateIntegration_def pg_GetIntegration_def
  pg_GetIntegrationByName_def pg_ListIntegrations_def pg_ListEnabledIntegrations_def pg_UpdateIntegration_def
  pg_DeleteIntegration_def pg_CreateAWSAccount_def pg_GetAWSAccount_def pg_ListAWSAccounts_def pg_UpdateAWSAccount_def
  pg_DeleteAWSAccount_def pg_CreateAWSRole_def pg_GetAWSRole_def pg_ListAWSRoles_def pg_UpdateAWSRole_def
  pg_DeleteAWSRole_def pg_CreateAWSRoleAssignment_def pg_ListAWSRoleAssignments_def pg_ListAWSRolesForUser_def
  pg_DeleteAWSRoleAssignment_def pg_AddAWSRevokedUser_def pg_ListAWSRevokedUsers_def pg_ListAWSRevokedUsersOlderThan_def
  pg_DeleteAWSRevokedUser_def

declare store_defs [contract_eval] uniq_defs [contract_eval] ok_def [contract_eval] succeeds_def [contract_eval]
  fails_def [contract_eval] fails_any_def [contract_eval] want_def [contract_eval] newUserAndClient_def [contract_eval]
  fresh_db_def [contract_eval] portal_seed_def [contract_eval] portalClientUUID_def [contract_eval]
  sqlite_store_def [contract_eval] pg_store_def [contract_eval] select_row_def [contract_eval]
  insert_outcome_def [contract_eval] sql_update_def [contract_eval] sql_delete_def [contract_eval] Let_def [contract_eval]
  delete_sessions_def [contract_eval] user_session_def [contract_eval] requireOneRow_def [contract_eval]
  rows_affected_def [contract_eval] zGrant_def [contract_eval] zSession_def [contract_eval] zAWSAccount_def [contract_eval]
  zAWSRole_def [contract_eval] zAWSRoleAssignment_def [contract_eval] zTOTP_def [contract_eval] zWebAuthn_def [contract_eval]
  zIntegration_def [contract_eval] zDeviceGrant_def [contract_eval] tileIDs_def [contract_eval]
  update_client_def [contract_eval] client_hits_def [contract_eval] portal_visible_def [contract_eval]
  groupMembers_def [contract_eval] insert_member_def [contract_eval] delete_user_row_def [contract_eval]
  delete_client_row_def [contract_eval] delete_group_row_def [contract_eval] delete_account_row_def [contract_eval]
  delete_roles_def [contract_eval] device_hit_def [contract_eval] device_transition_def [contract_eval]


subsection \<open>Races\<close>

lemma raceN_lose:
  "(\<And>f. f \<in> set fs \<Longrightarrow> f s = (Inl ErrNotFound, s)) \<Longrightarrow> raceN fs s = (replicate (length fs) (Some ErrNotFound), s)"
proof (induction fs)
  case (Cons f fs)
  then have "f s = (Inl ErrNotFound, s)" "raceN fs s = (replicate (length fs) (Some ErrNotFound), s)" by simp_all
  then show ?case by simp
qed simp

lemma raceN_win:
  assumes "fst (f s) = Inr ()" "\<forall>g\<in>set fs. g (snd (f s)) = (Inl ErrNotFound, snd (f s))"
  shows "raceN (f # fs) s = (None # replicate (length fs) (Some ErrNotFound), snd (f s))"
  using assms raceN_lose [of fs "snd (f s)"] by (cases "f s") simp

lemma raceN_replicate [contract_eval]:
  assumes "0 < n" "fst (f s) = Inr ()" "f (snd (f s)) = (Inl ErrNotFound, snd (f s))"
  shows "raceN (replicate n f) s = (None # replicate (n - 1) (Some ErrNotFound), snd (f s))"
  using assms raceN_win [of f s "replicate (n - 1) f"] by (cases n) auto

lemma one_winner [contract_eval]:
  "expected (None # replicate k (Some ErrNotFound))" "race_wins (None # replicate k (Some ErrNotFound)) = 1"
  "race_losses (None # replicate k (Some ErrNotFound)) = k"
  by (simp_all add: expected_def race_wins_def race_losses_def list_all_iff)

lemma rune_a_neq: "n \<le> 16 \<Longrightarrow> rune_a n \<noteq> ''0''"
proof
  assume "n \<le> 16" "rune_a n = ''0''"
  then have "of_char (char_of (97 + n) :: char) = (of_char CHR ''0'' :: nat)" by (simp add: rune_a_def)
  with \<open>n \<le> 16\<close> show False by simp
qed

subsection \<open>The tests pass\<close>

lemma contract_core_passes [contract_passes]:
  assumes "fresh_uuids new" "0 \<le> now"
  shows "testUserRoundTrip sqlite_store now new (fresh_db t) = Some ()"
    "testUserRoundTrip (pg_store coll) now new (fresh_db t) = Some ()"
    "testClientArrayRoundTrip sqlite_store now new (fresh_db t) = Some ()"
    "testClientArrayRoundTrip (pg_store coll) now new (fresh_db t) = Some ()"
    "testPortalClientSeed sqlite_store (fresh_db t) = Some ()"
    "testPortalClientSeed (pg_store coll) (fresh_db t) = Some ()"
    "testExternalIDsUpsert sqlite_store now new (fresh_db t) = Some ()"
    "testExternalIDsUpsert (pg_store coll) now new (fresh_db t) = Some ()"
    "testGroupMembersIdempotent sqlite_store now new (fresh_db t) = Some ()"
    "testGroupMembersIdempotent (pg_store coll) now new (fresh_db t) = Some ()"
  using assms
  by (simp_all add: testUserRoundTrip_def testClientArrayRoundTrip_def testPortalClientSeed_def testExternalIDsUpsert_def
      testGroupMembersIdempotent_def contract_eval
      del: set_filter raceN.simps cong: bind_weak_cong)

lemma contract_tokens_passes [contract_passes]:
  assumes "fresh_uuids new" "0 \<le> now"
  shows "testRetiredRefreshTokens sqlite_store now new name (fresh_db t) = Some ()"
    "testRetiredRefreshTokens (pg_store coll) now new name (fresh_db t) = Some ()"
    "testAuthTimeRoundTrip sqlite_store now new name (fresh_db t) = Some ()"
    "testAuthTimeRoundTrip (pg_store coll) now new name (fresh_db t) = Some ()"
  using assms
  by (simp_all add: testRetiredRefreshTokens_def testAuthTimeRoundTrip_def auth_time_case_def contract_eval
      del: set_filter raceN.simps cong: bind_weak_cong)

lemma contract_portal_passes [contract_passes]:
  assumes "fresh_uuids new" "0 \<le> now"
  shows "testListPortalClientsForUser sqlite_store now new hashPassword hashToken (fresh_db t) = Some ()"
    "testListPortalClientsForUser (pg_store coll) now new hashPassword hashToken (fresh_db t) = Some ()"
    "testListPortalClientsForUserNoDuplicatesOnMultipleGroupMatch sqlite_store now new hashPassword hashToken
       (fresh_db t) = Some ()"
    "testListPortalClientsForUserNoDuplicatesOnMultipleGroupMatch (pg_store coll) now new hashPassword hashToken
       (fresh_db t) = Some ()"
    "testReplaceClientVisibilityRemovesPriorRows sqlite_store now new hashToken (fresh_db t) = Some ()"
    "testReplaceClientVisibilityRemovesPriorRows (pg_store coll) now new hashToken (fresh_db t) = Some ()"
  using assms
  by (simp_all add: testListPortalClientsForUser_def testListPortalClientsForUserNoDuplicatesOnMultipleGroupMatch_def
      testReplaceClientVisibilityRemovesPriorRows_def mkClient_def contract_eval
      del: set_filter raceN.simps cong: bind_weak_cong)

lemma contract_awsfed_passes [contract_passes]:
  assumes "fresh_uuids new" "0 \<le> now"
  shows "testAWSAccountCRUD sqlite_store now new (fresh_db t) = Some ()"
    "testAWSAccountCRUD (pg_store coll) now new (fresh_db t) = Some ()"
    "testAWSRoleCRUDAndCascadeOnAccount sqlite_store now new (fresh_db t) = Some ()"
    "testAWSRoleCRUDAndCascadeOnAccount (pg_store coll) now new (fresh_db t) = Some ()"
    "testAWSRoleAllowedRegions sqlite_store now new (fresh_db t) = Some ()"
    "testAWSRoleAllowedRegions (pg_store coll) now new (fresh_db t) = Some ()"
    "testListAWSRolesForUser sqlite_store now new hashPassword (fresh_db t) = Some ()"
    "testListAWSRolesForUser (pg_store coll) now new hashPassword (fresh_db t) = Some ()"
    "testAWSRevokedUsersAddIsIdempotentListAndReap sqlite_store now new (fresh_db t) = Some ()"
    "testAWSRevokedUsersAddIsIdempotentListAndReap (pg_store coll) now new (fresh_db t) = Some ()"
  using assms
  by (simp_all add: testAWSAccountCRUD_def testAWSRoleCRUDAndCascadeOnAccount_def testAWSRoleAllowedRegions_def
      testListAWSRolesForUser_def testAWSRevokedUsersAddIsIdempotentListAndReap_def contract_eval
      del: set_filter raceN.simps cong: bind_weak_cong)

lemma contract_ops_1_passes [contract_passes]:
  assumes "fresh_uuids new" "0 \<le> now"
  shows "testGrantRoundTrip sqlite_store now new name (fresh_db t) = Some ()"
    "testGrantRoundTrip (pg_store coll) now new name (fresh_db t) = Some ()"
    "testGrantDeleteExpired sqlite_store now new name (fresh_db t) = Some ()"
    "testGrantDeleteExpired (pg_store coll) now new name (fresh_db t) = Some ()"
    "testSessionLifecycle sqlite_store now new name (fresh_db t) = Some ()"
    "testSessionLifecycle (pg_store coll) now new name (fresh_db t) = Some ()"
    "testSessionsByUserBulkDelete sqlite_store now new name (fresh_db t) = Some ()"
    "testSessionsByUserBulkDelete (pg_store coll) now new name (fresh_db t) = Some ()"
    "testSessionDeleteExpired sqlite_store now new name (fresh_db t) = Some ()"
    "testSessionDeleteExpired (pg_store coll) now new name (fresh_db t) = Some ()"
    "testTOTPLifecycle sqlite_store now new name (fresh_db t) = Some ()"
    "testTOTPLifecycle (pg_store coll) now new name (fresh_db t) = Some ()"
    "testWebAuthnCredentialLifecycle sqlite_store now new name (fresh_db t) = Some ()"
    "testWebAuthnCredentialLifecycle (pg_store coll) now new name (fresh_db t) = Some ()"
    "testWebAuthnSessionLifecycle sqlite_store now new name (fresh_db t) = Some ()"
    "testWebAuthnSessionLifecycle (pg_store coll) now new name (fresh_db t) = Some ()"
  using assms
  by (simp_all add: testGrantRoundTrip_def testGrantDeleteExpired_def testSessionLifecycle_def
      testSessionsByUserBulkDelete_def testSessionDeleteExpired_def testTOTPLifecycle_def
      testWebAuthnCredentialLifecycle_def testWebAuthnSessionLifecycle_def contract_eval
      del: set_filter raceN.simps cong: bind_weak_cong)

lemma contract_ops_2_passes [contract_passes]:
  assumes "fresh_uuids new" "0 \<le> now"
  shows "testSigningKeyLifecycle sqlite_store now new (fresh_db t) = Some ()"
    "testSigningKeyLifecycle (pg_store coll) now new (fresh_db t) = Some ()"
    "testIntegrationLifecycle sqlite_store now new (fresh_db t) = Some ()"
    "testIntegrationLifecycle (pg_store coll) now new (fresh_db t) = Some ()"
    "testExternalIDDelete sqlite_store now new name (fresh_db t) = Some ()"
    "testExternalIDDelete (pg_store coll) now new name (fresh_db t) = Some ()"
    "testUserUpdatePaths sqlite_store now new name (fresh_db t) = Some ()"
    "testUserUpdatePaths (pg_store coll) now new name (fresh_db t) = Some ()"
    "testClientUpdateSecretAndDelete sqlite_store now new name (fresh_db t) = Some ()"
    "testClientUpdateSecretAndDelete (pg_store coll) now new name (fresh_db t) = Some ()"
    "testGroupUpdateAndRemove sqlite_store now new name (fresh_db t) = Some ()"
    "testGroupUpdateAndRemove (pg_store coll) now new name (fresh_db t) = Some ()"
  using assms
  by (simp_all add: testSigningKeyLifecycle_def testIntegrationLifecycle_def testExternalIDDelete_def
      testUserUpdatePaths_def testClientUpdateSecretAndDelete_def testGroupUpdateAndRemove_def contract_eval
      del: set_filter raceN.simps cong: bind_weak_cong)

lemma contract_extra_passes [contract_passes]:
  assumes "fresh_uuids new" "0 \<le> now"
  shows "testGrantSingleUseUnderConcurrency sqlite_store now new name (fresh_db t) = Some ()"
    "testGrantSingleUseUnderConcurrency (pg_store coll) now new name (fresh_db t) = Some ()"
    "testUserConflictsAndNotFound sqlite_store now new (fresh_db t) = Some ()"
    "testUserConflictsAndNotFound (pg_store coll) now new (fresh_db t) = Some ()"
    "testDeviceGrantLifecycle sqlite_store now new name (fresh_db t) = Some ()"
    "testDeviceGrantLifecycle (pg_store coll) now new name (fresh_db t) = Some ()"
    "name \<noteq> ''no-scope'' \<Longrightarrow> testEmptyScopesRoundTrip sqlite_store now new name
       (fresh_db t) = Some ()"
    "name \<noteq> ''no-scope'' \<Longrightarrow> testEmptyScopesRoundTrip (pg_store coll) now new name
       (fresh_db t) = Some ()"
    "testExpiryIgnoresLocalZone sqlite_store now new name swap (fresh_db t) = Some ()"
    "testExpiryIgnoresLocalZone (pg_store coll) now new name swap (fresh_db t) = Some ()"
  using assms
  by (simp_all add: testGrantSingleUseUnderConcurrency_def testUserConflictsAndNotFound_def testDeviceGrantLifecycle_def
      testEmptyScopesRoundTrip_def testExpiryIgnoresLocalZone_def mk_def expiry_in_zone_def contract_eval
      del: set_filter raceN.simps cong: bind_weak_cong)

lemma testRefreshRotationUnderConcurrency_passes:
  assumes "fresh_uuids new" "0 \<le> now" "mset order = mset [1..<17]"
  shows "testRefreshRotationUnderConcurrency sqlite_store now new name order (fresh_db t) = Some ()"
    "testRefreshRotationUnderConcurrency (pg_store coll) now new name order (fresh_db t) = Some ()"
proof -
  obtain n ns where order: "order = n # ns" using assms(3) by (cases order) (simp_all add: upt_conv_Cons)
  have "set order = set [1..<17]" using assms(3) by (metis set_mset_mset)
  then have "n \<in> set [1..<17]" unfolding order by (metis list.set_intros(1))
  then have "n \<le> 16" by simp
  then have n: "rune_a n \<noteq> ''0''" by (rule rune_a_neq)
  show "testRefreshRotationUnderConcurrency sqlite_store now new name order (fresh_db t) = Some ()"
    "testRefreshRotationUnderConcurrency (pg_store coll) now new name order (fresh_db t) = Some ()"
    unfolding order using assms(1,2) n
    by (simp_all add: testRefreshRotationUnderConcurrency_def contract_eval raceN_win del: set_filter raceN.simps
        cong: bind_weak_cong)
qed

subsection \<open>The contract\<close>

text \<open>\<open>storetest.Run\<close>: every subtest on a fresh store, with its verdict. \<open>root\<close> is the name of the enclosing test, so
  \<open>t.Name()\<close> of a subtest is \<open>root/<name>\<close>.\<close>

definition Run ::
  "'st Store \<Rightarrow> time \<Rightarrow> (nat \<Rightarrow> uuid) \<Rightarrow> string \<Rightarrow> (string \<Rightarrow> string) \<Rightarrow> (string \<Rightarrow> string) \<Rightarrow> nat list \<Rightarrow> bool \<Rightarrow> 'st
   \<Rightarrow> (string \<times> unit option) list" where
  "Run db now new root hashPassword hashToken order swap s =
     [(''UserRoundTrip'', testUserRoundTrip db now new s),
      (''ClientArrayRoundTrip'', testClientArrayRoundTrip db now new s),
      (''PortalClientSeed'', testPortalClientSeed db s),
      (''ExternalIDsUpsert'', testExternalIDsUpsert db now new s),
      (''GroupMembersIdempotent'', testGroupMembersIdempotent db now new s),
      (''GrantRoundTrip'', testGrantRoundTrip db now new (root @ ''/GrantRoundTrip'') s),
      (''GrantDeleteExpired'', testGrantDeleteExpired db now new (root @ ''/GrantDeleteExpired'') s),
      (''GrantSingleUseUnderConcurrency'',
         testGrantSingleUseUnderConcurrency db now new (root @ ''/GrantSingleUseUnderConcurrency'') s),
      (''SessionLifecycle'', testSessionLifecycle db now new (root @ ''/SessionLifecycle'') s),
      (''RefreshRotationUnderConcurrency'',
         testRefreshRotationUnderConcurrency db now new (root @ ''/RefreshRotationUnderConcurrency'') order s),
      (''SessionsByUserBulkDelete'', testSessionsByUserBulkDelete db now new (root @ ''/SessionsByUserBulkDelete'') s),
      (''SessionDeleteExpired'', testSessionDeleteExpired db now new (root @ ''/SessionDeleteExpired'') s),
      (''TOTPLifecycle'', testTOTPLifecycle db now new (root @ ''/TOTPLifecycle'') s),
      (''WebAuthnCredentialLifecycle'',
         testWebAuthnCredentialLifecycle db now new (root @ ''/WebAuthnCredentialLifecycle'') s),
      (''WebAuthnSessionLifecycle'', testWebAuthnSessionLifecycle db now new (root @ ''/WebAuthnSessionLifecycle'') s),
      (''SigningKeyLifecycle'', testSigningKeyLifecycle db now new s),
      (''IntegrationLifecycle'', testIntegrationLifecycle db now new s),
      (''ExternalIDDelete'', testExternalIDDelete db now new (root @ ''/ExternalIDDelete'') s),
      (''UserUpdatePaths'', testUserUpdatePaths db now new (root @ ''/UserUpdatePaths'') s),
      (''UserConflictsAndNotFound'', testUserConflictsAndNotFound db now new s),
      (''ClientUpdateSecretAndDelete'',
         testClientUpdateSecretAndDelete db now new (root @ ''/ClientUpdateSecretAndDelete'') s),
      (''GroupUpdateAndRemove'', testGroupUpdateAndRemove db now new (root @ ''/GroupUpdateAndRemove'') s),
      (''ListPortalClientsForUser'', testListPortalClientsForUser db now new hashPassword hashToken s),
      (''ListPortalClientsNoDuplicates'',
         testListPortalClientsForUserNoDuplicatesOnMultipleGroupMatch db now new hashPassword hashToken s),
      (''ReplaceClientVisibilityRemovesPrior'', testReplaceClientVisibilityRemovesPriorRows db now new hashToken s),
      (''AWSAccountCRUD'', testAWSAccountCRUD db now new s),
      (''AWSRoleCRUDAndCascade'', testAWSRoleCRUDAndCascadeOnAccount db now new s),
      (''ListAWSRolesForUser'', testListAWSRolesForUser db now new hashPassword s),
      (''AWSRoleAllowedRegions'', testAWSRoleAllowedRegions db now new s),
      (''AWSRevokedUsersIdempotentListAndReap'', testAWSRevokedUsersAddIsIdempotentListAndReap db now new s),
      (''RetiredRefreshTokens'', testRetiredRefreshTokens db now new (root @ ''/RetiredRefreshTokens'') s),
      (''AuthTimeRoundTrip'', testAuthTimeRoundTrip db now new (root @ ''/AuthTimeRoundTrip'') s),
      (''ExpiryIgnoresLocalZone'', testExpiryIgnoresLocalZone db now new (root @ ''/ExpiryIgnoresLocalZone'') swap s),
      (''EmptyScopesRoundTrip'', testEmptyScopesRoundTrip db now new (root @ ''/EmptyScopesRoundTrip'') s),
      (''DeviceGrantLifecycle'', testDeviceGrantLifecycle db now new (root @ ''/DeviceGrantLifecycle'') s)]"

text \<open>C32. Both backends satisfy the repository's store contract: whatever the clock, the identifiers drawn (pairwise
  different, none nil, none that of the portal client), the order in which the sixteen racing rotations reach the
  database, the order of the map iteration, the hash functions and the collation, all thirty-five contract tests pass
  on a freshly migrated SQLite and on a freshly migrated PostgreSQL store.\<close>

theorem store_contract_holds:
  assumes "fresh_uuids new" "0 \<le> now" "mset order = mset [1..<17]"
  shows "list_all (\<lambda>(n, verdict). verdict = Some ()) (Run sqlite_store now new root hp ht order swap (fresh_db t)) \<and>
    list_all (\<lambda>(n, verdict). verdict = Some ()) (Run (pg_store coll) now new root hp ht order swap (fresh_db t))"
  by (simp add: Run_def contract_passes [OF assms(1,2)] testRefreshRotationUnderConcurrency_passes [OF assms])

theorem store_contract_holds_witness:
  "list_all (\<lambda>(n, verdict). verdict = Some ())
     (Run (pg_store name_le) demo_now (\<lambda>n. n + 2) ''TestStoreContract'' (\<lambda>p. p) (\<lambda>p. p) [1..<17] True (fresh_db 0))"
  using store_contract_holds [of "\<lambda>n. n + 2" demo_now "[1..<17]" "''TestStoreContract''" "\<lambda>p. p" "\<lambda>p. p" True 0 name_le]
  by (simp add: fresh_uuids_def portalClientUUID_def inj_def image_iff demo_now_def duration_defs)

end
