(* ===== verification/Serve.thy ===== *)
theory Serve
  imports Bootstrap Migrations
begin

text \<open>
  The start of \<open>authd serve\<close> from end to end (\<open>runServe\<close> of \<open>cmd/authd/main.go\<close>): configuration, master key, TLS material,
  audit journal, migrations, the database, then \<open>startup\<close> and the background workers. Also the \<open>migrate\<close> and
  \<open>audit query\<close> commands. The shared packages (\<open>cli\<close>, \<open>envutil\<close>, \<open>tls\<close>, \<open>tls/reloader\<close>, \<open>crypto\<close>, \<open>journal\<close>) and the
  PostgreSQL driver are the fields of \<open>runtime\<close>. An error is the message prefix the code wraps it in, with what it wraps.
\<close>

record 'c tlsConfig =
  tc_ServerName :: string
  tc_Rest :: 'c

record dbMaterial =
  cd_URL :: string
  cd_CertFile :: string
  cd_KeyFile :: string
  cd_CAFile :: string

record 'c runtime =
  rt_env :: envutil
  rt_First :: "string \<Rightarrow> string \<Rightarrow> string"
  rt_MustEnv :: "string \<Rightarrow> string option"
  rt_ReadFile :: "string \<Rightarrow> string option"
  rt_ParseKEK :: "string \<Rightarrow> bytes option"
  rt_FromFiles :: "string \<Rightarrow> string \<Rightarrow> string \<Rightarrow> 'c tlsConfig option option"
  rt_ClientTLS :: "string \<Rightarrow> string \<Rightarrow> string \<Rightarrow> 'c tlsConfig option option"
  rt_ServerTLS :: "string \<Rightarrow> string \<Rightarrow> string \<Rightarrow> 'c tlsConfig option"
  rt_DB :: dbMaterial
  rt_AdminDB :: dbMaterial
  rt_AuditSink :: bool
  rt_AuditSource :: bool
  rt_ParseConfig :: "string \<Rightarrow> string option"
  rt_Ping :: "string \<Rightarrow> 'c tlsConfig option \<Rightarrow> bool"

datatype serve_error = BadConfig "string list" | NoDatabaseURL | NoAdminURL | MasterKeyFailed | TLSFailed string | AuditFailed string
  | ParseDSNFailed | PingFailed | MigrateFailed migrate_error | StartFailed admin_error | CreateServerFailed

subsection \<open>Key and TLS material\<close>

text \<open>\<open>envutil.MustEnv\<close> ends the process when the variable is unset.\<close>

definition masterKeyFromEnv :: "'c runtime \<Rightarrow> bytes option" where
  "masterKeyFromEnv rt =
     (case rt_MustEnv rt ''AUTHD_MASTER_KEY'' of
        None \<Rightarrow> None
      | Some ref \<Rightarrow>
        (case CutPrefix ref ''file:'' of
           None \<Rightarrow> rt_ParseKEK rt ref
         | Some path \<Rightarrow>
           (case rt_ReadFile rt path of
              None \<Rightarrow> None
            | Some b \<Rightarrow> rt_ParseKEK rt (TrimSpace b))))"

text \<open>In the outer \<open>option\<close> \<open>None\<close> is an error, in the inner one a nil configuration.\<close>

definition scimTLSFromEnv :: "'c runtime \<Rightarrow> 'c tlsConfig option option" where
  "scimTLSFromEnv rt =
     rt_ClientTLS rt (eu_Getenv (rt_env rt) ''AUTHD_SCIM_MTLS_CERT'') (eu_Getenv (rt_env rt) ''AUTHD_SCIM_MTLS_KEY'')
       (rt_First rt ''AUTHD_SCIM_MTLS_CA'' ''AUTHD_WORKLOAD_CA'')"

definition backchannelTLSFromEnv :: "'c runtime \<Rightarrow> 'c tlsConfig option option" where
  "backchannelTLSFromEnv rt = rt_ClientTLS rt [] [] (rt_First rt ''AUTHD_BACKCHANNEL_CA'' ''AUTHD_WORKLOAD_CA'')"

definition dbAdminTLS :: "'c runtime \<Rightarrow> dbMaterial \<Rightarrow> 'c tlsConfig option option" where
  "dbAdminTLS rt m = rt_FromFiles rt (cd_CertFile m) (cd_KeyFile m) (cd_CAFile m)"

definition dbRuntimeTLS :: "'c runtime \<Rightarrow> dbMaterial \<Rightarrow> 'c tlsConfig option option" where
  "dbRuntimeTLS rt m = rt_ClientTLS rt (cd_CertFile m) (cd_KeyFile m) (cd_CAFile m)"

definition buildServerTLS :: "'c runtime \<Rightarrow> 'c tlsConfig option" where
  "buildServerTLS rt = rt_ServerTLS rt (eu_Getenv (rt_env rt) ''AUTHD_API_CERT'') (eu_Getenv (rt_env rt) ''AUTHD_API_KEY'')
     (eu_Getenv (rt_env rt) ''AUTHD_API_CLIENT_CA'')"

subsection \<open>\<open>net.ParseIP\<close>\<close>

text \<open>Whether \<open>net.ParseIP\<close> accepts a string: \<open>netip.ParseAddr\<close> without a zone. The address itself is not used.\<close>

text \<open>\<open>parseIPv4Fields\<close>: \<open>val\<close> and \<open>digLen\<close> of the field being read, \<open>pos\<close> finished fields, \<open>prev\<close> the byte before.\<close>

fun ipv4_fields :: "nat \<Rightarrow> nat \<Rightarrow> nat \<Rightarrow> char option \<Rightarrow> string \<Rightarrow> bool" where
  "ipv4_fields val digLen pos prev [] = (pos \<ge> 3)"
| "ipv4_fields val digLen pos prev (c # s) =
    (if is_digit c then
       \<not> (digLen = 1 \<and> val = 0) \<and> val * 10 + (char_code c - 48) \<le> 255 \<and>
       ipv4_fields (val * 10 + (char_code c - 48)) (Suc digLen) pos (Some c) s
     else if c = CHR ''.'' then
       prev \<noteq> None \<and> s \<noteq> [] \<and> prev \<noteq> Some CHR ''.'' \<and> pos \<noteq> 3 \<and> ipv4_fields 0 0 (Suc pos) (Some c) s
     else False)"

definition is_hex :: "char \<Rightarrow> bool" where
  "is_hex c \<longleftrightarrow> is_digit c \<or> (97 \<le> char_code c \<and> char_code c \<le> 102) \<or> (65 \<le> char_code c \<and> char_code c \<le> 70)"

text \<open>The loop of \<open>parseIPv6\<close>: \<open>i\<close> bytes filled, \<open>ell\<close> whether an ellipsis was seen. A group is at most four hex digits, so it never
  exceeds sixteen bits.\<close>

function ipv6_loop :: "nat \<Rightarrow> bool \<Rightarrow> string \<Rightarrow> bool" where
  "ipv6_loop i ell s =
    (if i < 16 then
       (let h = takeWhile is_hex s; rest = dropWhile is_hex s in
        if length h > 4 \<or> h = [] then False
        else if rest \<noteq> [] \<and> hd rest = CHR ''.'' then
          (ell \<or> i = 12) \<and> i + 4 \<le> 16 \<and> ipv4_fields 0 0 0 None s \<and> (if i + 4 < 16 then ell else \<not> ell)
        else if rest = [] then (if i + 2 < 16 then ell else \<not> ell)
        else if hd rest \<noteq> CHR '':'' \<or> length rest = 1 then False
        else if rest ! 1 = CHR '':'' then
          \<not> ell \<and> (if length rest = 2 then i + 2 < 16 else ipv6_loop (i + 2) True (drop 2 rest))
        else ipv6_loop (i + 2) ell (drop 1 rest))
     else False)"
  by pat_completeness auto
termination by (relation "measure (\<lambda>(i, ell, s). 16 - i)") auto

definition parse_ipv6 :: "string \<Rightarrow> bool" where
  "parse_ipv6 s =
     (if CHR ''%'' \<in> set s then False
      else if HasPrefix s ''::'' then (length s = 2 \<or> ipv6_loop 0 True (drop 2 s))
      else ipv6_loop 0 False s)"

definition ParseIP :: "string \<Rightarrow> bool" where
  "ParseIP s =
     (case find (\<lambda>c. c = CHR ''.'' \<or> c = CHR '':'' \<or> c = CHR ''%'') s of
        None \<Rightarrow> False
      | Some c \<Rightarrow> if c = CHR ''.'' then ipv4_fields 0 0 0 None s else if c = CHR '':'' then parse_ipv6 s else False)"

definition scimTLSForURL :: "'c runtime \<Rightarrow> 'c tlsConfig \<Rightarrow> string \<Rightarrow> 'c tlsConfig option" where
  "scimTLSForURL rt shared baseURL =
     (case Parse baseURL of
        None \<Rightarrow> Some shared
      | Some u \<Rightarrow>
        if \<not> ParseIP (Hostname u) then Some shared
        else (case scimTLSFromEnv rt of
                None \<Rightarrow> None
              | Some None \<Rightarrow> Some shared
              | Some (Some cfg) \<Rightarrow> Some (cfg\<lparr>tc_ServerName := Hostname u\<rparr>)))"

subsection \<open>Connections and migrations\<close>

text \<open>\<open>openWithTLS\<close> fills in the server name; opening is lazy, so the first contact is the \<open>Ping\<close> of its callers.\<close>

definition openWithTLS :: "'c runtime \<Rightarrow> string \<Rightarrow> 'c tlsConfig option \<Rightarrow> serve_error + 'c tlsConfig option" where
  "openWithTLS rt dsn tls =
     (case rt_ParseConfig rt dsn of
        None \<Rightarrow> Inl ParseDSNFailed
      | Some host \<Rightarrow> Inr (map_option (\<lambda>c. if tc_ServerName c = [] then c\<lparr>tc_ServerName := host\<rparr> else c) tls))"

definition OpenWithTLS :: "'c runtime \<Rightarrow> string \<Rightarrow> 'c tlsConfig option \<Rightarrow> serve_error option" where
  "OpenWithTLS rt dsn tls =
     (case openWithTLS rt dsn tls of
        Inl err \<Rightarrow> Some err
      | Inr tls' \<Rightarrow> if rt_Ping rt dsn tls' then None else Some PingFailed)"

definition Migrate ::
  "'c runtime \<Rightarrow> string \<Rightarrow> 'c tlsConfig option \<Rightarrow> (string \<Rightarrow> 't \<Rightarrow> 't option) \<Rightarrow> entry list option \<Rightarrow> 't mdb
   \<Rightarrow> serve_error option \<times> 't mdb" where
  "Migrate rt dsn tls run dir m =
     (case OpenWithTLS rt dsn tls of
        Some err \<Rightarrow> (Some err, m)
      | None \<Rightarrow> (case migrate run dir m of (x, m') \<Rightarrow> (map_option MigrateFailed x, m')))"

text \<open>The command \<open>authd migrate\<close>.\<close>

definition migrateCmd ::
  "'c runtime \<Rightarrow> (string \<Rightarrow> 't \<Rightarrow> 't option) \<Rightarrow> entry list option \<Rightarrow> 't mdb \<Rightarrow> serve_error option \<times> 't mdb" where
  "migrateCmd rt run dir m =
     (if cd_URL (rt_AdminDB rt) = [] then (Some NoAdminURL, m)
      else case dbAdminTLS rt (rt_AdminDB rt) of
        None \<Rightarrow> (Some (TLSFailed ''admin db TLS''), m)
      | Some tls \<Rightarrow> Migrate rt (cd_URL (rt_AdminDB rt)) tls run dir m)"

subsection \<open>\<open>runServe\<close>\<close>

text \<open>What is read and validated before anything is opened.\<close>

record 'c material =
  mt_cfg :: serveConfig
  mt_masterKey :: bytes
  mt_adminDBTLS :: "'c tlsConfig option"
  mt_dbTLS :: "'c tlsConfig option"
  mt_scimTLS :: "'c tlsConfig option"
  mt_backchannelTLS :: "'c tlsConfig option"
  mt_tlsCfg :: "'c tlsConfig"

definition tls_step :: "string \<Rightarrow> 'x option \<Rightarrow> serve_error + 'x" where
  "tls_step msg x = (case x of None \<Rightarrow> Inl (TLSFailed msg) | Some c \<Rightarrow> Inr c)"

definition prepare :: "'c runtime \<Rightarrow> serve_error + 'c material" where
  "prepare rt =
     (case loadServeConfig (rt_env rt) of
        Inl problems \<Rightarrow> Inl (BadConfig problems)
      | Inr cfg \<Rightarrow>
        if cd_URL (rt_DB rt) = [] then Inl NoDatabaseURL
        else case masterKeyFromEnv rt of
          None \<Rightarrow> Inl MasterKeyFailed
        | Some key \<Rightarrow>
          (case tls_step ''admin db TLS'' (dbAdminTLS rt (rt_AdminDB rt)) of Inl err \<Rightarrow> Inl err | Inr adminDBTLS \<Rightarrow>
          (case tls_step ''db TLS'' (dbRuntimeTLS rt (rt_DB rt)) of Inl err \<Rightarrow> Inl err | Inr dbTLS \<Rightarrow>
          (case tls_step ''SCIM TLS'' (scimTLSFromEnv rt) of Inl err \<Rightarrow> Inl err | Inr scimTLS \<Rightarrow>
          (case tls_step ''backchannel TLS'' (backchannelTLSFromEnv rt) of Inl err \<Rightarrow> Inl err | Inr backchannelTLS \<Rightarrow>
          (case tls_step ''server TLS'' (buildServerTLS rt) of Inl err \<Rightarrow> Inl err | Inr tlsCfg \<Rightarrow>
             Inr \<lparr>mt_cfg = cfg, mt_masterKey = key, mt_adminDBTLS = adminDBTLS, mt_dbTLS = dbTLS, mt_scimTLS = scimTLS,
                  mt_backchannelTLS = backchannelTLS, mt_tlsCfg = tlsCfg\<rparr>))))))"

text \<open>The HTTP server and the background workers; a worker carries its period.\<close>

record 'c httpServer =
  hs_Addr :: string
  hs_TLSConfig :: "'c tlsConfig"
  hs_ReadHeaderTimeout :: duration
  hs_ReadTimeout :: duration
  hs_WriteTimeout :: duration
  hs_IdleTimeout :: duration

datatype worker = ProvisionSync duration | AWSFedReaper duration | DeviceGrantReaper duration

definition http_server :: "'c material \<Rightarrow> 'c httpServer" where
  "http_server mt = \<lparr>hs_Addr = cf_Addr (mt_cfg mt), hs_TLSConfig = mt_tlsCfg mt, hs_ReadHeaderTimeout = 10 * second,
     hs_ReadTimeout = 60 * second, hs_WriteTimeout = 0, hs_IdleTimeout = 120 * second\<rparr>"

definition workers :: "serveConfig \<Rightarrow> worker list" where
  "workers cfg =
     (if cf_ProvisionSyncInterval cfg > 0 then [ProvisionSync (cf_ProvisionSyncInterval cfg)] else []) @
     (if cf_AWSFedReapInterval cfg > 0 then [AWSFedReaper (cf_AWSFedReapInterval cfg)] else []) @
     [DeviceGrantReaper minute]"

record ('c, 'k) running =
  rn_server :: server
  rn_authLimiter :: limiter
  rn_tokenLimiter :: limiter
  rn_signer :: "'k Signer"
  rn_http :: "'c httpServer"
  rn_workers :: "worker list"

text \<open>Migrations with the administrator's connection, then the runtime connection: every command that uses the database does these two.\<close>

definition open_database ::
  "'c runtime \<Rightarrow> 'c tlsConfig option \<Rightarrow> 'c tlsConfig option \<Rightarrow> (string \<Rightarrow> 't \<Rightarrow> 't option) \<Rightarrow> entry list option \<Rightarrow> 't mdb
   \<Rightarrow> serve_error option \<times> 't mdb" where
  "open_database rt adminDBTLS dbTLS run dir m =
     (case Migrate rt (cd_URL (rt_AdminDB rt)) adminDBTLS run dir m of
        (Some err, m1) \<Rightarrow> (Some err, m1)
      | (None, m1) \<Rightarrow> (OpenWithTLS rt (cd_URL (rt_DB rt)) dbTLS, m1))"

text \<open>The server \<open>startup\<close> works with. The key provider is made from the master key: \<open>base k\<close> is the server with the packages and the key \<open>k\<close>.\<close>

definition serve_base :: "(bytes \<Rightarrow> server) \<Rightarrow> 'c material \<Rightarrow> server" where
  "serve_base base mt = (base (mt_masterKey mt))\<lparr>srv_issuer := cf_Issuer (mt_cfg mt), srv_hasSCIMTLS := mt_scimTLS mt \<noteq> None,
     srv_policy := DefaultPCIRules\<rparr>"

text \<open>\<open>runServe\<close> up to the listener. The audit sink and source are opened before the migrations; \<open>waOK\<close> and \<open>tmplOK\<close> say whether the
  WebAuthn library accepts its parameters and the embedded templates parse. The tables and the world are threaded through.\<close>

definition runServe ::
  "'c runtime \<Rightarrow> (bytes \<Rightarrow> server) \<Rightarrow> 'k keylib \<Rightarrow> (string \<times> string list \<Rightarrow> bool) \<Rightarrow> bool \<Rightarrow> (string \<Rightarrow> 't \<Rightarrow> 't option)
   \<Rightarrow> entry list option \<Rightarrow> 't mdb \<Rightarrow> world \<Rightarrow> (serve_error + ('c, 'k) running) \<times> 't mdb \<times> world" where
  "runServe rt base lib waOK tmplOK run dir m w =
     (case prepare rt of
        Inl err \<Rightarrow> (Inl err, m, w)
      | Inr mt \<Rightarrow>
        if \<not> rt_AuditSink rt then (Inl (AuditFailed ''audit sink''), m, w)
        else if \<not> rt_AuditSource rt then (Inl (AuditFailed ''audit source''), m, w)
        else case open_database rt (mt_adminDBTLS mt) (mt_dbTLS mt) run dir m of
          (Some err, m1) \<Rightarrow> (Inl err, m1, w)
        | (None, m1) \<Rightarrow>
          (case run_state (startup (serve_base base mt) lib (rt_env rt) waOK) w of
             (Inl err, w1) \<Rightarrow> (Inl (StartFailed err), m1, w1)
           | (Inr signer, w1) \<Rightarrow>
             if \<not> tmplOK then (Inl CreateServerFailed, m1, w1)
             else case New (mt_cfg mt) (serve_base base mt) of (srv, authL, tokenL) \<Rightarrow>
               (Inr \<lparr>rn_server = srv, rn_authLimiter = authL, rn_tokenLimiter = tokenL, rn_signer = signer,
                     rn_http = http_server mt, rn_workers = workers (mt_cfg mt)\<rparr>, m1, w1)))"

subsection \<open>The operator's commands\<close>

text \<open>What \<open>runAdminUserCreate\<close> and \<open>runAdminSync\<close> of \<open>Bootstrap\<close> are given when they are run as commands.\<close>

definition user_create_setup ::
  "'c runtime \<Rightarrow> (string \<Rightarrow> 't \<Rightarrow> 't option) \<Rightarrow> entry list option \<Rightarrow> 't mdb \<Rightarrow> serve_error option \<times> 't mdb" where
  "user_create_setup rt run dir m =
     (if cd_URL (rt_DB rt) = [] then (Some NoDatabaseURL, m)
      else
        (case tls_step ''admin db TLS'' (dbAdminTLS rt (rt_AdminDB rt)) of Inl err \<Rightarrow> (Some err, m) | Inr adminDBTLS \<Rightarrow>
        (case tls_step ''db TLS'' (dbRuntimeTLS rt (rt_DB rt)) of Inl err \<Rightarrow> (Some err, m) | Inr dbTLS \<Rightarrow>
           open_database rt adminDBTLS dbTLS run dir m)))"

definition sync_setup ::
  "'c runtime \<Rightarrow> (string \<Rightarrow> 't \<Rightarrow> 't option) \<Rightarrow> entry list option \<Rightarrow> 't mdb \<Rightarrow> (serve_error + bytes \<times> bool) \<times> 't mdb" where
  "sync_setup rt run dir m =
     (if cd_URL (rt_DB rt) = [] then (Inl NoDatabaseURL, m)
      else case masterKeyFromEnv rt of
        None \<Rightarrow> (Inl MasterKeyFailed, m)
      | Some key \<Rightarrow>
        (case tls_step ''admin db TLS'' (dbAdminTLS rt (rt_AdminDB rt)) of Inl err \<Rightarrow> (Inl err, m) | Inr adminDBTLS \<Rightarrow>
        (case tls_step ''db TLS'' (dbRuntimeTLS rt (rt_DB rt)) of Inl err \<Rightarrow> (Inl err, m) | Inr dbTLS \<Rightarrow>
        (case tls_step ''SCIM TLS'' (scimTLSFromEnv rt) of Inl err \<Rightarrow> (Inl err, m) | Inr scimTLS \<Rightarrow>
           (case open_database rt adminDBTLS dbTLS run dir m of
              (Some err, m1) \<Rightarrow> (Inl err, m1)
            | (None, m1) \<Rightarrow> (Inr (key, scimTLS \<noteq> None), m1))))))"

text \<open>The commands themselves. The password is judged before anything is opened.\<close>

definition adminUserCreateCmd ::
  "'c runtime \<Rightarrow> server \<Rightarrow> (string \<Rightarrow> 't \<Rightarrow> 't option) \<Rightarrow> entry list option \<Rightarrow> string \<Rightarrow> string \<Rightarrow> string \<Rightarrow> bool \<Rightarrow> bool \<Rightarrow> 't mdb \<Rightarrow> world
   \<Rightarrow> (serve_error + admin_error + User) \<times> 't mdb \<times> world" where
  "adminUserCreateCmd rt s run dir email password name isAdmin allowWeak m w =
     (case (if validateNewUserPassword (srv_unicode s) (w_now w) password allowWeak = None then user_create_setup rt run dir m else (None, m)) of
        (Some err, m1) \<Rightarrow> (Inl err, m1, w)
      | (None, m1) \<Rightarrow>
        (case run_state (runAdminUserCreate s None email password name isAdmin allowWeak) w of (res, w1) \<Rightarrow> (Inr res, m1, w1)))"

definition adminSyncCmd ::
  "'c runtime \<Rightarrow> (bytes \<Rightarrow> server) \<Rightarrow> (string \<Rightarrow> 't \<Rightarrow> 't option) \<Rightarrow> entry list option \<Rightarrow> string \<Rightarrow> 't mdb \<Rightarrow> world
   \<Rightarrow> (serve_error + admin_error + (string \<times> sync_counts) list) \<times> 't mdb \<times> world" where
  "adminSyncCmd rt base run dir target m w =
     (case sync_setup rt run dir m of
        (Inl err, m1) \<Rightarrow> (Inl err, m1, w)
      | (Inr (key, hasSCIMTLS), m1) \<Rightarrow>
        (case run_state (runAdminSync ((base key)\<lparr>srv_hasSCIMTLS := hasSCIMTLS\<rparr>) (rt_env rt) None target) w of
           (res, w1) \<Rightarrow> (Inr res, m1, w1)))"

subsection \<open>\<open>authd audit query\<close>\<close>

text \<open>The select loop of \<open>runAuditQuery\<close>. What the \<open>k\<close>-th select receives (the deadline of the query, the idle timer, the closed
  channel or a record) is given by a function of \<open>k\<close>, as is the outcome of each write to standard output: complete, or failed
  after some bytes. The \<open>idle\<close> timer is
  stopped, drained and reset after every record, which has no other effect. A message counts one, so the number of the
  select is \<open>count\<close>.\<close>

definition stdout_write :: "nat option \<Rightarrow> bytes \<Rightarrow> string \<Rightarrow> bool \<times> string" where
  "stdout_write failed data out = (case failed of None \<Rightarrow> (True, out @ data) | Some n \<Rightarrow> (False, out @ take n data))"

datatype audit_event = QueryDone | IdleFired | ChannelClosed | Msg bytes

function audit_loop :: "(nat \<Rightarrow> audit_event) \<Rightarrow> (nat \<Rightarrow> nat option) \<Rightarrow> nat \<Rightarrow> nat \<Rightarrow> string \<Rightarrow> bool \<times> nat \<times> string" where
  "audit_loop ev wr limit count out =
    (if count < limit then
       (case ev count of
          Msg data \<Rightarrow>
            (case stdout_write (wr (2 * count)) data out of
               (False, out1) \<Rightarrow> (False, count, out1)
             | (True, out1) \<Rightarrow>
               (case stdout_write (wr (2 * count + 1)) [CHR 0x0A] out1 of
                  (False, out2) \<Rightarrow> (False, count, out2)
                | (True, out2) \<Rightarrow> audit_loop ev wr limit (Suc count) out2))
        | _ \<Rightarrow> (True, count, out))
     else (True, count, out))"
  by pat_completeness auto
termination by (relation "measure (\<lambda>(ev, wr, limit, count, out). limit - count)") auto

declare audit_loop.simps [simp del]

datatype query_error = LimitOutOfRange | NoNatsURL | NatsTLSFailed | SourceFailed | SubscribeFailed | WriteFailed

text \<open>The command with its parsed flag and the rest of \<open>runAuditQuery\<close>: \<open>src\<close> and \<open>sub\<close> say whether the journal could be opened and subscribed.\<close>

definition auditQueryCmd ::
  "'c runtime \<Rightarrow> bool \<Rightarrow> bool \<Rightarrow> (nat \<Rightarrow> audit_event) \<Rightarrow> (nat \<Rightarrow> nat option) \<Rightarrow> int \<Rightarrow> query_error option \<times> nat \<times> string" where
  "auditQueryCmd rt src sub ev wr limit =
     (if limit < 1 \<or> limit > 1000 then (Some LimitOutOfRange, 0, [])
      else if eu_Getenv (rt_env rt) ''AUTHD_NATS_URL'' = [] then (Some NoNatsURL, 0, [])
      else if rt_FromFiles rt (eu_Getenv (rt_env rt) ''AUTHD_NATS_CERT'') (eu_Getenv (rt_env rt) ''AUTHD_NATS_KEY'')
                (eu_Getenv (rt_env rt) ''AUTHD_NATS_CA'') = None then (Some NatsTLSFailed, 0, [])
      else if \<not> src then (Some SourceFailed, 0, [])
      else if \<not> sub then (Some SubscribeFailed, 0, [])
      else case audit_loop ev wr (nat limit) 0 [] of
        (ok, n, out) \<Rightarrow> (if ok then None else Some WriteFailed, n, out))"

subsection \<open>TLS\<close>

text \<open>For an address literal the configuration names that address, so the certificate is checked against it; for every other URL it is the
  shared one.\<close>

lemma scimTLSForURL_names_host:
  assumes "scimTLSForURL rt shared baseURL = Some cfg" "Parse baseURL = Some u"
  shows "cfg = shared \<or> ParseIP (Hostname u) \<and> tc_ServerName cfg = Hostname u"
  using assms by (auto simp: scimTLSForURL_def split: option.splits if_splits)

text \<open>A TLS connection to PostgreSQL never goes out without a server name when the connection string has a host.\<close>

lemma openWithTLS_names_host:
  assumes "openWithTLS rt dsn tls = Inr (Some c)" "rt_ParseConfig rt dsn = Some host" "host \<noteq> []"
  shows "tc_ServerName c \<noteq> []"
proof -
  obtain z where "c = (if tc_ServerName z = [] then z\<lparr>tc_ServerName := host\<rparr> else z)" using assms by (auto simp: openWithTLS_def)
  then show ?thesis using assms(3) by simp
qed

lemma ParseIP_examples:
  "ParseIP ''10.0.0.5''" "ParseIP ''::1''" "ParseIP ''2001:db8::ff:1''" "ParseIP ''::ffff:192.0.2.1''"
  "\<not> ParseIP ''10.0.0''" "\<not> ParseIP ''10.0.0.256''" "\<not> ParseIP ''1:2:3:4:5:6:7::8''" "\<not> ParseIP ''scim.example.com''" "\<not> ParseIP ''fe80::1%eth0''"
  by code_simp+

subsection \<open>The start of the service\<close>

lemma prepare_Inr:
  assumes "prepare rt = Inr mt"
  shows "loadServeConfig (rt_env rt) = Inr (mt_cfg mt)"
  using assms by (auto simp: prepare_def tls_step_def split: sum.splits if_splits option.splits)

text \<open>What a start does to the database and the world depends on how far it came.\<close>

primrec nothing_opened :: "serve_error \<Rightarrow> bool" where
  "nothing_opened (BadConfig ps) = True"
| "nothing_opened NoDatabaseURL = True"
| "nothing_opened NoAdminURL = True"
| "nothing_opened MasterKeyFailed = True"
| "nothing_opened (TLSFailed msg) = True"
| "nothing_opened (AuditFailed msg) = True"
| "nothing_opened ParseDSNFailed = False"
| "nothing_opened PingFailed = False"
| "nothing_opened (MigrateFailed e) = False"
| "nothing_opened (StartFailed e) = False"
| "nothing_opened CreateServerFailed = False"

definition schema_ready :: "serve_error \<Rightarrow> bool" where
  "schema_ready err \<longleftrightarrow> (case err of StartFailed e \<Rightarrow> True | CreateServerFailed \<Rightarrow> True | _ \<Rightarrow> False)"

primrec worker_period :: "worker \<Rightarrow> duration" where
  "worker_period (ProvisionSync d) = d"
| "worker_period (AWSFedReaper d) = d"
| "worker_period (DeviceGrantReaper d) = d"

lemma prepare_Inl: "prepare rt = Inl err \<Longrightarrow> nothing_opened err \<and> \<not> schema_ready err"
  by (auto simp: prepare_def tls_step_def schema_ready_def split: sum.splits if_splits option.splits)

lemma open_errors:
  "OpenWithTLS rt dsn tls = Some err \<Longrightarrow> \<not> nothing_opened err \<and> \<not> schema_ready err"
  "Migrate rt dsn tls run dir m = (Some err, m') \<Longrightarrow> \<not> nothing_opened err \<and> \<not> schema_ready err"
  by (auto simp: Migrate_def OpenWithTLS_def openWithTLS_def schema_ready_def split: option.splits prod.splits sum.splits if_splits)

lemma Migrate_tracked:
  assumes "distinct (map e_Name dir)" "tracked run dir t0 m" "Migrate rt dsn tls run (Some dir) m = (r, m')"
  shows "tracked run dir t0 m' \<and> (r = None \<longrightarrow> set (versions dir) \<subseteq> set (recorded m'))"
  using assms(2,3) migrate_keeps_record [OF assms(1,2)]
  by (auto simp: Migrate_def split: option.splits prod.splits)

lemma open_database_tracked:
  assumes "distinct (map e_Name dir)" "tracked run dir t0 m" "open_database rt a b run (Some dir) m = (r, m')"
  shows "tracked run dir t0 m'" "r = None \<Longrightarrow> set (versions dir) \<subseteq> set (recorded m')"
    "r = Some err \<Longrightarrow> \<not> nothing_opened err \<and> \<not> schema_ready err"
  using assms(3)
  by (auto simp: open_database_def split: option.splits prod.splits dest: open_errors Migrate_tracked [OF assms(1,2)])

lemma worker_period_pos: "x \<in> set (workers cfg) \<Longrightarrow> 0 < worker_period x"
  by (auto simp: workers_def duration_defs split: if_splits)

text \<open>C35. \<open>serve\<close> fails fast or serves a migrated database with the state it read. Whatever the environment, the packages
  and the driver answer, the schema stays what its record says. A configuration that does not load is
  reported with its variables; that, missing key or TLS material and an unavailable journal are reported with database and
  world untouched; an error before the signing key is loaded leaves the world untouched, and an error after it finds every
  migration recorded. A start that gets to the listener has every migration recorded, live provisioners that are exactly those of the enabled
  integrations in the order of their creation, a signer that is the active stored key (when the stored keys open), and background workers with
  positive periods (a ticker with another one panics) that include the reaper of device grants.\<close>

theorem serve_starts_or_fails_fast:
  assumes "distinct (map e_Name dir)" "tracked run dir t0 m" "runServe rt base lib waOK tmplOK run (Some dir) m w = (res, m', w')"
  shows "tracked run dir t0 m' \<and> (\<forall>ps. loadServeConfig (rt_env rt) = Inl ps \<longrightarrow> res = Inl (BadConfig ps)) \<and>
    (case res of
       Inl err \<Rightarrow> (nothing_opened err \<longrightarrow> m' = m) \<and> (\<not> schema_ready err \<longrightarrow> w' = w) \<and>
         (schema_ready err \<longrightarrow> set (versions dir) \<subseteq> set (recorded m'))
     | Inr r \<Rightarrow> set (versions dir) \<subseteq> set (recorded m') \<and>
         (\<exists>mt. prepare rt = Inr mt \<and> loadServeConfig (rt_env rt) = Inr (mt_cfg mt) \<and>
           w_registry w' = Some (List.map_filter (buildProvisioner (serve_base base mt)) (sort_key i_CreatedAt (filter i_Enabled (integrations (w_db w'))))) \<and>
           (envelope_inverse (serve_base base mt) \<and> pkcs8_inverse lib \<and> keys_open (serve_base base mt) lib (w_db w) \<longrightarrow>
             (\<exists>k. fst (GetActiveSigningKey (w_db w')) = Inr k \<and> decryptKey (serve_base base mt) lib k = Inr (rn_signer r)))) \<and>
         (\<forall>x \<in> set (rn_workers r). 0 < worker_period x) \<and> DeviceGrantReaper minute \<in> set (rn_workers r))"
proof (cases "prepare rt")
  case (Inl err)
  then have "res = Inl err" "m' = m" "w' = w" using assms(3) by (simp_all add: runServe_def)
  moreover have "loadServeConfig (rt_env rt) = Inl ps \<Longrightarrow> err = BadConfig ps" for ps using Inl by (simp add: prepare_def)
  ultimately show ?thesis using assms(2) prepare_Inl [OF Inl] by auto
next
  case (Inr mt)
  note cfg = prepare_Inr [OF Inr]
  obtain d m1 where o1: "open_database rt (mt_adminDBTLS mt) (mt_dbTLS mt) run (Some dir) m = (d, m1)" by fastforce
  note od = open_database_tracked [OF assms(1,2) o1]
  obtain y w1 where s: "run_state (startup (serve_base base mt) lib (rt_env rt) waOK) w = (y, w1)" by fastforce
  show ?thesis
  proof (cases "rt_AuditSink rt \<and> rt_AuditSource rt \<and> d = None")
    case False
    then show ?thesis using assms(2,3) Inr o1 od cfg by (auto simp: runServe_def schema_ready_def split: if_splits)
  next
    case True
    then have m1: "m' = m1" "w' = w1" and vs: "set (versions dir) \<subseteq> set (recorded m')"
      using assms(3) Inr o1 s od(2) by (auto simp: runServe_def New_def Let_def split: sum.splits if_splits)
    show ?thesis
    proof (cases "\<exists>sg. y = Inr sg \<and> tmplOK")
      case False
      then show ?thesis using assms(3) Inr True o1 s m1 vs od(1) cfg
        by (auto simp: runServe_def schema_ready_def split: sum.splits if_splits)
    next
      case True
      then obtain sg where y: "y = Inr sg" "tmplOK" by blast
      then obtain r where r: "res = Inr r" "rn_signer r = sg" "rn_workers r = workers (mt_cfg mt)"
        using assms(3) Inr o1 s \<open>rt_AuditSink rt \<and> rt_AuditSource rt \<and> d = None\<close>
        by (auto simp: runServe_def New_def Let_def)
      have "w_registry w' = Some (List.map_filter (buildProvisioner (serve_base base mt)) (sort_key i_CreatedAt (filter i_Enabled (integrations (w_db w')))))"
        using startup_steps [OF s [unfolded y]] m1 by metis
      moreover note startup_sound [OF s [unfolded y]]
      moreover have "DeviceGrantReaper minute \<in> set (rn_workers r)" by (simp add: r workers_def)
      ultimately show ?thesis using od(1) m1 vs Inr cfg r worker_period_pos by auto
    qed
  qed
qed

subsection \<open>The audit query\<close>

lemma audit_loop_lines:
  assumes "audit_loop ev wr limit count out = (ok, n, res)" "count \<le> limit"
  shows "count \<le> n \<and> n \<le> limit \<and> (\<exists>ds tail. length ds = n - count \<and> (\<forall>i < length ds. ev (count + i) = Msg (ds ! i)) \<and>
      res = out @ concat (map (\<lambda>d. d @ [CHR 0x0A]) ds) @ tail \<and> (ok \<longrightarrow> tail = [])) \<and>
    (ok \<longrightarrow> n = limit \<or> (\<forall>d. ev n \<noteq> Msg d)) \<and> (\<not> ok \<longrightarrow> (\<exists>k \<le> 2 * n + 1. wr k \<noteq> None))"
  using assms
proof (induction "limit - count" arbitrary: count out rule: less_induct)
  case less
  show ?case
  proof (cases "count < limit \<and> (\<exists>d. ev count = Msg d) \<and> wr (2 * count) = None \<and> wr (2 * count + 1) = None")
    case False
    then have "n = count" "\<exists>tail. res = out @ tail \<and> (ok \<longrightarrow> tail = [])" "ok \<Longrightarrow> n = limit \<or> (\<forall>d. ev n \<noteq> Msg d)"
      "\<not> ok \<Longrightarrow> wr (2 * n) \<noteq> None \<or> wr (2 * n + 1) \<noteq> None"
      using less.prems audit_loop.simps [of ev wr limit count out]
      by (auto simp: stdout_write_def split: if_splits audit_event.splits option.splits)
    moreover from this have "\<not> ok \<longrightarrow> (\<exists>k \<le> 2 * n + 1. wr k \<noteq> None)" by (meson le_add1 order_refl)
    ultimately show ?thesis using less.prems(2) by auto
  next
    case True
    then obtain d where d: "ev count = Msg d" by blast
    have l: "audit_loop ev wr limit (Suc count) ((out @ d) @ [CHR 0x0A]) = (ok, n, res)"
      using less.prems(1) True d audit_loop.simps [of ev wr limit count out] by (simp add: stdout_write_def)
    have "limit - Suc count < limit - count" "Suc count \<le> limit" using True by auto
    from less.hyps [OF this(1) l this(2)] obtain ds tail where ih: "Suc count \<le> n" "n \<le> limit" "length ds = n - Suc count" "\<forall>i < length ds. ev (Suc count + i) = Msg (ds ! i)"
      "res = ((out @ d) @ [CHR 0x0A]) @ concat (map (\<lambda>d. d @ [CHR 0x0A]) ds) @ tail" "ok \<longrightarrow> tail = []"
      "ok \<longrightarrow> n = limit \<or> (\<forall>d. ev n \<noteq> Msg d)" "\<not> ok \<longrightarrow> (\<exists>k \<le> 2 * n + 1. wr k \<noteq> None)"
      by (elim conjE exE) (rule that)
    have "\<forall>i < length (d # ds). ev (count + i) = Msg ((d # ds) ! i)"
      using ih(4) d by (auto simp: less_Suc_eq_0_disj)
    then show ?thesis using ih by (intro conjI exI [of _ "d # ds"] exI [of _ tail]) auto
  qed
qed

text \<open>C36. \<open>audit query\<close> ends after at most \<open>limit\<close> (never more than 1000) records, whatever the journal delivers and
  however long it goes on: it prints exactly the first \<open>n\<close> records it received, in order, each on its line; it ends without an error only
  because the limit is reached or because the next thing it saw was no record (the deadline, two idle seconds, a closed channel);
  a failed write is reported and leaves at most a piece of the next line; and every other error comes before anything is printed.\<close>

theorem audit_query_terminates:
  assumes "auditQueryCmd rt src sub ev wr limit = (r, n, out)"
  shows "n \<le> 1000 \<and>
    (\<exists>ds tail. length ds = n \<and> (\<forall>i < n. ev i = Msg (ds ! i)) \<and> out = concat (map (\<lambda>d. d @ [CHR 0x0A]) ds) @ tail \<and> (r = None \<longrightarrow> tail = [])) \<and>
    (r = None \<longrightarrow> 1 \<le> limit \<and> limit \<le> 1000 \<and> (int n = limit \<or> int n < limit \<and> (\<forall>d. ev n \<noteq> Msg d))) \<and>
    (r = Some WriteFailed \<longrightarrow> (\<exists>k \<le> 2 * n + 1. wr k \<noteq> None)) \<and> (r \<noteq> None \<and> r \<noteq> Some WriteFailed \<longrightarrow> n = 0 \<and> out = [])"
proof (cases "limit < 1 \<or> limit > 1000 \<or> (r \<noteq> None \<and> r \<noteq> Some WriteFailed)")
  case True
  then have "n = 0 \<and> out = [] \<and> r \<noteq> None \<and> r \<noteq> Some WriteFailed"
    using assms by (auto simp: auditQueryCmd_def split: if_splits prod.splits)
  then show ?thesis by auto
next
  case False
  then obtain ok where l: "audit_loop ev wr (nat limit) 0 [] = (ok, n, out)" "r = (if ok then None else Some WriteFailed)"
    using assms by (auto simp: auditQueryCmd_def split: if_splits prod.splits)
  from audit_loop_lines [OF l(1)] obtain ds tail where
    "n \<le> nat limit" "length ds = n" "\<forall>i < length ds. ev i = Msg (ds ! i)" "out = concat (map (\<lambda>d. d @ [CHR 0x0A]) ds) @ tail" "ok \<longrightarrow> tail = []"
    "ok \<longrightarrow> n = nat limit \<or> (\<forall>d. ev n \<noteq> Msg d)" "\<not> ok \<longrightarrow> (\<exists>k \<le> 2 * n + 1. wr k \<noteq> None)" by auto
  then show ?thesis using False l(2) by (auto simp: nat_le_iff)
qed

text \<open>A journal with two records that then falls silent.\<close>

definition demo_runtime :: "(string \<times> string) list \<Rightarrow> unit runtime" where
  "demo_runtime vs =
     \<lparr>rt_env = demo_env vs, rt_First = (\<lambda>a b. []), rt_MustEnv = map_of vs, rt_ReadFile = (\<lambda>p. Some (''k'' @ [CHR 0x0A])), rt_ParseKEK = Some,
      rt_FromFiles = (\<lambda>c k ca. Some None), rt_ClientTLS = (\<lambda>c k ca. Some None), rt_ServerTLS = (\<lambda>c k ca. Some \<lparr>tc_ServerName = [], tc_Rest = ()\<rparr>),
      rt_DB = \<lparr>cd_URL = ''db'', cd_CertFile = [], cd_KeyFile = [], cd_CAFile = []\<rparr>,
      rt_AdminDB = \<lparr>cd_URL = ''db'', cd_CertFile = [], cd_KeyFile = [], cd_CAFile = []\<rparr>,
      rt_AuditSink = True, rt_AuditSource = True, rt_ParseConfig = Some, rt_Ping = (\<lambda>dsn tls. True)\<rparr>"

definition demo_events :: "nat \<Rightarrow> audit_event" where
  "demo_events k = (if k = 0 then Msg ''a'' else if k = 1 then Msg ''b'' else IdleFired)"

lemma demo_query:
  "auditQueryCmd (demo_runtime [(''AUTHD_NATS_URL'', ''nats:'')]) True True demo_events (\<lambda>k. None) 10 =
     (None, 2, [CHR ''a'', CHR 0x0A, CHR ''b'', CHR 0x0A])"
  by code_simp

theorem audit_query_terminates_witness:
  "\<exists>ds. length ds = 2 \<and> (\<forall>i < 2. demo_events i = Msg (ds ! i)) \<and> concat (map (\<lambda>d. d @ [CHR 0x0A]) ds) = [CHR ''a'', CHR 0x0A, CHR ''b'', CHR 0x0A]"
proof -
  from audit_query_terminates [OF demo_query] obtain ds tail where "length ds = 2" "\<forall>i < 2. demo_events i = Msg (ds ! i)"
    "[CHR ''a'', CHR 0x0A, CHR ''b'', CHR 0x0A] = concat (map (\<lambda>d. d @ [CHR 0x0A]) ds) @ tail" "tail = []" by blast
  then show ?thesis by (intro exI [of _ ds]) simp
qed

text \<open>A first start: an empty database, a good configuration, the master key in a file.\<close>

definition demo_vars :: "(string \<times> string) list" where
  "demo_vars = [(''AUTHD_ISSUER'', ''https://id.example.com:8443''), (''AUTHD_AWS_DEFAULT_REGION'', ''eu-west-1''), (''AUTHD_MASTER_KEY'', ''file:/key'')]"

lemma demo_prepare: "\<exists>mt. prepare (demo_runtime demo_vars) = Inr mt \<and> mt_masterKey mt = ''k'' \<and> mt_scimTLS mt = None"
proof -
  have "case prepare (demo_runtime demo_vars) of Inl e \<Rightarrow> False | Inr mt \<Rightarrow> mt_masterKey mt = ''k'' \<and> mt_scimTLS mt = None" by code_simp
  then show ?thesis by (auto split: sum.splits)
qed

lemma demo_open:
  "open_database (demo_runtime demo_vars) a b demo_run (Some demo_dir) (demo_mdb\<lparr>m_script := []\<rparr>) =
     (None, \<lparr>m_tables = [''u'', ''k''], m_versions = Some [''001_users.sql'', ''002_keys.sql''], m_script = []\<rparr>)"
proof -
  have "migrate demo_run (Some demo_dir) (demo_mdb\<lparr>m_script := []\<rparr>) =
     (None, \<lparr>m_tables = [''u'', ''k''], m_versions = Some [''001_users.sql'', ''002_keys.sql''], m_script = []\<rparr>)" by code_simp
  then show ?thesis by (simp add: open_database_def Migrate_def OpenWithTLS_def openWithTLS_def demo_runtime_def)
qed

lemma demo_startup:
  "\<exists>sg w'. run_state (startup (demo_server\<lparr>srv_issuer := iss, srv_hasSCIMTLS := False, srv_policy := DefaultPCIRules\<rparr>) demo_keylib
     (demo_env demo_vars) (\<lambda>x. True)) demo_world = (Inr sg, w')"
proof -
  have e: "eu_Getenv (demo_env demo_vars) ''AUTHD_VAULT_SCIM_ENABLED'' = []" "\<not> EqualFold [] ''true''" by code_simp+
  show ?thesis
    by (simp add: startup_def autoImportLegacyVaultEnv_def e pg_buildProvSet_def timeless ListEnabledIntegrations_def
        LoadOrCreate_def generateAndStore_def newUUID_def store_at_def CreateSigningKey_def GetActiveSigningKey_def
      demo_eval demo_defs demo_keylib_def demo_signer_def demo_kid)
qed

theorem serve_starts_or_fails_fast_witness:
  "\<exists>r m' w'. runServe (demo_runtime demo_vars) (\<lambda>k. demo_server) demo_keylib (\<lambda>x. True) True demo_run (Some demo_dir)
       (demo_mdb\<lparr>m_script := []\<rparr>) demo_world = (Inr r, m', w')
     \<and> set (versions demo_dir) \<subseteq> set (recorded m') \<and> DeviceGrantReaper minute \<in> set (rn_workers r)"
proof -
  let ?run = "runServe (demo_runtime demo_vars) (\<lambda>k. demo_server) demo_keylib (\<lambda>x. True) True demo_run (Some demo_dir) (demo_mdb\<lparr>m_script := []\<rparr>) demo_world"
  obtain mt where mt: "prepare (demo_runtime demo_vars) = Inr mt" "mt_scimTLS mt = None" using demo_prepare by blast
  have "\<exists>r m' w'. ?run = (Inr r, m', w')"
    using mt demo_open demo_startup [of "cf_Issuer (mt_cfg mt)"]
    by (auto simp: runServe_def serve_base_def New_def Let_def demo_runtime_def)
  then obtain r m' w' where run: "?run = (Inr r, m', w')" by blast
  have "tracked demo_run demo_dir [] (demo_mdb\<lparr>m_script := []\<rparr>)" by code_simp
  from serve_starts_or_fails_fast [OF demo_migrate(2) this run] run show ?thesis by auto
qed

end
