(* ===== verification/Sqlite_Codec.thy ===== *)
theory Sqlite_Codec
  imports Pg_Array Migrations Url
begin

text \<open>
  Opening an SQLite database and the form of its list columns (\<open>sqlite.go\<close>). SQLite has no arrays: a list of strings is
  stored as JSON. What \<open>json.Marshal\<close> writes for a \<open>[]string\<close> and what \<open>json.Unmarshal\<close> reads into one is
  written out. A document that is not \<open>null\<close> or an array of strings and nulls is an error of \<open>Unmarshal\<close>, whether it is valid JSON or
  not, so the reader below accepts exactly the former.
\<close>

subsection \<open>Writing\<close>

definition json_hex :: "nat \<Rightarrow> char" where
  "json_hex n = (if n < 10 then char_of (48 + n) else char_of (87 + n))"

text \<open>A byte below 0x80 (\<open>htmlSafeSet\<close> and the switch of \<open>appendString\<close>).\<close>

definition json_ascii :: "char \<Rightarrow> string" where
  "json_ascii c =
     (if c = CHR 0x5C \<or> c = CHR 0x22 then [CHR 0x5C, c]
      else if c = CHR 0x08 then [CHR 0x5C, CHR ''b'']
      else if c = CHR 0x0C then [CHR 0x5C, CHR ''f'']
      else if c = CHR 0x0A then [CHR 0x5C, CHR ''n'']
      else if c = CHR 0x0D then [CHR 0x5C, CHR ''r'']
      else if c = CHR 0x09 then [CHR 0x5C, CHR ''t'']
      else if char_code c < 0x20 \<or> c = CHR ''<'' \<or> c = CHR ''>'' \<or> c = CHR ''&'' then
        [CHR 0x5C, CHR ''u'', CHR ''0'', CHR ''0'', json_hex (char_code c div 16), json_hex (char_code c mod 16)]
      else [c])"

text \<open>U+2028 and U+2029, which JavaScript takes for line ends, are escaped too.\<close>

definition json_wide :: "string \<Rightarrow> string" where
  "json_wide r =
     (if r = [CHR 0xE2, CHR 0x80, CHR 0xA8] then CHR 0x5C # ''u2028''
      else if r = [CHR 0xE2, CHR 0x80, CHR 0xA9] then CHR 0x5C # ''u2029''
      else r)"

function json_body :: "string \<Rightarrow> string" where
  "json_body s =
    (if s = [] then []
     else let n = rune_width s in
       if n = 0 then (CHR 0x5C # ''ufffd'') @ json_body (tl s)
       else if n = 1 then json_ascii (hd s) @ json_body (tl s)
       else json_wide (take n s) @ json_body (drop n s))"
  by pat_completeness auto
termination by (relation "measure length") (auto simp: Let_def)

declare json_body.simps [simp del]

definition json_string :: "string \<Rightarrow> string" where
  "json_string s = CHR 0x22 # json_body s @ [CHR 0x22]"

definition sqlite_Value :: "string list option \<Rightarrow> string" where
  "sqlite_Value a =
     (case a of
        None \<Rightarrow> ''[]''
      | Some xs \<Rightarrow> CHR ''['' # Join (CHR '','') (map json_string xs) @ [CHR '']''])"

subsection \<open>Reading\<close>

text \<open>\<open>utf8.EncodeRune\<close>, for a rune that is no surrogate.\<close>

definition encode_rune :: "nat \<Rightarrow> string" where
  "encode_rune r =
     (if r < 0x80 then [char_of r]
      else if r < 0x800 then [char_of (0xC0 + r div 64), char_of (0x80 + r mod 64)]
      else if r < 0x10000 then [char_of (0xE0 + r div 4096), char_of (0x80 + r div 64 mod 64), char_of (0x80 + r mod 64)]
      else [char_of (0xF0 + r div 262144), char_of (0x80 + r div 4096 mod 64), char_of (0x80 + r div 64 mod 64), char_of (0x80 + r mod 64)])"

fun getu4 :: "string \<Rightarrow> nat option" where
  "getu4 (b # u # a0 # a1 # a2 # a3 # s) =
    (if b = CHR 0x5C \<and> u = CHR ''u'' then
       (case (unhex a0, unhex a1, unhex a2, unhex a3) of
          (Some x0, Some x1, Some x2, Some x3) \<Rightarrow> Some (((x0 * 16 + x1) * 16 + x2) * 16 + x3)
        | _ \<Rightarrow> None)
     else None)"
| "getu4 _ = None"

text \<open>The rune of a \<open>\u\<close> escape at the head and its length: a surrogate counts with its partner, and alone is U+FFFD.\<close>

definition surrogate_pair :: "nat \<Rightarrow> nat option \<Rightarrow> nat option" where
  "surrogate_pair r1 x =
     (case x of
        Some r2 \<Rightarrow> if 0xD800 \<le> r1 \<and> r1 < 0xDC00 \<and> 0xDC00 \<le> r2 \<and> r2 < 0xE000
                  then Some ((r1 - 0xD800) * 1024 + (r2 - 0xDC00) + 0x10000) else None
      | None \<Rightarrow> None)"

definition escaped_rune :: "string \<Rightarrow> (string \<times> nat) option" where
  "escaped_rune s =
     (case getu4 s of
        None \<Rightarrow> None
      | Some r \<Rightarrow>
        if 0xD800 \<le> r \<and> r < 0xE000 then
          (case surrogate_pair r (getu4 (drop 6 s)) of
             Some r' \<Rightarrow> Some (encode_rune r', 12)
           | None \<Rightarrow> Some (rune_error, 6))
        else Some (encode_rune r, 6))"

definition simple_escape :: "char \<Rightarrow> char option" where
  "simple_escape c =
     (if c = CHR 0x22 \<or> c = CHR 0x5C \<or> c = CHR ''/'' then Some c
      else if c = CHR ''b'' then Some (CHR 0x08)
      else if c = CHR ''f'' then Some (CHR 0x0C)
      else if c = CHR ''n'' then Some (CHR 0x0A)
      else if c = CHR ''r'' then Some (CHR 0x0D)
      else if c = CHR ''t'' then Some (CHR 0x09)
      else None)"

text \<open>One character of a string literal: its bytes and how many it took.\<close>

definition string_char :: "string \<Rightarrow> (string \<times> nat) option" where
  "string_char s =
     (case s of
        [] \<Rightarrow> None
      | c # t \<Rightarrow>
        if c = CHR 0x5C then
          (case t of
             [] \<Rightarrow> None
           | e # _ \<Rightarrow> if e = CHR ''u'' then escaped_rune s else map_option (\<lambda>b. ([b], 2)) (simple_escape e))
        else if char_code c < 0x20 then None
        else if rune_width s = 0 then Some (rune_error, 1)
        else Some (take (rune_width s) s, rune_width s))"

lemma string_char_consumes: "string_char s = Some (b, n) \<Longrightarrow> 0 < n \<and> s \<noteq> []"
  by (auto simp: string_char_def escaped_rune_def split: list.splits if_splits option.splits)

text \<open>The rest of a literal after its opening quote: the string, and what follows the closing quote.\<close>

function unquote :: "string \<Rightarrow> (string \<times> string) option" where
  "unquote s =
    (if s \<noteq> [] \<and> hd s = CHR 0x22 then Some ([], tl s)
     else case string_char s of
       None \<Rightarrow> None
     | Some (b, n) \<Rightarrow> map_option (\<lambda>(x, t). (b @ x, t)) (unquote (drop n s)))"
  by pat_completeness auto
termination by (relation "measure length") (auto dest!: string_char_consumes)

declare unquote.simps [simp del]

lemma unquote_consumes: "unquote s = Some (x, t) \<Longrightarrow> length t < length s"
proof (induction s arbitrary: x t rule: unquote.induct)
  case (1 s)
  show ?case
  proof (cases "s \<noteq> [] \<and> hd s = CHR 0x22")
    case True
    then show ?thesis using "1.prems" by (cases s) (auto simp: unquote.simps)
  next
    case False
    then obtain b n y where c: "string_char s = Some (b, n)" "unquote (drop n s) = Some (y, t)"
      using "1.prems" by (subst (asm) unquote.simps) (auto split: option.splits)
    from "1.IH" [OF False c(1) _ c(2)] show ?thesis by simp
  qed
qed

definition json_ws :: "char \<Rightarrow> bool" where
  "json_ws c \<longleftrightarrow> c = CHR '' '' \<or> c = CHR 0x09 \<or> c = CHR 0x0A \<or> c = CHR 0x0D"

abbreviation skip_ws :: "string \<Rightarrow> string" where "skip_ws \<equiv> dropWhile json_ws"

text \<open>A null leaves the element what the new slot of the slice is: the empty string.\<close>

definition json_elem :: "string \<Rightarrow> (string \<times> string) option" where
  "json_elem s =
     (if s \<noteq> [] \<and> hd s = CHR 0x22 then unquote (tl s)
      else map_option (\<lambda>t. ([], t)) (CutPrefix s ''null''))"

lemma json_elem_consumes: "json_elem s = Some (x, t) \<Longrightarrow> length t < length s"
  by (cases s) (auto simp: json_elem_def CutPrefix_def HasPrefix_def dest!: unquote_consumes split: if_splits)

lemma skip_ws_length: "length (skip_ws s) \<le> length s"
  by (rule length_dropWhile_le)

function json_elems :: "string \<Rightarrow> (string list \<times> string) option" where
  "json_elems s =
    (case json_elem s of
       None \<Rightarrow> None
     | Some (x, t) \<Rightarrow>
       (case skip_ws t of
          [] \<Rightarrow> None
        | c # u \<Rightarrow>
          if c = CHR '','' then map_option (\<lambda>(xs, v). (x # xs, v)) (json_elems (skip_ws u))
          else if c = CHR '']'' then Some ([x], u)
          else None))"
  by pat_completeness auto
termination
proof (relation "measure length")
  fix s p x t c u
  assume *: "json_elem s = Some p" "(x, t) = p" "skip_ws t = c # u"
  have "length (skip_ws u) \<le> length u" "length (skip_ws t) \<le> length t" by (rule skip_ws_length)+
  moreover have "length t < length s" using * json_elem_consumes by auto
  ultimately show "(skip_ws u, s) \<in> measure length" using * by simp
qed simp

declare json_elems.simps [simp del]

definition json_strings :: "string \<Rightarrow> string list option option" where
  "json_strings s =
     (let s1 = skip_ws s;
          done_with = (\<lambda>v t. if skip_ws t = [] then Some v else None) in
      case CutPrefix s1 ''null'' of
        Some t \<Rightarrow> done_with None t
      | None \<Rightarrow>
        if s1 \<noteq> [] \<and> hd s1 = CHR ''['' then
          (let s2 = skip_ws (tl s1) in
           if s2 \<noteq> [] \<and> hd s2 = CHR '']'' then done_with (Some []) (tl s2)
           else (case json_elems s2 of None \<Rightarrow> None | Some (xs, t) \<Rightarrow> done_with (Some xs) t))
        else None)"

definition sqlite_Scan :: "src \<Rightarrow> scan_error + string list" where
  "sqlite_Scan v =
     (let decode = (\<lambda>s0. let s = TrimSpace s0 in
        if s = [] then Inr []
        else case json_strings s of
          None \<Rightarrow> Inl InvalidArray
        | Some None \<Rightarrow> Inr []
        | Some (Some xs) \<Rightarrow> Inr xs) in
      case v of
        SrcNil \<Rightarrow> Inr []
      | SrcOther \<Rightarrow> Inl UnsupportedType
      | SrcString s \<Rightarrow> decode s
      | SrcBytes s \<Rightarrow> decode s)"

subsection \<open>Opening\<close>

definition withUTCTimes :: "string \<Rightarrow> string" where
  "withUTCTimes path = path @ (if CHR ''?'' \<in> set path then ''&'' else ''?'') @ ''_timezone=UTC''"

text \<open>The loop is the one of \<open>Migrations\<close>.\<close>

definition sqlite_migrate :: "(string \<Rightarrow> 't \<Rightarrow> 't option) \<Rightarrow> entry list option \<Rightarrow> 't mdb \<Rightarrow> migrate_error option \<times> 't mdb" where
  "sqlite_migrate run dir m = migrate run dir m"

datatype sqlite_error = SqliteOpenFailed | PragmasFailed | SqliteMigrateFailed migrate_error

text \<open>\<open>open_ok\<close> says whether the driver takes a data source name; the pragmas are one statement.\<close>

definition sqlite_Open ::
  "(string \<Rightarrow> bool) \<Rightarrow> string \<Rightarrow> (string \<Rightarrow> 't \<Rightarrow> 't option) \<Rightarrow> entry list option \<Rightarrow> 't mdb \<Rightarrow> sqlite_error option \<times> 't mdb" where
  "sqlite_Open open_ok path run dir m =
     (if \<not> open_ok (withUTCTimes path) then (Some SqliteOpenFailed, m)
      else case driver m of (x, m1) \<Rightarrow>
        if x \<noteq> Done then (Some PragmasFailed, m1)
        else case sqlite_migrate run dir m1 of (e, m2) \<Rightarrow> (map_option SqliteMigrateFailed e, m2))"

subsection \<open>Reading what was written\<close>

lemma unhex_json_hex: "n < 16 \<Longrightarrow> unhex (json_hex n) = Some n"
  by (auto simp: json_hex_def unhex_def char_class_defs)

lemma unhex_digits:
  "unhex (CHR ''0'') = Some 0" "unhex (CHR ''2'') = Some 2" "unhex (CHR ''8'') = Some 8" "unhex (CHR ''9'') = Some 9"
  "unhex (CHR ''d'') = Some 13" "unhex (CHR ''f'') = Some 15"
  by (simp_all add: unhex_def char_class_defs)

lemma encode_runes:
  "encode_rune 8232 = [CHR 0xE2, CHR 0x80, CHR 0xA8]" "encode_rune 8233 = [CHR 0xE2, CHR 0x80, CHR 0xA9]" "encode_rune 65533 = rune_error"
  by (simp_all add: encode_rune_def rune_error_def char_of_def bit_Suc_0_iff)

lemma char_of_code [simp]: "char_of (char_code c) = c"
  by (simp add: char_code_def)

lemma char_code_less: "char_code c < 256"
  by (simp add: char_code_def)

lemma string_char_ascii:
  assumes "char_code c < 0x80"
  shows "string_char (json_ascii c @ r) = Some ([c], length (json_ascii c))"
proof -
  have "unhex (json_hex (char_code c div 16)) = Some (char_code c div 16)" "unhex (json_hex (char_code c mod 16)) = Some (char_code c mod 16)"
    using assms by (simp_all add: unhex_json_hex)
  then have g: "escaped_rune (CHR 0x5C # CHR ''u'' # CHR ''0'' # CHR ''0'' # json_hex (char_code c div 16) # json_hex (char_code c mod 16) # r) = Some ([c], 6)"
    using assms by (simp add: escaped_rune_def unhex_digits encode_rune_def)
  show ?thesis using assms
    by (simp add: json_ascii_def string_char_def g simple_escape_def)
qed

lemma rune_width_multi:
  assumes "rune_width s = n" "n > 1"
  shows "length (take n s) = n" "rune_width (take n s @ r) = n" "\<exists>c t. take n s = c # t \<and> 0x80 \<le> char_code c"
  using assms by (cases s; auto simp: Let_def nth_append split: if_splits)+

lemma string_char_wide:
  assumes "rune_width s = n" "n > 1"
  shows "string_char (json_wide (take n s) @ r) = Some (take n s, length (json_wide (take n s)))"
proof -
  obtain c t where c: "take n s = c # t" "0x80 \<le> char_code c" using rune_width_multi(3) [OF assms] by blast
  have n: "c \<noteq> CHR 0x5C" "\<not> char_code c < 0x20" using c(2) by (auto simp: char_code_def)
  consider "take n s = [CHR 0xE2, CHR 0x80, CHR 0xA8]" | "take n s = [CHR 0xE2, CHR 0x80, CHR 0xA9]" | "json_wide (take n s) = take n s"
    unfolding json_wide_def by metis
  then show ?thesis
  proof cases
    case 3
    have "string_char (take n s @ r) = Some (take n (take n s @ r), n)"
      using n c rune_width_multi(2) [OF assms] assms(2) by (simp add: string_char_def del: rune_width.simps)
    then show ?thesis using rune_width_multi(1) [OF assms] 3 by simp
  qed (simp_all add: json_wide_def string_char_def escaped_rune_def unhex_digits encode_runes)
qed

text \<open>What a string becomes on the way: an ill-formed byte is replaced, the rest kept.\<close>

function valid_utf8 :: "string \<Rightarrow> string" where
  "valid_utf8 s =
    (if s = [] then []
     else if rune_width s = 0 then rune_error @ valid_utf8 (tl s)
     else take (rune_width s) s @ valid_utf8 (drop (rune_width s) s))"
  by pat_completeness auto
termination by (relation "measure length") auto

declare valid_utf8.simps [simp del]

lemma valid_utf8_id: "utf8_ok s \<Longrightarrow> valid_utf8 s = s"
proof (induction s rule: utf8_ok.induct)
  case (1 s)
  then show ?case using utf8_ok.simps [of s] valid_utf8.simps [of s]
    by (auto simp del: rune_width.simps split: if_splits)
qed

lemma unquote_step:
  assumes "string_char (p @ r) = Some (b, length p)" "p \<noteq> []" "hd p \<noteq> CHR 0x22"
  shows "unquote (p @ r) = map_option (\<lambda>(x, t). (b @ x, t)) (unquote r)"
  using assms by (subst unquote.simps) simp

lemma json_heads: "char_code c < 0x80 \<Longrightarrow> json_ascii c \<noteq> [] \<and> hd (json_ascii c) \<noteq> CHR 0x22"
  by (auto simp: json_ascii_def)

lemma json_wide_head:
  assumes "rune_width s = n" "n > 1"
  shows "json_wide (take n s) \<noteq> [] \<and> hd (json_wide (take n s)) \<noteq> CHR 0x22"
proof -
  obtain c t where c: "take n s = c # t" "0x80 \<le> char_code c" using rune_width_multi(3) [OF assms] by blast
  then show ?thesis unfolding c(1) by (auto simp: json_wide_def char_code_def)
qed

lemma unquote_body: "unquote (json_body s @ CHR 0x22 # t) = Some (valid_utf8 s, t)"
proof (induction s rule: json_body.induct)
  case (1 s)
  show ?case
  proof (cases s)
    case Nil
    then show ?thesis by (simp add: json_body.simps valid_utf8.simps unquote.simps)
  next
    case (Cons c u)
    consider "rune_width s = 0" | "rune_width s = 1" | "rune_width s > 1" by linarith
    then show ?thesis
    proof cases
      case 1
      have "string_char ((CHR 0x5C # ''ufffd'') @ r) = Some (rune_error, 6)" for r
        by (simp add: string_char_def escaped_rune_def unhex_digits encode_runes)
      then show ?thesis using "1.IH"(1) 1 Cons unquote_step [of "CHR 0x5C # ''ufffd''" "json_body u @ CHR 0x22 # t" rune_error]
        by (simp add: Let_def json_body.simps [of "c # u"] valid_utf8.simps [of "c # u"] del: rune_width.simps)
    next
      case 2
      then have a: "char_code c < 0x80" using Cons by (auto simp: Let_def split: if_splits)
      show ?thesis using "1.IH"(2) 2 Cons unquote_step [OF string_char_ascii [OF a]] json_heads [OF a]
        by (simp add: Let_def json_body.simps [of "c # u"] valid_utf8.simps [of "c # u"] del: rune_width.simps)
    next
      case 3
      show ?thesis using "1.IH"(3) 3 Cons unquote_step [OF string_char_wide [OF refl 3]] json_wide_head [OF refl 3]
        by (simp add: Let_def json_body.simps [of "c # u"] valid_utf8.simps [of "c # u"] del: rune_width.simps)
    qed
  qed
qed

lemma json_elem_string: "json_elem (json_string s @ t) = Some (valid_utf8 s, t)"
  by (simp add: json_elem_def json_string_def unquote_body)

lemma json_string_Cons: "json_string s @ t = CHR 0x22 # json_body s @ CHR 0x22 # t"
  by (simp add: json_string_def)

lemma json_elems_join:
  "xs \<noteq> [] \<Longrightarrow> json_elems (Join (CHR '','') (map json_string xs) @ CHR '']'' # t) = Some (map valid_utf8 xs, t)"
proof (induction xs rule: list_nonempty_induct)
  case (single x)
  then show ?case by (subst json_elems.simps) (simp add: json_elem_string json_ws_def)
next
  case (cons x xs)
  then obtain y ys where y: "xs = y # ys" by (cases xs) auto
  have "skip_ws (Join (CHR '','') (map json_string xs) @ CHR '']'' # t) = Join (CHR '','') (map json_string xs) @ CHR '']'' # t"
    unfolding y by (cases ys) (simp_all add: json_string_def json_ws_def)
  then show ?case using cons.IH y
    by (subst json_elems.simps) (simp add: json_elem_string json_ws_def)
qed

lemma trim_brackets: "TrimSpace (CHR ''['' # s @ [CHR '']'']) = CHR ''['' # s @ [CHR '']'']"
  by (simp add: TrimSpace_def trim_by_def is_space_def in_range_def char_code_def)

lemma json_strings_value: "json_strings (sqlite_Value (Some xs)) = Some (Some (map valid_utf8 xs))"
proof (cases xs)
  case Nil
  then show ?thesis by (simp add: json_strings_def sqlite_Value_def CutPrefix_def HasPrefix_def json_ws_def)
next
  case (Cons x ys)
  then obtain r where r: "Join (CHR '','') (map json_string xs) = CHR 0x22 # r" by (cases ys) (auto simp: json_string_def)
  have "json_elems (CHR 0x22 # r @ [CHR '']'']) = Some (map valid_utf8 xs, [])"
    using json_elems_join [of xs "[]"] Cons r by simp
  then show ?thesis using r by (simp add: json_strings_def sqlite_Value_def CutPrefix_def HasPrefix_def json_ws_def)
qed

lemma sqlite_roundtrip:
  "sqlite_Scan (SrcString (sqlite_Value (Some xs))) = Inr (map valid_utf8 xs)"
  "sqlite_Scan (SrcBytes (sqlite_Value (Some xs))) = Inr (map valid_utf8 xs)"
  using json_strings_value [of xs] trim_brackets [of "Join (CHR '','') (map json_string xs)"]
  by (simp_all add: sqlite_Scan_def sqlite_Value_def)

text \<open>C37. Lists come back from either backend as they were stored. For SQLite: whatever bytes the strings hold, reading the JSON \<open>Value\<close> wrote
  gives the same list with each ill-formed byte replaced by U+FFFD, so a list of well-formed UTF-8 strings comes back unchanged, and a nil slice
  comes back empty. For PostgreSQL: \<open>Value\<close> writes the array literal of exactly these elements, and whichever elements the
  server quotes in its answer (subject to the documented rule that an empty element or one with a special character is quoted), \<open>Scan\<close> reads the
  same elements in the same order.\<close>

theorem list_columns_roundtrip:
  assumes "\<And>s. \<not> q s \<Longrightarrow> plain_elem s"
  shows "sqlite_Scan (SrcString (sqlite_Value (Some xs))) = Inr (map valid_utf8 xs) \<and> sqlite_Scan (SrcString (sqlite_Value None)) = Inr [] \<and>
    (list_all utf8_ok xs \<longrightarrow>
       sqlite_Scan (SrcString (sqlite_Value (Some xs))) = Inr xs \<and> sqlite_Scan (SrcBytes (sqlite_Value (Some xs))) = Inr xs \<and>
       stringArray_Value (Some xs) = array_out (\<lambda>_. True) xs \<and>
       stringArray_Scan (SrcString (array_out q xs)) = Inr (Some xs) \<and> stringArray_Scan (SrcBytes (array_out q xs)) = Inr (Some xs))"
proof -
  have "sqlite_Value None = sqlite_Value (Some [])" by (simp add: sqlite_Value_def)
  moreover have "list_all utf8_ok xs \<Longrightarrow> map valid_utf8 xs = xs" by (simp add: list_all_iff valid_utf8_id map_idI)
  ultimately show ?thesis using sqlite_roundtrip text_array_roundtrip [of q xs, OF assms] by auto
qed

text \<open>Text with a quote, an angle bracket, a line separator and a stray byte, and a server that quotes every element that is not plain.\<close>

theorem list_columns_roundtrip_witness:
  "sqlite_Scan (SrcString (sqlite_Value (Some [[CHR 0x22, CHR ''<''], [CHR 0xE2, CHR 0x80, CHR 0xA8], [CHR 0xFF]]))) =
     Inr [[CHR 0x22, CHR ''<''], [CHR 0xE2, CHR 0x80, CHR 0xA8], rune_error]
   \<and> stringArray_Scan (SrcString (array_out (\<lambda>s. \<not> plain_elem s) [''openid'', [CHR 0x22, CHR 0x5C, CHR 0xC3, CHR 0xA9], []])) =
     Inr (Some [''openid'', [CHR 0x22, CHR 0x5C, CHR 0xC3, CHR 0xA9], []])"
proof -
  have "list_all utf8_ok [''openid'', [CHR 0x22, CHR 0x5C, CHR 0xC3, CHR 0xA9], []]"
    "map valid_utf8 [[CHR 0x22, CHR ''<''], [CHR 0xE2, CHR 0x80, CHR 0xA8], [CHR 0xFF]] = [[CHR 0x22, CHR ''<''], [CHR 0xE2, CHR 0x80, CHR 0xA8], rune_error]"
    by code_simp+
  then show ?thesis using list_columns_roundtrip [of "\<lambda>s. \<not> plain_elem s"] by metis
qed

text \<open>Other documents: nulls and white space are read, an element that is no string is an error.\<close>

lemma scan_examples:
  "sqlite_Scan (SrcString ('' [ null ,'' @ [CHR 0x22, CHR 0x5C, CHR ''/'', CHR 0x22] @ ''] '')) = Inr [[], ''/'']"
  "sqlite_Scan (SrcString ''null'') = Inr []" "sqlite_Scan (SrcString ''[1]'') = Inl InvalidArray" "sqlite_Scan (SrcString ''[] x'') = Inl InvalidArray"
  by code_simp+

subsection \<open>Properties of opening\<close>

text \<open>Every connection asks for UTC: the option is the last one of the query of the data source name.\<close>

lemma withUTCTimes_option: "\<exists>q. withUTCTimes path = takeWhile (\<lambda>c. c \<noteq> CHR ''?'') path @ ''?'' @ q @ ''_timezone=UTC'' \<and> (q = [] \<or> last q = CHR ''&'')"
proof (cases "CHR ''?'' \<in> set path")
  case True
  then obtain u v where "path = u @ CHR ''?'' # v" "CHR ''?'' \<notin> set u" by (meson split_list_first)
  then show ?thesis by (intro exI [of _ "v @ ''&''"]) (auto simp: withUTCTimes_def takeWhile_append)
next
  case False
  then have "takeWhile (\<lambda>c. c \<noteq> CHR ''?'') path = path" by (auto simp: takeWhile_eq_all_conv)
  then show ?thesis using False by (intro exI [of _ "[]"]) (simp add: withUTCTimes_def del: takeWhile_eq_all_conv)
qed

lemma sqlite_Open_tracked:
  assumes "distinct (map e_Name dir)" "tracked run dir t0 m" "sqlite_Open open_ok path run (Some dir) m = (r, m')"
  shows "tracked run dir t0 m' \<and> (r = None \<longrightarrow> set (versions dir) \<subseteq> set (recorded m'))"
proof (cases "open_ok (withUTCTimes path)")
  case False
  then show ?thesis using assms(2,3) by (auto simp: sqlite_Open_def)
next
  case True
  obtain x m1 where d: "driver m = (x, m1)" by fastforce
  have t: "tracked run dir t0 m1" by (rule tracked_keep [OF _ _ assms(2)]) (use d in \<open>auto simp: recorded_def\<close>)
  show ?thesis using assms(3) True d t migrate_keeps_record [OF assms(1) t]
    by (auto simp: sqlite_Open_def sqlite_migrate_def split: if_splits prod.splits)
qed

end
