(* ===== verification/Spec2Isabelle.thy ===== *)
theory Spec2Isabelle
  imports Token_Properties Login_Properties Lockout Admin_Properties System_Properties Aws_Properties Scim_Properties Prov_Properties
    Backends Pg_Array Migrations Keys Aws_Cli Config Bootstrap Outbound Contract Serve Sqlite_Codec
begin

text \<open>
  A verification library for tokyo3-auth, an identity provider written in Go: an OAuth 2 and OpenID Connect
  server with its own login pages, a portal for users and administrators, second factors, outbound
  provisioning (SCIM) and federation into AWS.

  \<^bold>\<open>The program and its model.\<close> A request passes the router (\<open>src/internal/api/server.go\<close>) and one of the
  guards (bearer token, admin token, portal cookie, portal administrator) to a handler. A handler reads and
  writes the store, appends to the audit journal, seals cookies, and talks to other systems (relying parties,
  SCIM targets, AWS). All of that is one record, \<open>world\<close> (theory \<open>World\<close>): the database, the clock, the cookies set, the
  journal, the outbox of messages to other systems, and, as inputs, the faults of the database driver and of the
  journal and the replies of the other systems. A handler is a state transformer \<open>'a act\<close> on it and returns the HTTP
  response as a value; every error path of the source is a branch. Hash functions, password hashing,
  random tokens, signatures, the TOTP and WebAuthn libraries and envelope encryption are third-party code: they are the
  fields of the record \<open>ext\<close>, a parameter of the model, as are the Unicode tables (\<open>unicode_tables\<close>).

  \<^bold>\<open>The theories.\<close>
  \<^item> \<open>Prelude\<close>, \<open>Go_Strings\<close>, \<open>Go_Time\<close>, \<open>Url\<close>, \<open>Pkce\<close>: the collections of rewrite rules, SQL tables as lists, the parts of
    the Go library the source uses (\<open>strings\<close>, \<open>time.ParseDuration\<close>, \<open>net/url\<close>, SHA-256 on 32-bit words and base64url), and on
    them redirect matching and PKCE of \<open>oauth2.go\<close>.
  \<^item> \<open>Model\<close>, \<open>Db\<close>, \<open>Store_Core\<close>, \<open>Store_Clients\<close>, \<open>Store_MFA\<close>: \<open>src/internal/model\<close> and every method of
    \<open>src/internal/store/sqlite\<close> on a record of tables; \<open>wf_db\<close> collects the unique keys and foreign keys of the
    migrations, and every method keeps it.
  \<^item> \<open>Pg_Core\<close>, \<open>Pg_Clients\<close>, \<open>Pg_MFA\<close>: every method of \<open>src/internal/store/postgres\<close>, the backend of production, on the same
    tables, with times cut to microseconds; \<open>Pg_Array\<close>: its text-array codec; \<open>Sqlite_Codec\<close>: opening an SQLite database and the JSON form of its lists; \<open>Migrations\<close>: the migration loop of both
    backends under every script of driver failures; \<open>Backends\<close>: the two backends compared, and the single-use contract
    interpreted on both. The handlers are stated over the SQLite methods.
  \<^item> \<open>Store_Interface\<close>: the interfaces of \<open>src/internal/store/store.go\<close> as records of methods, with both backends as their
    values; \<open>Contract_Core\<close>, \<open>Contract_Ops\<close>: the tests of \<open>src/internal/store/storetest\<close> over an arbitrary store;
    \<open>Contract\<close>: \<open>storetest.Run\<close>, and that every test passes on both backends.
  \<^item> \<open>Keys\<close>: \<open>src/internal/jwt/store.go\<close> and \<open>discovery.go\<close>, with RSA, X.509 and SHA-256 as the parameter \<open>keylib\<close>.
  \<^item> \<open>Aws_Cli\<close>: the credential helper \<open>src/cmd/auth-aws-creds\<close>, with the package \<open>oidcclient\<close> as the parameter \<open>oidc\<close>.
  \<^item> \<open>Config\<close>: \<open>src/cmd/authd/config.go\<close>, and what \<open>api.New\<close> and \<open>ratelimit.go\<close> take from it; \<open>Bootstrap\<close>: the start of the server and the operator's
    commands of \<open>src/cmd/authd/main.go\<close>, on the PostgreSQL methods; \<open>Serve\<close>: \<open>runServe\<close> from the environment to the listener with the key and TLS material,
    migrations and connections, the commands around it, and \<open>audit query\<close> of \<open>audit.go\<close>; \<open>Outbound\<close>: the push of a logout token and the connection
    test of an integration.
  \<^item> \<open>Policy\<close>: \<open>src/internal/policy\<close>, the seven PCI rules and the engine.
  \<^item> \<open>World\<close>: the state, the primitives, \<open>logAudit\<close>; the locale \<open>step_rel\<close> for relations between the worlds
    before and after (reflexive, transitive), whose rules carry every proof that a handler keeps something.
  \<^item> \<open>One_Shot\<close>: the locale of credentials that can be consumed once, with its interpretations for
    authorization codes, device grants and refresh tokens.
  \<^item> \<open>Session_Auth\<close>, \<open>Portal_Session\<close>, \<open>OAuth2\<close>, \<open>Authorize\<close>, \<open>Device\<close>, \<open>Mfa\<close>, \<open>Mfa_Api\<close>, \<open>Portal\<close>: cookies and guards, the token
    endpoint, the authorize flow, the device flow, second factors, the portal
    (\<open>middleware.go\<close>, \<open>oauth2.go\<close>, \<open>web_sso.go\<close>, \<open>web_portal_device.go\<close>, \<open>src/internal/mfa\<close>, \<open>mfa_api.go\<close>, \<open>web_portal.go\<close>).
  \<^item> \<open>Provision\<close>: \<open>src/internal/provision\<close> with the SCIM client and the AWS federation provisioner, and the background
    tasks of \<open>src/cmd/authd/main.go\<close>.
  \<^item> \<open>Admin\<close>, \<open>Portal_Admin\<close>, \<open>Aws\<close>, \<open>Aws_Admin\<close>: the admin REST API, user, client and group administration, the AWS
    console, credentials and step-up handlers, AWS and integration administration.
  \<^item> \<open>System\<close>: the router, the background tasks and the step relation of the whole service.
  \<^item> \<open>Code_Provenance\<close>, \<open>Journal\<close>, \<open>Rollback\<close>: what must hold when a code appears; what a handler has done when the journal did
    not grow; what the undo of a creation restores (locale \<open>undoable\<close>, interpreted for six tables).
  \<^item> \<open>Example\<close>: a concrete server and database on which the witnesses evaluate the definitions.
  \<^item> \<open>Token_Properties\<close>, \<open>Login_Properties\<close>, \<open>Lockout\<close>, \<open>Admin_Properties\<close>, \<open>System_Properties\<close>, \<open>Aws_Properties\<close>, \<open>Scim_Properties\<close>,
    \<open>Prov_Properties\<close>: the properties.

  \<^bold>\<open>What is shown.\<close> In every reachable state the database satisfies its constraints and no session outlives four hours
  after its creation. Codes, device grants and tokens are issued only after the checks the protocol demands, and each is
  consumed at most once under every interleaving. Replay of a refresh token revokes its session; a
  revoked token is refused. Administrative effects need a live administrator, are preceded by an audit entry, and creations
  are undone exactly when the journal refuses. Deletion of a user, logout, group membership, AWS
  revocation, the reaper and the SCIM upsert do exactly what they promise. Ten wrong passwords lock an account. The PostgreSQL methods agree with
  the SQLite ones on whole seconds, both backends pass the repository's store contract for every clock, choice of
  identifiers and order of the racing calls, lists survive the codecs of both backends, migrations take effect at most once however
  a start fails, the signing key in use is always published and survives a restart, and the credential helper prints
  only credentials issued for the requested role. The server starts only on a configuration with sane bounds; a start either
  fails with nothing opened, or with the schema as recorded, or reaches the listener on a migrated database. An operator's new account is exactly the one
  asked for, and an audit query ends within its limit. Several theorems
  about concrete runs record where the code departs from its own documentation.

  \<^bold>\<open>Bounds.\<close> No fuel is used: every function of the model is total, by structural recursion or a measure. Times are integers
  in nanoseconds; \<open>time.Duration\<close> products that can overflow are wrapped to 64 bits (\<open>int64\<close>), conversions to \<open>int32\<close> as well.
  One request is one atomic run except where concurrency is the point (\<open>One_Shot\<close>, \<open>exchange_step\<close>), where the
  store calls of several requests interleave.

  \<^bold>\<open>Not modelled.\<close> Page templates and their data (a rendered page is its name and message), QR codes, the counting of the rate limiter
  (third party), the audit-log stream page, the TLS handshakes and the database driver behind the connections, the listener and the shutdown, the wiring of the
  command line, the flag parsing of the helper's \<open>login\<close>, and the recovery from panics. In \<open>url.Parse\<close>
  the validation of bracketed IPv6 hosts that newer Go releases add is left out.
\<close>

end
